(* ===== verification/Prelude.thy ===== *)
theory Prelude
  imports Main "HOL-Library.List_Lexorder" "HOL-Library.Char_ord" "HOL-Library.Multiset"
begin

section \<open>Prelude: errors, results and the loops the program shares\<close>

text \<open>
  What every other theory uses: Go's \<open>error\<close> values with the sentinel errors the packages
  export, results \<open>error + value\<close>, the loop ``call, stop at the first error, append'' that the
  planner writes over and over, 64-bit wrap-around of Go's \<open>int\<close>, and generic facts about
  stable sorting and lists.  Go strings are byte strings, so they are modelled by
  \<^typ>\<open>string\<close> (a list of 8-bit characters) and Go's \<open>cmp.Compare\<close> and \<open>slices.Sort\<close>
  on strings are the lexicographic order of \<open>List_Lexorder\<close> over \<open>Char_ord\<close>.
\<close>

named_theorems go_simps \<open>equations that evaluate the model's operations on concrete data\<close>
named_theorems inv_intros \<open>operations keep the invariant of their component\<close>

subsection \<open>Errors\<close>

text \<open>
  The exported sentinel errors (\<open>errors.New\<close> at package level), compared by identity, and those of
  package os and go-git that the code asks for.
\<close>

datatype sentinel =
    ErrCorruptComponent
  | ErrUnloadedManifest
  | ErrInvalidResource
  | ErrQuadletNoGroup
  | ErrQuadletNoKey
  | ErrResourceNotFound
  | ErrServiceConfigNotFound
  | ErrTreeNotFound
  | ErrServiceNotFound
  | ErrOperationTimedOut
  | ErrStateChangeFailed
  | ErrPodmanObjectNotFound
  | ErrPodmanExecFailure
  | ErrHostNotInManifest
  | ErrComponentNotAssignedToHost
  | ErrLockInUse
  | ErrNeedRollback
  | ErrNotExist
  | ErrRepositoryAlreadyExists
  | NoErrAlreadyUpToDate
  | ErrFastForwardMergeNotPossible

text \<open>
  A Go error: a plain message (\<open>errors.New\<close>, or \<open>fmt.Errorf\<close> without \<open>%w\<close>), a sentinel,
  an error wrapped with \<open>%w\<close>, and the two struct errors of the executor.  A message keeps the
  constant part of the format string; the formatted arguments are not modelled.  A run-time
  panic of the Go code (a write to a nil map, say) is the value \<open>Panic\<close>.
\<close>

datatype go_error =
    ErrMsg string
  | ErrSentinel sentinel
  | ErrWrapped string go_error
  | ErrServiceUnhealthy string go_error
  | ErrFinalStateUnhealthy "(string \<times> string) list" "(string \<times> string) list"
  | Panic string

type_synonym 'a result = "go_error + 'a"

text \<open>
  \<open>errors.Is\<close> follows \<open>%w\<close> only: the struct errors of the executor have no \<open>Unwrap\<close> method.
\<close>

fun errors_is :: "go_error \<Rightarrow> sentinel \<Rightarrow> bool" where
  "errors_is (ErrSentinel s) t = (s = t)"
| "errors_is (ErrWrapped m e) t = errors_is e t"
| "errors_is (ErrMsg m) t = False"
| "errors_is (ErrServiceUnhealthy n e) t = False"
| "errors_is (ErrFinalStateUnhealthy x a) t = False"
| "errors_is (Panic m) t = False"

text \<open>\<open>fmt.Errorf("...: %w", err)\<close> around a result: errors are wrapped, values pass.\<close>

fun wrap_error :: "string \<Rightarrow> 'a result \<Rightarrow> 'a result" where
  "wrap_error m (Inl e) = Inl (ErrWrapped m e)"
| "wrap_error m (Inr x) = Inr x"

lemma wrap_error_Inr [simp]: "wrap_error m r = Inr x \<longleftrightarrow> r = Inr x"
  by (cases r) auto

lemma wrap_error_Inl: "wrap_error m r = Inl e \<longleftrightarrow> (\<exists>e'. r = Inl e' \<and> e = ErrWrapped m e')"
  by (cases r) auto

subsection \<open>The loop ``call, return the error, append''\<close>

text \<open>
  \<open>for _, x := range xs { ys, err := f(x); if err != nil { return ..., err };
  result = append(result, ys...) }\<close>.  Callers never look at the partial result of a failed run.
\<close>

fun collect :: "('a \<Rightarrow> 'b list result) \<Rightarrow> 'a list \<Rightarrow> 'b list result" where
  "collect f [] = Inr []"
| "collect f (x # xs) =
     (case f x of
        Inl e \<Rightarrow> Inl e
      | Inr ys \<Rightarrow> (case collect f xs of Inl e \<Rightarrow> Inl e | Inr zs \<Rightarrow> Inr (ys @ zs)))"

lemma collect_Inr:
  "collect f xs = Inr zs \<longleftrightarrow>
     (\<forall>x\<in>set xs. \<exists>ys. f x = Inr ys) \<and> zs = concat (map (projr \<circ> f) xs)"
proof (induction xs arbitrary: zs)
  case Nil
  then show ?case by auto
next
  case (Cons x xs)
  show ?case
  proof (cases "f x")
    case (Inl e)
    then show ?thesis by simp
  next
    case (Inr ys)
    with Cons.IH show ?thesis by (cases "collect f xs") (auto simp: comp_def)
  qed
qed

lemma collect_Inl:
  "collect f xs = Inl e \<Longrightarrow> \<exists>x\<in>set xs. f x = Inl e"
  by (induction xs) (auto split: sum.splits)

lemma collect_total:
  "(\<And>x. x \<in> set xs \<Longrightarrow> f x = Inr (g x)) \<Longrightarrow> collect f xs = Inr (concat (map g xs))"
  by (induction xs) auto

lemma collect_memberD:
  assumes "collect f xs = Inr zs" and "z \<in> set zs"
  shows "\<exists>x\<in>set xs. \<exists>ys. f x = Inr ys \<and> z \<in> set ys"
proof -
  from assms(1) have ok: "\<forall>x\<in>set xs. \<exists>ys. f x = Inr ys"
    and zs: "zs = concat (map (projr \<circ> f) xs)"
    by (simp_all add: collect_Inr)
  from assms(2) zs obtain x where "x \<in> set xs" and "z \<in> set (projr (f x))" by auto
  with ok show ?thesis by force
qed

lemma collect_segment:
  "collect f xs = Inr zs \<Longrightarrow> x \<in> set xs \<Longrightarrow> \<exists>pre ys post. f x = Inr ys \<and> zs = pre @ ys @ post"
proof (induction xs arbitrary: zs)
  case Nil
  then show ?case by simp
next
  case (Cons w ws)
  from Cons.prems(1) obtain us vs where fw: "f w = Inr us" and rest: "collect f ws = Inr vs"
    and zs: "zs = us @ vs" by (auto split: sum.splits)
  show ?case
  proof (cases "x = w")
    case True
    with fw zs show ?thesis by (intro exI [of _ "[]"] exI [of _ us] exI [of _ vs]) simp
  next
    case False
    with Cons.prems(2) have "x \<in> set ws" by simp
    from Cons.IH [OF rest this] obtain pre ys post where "f x = Inr ys" and "vs = pre @ ys @ post" by blast
    with zs show ?thesis by (intro exI [of _ "us @ pre"] exI [of _ ys] exI [of _ post]) simp
  qed
qed

text \<open>The same loop over a state: \<open>for _, x := range xs { if err := f(x); err != nil { return err } }\<close>.\<close>

fun each :: "('a \<Rightarrow> 's \<Rightarrow> 's result) \<Rightarrow> 'a list \<Rightarrow> 's \<Rightarrow> 's result" where
  "each f [] s = Inr s"
| "each f (x # xs) s = (case f x s of Inl e \<Rightarrow> Inl e | Inr s' \<Rightarrow> each f xs s')"

lemma each_invariant:
  assumes "each f xs s = Inr t" and "P s"
    and "\<And>x s t. x \<in> set xs \<Longrightarrow> f x s = Inr t \<Longrightarrow> P s \<Longrightarrow> P t"
  shows "P t"
  using assms
proof (induction xs arbitrary: s)
  case Nil
  then show ?case by simp
next
  case (Cons x xs)
  from Cons.prems(1) obtain u where "f x s = Inr u" and "each f xs u = Inr t"
    by (auto split: sum.splits)
  with Cons show ?case by (metis list.set_intros)
qed

lemma each_append: "each f (xs @ ys) s = (case each f xs s of Inl e \<Rightarrow> Inl e | Inr t \<Rightarrow> each f ys t)"
  by (induction xs arbitrary: s) (auto split: sum.splits)

lemma collect_append:
  "collect f (xs @ ys) =
     (case collect f xs of
        Inl e \<Rightarrow> Inl e
      | Inr us \<Rightarrow> (case collect f ys of Inl e \<Rightarrow> Inl e | Inr vs \<Rightarrow> Inr (us @ vs)))"
  by (induction xs) (auto split: sum.splits)

subsection \<open>Operations on a state\<close>

text \<open>
  An operation on a state (the host, its files) returns its error, if any, and the state it leaves; a
  query returns an answer.  \<open>then_op\<close> is \<open>if err := f(); err != nil { return err }; return g()\<close>.
\<close>

type_synonym 'h operation = "'h \<Rightarrow> go_error option \<times> 'h"
type_synonym ('h, 'a) query = "'h \<Rightarrow> 'a result \<times> 'h"

definition then_op :: "'h operation \<Rightarrow> 'h operation \<Rightarrow> 'h operation" where
  "then_op f g h = (case f h of (Some e, h') \<Rightarrow> (Some e, h') | (None, h') \<Rightarrow> g h')"

definition fail_op :: "go_error \<Rightarrow> 'h operation" where
  "fail_op e h = (Some e, h)"

definition wrap_op :: "string \<Rightarrow> 'h operation \<Rightarrow> 'h operation" where
  "wrap_op m f h = (case f h of (Some e, h') \<Rightarrow> (Some (ErrWrapped m e), h') | (None, h') \<Rightarrow> (None, h'))"

text \<open>\<open>for _, x := range xs { if err := f(x); err != nil { return err } }\<close> over operations.\<close>

fun each_op :: "('a \<Rightarrow> 'h operation) \<Rightarrow> 'a list \<Rightarrow> 'h operation" where
  "each_op f [] h = (None, h)"
| "each_op f (x # xs) h = (case f x h of (Some e, h') \<Rightarrow> (Some e, h') | (None, h') \<Rightarrow> each_op f xs h')"

lemma then_op_None: "then_op f g h = (None, h'') \<longleftrightarrow> (\<exists>h'. f h = (None, h') \<and> g h' = (None, h''))"
  by (auto simp: then_op_def split: prod.splits option.splits)

lemma wrap_op_None [simp]: "wrap_op m f h = (None, h') \<longleftrightarrow> f h = (None, h')"
  by (auto simp: wrap_op_def split: prod.splits option.splits)

lemma snd_wrap_op [simp]: "snd (wrap_op m f h) = snd (f h)"
  by (simp add: wrap_op_def split: prod.split option.split)

text \<open>An operation keeps a property of the state, whether it fails or not.\<close>

definition keeps :: "('h \<Rightarrow> bool) \<Rightarrow> ('h \<Rightarrow> 'x \<times> 'h) \<Rightarrow> bool" where
  "keeps P f \<longleftrightarrow> (\<forall>h. P h \<longrightarrow> P (snd (f h)))"

named_theorems keeps_intros \<open>operations keep a property\<close>

lemma keepsI: "(\<And>h. P h \<Longrightarrow> P (snd (f h))) \<Longrightarrow> keeps P f"
  by (simp add: keeps_def)

lemma keepsD: "keeps P f \<Longrightarrow> P h \<Longrightarrow> P (snd (f h))"
  by (simp add: keeps_def)

lemma keeps_then [keeps_intros]: "keeps P f \<Longrightarrow> keeps P g \<Longrightarrow> keeps P (then_op f g)"
  by (simp add: keeps_def then_op_def split: prod.split option.split) (metis snd_conv)

lemma keeps_wrap [keeps_intros]: "keeps P f \<Longrightarrow> keeps P (wrap_op m f)"
  by (simp add: keeps_def)

lemma keeps_fail [keeps_intros]: "keeps P (fail_op e)"
  by (simp add: keeps_def fail_op_def)

lemma keeps_each:
  assumes "\<And>x. x \<in> set xs \<Longrightarrow> keeps P (f x)"
  shows "keeps P (each_op f xs)"
proof (rule keepsI)
  fix h assume "P h"
  with assms show "P (snd (each_op f xs h))"
  proof (induction xs arbitrary: h)
    case Nil
    then show ?case by simp
  next
    case (Cons x xs)
    from Cons.prems have "P (snd (f x h))" by (simp add: keeps_def)
    moreover obtain e h' where f: "f x h = (e, h')" by (cases "f x h")
    moreover have "P (snd (each_op f xs h'))" if "P h'"
      using Cons.prems(1) that by (intro Cons.IH) auto
    ultimately show ?case by (cases e) auto
  qed
qed

lemma keeps_if [keeps_intros]: "(c \<Longrightarrow> keeps P f) \<Longrightarrow> (\<not> c \<Longrightarrow> keeps P g) \<Longrightarrow> keeps P (if c then f else g)"
  by simp

lemma keeps_option [keeps_intros]:
  "(x = None \<Longrightarrow> keeps P f) \<Longrightarrow> (\<And>y. x = Some y \<Longrightarrow> keeps P (g y)) \<Longrightarrow> keeps P (case x of None \<Rightarrow> f | Some y \<Rightarrow> g y)"
  by (simp split: option.split)

subsection \<open>Go's int\<close>

text \<open>
  \<open>int\<close> is 64 bits wide on the platforms the program supports; additions wrap around.
\<close>

definition int64 :: "int \<Rightarrow> int" where
  "int64 n = (n + 2 ^ 63) mod 2 ^ 64 - 2 ^ 63"

lemma int64_id: "- (2 ^ 63) \<le> n \<Longrightarrow> n < 2 ^ 63 \<Longrightarrow> int64 n = n"
  by (simp add: int64_def)

lemma int64_range: "- (2 ^ 63) \<le> int64 n \<and> int64 n < 2 ^ 63"
proof -
  have "0 \<le> (n + 2 ^ 63) mod 2 ^ 64" and "(n + 2 ^ 63) mod 2 ^ 64 < (2 ^ 64 :: int)"
    by simp_all
  then show ?thesis by (simp add: int64_def)
qed

subsection \<open>Stable sorting\<close>

text \<open>
  \<open>slices.SortStableFunc\<close> with a comparison on an integer key is \<^const>\<open>sort_key\<close>, which the
  library proves stable (\<open>sort_key_stable\<close>).
\<close>

lemma sort_key_id: "sorted (map f xs) \<Longrightarrow> sort_key f xs = xs"
  by (induction xs) (auto simp: insort_is_Cons)

lemma filter_key_sort_key:
  "filter (\<lambda>x. f x = k) (sort_key f xs) = filter (\<lambda>x. f x = k) xs"
  using sort_key_stable [of f k xs] by simp

lemma in_set_sort_key [simp]: "x \<in> set (sort_key f xs) \<longleftrightarrow> x \<in> set xs"
  by simp

lemma sorted_map_append:
  "sorted (map f (xs @ ys)) \<longleftrightarrow>
     sorted (map f xs) \<and> sorted (map f ys) \<and> (\<forall>x\<in>set xs. \<forall>y\<in>set ys. f x \<le> f y)"
  by (simp add: sorted_append)

lemma filter_eq_ConsD:
  "filter P xs = y # ys \<Longrightarrow> P y \<and> y \<in> set xs"
  by (auto simp: filter_eq_Cons_iff)

subsection \<open>Order of occurrence\<close>

text \<open>
  \<open>all_before P Q xs\<close>: every element with \<open>P\<close> stands before every element with \<open>Q\<close>.
  An element that has both properties has to be the only one of either kind.
\<close>

fun all_before :: "('a \<Rightarrow> bool) \<Rightarrow> ('a \<Rightarrow> bool) \<Rightarrow> 'a list \<Rightarrow> bool" where
  "all_before P Q [] = True"
| "all_before P Q (x # xs) = ((Q x \<longrightarrow> (\<forall>y\<in>set xs. \<not> P y)) \<and> all_before P Q xs)"

lemma all_before_append:
  "all_before P Q (xs @ ys) \<longleftrightarrow>
     all_before P Q xs \<and> all_before P Q ys \<and>
     ((\<exists>x\<in>set xs. Q x) \<longrightarrow> (\<forall>y\<in>set ys. \<not> P y))"
  by (induction xs) auto

lemma all_before_none: "\<forall>x\<in>set xs. \<not> Q x \<Longrightarrow> all_before P Q xs"
  by (induction xs) auto

lemma all_before_none': "\<forall>x\<in>set xs. \<not> P x \<Longrightarrow> all_before P Q xs"
  by (induction xs) auto

lemma all_before_mono:
  "all_before P Q xs \<Longrightarrow> (\<And>x. x \<in> set xs \<Longrightarrow> P' x \<Longrightarrow> P x) \<Longrightarrow>
   (\<And>x. x \<in> set xs \<Longrightarrow> Q' x \<Longrightarrow> Q x) \<Longrightarrow> all_before P' Q' xs"
  by (induction xs) auto

lemma all_before_nth:
  "all_before P Q xs \<longleftrightarrow>
     (\<forall>i j. i < length xs \<and> j < length xs \<and> Q (xs ! i) \<and> P (xs ! j) \<longrightarrow> j \<le> i)"
proof (induction xs)
  case Nil
  then show ?case by simp
next
  case (Cons x xs)
  show ?case
  proof
    assume "all_before P Q (x # xs)"
    then have hd: "Q x \<longrightarrow> (\<forall>y\<in>set xs. \<not> P y)" and tl: "all_before P Q xs" by auto
    from tl Cons.IH have
      IH: "\<forall>i j. i < length xs \<and> j < length xs \<and> Q (xs ! i) \<and> P (xs ! j) \<longrightarrow> j \<le> i" by simp
    show "\<forall>i j. i < length (x # xs) \<and> j < length (x # xs) \<and> Q ((x # xs) ! i) \<and> P ((x # xs) ! j)
            \<longrightarrow> j \<le> i"
    proof (intro allI impI)
      fix i j
      assume "i < length (x # xs) \<and> j < length (x # xs) \<and> Q ((x # xs) ! i) \<and> P ((x # xs) ! j)"
      then show "j \<le> i" using hd IH by (cases i; cases j) auto
    qed
  next
    assume all: "\<forall>i j. i < length (x # xs) \<and> j < length (x # xs) \<and> Q ((x # xs) ! i) \<and>
                   P ((x # xs) ! j) \<longrightarrow> j \<le> i"
    have "Q x \<longrightarrow> (\<forall>y\<in>set xs. \<not> P y)"
    proof (intro impI ballI notI)
      fix y assume "Q x" and "y \<in> set xs" and "P y"
      then obtain j where "j < length xs" and "xs ! j = y" by (auto simp: in_set_conv_nth)
      with \<open>Q x\<close> \<open>P y\<close> all [rule_format, of 0 "Suc j"] show False by simp
    qed
    moreover have "all_before P Q xs"
      unfolding Cons.IH
    proof (intro allI impI)
      fix i j
      assume "i < length xs \<and> j < length xs \<and> Q (xs ! i) \<and> P (xs ! j)"
      with all [rule_format, of "Suc i" "Suc j"] show "j \<le> i" by simp
    qed
    ultimately show "all_before P Q (x # xs)" by simp
  qed
qed

end
