(* ===== verification/GoStrings.thy ===== *)
theory GoStrings
  imports Prelude "HOL-Library.Sublist"
begin

section \<open>The string and path functions of Go's standard library\<close>

text \<open>
  The functions of \<open>strings\<close> and \<open>path/filepath\<close> (on a Unix host) the program calls, on byte
  strings.  \<open>strings.Contains\<close>, \<open>HasPrefix\<close> and \<open>HasSuffix\<close> are \<^const>\<open>sublist\<close>,
  \<^const>\<open>prefix\<close> and \<^const>\<open>suffix\<close> of the library with their arguments in Go's order.
  Patterns of \<open>ReplaceAll\<close> and \<open>Split\<close> are never empty in the program; with an empty pattern
  the definitions below return the string unchanged.  \<open>TrimSpace\<close> trims ASCII white space.
\<close>

subsection \<open>Package strings\<close>

definition Contains :: "string \<Rightarrow> string \<Rightarrow> bool" where
  "Contains s t = sublist t s"

definition HasPrefix :: "string \<Rightarrow> string \<Rightarrow> bool" where
  "HasPrefix s t = prefix t s"

definition HasSuffix :: "string \<Rightarrow> string \<Rightarrow> bool" where
  "HasSuffix s t = suffix t s"

definition TrimPrefix :: "string \<Rightarrow> string \<Rightarrow> string" where
  "TrimPrefix s t = (if prefix t s then drop (length t) s else s)"

definition TrimSuffix :: "string \<Rightarrow> string \<Rightarrow> string" where
  "TrimSuffix s t = (if suffix t s then take (length s - length t) s else s)"

function ReplaceAll :: "string \<Rightarrow> string \<Rightarrow> string \<Rightarrow> string" where
  "ReplaceAll [] t u = []"
| "ReplaceAll (c # s) t u =
     (if t \<noteq> [] \<and> prefix t (c # s) then u @ ReplaceAll (drop (length t) (c # s)) t u
      else c # ReplaceAll s t u)"
  by pat_completeness auto
termination
  by (relation "measure (\<lambda>(s, t, u). length s)") auto

text \<open>\<open>Split(s, sep)\<close>: the pieces between the occurrences of \<open>sep\<close>, at least one.\<close>

function Split :: "string \<Rightarrow> string \<Rightarrow> string list" where
  "Split [] sep = [[]]"
| "Split (c # s) sep =
     (if sep \<noteq> [] \<and> prefix sep (c # s) then [] # Split (drop (length sep) (c # s)) sep
      else (case Split s sep of [] \<Rightarrow> [[c]] | p # ps \<Rightarrow> (c # p) # ps))"
  by pat_completeness auto
termination
  by (relation "measure (\<lambda>(s, sep). length s)") auto

fun Join :: "string list \<Rightarrow> string \<Rightarrow> string" where
  "Join [] sep = []"
| "Join [s] sep = s"
| "Join (s # t # ts) sep = s @ sep @ Join (t # ts) sep"

definition is_space :: "char \<Rightarrow> bool" where
  "is_space c \<longleftrightarrow> c \<in> {CHR '' '', CHR 0x09, CHR 0x0A, CHR 0x0B, CHR 0x0C, CHR 0x0D}"

definition TrimSpace :: "string \<Rightarrow> string" where
  "TrimSpace s = rev (dropWhile is_space (rev (dropWhile is_space s)))"

lemma Split_nonempty [simp]: "Split s sep \<noteq> []"
  by (induction s sep rule: Split.induct) (auto split: list.splits)

lemma Split_no_sep:
  "sep = [c] \<Longrightarrow> c \<notin> set s \<Longrightarrow> Split s sep = [s]"
  by (induction s sep rule: Split.induct) auto

lemma Split_at_sep:
  "sep = [c] \<Longrightarrow> c \<notin> set a \<Longrightarrow> Split (a @ c # b) sep = a # Split b sep"
  by (induction a) auto

lemma Join_Split: "sep \<noteq> [] \<Longrightarrow> Join (Split s sep) sep = s"
proof (induction s sep rule: Split.induct)
  case (1 sep)
  then show ?case by simp
next
  case (2 c s sep)
  show ?case
  proof (cases "prefix sep (c # s)")
    case True
    with 2 have "Join (Split (drop (length sep) (c # s)) sep) sep = drop (length sep) (c # s)"
      by simp
    moreover have "c # s = sep @ drop (length sep) (c # s)"
      using True by (auto simp: prefix_def)
    moreover obtain p ps where "Split (drop (length sep) (c # s)) sep = p # ps"
      by (cases "Split (drop (length sep) (c # s)) sep") auto
    ultimately show ?thesis using True 2 by simp
  next
    case False
    with 2 have IH: "Join (Split s sep) sep = s" by simp
    obtain p ps where "Split s sep = p # ps"
      by (cases "Split s sep") auto
    with False IH show ?thesis by (cases ps) auto
  qed
qed

lemma Contains_char: "Contains s [c] \<longleftrightarrow> c \<in> set s"
  by (auto simp: Contains_def sublist_def in_set_conv_decomp)

lemma ReplaceAll_no_occurrence:
  "\<not> Contains s t \<Longrightarrow> ReplaceAll s t u = s"
proof (induction s t u rule: ReplaceAll.induct)
  case (1 t u)
  then show ?case by simp
next
  case (2 c s t u)
  from "2.prems" have "\<not> prefix t (c # s)"
    by (auto simp: Contains_def prefix_imp_sublist)
  moreover from "2.prems" have "\<not> Contains s t"
    by (auto simp: Contains_def sublist_Cons_right)
  ultimately show ?case using "2.IH"(2) by simp
qed

lemma ReplaceAll_prefix_char:
  "t = c # t' \<Longrightarrow> c \<notin> set a \<Longrightarrow> ReplaceAll (a @ s) t u = a @ ReplaceAll s t u"
  by (induction a) auto

lemma ReplaceAll_suffix:
  assumes "t = c # t'" and "c \<notin> set a" and "c \<notin> set t'"
  shows "ReplaceAll (a @ t) t u = a @ u"
  using assms by (simp add: ReplaceAll_prefix_char)

lemma TrimSuffix_append [simp]: "TrimSuffix (s @ t) t = s"
  by (auto simp: TrimSuffix_def suffix_def)

lemma TrimPrefix_append [simp]: "TrimPrefix (t @ s) t = s"
  by (simp add: TrimPrefix_def)

subsection \<open>Package path/filepath\<close>

text \<open>
  \<open>Ext\<close>: the suffix from the last dot of the last path element on.  \<open>Base\<close>: the last element
  without trailing slashes, \<open>"."\<close> for an empty path, \<open>"/"\<close> for a path of slashes.
\<close>

definition last_elem :: "string \<Rightarrow> string" where
  "last_elem p = rev (takeWhile (\<lambda>c. c \<noteq> CHR ''/'') (rev p))"

definition Ext :: "string \<Rightarrow> string" where
  "Ext p =
     (let e = rev (last_elem p)
      in if CHR ''.'' \<in> set e then CHR ''.'' # rev (takeWhile (\<lambda>c. c \<noteq> CHR ''.'') e) else [])"

definition strip_slashes :: "string \<Rightarrow> string" where
  "strip_slashes p = rev (dropWhile (\<lambda>c. c = CHR ''/'') (rev p))"

definition Base :: "string \<Rightarrow> string" where
  "Base p =
     (if p = [] then ''.''
      else let q = last_elem (strip_slashes p) in if q = [] then ''/'' else q)"

text \<open>
  \<open>Clean\<close>: drop empty and \<open>"."\<close> elements, resolve \<open>".."\<close> against the element before it, keep a
  leading \<open>".."\<close> of a relative path and drop it after the root.
\<close>

fun clean_elems :: "bool \<Rightarrow> string list \<Rightarrow> string list \<Rightarrow> string list" where
  "clean_elems rooted acc [] = rev acc"
| "clean_elems rooted acc (e # es) =
     (if e = [] \<or> e = ''.'' then clean_elems rooted acc es
      else if e = ''..'' then
        (case acc of
           [] \<Rightarrow> (if rooted then clean_elems rooted [] es else clean_elems rooted [e] es)
         | a # acc' \<Rightarrow>
             (if a = ''..'' then clean_elems rooted (e # acc) es
              else clean_elems rooted acc' es))
      else clean_elems rooted (e # acc) es)"

definition Clean :: "string \<Rightarrow> string" where
  "Clean p =
     (let rooted = (prefix ''/'' p); es = clean_elems rooted [] (Split p ''/'')
      in if rooted then ''/'' @ Join es ''/'' else if es = [] then ''.'' else Join es ''/'')"

definition Dir :: "string \<Rightarrow> string" where
  "Dir p = Clean (take (length p - length (last_elem p)) p)"

text \<open>\<open>filepath.Join\<close> drops empty elements and cleans the rest.\<close>

definition JoinPath :: "string list \<Rightarrow> string" where
  "JoinPath ps =
     (let qs = filter (\<lambda>p. p \<noteq> []) ps in if qs = [] then [] else Clean (Join qs ''/''))"

lemma takeWhile_neq_id: "c \<notin> set xs \<Longrightarrow> takeWhile (\<lambda>x. x \<noteq> c) xs = xs"
  by (induction xs) auto

lemma takeWhile_neq_append: "c \<notin> set xs \<Longrightarrow> takeWhile (\<lambda>x. x \<noteq> c) (xs @ c # ys) = xs"
  by (induction xs) auto

lemma takeWhile_neq_append2:
  "c \<notin> set xs \<Longrightarrow> takeWhile (\<lambda>x. x \<noteq> c) (xs @ ys) = xs @ takeWhile (\<lambda>x. x \<noteq> c) ys"
  by (induction xs) auto

lemma dropWhile_eq_id: "c \<notin> set xs \<Longrightarrow> dropWhile (\<lambda>x. x = c) xs = xs"
  by (cases xs) auto

lemma last_elem_no_slash:
  "CHR ''/'' \<notin> set p \<Longrightarrow> last_elem p = p"
  by (simp add: last_elem_def takeWhile_neq_id)

lemma last_elem_append_slash: "CHR ''/'' \<notin> set q \<Longrightarrow> last_elem (p @ CHR ''/'' # q) = q"
  by (simp add: last_elem_def takeWhile_neq_append)

lemma strip_slashes_no_slash: "CHR ''/'' \<notin> set p \<Longrightarrow> strip_slashes p = p"
  by (simp add: strip_slashes_def dropWhile_eq_id)

lemma Base_no_slash: "p \<noteq> [] \<Longrightarrow> CHR ''/'' \<notin> set p \<Longrightarrow> Base p = p"
  by (simp add: Base_def strip_slashes_no_slash last_elem_no_slash)

lemma Ext_append:
  "CHR ''.'' \<notin> set e \<Longrightarrow> CHR ''/'' \<notin> set e \<Longrightarrow> Ext (p @ CHR ''.'' # e) = CHR ''.'' # e"
proof -
  assume dot: "CHR ''.'' \<notin> set e" and slash: "CHR ''/'' \<notin> set e"
  have "takeWhile (\<lambda>c. c \<noteq> CHR ''/'') (rev (p @ CHR ''.'' # e))
      = rev e @ CHR ''.'' # takeWhile (\<lambda>c. c \<noteq> CHR ''/'') (rev p)"
    using slash by (simp add: takeWhile_neq_append2)
  then show ?thesis using dot by (simp add: Ext_def last_elem_def takeWhile_neq_append)
qed

lemma Ext_no_dot: "CHR ''.'' \<notin> set p \<Longrightarrow> Ext p = []"
  by (auto simp: Ext_def Let_def last_elem_def dest: set_takeWhileD)

lemma Dir_no_slash: "CHR ''/'' \<notin> set p \<Longrightarrow> Dir p = ''.''"
  by (simp add: Dir_def last_elem_no_slash Clean_def)

text \<open>A final occurrence that cannot overlap itself is replaced whatever stands before it.\<close>

lemma straddle:
  assumes "t = c # t'" and "c \<notin> set t'" and "prefix t (p @ t)" and "p \<noteq> []"
  shows "prefix t p"
proof (cases "length t \<le> length p")
  case True
  with assms(3) show ?thesis by (auto simp: prefix_append dest: prefix_length_le)
next
  case False
  from assms(3) obtain z where "p @ t = t @ z" by (auto simp: prefix_def)
  with False obtain y where y: "t = p @ y" by (metis append_eq_append_conv2 append_Nil2 length_append le_add1 not_less)
  with \<open>p @ t = t @ z\<close> have "t = y @ z" by simp
  moreover from y False have "y \<noteq> []" by auto
  ultimately have "hd y = c" using assms(1) by (cases y) auto
  moreover from y assms(1,4) have "set y \<subseteq> set t'" by (cases p) auto
  ultimately show ?thesis using \<open>y \<noteq> []\<close> assms(2) by (cases y) auto
qed


lemma ReplaceAll_snoc:
  "t = c # t' \<Longrightarrow> c \<notin> set t' \<Longrightarrow> ReplaceAll (p @ t) t u = ReplaceAll p t u @ u"
proof (induction p t u rule: ReplaceAll.induct)
  case (1 t u)
  then show ?case by simp
next
  case (2 d s t u)
  show ?case
  proof (cases "prefix t (d # s)")
    case True
    then have "prefix t ((d # s) @ t)" by (rule prefix_prefix)
    moreover have "drop (length t) (d # s @ t) = drop (length t) (d # s) @ t"
      using prefix_length_le [OF True] drop_append [of "length t" "d # s" t] by simp
    ultimately show ?thesis using 2 True by simp
  next
    case False
    with straddle [OF "2.prems", of "d # s"] have n: "\<not> prefix t (d # (s @ t))" by auto
    have "ReplaceAll (s @ t) t u = ReplaceAll s t u @ u"
      using "2.IH"(2) "2.prems" False by blast
    with n False show ?thesis by (simp only: append_Cons ReplaceAll.simps simp_thms if_False)
  qed
qed

lemma prefix_until: "c \<in> set e \<Longrightarrow> prefix (takeWhile (\<lambda>x. x \<noteq> c) e @ [c]) e"
  by (induction e) auto

lemma Ext_suffix: "suffix (Ext s) s"
proof (cases "CHR ''.'' \<in> set (rev (last_elem s))")
  case False
  then show ?thesis by (simp add: Ext_def Let_def)
next
  case True
  let ?e = "rev (last_elem s)"
  have "prefix (takeWhile (\<lambda>x. x \<noteq> CHR ''.'') ?e @ ''.'') ?e"
    using True by (rule prefix_until)
  also have "prefix ?e (rev s)" by (simp add: last_elem_def takeWhile_is_prefix)
  finally have "suffix (rev (takeWhile (\<lambda>x. x \<noteq> CHR ''.'') ?e @ ''.'')) s"
    by (simp add: suffix_to_prefix)
  then show ?thesis using True by (simp add: Ext_def Let_def)
qed

end
