(* ===== verification/Containers.thy ===== *)
theory Containers
  imports GoStrings "HOL-Library.AList"
begin

section \<open>Keyed containers\<close>

text \<open>
  The program keeps its collections in three containers of the \<open>gods\<close> library: a linked hash map
  (\<open>ResourceSet\<close>), tree sets ordered by a comparator (\<open>ServiceSet\<close>, \<open>ServiceConfigSet\<close>)
  and a tree map (\<open>Plan\<close>).  Their documented behaviour is that of an abstract data type: a
  linked hash map is an association list in insertion order whose \<open>Put\<close> replaces in place, a
  tree set is the sorted list of its elements, without two elements the comparator equates, whose
  \<open>Add\<close> replaces an equal element, and a tree map is a tree set of pairs ordered by key.  The
  contract all three share, and what the clients derive from it, is the locale
  \<open>keyed_store\<close>; the ordered ones extend it to \<open>sorted_store\<close>.
\<close>

subsection \<open>The contract\<close>

locale keyed_store =
  fixes empty :: "'s"
    and put :: "'v \<Rightarrow> 's \<Rightarrow> 's"
    and get :: "'s \<Rightarrow> 'k \<Rightarrow> 'v option"
    and entries :: "'s \<Rightarrow> 'v list"
    and key :: "'v \<Rightarrow> 'k"
    and inv :: "'s \<Rightarrow> bool"
  assumes inv_empty: "inv empty"
    and inv_put: "inv s \<Longrightarrow> inv (put v s)"
    and get_empty: "get empty k = None"
    and get_put: "inv s \<Longrightarrow> get (put v s) = (get s)(key v \<mapsto> v)"
    and get_key: "inv s \<Longrightarrow> get s k = Some v \<Longrightarrow> key v = k"
    and entries_iff: "inv s \<Longrightarrow> v \<in> set (entries s) \<longleftrightarrow> get s (key v) = Some v"
    and distinct_entries: "inv s \<Longrightarrow> distinct (map key (entries s))"
begin

lemma inv_fold: "inv s \<Longrightarrow> inv (fold put vs s)"
  by (induction vs arbitrary: s) (auto intro: inv_put)

lemma get_None_iff: "inv s \<Longrightarrow> get s k = None \<longleftrightarrow> k \<notin> key ` set (entries s)"
  by (cases "get s k") (force simp: entries_iff dest: get_key)+

lemma get_Some_iff: "inv s \<Longrightarrow> get s k = Some v \<longleftrightarrow> v \<in> set (entries s) \<and> key v = k"
  by (auto simp: entries_iff dest: get_key)

lemma entries_inj: "inv s \<Longrightarrow> v \<in> set (entries s) \<Longrightarrow> w \<in> set (entries s) \<Longrightarrow> key v = key w \<Longrightarrow> v = w"
  by (simp add: entries_iff)

lemma get_fold_other:
  "inv s \<Longrightarrow> k \<notin> key ` set vs \<Longrightarrow> get (fold put vs s) k = get s k"
  by (induction vs arbitrary: s) (auto simp: get_put inv_put)

lemma get_fold_distinct:
  "inv s \<Longrightarrow> distinct (map key vs) \<Longrightarrow> v \<in> set vs \<Longrightarrow> get (fold put vs s) (key v) = Some v"
proof (induction vs arbitrary: s)
  case Nil
  then show ?case by simp
next
  case (Cons w ws)
  show ?case
  proof (cases "v = w")
    case True
    from Cons.prems have "key w \<notin> key ` set ws" by auto
    with Cons.prems True show ?thesis by (simp add: get_fold_other inv_put get_put)
  next
    case False
    with Cons show ?thesis by (auto simp: inv_put)
  qed
qed

text \<open>Copying one store and then another into an empty one: the second store wins.\<close>

lemma get_fold_entries:
  assumes s: "inv s" and t: "inv t"
  shows "get (fold put (entries t) s) = get s ++ get t"
proof
  fix k
  show "get (fold put (entries t) s) k = (get s ++ get t) k"
  proof (cases "get t k")
    case None
    with t have "k \<notin> key ` set (entries t)" by (simp add: get_None_iff)
    with s None show ?thesis by (simp add: get_fold_other map_add_def)
  next
    case (Some v)
    with t have "v \<in> set (entries t)" and "key v = k" by (auto simp: get_Some_iff)
    with s t Some show ?thesis
      using get_fold_distinct [OF s distinct_entries [OF t], of v] by simp
  qed
qed

lemma get_copy: "inv s \<Longrightarrow> get (fold put (entries s) empty) = get s"
  using get_fold_entries [OF inv_empty, of s] by (simp add: get_empty map_add_def fun_eq_iff split: option.split)

lemma get_union:
  "inv s \<Longrightarrow> inv t \<Longrightarrow> get (fold put (entries t) (fold put (entries s) empty)) = get s ++ get t"
  by (subst get_fold_entries) (simp_all add: inv_fold inv_empty get_copy)

text \<open>Copying the entries that satisfy a predicate restricts the store to them.\<close>

lemma get_fold_filter:
  assumes s: "inv s"
  shows "get (fold put (filter P (entries s)) empty) k =
           (case get s k of None \<Rightarrow> None | Some v \<Rightarrow> if P v then Some v else None)"
proof (cases "k \<in> key ` set (filter P (entries s))")
  case True
  then obtain v where v: "v \<in> set (filter P (entries s))" and k: "k = key v" by blast
  from s have "distinct (map key (filter P (entries s)))"
    by (simp add: distinct_entries distinct_map_filter)
  from get_fold_distinct [OF inv_empty this v] v k s show ?thesis
    by (auto simp: entries_iff)
next
  case False
  with s show ?thesis
    by (auto simp: get_fold_other inv_empty get_empty get_Some_iff split: option.split)
qed

end

locale deletable_store = keyed_store +
  fixes delete :: "'k \<Rightarrow> 's \<Rightarrow> 's"
  assumes inv_delete: "inv s \<Longrightarrow> inv (delete k s)"
    and get_delete: "inv s \<Longrightarrow> get (delete k s) = (get s)(k := None)"
begin

lemma delete_put: "inv s \<Longrightarrow> get s (key v) = None \<Longrightarrow> get (delete (key v) (put v s)) = get s"
  by (auto simp: inv_put get_delete get_put fun_eq_iff)

lemma entries_delete:
  "inv s \<Longrightarrow> set (entries (delete k s)) = {v \<in> set (entries s). key v \<noteq> k}"
  by (auto simp: entries_iff inv_delete get_delete split: if_splits)

end

text \<open>
  A loop over the listing that may keep, replace or drop each entry: the listing is taken before the
  loop, the store changes while it runs.
\<close>

datatype 'v change = Keep | Put 'v | Drop

definition apply_change_of :: "('v \<Rightarrow> 's \<Rightarrow> 's) \<Rightarrow> ('k \<Rightarrow> 's \<Rightarrow> 's) \<Rightarrow> 'k \<Rightarrow> 'v change \<Rightarrow> 's \<Rightarrow> 's" where
  "apply_change_of put delete k c s = (case c of Keep \<Rightarrow> s | Put v \<Rightarrow> put v s | Drop \<Rightarrow> delete k s)"

definition change_each ::
    "('v \<Rightarrow> 's \<Rightarrow> 's) \<Rightarrow> ('k \<Rightarrow> 's \<Rightarrow> 's) \<Rightarrow> ('v \<Rightarrow> 'k) \<Rightarrow> ('v \<Rightarrow> 'v change result) \<Rightarrow>
       'v list \<Rightarrow> 's \<Rightarrow> 's result" where
  "change_each put delete key f =
     each (\<lambda>v s. case f v of Inl e \<Rightarrow> Inl e | Inr c \<Rightarrow> Inr (apply_change_of put delete (key v) c s))"

definition changed_entry :: "('v \<Rightarrow> 'v change result) \<Rightarrow> 'v \<Rightarrow> 'v option" where
  "changed_entry f v =
     (case f v of Inl e \<Rightarrow> None | Inr Keep \<Rightarrow> Some v | Inr (Put w) \<Rightarrow> Some w | Inr Drop \<Rightarrow> None)"

context deletable_store
begin

lemma change_each_get:
  assumes "change_each put delete key f vs s = Inr t" and "inv s" and "distinct (map key vs)"
    and "\<And>v. v \<in> set vs \<Longrightarrow> get s (key v) = Some v"
    and "\<And>v w. v \<in> set vs \<Longrightarrow> f v = Inr (Put w) \<Longrightarrow> key w = key v"
  shows "inv t \<and> (\<forall>v\<in>set vs. \<exists>c. f v = Inr c) \<and>
    get t = (\<lambda>k. if k \<in> key ` set vs then Option.bind (get s k) (changed_entry f) else get s k)"
  using assms
proof (induction vs arbitrary: s)
  case Nil
  then show ?case by (simp add: change_each_def)
next
  case (Cons v vs)
  from Cons.prems(1) obtain c where c: "f v = Inr c"
    and rest: "change_each put delete key f vs (apply_change_of put delete (key v) c s) = Inr t"
    by (auto simp: change_each_def split: sum.splits)
  let ?s = "apply_change_of put delete (key v) c s"
  have inv: "inv ?s"
    using Cons.prems(2) by (simp add: apply_change_of_def inv_put inv_delete split: change.split)
  have get: "get ?s = (get s)(key v := changed_entry f v)"
  proof (cases c)
    case Keep
    with Cons.prems(4) [of v] c show ?thesis by (auto simp: apply_change_of_def changed_entry_def)
  next
    case (Put w)
    with Cons.prems(2) Cons.prems(5) [of v w] c show ?thesis
      by (simp add: apply_change_of_def changed_entry_def get_put)
  next
    case Drop
    with Cons.prems(2) c show ?thesis by (simp add: apply_change_of_def changed_entry_def get_delete)
  qed
  have "key v \<notin> key ` set vs" using Cons.prems(3) by auto
  then have same: "get ?s (key w) = get s (key w)" if "w \<in> set vs" for w
    using that get by (metis fun_upd_other image_eqI)
  have ih: "inv t \<and> (\<forall>v\<in>set vs. \<exists>c. f v = Inr c) \<and>
      get t = (\<lambda>k. if k \<in> key ` set vs then Option.bind (get ?s k) (changed_entry f) else get ?s k)"
  proof (rule Cons.IH [OF rest inv])
    show "distinct (map key vs)" using Cons.prems(3) by simp
    show "get ?s (key w) = Some w" if "w \<in> set vs" for w
      using that Cons.prems(4) [of w] by (simp add: same)
    show "key x = key w" if "w \<in> set vs" and "f w = Inr (Put x)" for w x
      using that Cons.prems(5) [of w x] by simp
  qed
  show ?case
  proof (intro conjI ext)
    show "inv t" using ih by simp
    show "\<forall>v\<in>set (v # vs). \<exists>c. f v = Inr c" using ih c by simp
    fix k
    show "get t k = (if k \<in> key ` set (v # vs) then Option.bind (get s k) (changed_entry f) else get s k)"
    proof (cases "k = key v")
      case True
      with ih \<open>key v \<notin> key ` set vs\<close> Cons.prems(4) [of v] show ?thesis by (simp add: get)
    next
      case False
      with ih show ?thesis by (simp add: get)
    qed
  qed
qed

lemma change_each_entries:
  assumes "change_each put delete key f (entries s) s = Inr t" and "inv s"
    and "\<And>v w. v \<in> set (entries s) \<Longrightarrow> f v = Inr (Put w) \<Longrightarrow> key w = key v"
  shows "inv t \<and> (\<forall>v\<in>set (entries s). \<exists>c. f v = Inr c) \<and>
    get t = (\<lambda>k. Option.bind (get s k) (changed_entry f))"
proof -
  have "get s (key v) = Some v" if "v \<in> set (entries s)" for v
    using assms(2) that by (simp add: entries_iff)
  from change_each_get [OF assms(1,2) distinct_entries [OF assms(2)] this assms(3)]
  have r: "inv t" "\<forall>v\<in>set (entries s). \<exists>c. f v = Inr c"
    "get t = (\<lambda>k. if k \<in> key ` set (entries s) then Option.bind (get s k) (changed_entry f) else get s k)"
    by blast+
  have "get t k = Option.bind (get s k) (changed_entry f)" for k
    using r(3) get_None_iff [OF assms(2), of k] by (cases "k \<in> key ` set (entries s)") simp_all
  with r(1,2) show ?thesis by blast
qed

end

locale sorted_store =
  keyed_store empty put get entries key inv
  for empty :: "'s" and put :: "'v \<Rightarrow> 's \<Rightarrow> 's" and get and entries
    and key :: "'v \<Rightarrow> 'k::linorder" and inv +
  assumes sorted_entries: "inv s \<Longrightarrow> sorted (map key (entries s))"
begin

text \<open>An ordered store has one listing: it depends on what is stored, not on the insertions.\<close>

lemma entries_ext:
  assumes s: "inv s" and t: "inv t" and eq: "get s = get t"
  shows "entries s = entries t"
proof -
  have set_eq: "set (entries s) = set (entries t)"
    using s t eq by (auto simp: entries_iff)
  then have "set (map key (entries s)) = set (map key (entries t))" by simp
  then have keys: "map key (entries s) = map key (entries t)"
    using s t by (intro sorted_distinct_set_unique) (auto simp: sorted_entries distinct_entries)
  then have len: "length (entries s) = length (entries t)"
    using map_eq_imp_length_eq by blast
  show ?thesis
  proof (rule nth_equalityI [OF len])
    fix i assume i: "i < length (entries s)"
    with len keys have "key (entries s ! i) = key (entries t ! i)"
      by (metis nth_map)
    moreover have "entries s ! i \<in> set (entries t)" using i set_eq nth_mem by blast
    moreover have "entries t ! i \<in> set (entries t)" using i len by simp
    ultimately show "entries s ! i = entries t ! i" using entries_inj [OF t] by blast
  qed
qed

lemma sorted_wrt_entries: "inv s \<Longrightarrow> sorted_wrt (<) (map key (entries s))"
  by (simp add: strict_sorted_iff sorted_entries distinct_entries)

end

subsection \<open>Linked hash map\<close>

type_synonym ('k, 'v) lhmap = "('k \<times> 'v) list"

definition lhm_put :: "'k \<Rightarrow> 'v \<Rightarrow> ('k, 'v) lhmap \<Rightarrow> ('k, 'v) lhmap" where
  "lhm_put k v m = AList.update k v m"

definition lhm_get :: "('k, 'v) lhmap \<Rightarrow> 'k \<Rightarrow> 'v option" where
  "lhm_get m k = map_of m k"

definition lhm_remove :: "'k \<Rightarrow> ('k, 'v) lhmap \<Rightarrow> ('k, 'v) lhmap" where
  "lhm_remove k m = AList.delete k m"

definition lhm_values :: "('k, 'v) lhmap \<Rightarrow> 'v list" where
  "lhm_values m = map snd m"

definition lhm_inv :: "('v \<Rightarrow> 'k) \<Rightarrow> ('k, 'v) lhmap \<Rightarrow> bool" where
  "lhm_inv f m \<longleftrightarrow> distinct (map fst m) \<and> (\<forall>(k, v)\<in>set m. k = f v)"

lemma lhm_inv_map: "lhm_inv f m \<Longrightarrow> map fst m = map f (map snd m)"
  by (auto simp: lhm_inv_def)

lemma lhm_inv_update: "lhm_inv f m \<Longrightarrow> lhm_inv f (lhm_put (f v) v m)"
proof -
  assume inv: "lhm_inv f m"
  have "set (AList.update (f v) v m) \<subseteq> insert (f v, v) (set m)"
    by (induction m) (auto split: if_splits)
  then show ?thesis using inv
    by (auto simp: lhm_inv_def lhm_put_def distinct_update)
qed

lemma lhm_inv_remove: "lhm_inv f m \<Longrightarrow> lhm_inv f (lhm_remove k m)"
proof -
  assume inv: "lhm_inv f m"
  have "set (AList.delete k m) \<subseteq> set m" by (auto simp: AList.delete_eq)
  then show ?thesis using inv by (auto simp: lhm_inv_def lhm_remove_def distinct_delete)
qed

lemma lhm_deletable_store:
  fixes f :: "'b \<Rightarrow> 'a"
  shows "deletable_store [] (\<lambda>v. lhm_put (f v) v) lhm_get lhm_values f (lhm_inv f) lhm_remove"
proof unfold_locales
  fix s :: "('a, 'b) lhmap" and v :: 'b and k :: 'a
  show "lhm_inv f []" by (simp add: lhm_inv_def)
  show "lhm_get [] k = None" by (simp add: lhm_get_def)
  assume inv: "lhm_inv f s"
  then show "lhm_inv f (lhm_put (f v) v s)" by (rule lhm_inv_update)
  from inv show "lhm_inv f (lhm_remove k s)" by (rule lhm_inv_remove)
  show "lhm_get (lhm_put (f v) v s) = (lhm_get s)(f v \<mapsto> v)"
    by (simp add: lhm_get_def lhm_put_def update_conv fun_eq_iff)
  show "lhm_get (lhm_remove k s) = (lhm_get s)(k := None)"
    by (simp add: lhm_get_def lhm_remove_def delete_conv fun_eq_iff)
  have "(f v, v) \<in> set s \<longleftrightarrow> v \<in> set (map snd s)" using inv by (force simp: lhm_inv_def)
  then show "v \<in> set (lhm_values s) \<longleftrightarrow> lhm_get s (f v) = Some v"
    using inv by (simp add: lhm_values_def lhm_get_def lhm_inv_def)
  show "distinct (map f (lhm_values s))"
    using inv lhm_inv_map [OF inv] by (simp add: lhm_values_def lhm_inv_def)
  show "lhm_get s k = Some v \<Longrightarrow> f v = k"
    using inv by (auto simp: lhm_get_def lhm_inv_def dest: map_of_SomeD)
qed

subsection \<open>Tree set\<close>

fun tset_add :: "('v \<Rightarrow> 'k::linorder) \<Rightarrow> 'v \<Rightarrow> 'v list \<Rightarrow> 'v list" where
  "tset_add f x [] = [x]"
| "tset_add f x (y # ys) =
     (if f x < f y then x # y # ys
      else if f x = f y then x # ys
      else y # tset_add f x ys)"

definition tset_get :: "('v \<Rightarrow> 'k) \<Rightarrow> 'v list \<Rightarrow> 'k \<Rightarrow> 'v option" where
  "tset_get f xs k = find (\<lambda>v. f v = k) xs"

definition tset_inv :: "('v \<Rightarrow> 'k::linorder) \<Rightarrow> 'v list \<Rightarrow> bool" where
  "tset_inv f xs \<longleftrightarrow> sorted_wrt (<) (map f xs)"

definition tset_entries :: "'v list \<Rightarrow> 'v list" where
  "tset_entries xs = xs"

lemma set_tset_add:
  "sorted_wrt (<) (map f xs) \<Longrightarrow> set (tset_add f x xs) = insert x {y \<in> set xs. f y \<noteq> f x}"
  by (induction xs) auto

lemma tset_add_sorted: "sorted_wrt (<) (map f xs) \<Longrightarrow> sorted_wrt (<) (map f (tset_add f x xs))"
proof (induction xs)
  case Nil
  then show ?case by simp
next
  case (Cons y ys)
  then show ?case by (auto simp: set_tset_add)
qed

lemma tset_get_None: "tset_get f xs k = None \<longleftrightarrow> k \<notin> f ` set xs"
  by (auto simp: tset_get_def find_None_iff)

lemma tset_get_Some:
  fixes f :: "'v \<Rightarrow> 'k::linorder"
  shows "sorted_wrt (<) (map f xs) \<Longrightarrow> tset_get f xs k = Some v \<longleftrightarrow> v \<in> set xs \<and> f v = k"
proof (induction xs)
  case Nil
  then show ?case by (simp add: tset_get_def)
next
  case (Cons x xs)
  then have "\<forall>y\<in>set xs. f x < f y" by simp
  then have "\<forall>y\<in>set xs. f y \<noteq> f x" by (metis less_irrefl)
  with Cons show ?case by (cases "f x = k") (auto simp: tset_get_def)
qed

lemma tset_sorted_store:
  "sorted_store [] (tset_add f) (tset_get f) tset_entries f (tset_inv f)"
proof unfold_locales
  fix s :: "'a list" and v k
  show "tset_inv f []" by (simp add: tset_inv_def)
  show "tset_get f [] k = None" by (simp add: tset_get_def)
  assume inv: "tset_inv f s"
  then show inv': "tset_inv f (tset_add f v s)" by (simp add: tset_inv_def tset_add_sorted)
  show "tset_get f s k = Some v \<Longrightarrow> f v = k"
    using inv by (auto simp: tset_inv_def tset_get_Some)
  show "v \<in> set (tset_entries s) \<longleftrightarrow> tset_get f s (f v) = Some v"
    using inv by (auto simp: tset_inv_def tset_get_Some tset_entries_def)
  show "distinct (map f (tset_entries s))" and "sorted (map f (tset_entries s))"
    using inv by (simp_all add: tset_inv_def tset_entries_def strict_sorted_iff)
  show "tset_get f (tset_add f v s) = (tset_get f s)(f v \<mapsto> v)"
  proof
    fix k
    show "tset_get f (tset_add f v s) k = ((tset_get f s)(f v \<mapsto> v)) k"
    proof (cases "tset_get f (tset_add f v s) k")
      case None
      with inv have "k \<noteq> f v" and "k \<notin> f ` set s"
        by (auto simp: tset_get_None set_tset_add tset_inv_def)
      then have "tset_get f s k = None" by (simp add: tset_get_None)
      with None \<open>k \<noteq> f v\<close> show ?thesis by simp
    next
      case (Some w)
      with inv' have "w \<in> set (tset_add f v s)" and k: "f w = k"
        by (simp_all add: tset_inv_def tset_get_Some)
      with inv have w: "w = v \<or> w \<in> set s \<and> k \<noteq> f v"
        by (auto simp: tset_inv_def set_tset_add)
      then have "((tset_get f s)(f v \<mapsto> v)) k = Some w"
        using inv k by (auto simp: tset_inv_def tset_get_Some)
      with Some show ?thesis by simp
    qed
  qed
qed

lemma tset_add_snoc:
  "sorted_wrt (<) (map f (xs @ [x])) \<Longrightarrow> tset_add f x xs = xs @ [x]"
  by (induction xs) auto

lemma length_tset_add:
  "tset_inv f xs \<Longrightarrow> length (tset_add f x xs) = (if f x \<in> f ` set xs then length xs else Suc (length xs))"
  unfolding tset_inv_def by (induction xs) auto

end
