(* ===== verification/Manifests.thy ===== *)
theory Manifests
  imports Containers
begin

section \<open>Component manifests (pkg/manifests)\<close>

text \<open>
  The decoded \<open>MANIFEST.toml\<close> of a component and the two ways a host entry of the repository
  manifest changes it: \<open>MergeComponentManifests\<close> for \<open>Overrides\<close> and
  \<open>ExtendComponentManifests\<close> for \<open>Extensions\<close>.  TOML decoding is the library's; a decoded
  value is a \<open>go_any\<close>.  A Go map is an association list with an option for the nil map, because
  a write to a nil map panics; a nil slice and an empty slice behave alike here and are lists.
\<close>

definition ComponentManifestFile :: string where
  "ComponentManifestFile = ''MANIFEST.toml''"

datatype go_any =
    AnyString string
  | AnyInt int
  | AnyBool bool
  | AnyList "go_any list"
  | AnyMap "(string \<times> go_any) list"
  | AnyOther string

type_synonym any_map = "(string \<times> go_any) list"

record ServiceResourceConfig =
  src_Service :: string
  src_RestartedBy :: "string list"
  src_ReloadedBy :: "string list"
  src_Disabled :: bool
  src_Static :: bool
  src_Stopped :: bool
  src_Oneshot :: bool
  src_Timeout :: int

record Settings =
  set_NoRestart :: bool
  set_NoExpansion :: bool
  set_SetupScript :: string
  set_CleanupScript :: string
  set_PreScript :: string
  set_PostScript :: string

record SnippetConfig =
  sn_Name :: string
  sn_Body :: string
  sn_Parameters :: "string list"

record ComponentManifest =
  cm_Defaults :: "any_map option"
  cm_Settings :: Settings
  cm_Snippets :: "SnippetConfig list"
  cm_Services :: "ServiceResourceConfig list"
  cm_Scripts :: "string list"
  cm_Secrets :: "string list"

definition zero_Settings :: Settings where
  "zero_Settings =
     \<lparr>set_NoRestart = False, set_NoExpansion = False, set_SetupScript = [],
      set_CleanupScript = [], set_PreScript = [], set_PostScript = []\<rparr>"

definition zero_ComponentManifest :: ComponentManifest where
  "zero_ComponentManifest =
     \<lparr>cm_Defaults = None, cm_Settings = zero_Settings, cm_Snippets = [], cm_Services = [],
      cm_Scripts = [], cm_Secrets = []\<rparr>"

subsection \<open>Go's maps and slices\<close>

text \<open>\<open>maps.Copy(dst, src)\<close>: nothing to do for an empty source, a panic for a nil target.\<close>

definition map_update_all :: "any_map \<Rightarrow> any_map \<Rightarrow> any_map" where
  "map_update_all dst src = fold (\<lambda>(k, v) m. AList.update k v m) src dst"

definition map_len :: "any_map option \<Rightarrow> nat" where
  "map_len m = (case m of None \<Rightarrow> 0 | Some xs \<Rightarrow> length xs)"

definition maps_Copy :: "any_map option \<Rightarrow> any_map option \<Rightarrow> any_map option result" where
  "maps_Copy dst src =
     (case src of
        None \<Rightarrow> Inr dst
      | Some ys \<Rightarrow>
          (if ys = [] then Inr dst
           else (case dst of
                   None \<Rightarrow> Inl (Panic ''assignment to entry in nil map'')
                 | Some xs \<Rightarrow> Inr (Some (map_update_all xs ys)))))"

text \<open>\<open>copy(dst, src)\<close> overwrites as many elements as both slices have and never grows \<open>dst\<close>.\<close>

definition go_copy :: "'a list \<Rightarrow> 'a list \<Rightarrow> 'a list" where
  "go_copy dst src =
     take (min (length dst) (length src)) src @ drop (min (length dst) (length src)) dst"

lemma go_copy_nil [simp]: "go_copy [] src = []"
  by (simp add: go_copy_def)

lemma go_copy_same [simp]: "go_copy xs xs = xs"
  by (simp add: go_copy_def)

lemma length_go_copy [simp]: "length (go_copy dst src) = length dst"
  by (simp add: go_copy_def)

lemma map_of_map_update_all:
  "distinct (map fst ys) \<Longrightarrow> map_of (map_update_all xs ys) = map_of xs ++ map_of ys"
proof (induction ys arbitrary: xs)
  case Nil
  then show ?case by (simp add: map_update_all_def)
next
  case (Cons p ys)
  obtain k v where p: "p = (k, v)" by (cases p)
  have "map_of (map_update_all xs (p # ys)) = map_of (map_update_all (AList.update k v xs) ys)"
    by (simp add: map_update_all_def p)
  also have "\<dots> = map_of (AList.update k v xs) ++ map_of ys"
    using Cons by simp
  also have "\<dots> = map_of xs ++ map_of (p # ys)"
  proof
    fix x
    from Cons.prems p have "map_of ys k = None" by (simp add: map_of_eq_None_iff)
    then show "(map_of (AList.update k v xs) ++ map_of ys) x = (map_of xs ++ map_of (p # ys)) x"
      by (simp add: update_conv p map_add_def split: option.split)
  qed
  finally show ?case .
qed

subsection \<open>Validation, merging, extending\<close>

definition Settings_Merge :: "Settings \<Rightarrow> Settings \<Rightarrow> Settings" where
  "Settings_Merge s o' =
     s\<lparr>set_NoRestart := set_NoRestart o', set_CleanupScript := set_CleanupScript o',
       set_SetupScript := set_SetupScript o'\<rparr>"

definition ServiceResourceConfig_Validate :: "ServiceResourceConfig \<Rightarrow> go_error option" where
  "ServiceResourceConfig_Validate src =
     (if src_Service src = [] then Some (ErrMsg ''service config without a name'') else None)"

text \<open>
  The result of the merge starts as a zero value, so every \<open>copy\<close> has an empty target; only
  the secrets are appended.
\<close>

definition MergeComponentManifests ::
    "ComponentManifest option \<Rightarrow> ComponentManifest option \<Rightarrow> ComponentManifest result" where
  "MergeComponentManifests original override =
     (case original of
        None \<Rightarrow> Inl (ErrMsg ''need non nil original manifest for merge'')
      | Some og \<Rightarrow>
     (case override of
        None \<Rightarrow> Inl (ErrMsg ''need non nil override manifest for merge'')
      | Some ov \<Rightarrow>
     (let result = zero_ComponentManifest;
          result = result\<lparr>cm_Defaults :=
            (if map_len (cm_Defaults ov) > 0 then cm_Defaults ov else cm_Defaults og)\<rparr>;
          result = result\<lparr>cm_Settings := Settings_Merge (cm_Settings result) (cm_Settings ov)\<rparr>;
          result = result\<lparr>cm_Snippets :=
            (if cm_Snippets ov \<noteq> [] then go_copy (cm_Snippets result) (cm_Snippets ov)
             else go_copy (cm_Snippets result) (cm_Snippets og))\<rparr>;
          result = result\<lparr>cm_Services :=
            (if cm_Services ov \<noteq> [] then go_copy (cm_Services result) (cm_Services ov)
             else go_copy (cm_Services result) (cm_Services og))\<rparr>;
          result = result\<lparr>cm_Scripts :=
            (if cm_Scripts ov \<noteq> [] then go_copy (cm_Scripts result) (cm_Scripts ov)
             else go_copy (cm_Scripts result) (cm_Scripts og))\<rparr>;
          result = result\<lparr>cm_Secrets :=
            (if cm_Secrets ov \<noteq> []
             then go_copy (cm_Secrets result @ cm_Secrets ov) (cm_Secrets ov)
             else go_copy (cm_Secrets result) (cm_Secrets og))\<rparr>
      in Inr result)))"

text \<open>
  One service of the extension: appended when no service of that name is there, otherwise its
  triggers are appended to those of the first service of that name.
\<close>

fun extend_service ::
    "ServiceResourceConfig list \<Rightarrow> ServiceResourceConfig \<Rightarrow> ServiceResourceConfig list" where
  "extend_service [] s = [s]"
| "extend_service (r # rs) s =
     (if src_Service r = src_Service s then
        r\<lparr>src_ReloadedBy := src_ReloadedBy r @ src_ReloadedBy s,
          src_RestartedBy := src_RestartedBy r @ src_RestartedBy s\<rparr> # rs
      else r # extend_service rs s)"

definition ExtendComponentManifests ::
    "ComponentManifest option \<Rightarrow> ComponentManifest option \<Rightarrow> ComponentManifest result" where
  "ExtendComponentManifests original extension =
     (case original of
        None \<Rightarrow> Inl (ErrMsg ''need non nil original manifest for merge'')
      | Some og \<Rightarrow>
     (case extension of
        None \<Rightarrow> Inl (ErrMsg ''need non nil extension manifest for merge'')
      | Some ex \<Rightarrow>
     (case (if map_len (cm_Defaults ex) > 0 then maps_Copy (cm_Defaults og) (cm_Defaults ex)
            else Inr (cm_Defaults og)) of
        Inl e \<Rightarrow> Inl e
      | Inr defaults \<Rightarrow>
          Inr \<lparr>cm_Defaults = defaults,
               cm_Settings = Settings_Merge (cm_Settings og) (cm_Settings ex),
               cm_Snippets = cm_Snippets og @ cm_Snippets ex,
               cm_Services = foldl extend_service (cm_Services og) (cm_Services ex),
               cm_Scripts = cm_Scripts og @ cm_Scripts ex,
               cm_Secrets = cm_Secrets og @ cm_Secrets ex\<rparr>)))"

subsection \<open>Lemmas\<close>

lemma extend_service_names:
  "map src_Service (extend_service rs s) =
     (if src_Service s \<in> src_Service ` set rs then map src_Service rs
      else map src_Service rs @ [src_Service s])"
  by (induction rs) auto

lemma extend_services_names_set:
  "src_Service ` set (foldl extend_service rs ss) = src_Service ` set rs \<union> src_Service ` set ss"
proof (induction ss arbitrary: rs)
  case Nil
  then show ?case by simp
next
  case (Cons s ss)
  have "src_Service ` set (extend_service rs s) = insert (src_Service s) (src_Service ` set rs)"
    using arg_cong [OF extend_service_names [of rs s], of set] by (auto split: if_splits)
  with Cons show ?case by auto
qed

lemma extend_services_distinct:
  "distinct (map src_Service rs) \<Longrightarrow> distinct (map src_Service (foldl extend_service rs ss))"
  by (induction ss arbitrary: rs) (auto simp: extend_service_names)

text \<open>What an extension may change in a service: it adds triggers and nothing else.\<close>

definition config_extends :: "ServiceResourceConfig \<Rightarrow> ServiceResourceConfig \<Rightarrow> bool" where
  "config_extends r r' \<longleftrightarrow>
     (\<exists>rs ls. r' = r\<lparr>src_ReloadedBy := src_ReloadedBy r @ ls, src_RestartedBy := src_RestartedBy r @ rs\<rparr>)"

lemma config_extends_refl: "config_extends r r"
  unfolding config_extends_def by (rule exI [of _ "[]"], rule exI [of _ "[]"]) simp

lemma config_extends_trans: "config_extends a b \<Longrightarrow> config_extends b c \<Longrightarrow> config_extends a c"
  by (auto simp: config_extends_def) blast

lemma config_extends_triggers:
  "config_extends r (r\<lparr>src_ReloadedBy := src_ReloadedBy r @ ls, src_RestartedBy := src_RestartedBy r @ rs\<rparr>)"
  by (auto simp: config_extends_def)

lemma extend_service_keeps:
  "r \<in> set rs \<Longrightarrow> \<exists>r'\<in>set (extend_service rs s). config_extends r r'"
proof (induction rs)
  case Nil
  then show ?case by simp
next
  case (Cons q rs)
  show ?case
  proof (cases "r = q \<or> src_Service q = src_Service s")
    case True
    with Cons.prems show ?thesis
      by (auto intro: config_extends_triggers config_extends_refl)
  next
    case False
    with Cons show ?thesis by auto
  qed
qed

lemma extend_services_keeps:
  "r \<in> set rs \<Longrightarrow> \<exists>r'\<in>set (foldl extend_service rs ss). config_extends r r'"
proof (induction ss arbitrary: r rs)
  case Nil
  then show ?case by (auto intro: config_extends_refl)
next
  case (Cons s ss)
  from extend_service_keeps [OF Cons.prems, of s] obtain r1
    where r1: "r1 \<in> set (extend_service rs s)" "config_extends r r1" by blast
  from Cons.IH [OF r1(1)] r1(2) show ?case by (auto intro: config_extends_trans)
qed

end
