(* ===== verification/Services.thy ===== *)
theory Services
  imports Manifests
begin

section \<open>Services (pkg/services)\<close>

text \<open>
  The states systemd reports, the service record, the tree set of services ordered by name, the
  unit name of a quadlet file, and \<open>GetService\<close> over the answers of the systemd connection.
  States are strings in the code; each named constant is a definition here, and
  \<open>service_state_distinct\<close> tells them apart.
\<close>

subsection \<open>States\<close>

definition StateActive_s :: string where "StateActive_s = ''active''"
definition StateReloading_s :: string where "StateReloading_s = ''reloading''"
definition StateInactive_s :: string where "StateInactive_s = ''inactive''"
definition StateFailed_s :: string where "StateFailed_s = ''failed''"
definition StateActivating_s :: string where "StateActivating_s = ''activating''"
definition StateDeactivating_s :: string where "StateDeactivating_s = ''deactivating''"
definition StateMaintenance_s :: string where "StateMaintenance_s = ''maintenance''"
definition StateRefreshing_s :: string where "StateRefreshing_s = ''refreshing''"
definition StateUnknown_s :: string where "StateUnknown_s = ''unknown''"
definition StateInternalWildcard_s :: string where "StateInternalWildcard_s = ''wildcard''"

lemmas service_state_defs =
  StateActive_s_def StateReloading_s_def StateInactive_s_def StateFailed_s_def
  StateActivating_s_def StateDeactivating_s_def StateMaintenance_s_def StateRefreshing_s_def
  StateUnknown_s_def StateInternalWildcard_s_def

lemma service_state_distinct [simp]:
  "StateActive_s \<noteq> StateInactive_s" "StateInactive_s \<noteq> StateActive_s"
  "StateActive_s \<noteq> StateUnknown_s" "StateUnknown_s \<noteq> StateActive_s"
  "StateActive_s \<noteq> StateInternalWildcard_s" "StateInternalWildcard_s \<noteq> StateActive_s"
  "StateInactive_s \<noteq> StateUnknown_s" "StateUnknown_s \<noteq> StateInactive_s"
  "StateInactive_s \<noteq> StateInternalWildcard_s" "StateInternalWildcard_s \<noteq> StateInactive_s"
  "StateUnknown_s \<noteq> StateInternalWildcard_s" "StateInternalWildcard_s \<noteq> StateUnknown_s"
  "StateActive_s \<noteq> StateActivating_s" "StateActivating_s \<noteq> StateActive_s"
  "StateInactive_s \<noteq> StateActivating_s" "StateActivating_s \<noteq> StateInactive_s"
  "StateInternalWildcard_s \<noteq> StateActivating_s" "StateActivating_s \<noteq> StateInternalWildcard_s"
  "StateActive_s \<noteq> []" "StateInactive_s \<noteq> []" "StateUnknown_s \<noteq> []"
  "StateInternalWildcard_s \<noteq> []" "[] \<noteq> StateActive_s" "[] \<noteq> StateUnknown_s"
  by (simp_all add: service_state_defs)

definition serviceStateMap :: "(string \<times> string) list" where
  "serviceStateMap =
     [(''unknown'', StateUnknown_s), (''active'', StateActive_s), (''reloading'', StateReloading_s),
      (''inactive'', StateInactive_s), (''failed'', StateFailed_s),
      (''activating'', StateActivating_s), (''deactivating'', StateDeactivating_s),
      (''maintenance'', StateMaintenance_s), (''refreshing'', StateRefreshing_s)]"

definition NewServiceState :: "string \<Rightarrow> string" where
  "NewServiceState name =
     (case map_of serviceStateMap name of None \<Rightarrow> StateUnknown_s | Some res \<Rightarrow> res)"

definition EnableStateUnknown :: string where "EnableStateUnknown = ''unknown''"
definition EnableStateEnabled :: string where "EnableStateEnabled = ''enabled''"
definition EnableStateDisabled :: string where "EnableStateDisabled = ''disabled''"

lemma enable_state_distinct [simp]:
  "EnableStateEnabled \<noteq> EnableStateDisabled" "EnableStateDisabled \<noteq> EnableStateEnabled"
  "EnableStateEnabled \<noteq> EnableStateUnknown" "EnableStateUnknown \<noteq> EnableStateEnabled"
  "EnableStateEnabled \<noteq> []" "[] \<noteq> EnableStateEnabled"
  by (simp_all add: EnableStateEnabled_def EnableStateDisabled_def EnableStateUnknown_def)

text \<open>The map of enable states; note that \<open>enabled-runtime\<close> reads as enabled.\<close>

definition serviceEnableStateMap :: "(string \<times> string) list" where
  "serviceEnableStateMap =
     [(''unknown'', EnableStateUnknown), (''enabled'', EnableStateEnabled),
      (''enabled-runtime'', EnableStateEnabled), (''linked'', ''linked''),
      (''linked-runtime'', ''linked-runtime''), (''alias'', ''alias''), (''masked'', ''masked''),
      (''masked-runtime'', ''masked-runtime''), (''static'', ''static''),
      (''indirect'', ''indirect''), (''disabled'', EnableStateDisabled),
      (''generated'', ''generated''), (''transient'', ''transient''), (''bad'', ''bad'')]"

definition NewServiceEnableState :: "string \<Rightarrow> string" where
  "NewServiceEnableState name =
     (case map_of serviceEnableStateMap name of None \<Rightarrow> EnableStateUnknown | Some res \<Rightarrow> res)"

subsection \<open>Services and their sets\<close>

record Service =
  svc_Name :: string
  svc_State :: string
  svc_Type :: string
  svc_Enabled :: string

definition zero_Service :: Service where
  "zero_Service = \<lparr>svc_Name = [], svc_State = [], svc_Type = [], svc_Enabled = []\<rparr>"

definition Started :: "Service \<Rightarrow> bool" where
  "Started s \<longleftrightarrow> svc_State s = StateActive_s"

text \<open>\<open>fillFromProperties\<close>: a missing or non-string property fails its type assertion.\<close>

fun as_string :: "go_any option \<Rightarrow> string option" where
  "as_string (Some (AnyString s)) = Some s"
| "as_string _ = None"

definition fillFromProperties :: "any_map \<Rightarrow> Service \<Rightarrow> Service result" where
  "fillFromProperties props s =
     (case as_string (map_of props ''ActiveState'') of
        None \<Rightarrow> Inl (ErrMsg ''invalid active state'')
      | Some jobState \<Rightarrow>
     (case as_string (map_of props ''UnitFileState'') of
        None \<Rightarrow> Inl (ErrMsg ''invalid unit file state state'')
      | Some fileState \<Rightarrow>
     (let jobType = (case as_string (map_of props ''Type'') of
                       None \<Rightarrow> ''non-existent'' | Some t \<Rightarrow> t)
      in Inr (s\<lparr>svc_State := NewServiceState jobState, svc_Type := jobType,
                svc_Enabled := NewServiceEnableState fileState\<rparr>))))"

type_synonym ServiceSet = "Service list"

definition NewServiceSet :: ServiceSet where
  "NewServiceSet = []"

definition ServiceSet_Add :: "Service \<Rightarrow> ServiceSet \<Rightarrow> ServiceSet" where
  "ServiceSet_Add serv s = tset_add svc_Name serv s"

definition ServiceSet_Contains :: "ServiceSet \<Rightarrow> Service \<Rightarrow> bool" where
  "ServiceSet_Contains s serv \<longleftrightarrow> svc_Name serv \<in> svc_Name ` set s"

definition ServiceSet_List :: "ServiceSet \<Rightarrow> Service list" where
  "ServiceSet_List s = tset_entries s"

definition ServiceSet_ListServiceNames :: "ServiceSet \<Rightarrow> string list" where
  "ServiceSet_ListServiceNames s = map svc_Name (ServiceSet_List s)"

definition ServiceSet_Get :: "ServiceSet \<Rightarrow> string \<Rightarrow> Service result" where
  "ServiceSet_Get s name =
     (case tset_get svc_Name s name of
        Some src \<Rightarrow> Inr src
      | None \<Rightarrow> Inl (ErrSentinel ErrServiceNotFound))"

definition ServiceSet_Union :: "ServiceSet \<Rightarrow> ServiceSet \<Rightarrow> ServiceSet" where
  "ServiceSet_Union r other =
     fold ServiceSet_Add (ServiceSet_List other) (fold ServiceSet_Add (ServiceSet_List r) NewServiceSet)"

definition ServiceSet_Intersection :: "ServiceSet \<Rightarrow> ServiceSet \<Rightarrow> ServiceSet" where
  "ServiceSet_Intersection r other =
     fold ServiceSet_Add (filter (ServiceSet_Contains other) (ServiceSet_List r)) NewServiceSet"

definition ServiceSet_Difference :: "ServiceSet \<Rightarrow> ServiceSet \<Rightarrow> ServiceSet" where
  "ServiceSet_Difference r other =
     fold ServiceSet_Add (filter (\<lambda>e. \<not> ServiceSet_Contains other e) (ServiceSet_List r)) NewServiceSet"

definition ServiceSet_inv :: "ServiceSet \<Rightarrow> bool" where
  "ServiceSet_inv s = tset_inv svc_Name s"

interpretation service_set:
  sorted_store NewServiceSet ServiceSet_Add "tset_get svc_Name" ServiceSet_List svc_Name ServiceSet_inv
  using tset_sorted_store [of svc_Name]
  by (simp add: NewServiceSet_def ServiceSet_Add_def [abs_def] ServiceSet_List_def [abs_def]
      ServiceSet_inv_def [abs_def])

lemma ServiceSet_Get_Inr [simp]:
  "ServiceSet_Get s n = Inr v \<longleftrightarrow> tset_get svc_Name s n = Some v"
  by (auto simp: ServiceSet_Get_def split: option.splits)

lemma ServiceSet_Get_Inl:
  "ServiceSet_Get s n = Inl e \<longleftrightarrow> tset_get svc_Name s n = None \<and> e = ErrSentinel ErrServiceNotFound"
  by (auto simp: ServiceSet_Get_def split: option.splits)

lemma ServiceSet_Union_inv [inv_intros]:
  "ServiceSet_inv r \<Longrightarrow> ServiceSet_inv s \<Longrightarrow> ServiceSet_inv (ServiceSet_Union r s)"
  by (simp add: ServiceSet_Union_def service_set.inv_fold service_set.inv_empty)

lemma ServiceSet_Difference_inv [inv_intros]: "ServiceSet_inv (ServiceSet_Difference r s)"
  by (simp add: ServiceSet_Difference_def service_set.inv_fold service_set.inv_empty)

lemma ServiceSet_Union_get:
  "ServiceSet_inv r \<Longrightarrow> ServiceSet_inv s \<Longrightarrow>
   tset_get svc_Name (ServiceSet_Union r s) = tset_get svc_Name r ++ tset_get svc_Name s"
  by (simp only: ServiceSet_Union_def service_set.get_union)

lemma ServiceSet_Difference_get:
  "ServiceSet_inv r \<Longrightarrow>
   tset_get svc_Name (ServiceSet_Difference r s) n =
     (case tset_get svc_Name r n of
        None \<Rightarrow> None
      | Some v \<Rightarrow> if svc_Name v \<in> svc_Name ` set s then None else Some v)"
  by (auto simp: ServiceSet_Difference_def service_set.get_fold_filter ServiceSet_Contains_def
      split: option.split)

lemma ServiceSet_Difference_mem:
  assumes "ServiceSet_inv r"
  shows "v \<in> set (ServiceSet_Difference r s) \<longleftrightarrow> v \<in> set r \<and> svc_Name v \<notin> svc_Name ` set s"
  using service_set.entries_iff [OF ServiceSet_Difference_inv, of v r s]
    service_set.entries_iff [OF assms, of v] ServiceSet_Difference_get [OF assms, of s "svc_Name v"]
  by (auto simp: ServiceSet_List_def tset_entries_def split: option.splits if_splits)

subsection \<open>Unit names\<close>

text \<open>
  \<open>PathToService\<close>: the systemd unit that podman's generator writes for a quadlet file.  The
  \<open>ReplaceAll\<close> replaces every occurrence of the extension in the name.
\<close>

definition quadlet_units :: "(string \<times> string) list" where
  "quadlet_units =
     [(''.container'', ''.service''), (''.kube'', ''.service''), (''.pod'', ''-pod.service''),
      (''.network'', ''-network.service''), (''.volume'', ''-volume.service''),
      (''.build'', ''-build.service''), (''.image'', ''-image.service'')]"

definition PathToService :: "string \<Rightarrow> string" where
  "PathToService name =
     (case map_of quadlet_units (Ext name) of
        Some unit \<Rightarrow> ReplaceAll name (Ext name) unit
      | None \<Rightarrow> name)"

lemma quadlet_units_ext:
  "map_of quadlet_units e = Some u \<Longrightarrow>
     \<exists>e'. e = CHR ''.'' # e' \<and> CHR ''.'' \<notin> set e' \<and> CHR ''/'' \<notin> set e'"
  by (auto simp: quadlet_units_def split: if_splits)

lemma PathToService_quadlet:
  assumes u: "map_of quadlet_units e = Some u" and stem: "CHR ''.'' \<notin> set stem"
  shows "PathToService (stem @ e) = stem @ u"
proof -
  from quadlet_units_ext [OF u] obtain e' where
    e: "e = CHR ''.'' # e'" "CHR ''.'' \<notin> set e'" "CHR ''/'' \<notin> set e'" by blast
  then have "Ext (stem @ e) = e" by (simp add: Ext_append)
  with u show ?thesis
    using ReplaceAll_suffix [OF e(1) stem e(2), of u] by (simp add: PathToService_def)
qed

lemma PathToService_other: "map_of quadlet_units (Ext n) = None \<Longrightarrow> PathToService n = n"
  by (simp add: PathToService_def)

lemma quadlet_units_service:
  "map_of quadlet_units e = Some u \<Longrightarrow> \<exists>v. u = v @ ''.service''"
  by (auto simp: quadlet_units_def split: if_splits)

lemma PathToService_idem: "PathToService (PathToService n) = PathToService n"
proof (cases "map_of quadlet_units (Ext n)")
  case None
  then show ?thesis by (simp add: PathToService_def)
next
  case (Some u)
  from quadlet_units_ext [OF Some] obtain e' where
    e: "Ext n = CHR ''.'' # e'" "CHR ''.'' \<notin> set e'" by blast
  from quadlet_units_service [OF Some] obtain v where v: "u = v @ ''.service''" by blast
  from Ext_suffix [of n] obtain p where "n = p @ Ext n" by (auto simp: suffix_def)
  then have "PathToService n = ReplaceAll p (Ext n) u @ u"
    using Some ReplaceAll_snoc [OF e, of p u] by (simp add: PathToService_def)
  with v have "Ext (PathToService n) = ''.service''"
    using Ext_append [of "''service''" "ReplaceAll p (Ext n) u @ v"] by simp
  then show ?thesis by (simp add: PathToService_def [of "PathToService n"] quadlet_units_def)
qed

subsection \<open>What can be done to a service\<close>

datatype ServiceAction =
    ServiceStart
  | ServiceStop
  | ServiceRestart
  | ServiceReloadUnits
  | ServiceEnable
  | ServiceDisable
  | ServiceReloadService

subsection \<open>GetService\<close>

text \<open>
  The connection to systemd is the library's: \<open>ListUnitsByNames\<close> returns the load states of the
  units it finds for a name and \<open>GetAllProperties\<close> their properties.
\<close>

record SystemdConn =
  dc_ListUnitsByNames :: "string \<Rightarrow> string list result"
  dc_GetAllProperties :: "string \<Rightarrow> any_map result"

definition GetService :: "SystemdConn \<Rightarrow> string \<Rightarrow> Service result" where
  "GetService conn name =
     (if name = [] then Inl (ErrMsg ''empty service name'')
      else case wrap_error ''couldn't list units'' (dc_ListUnitsByNames conn name) of
        Inl e \<Rightarrow> Inl e
      | Inr us \<Rightarrow>
          (case us of
             [] \<Rightarrow> Inl (ErrSentinel ErrServiceNotFound)
           | u # _ \<Rightarrow>
               (if u = ''not-found'' then Inl (ErrSentinel ErrServiceNotFound)
                else case dc_GetAllProperties conn name of
                  Inl e \<Rightarrow> Inl e
                | Inr props \<Rightarrow> fillFromProperties props (zero_Service\<lparr>svc_Name := name\<rparr>))))"

text \<open>
  What the planner and the executor rely on when they ask for a service: the answer carries the
  name that was asked for.  \<open>GetService\<close> provides it.
\<close>

locale service_lookup =
  fixes lookup :: "string \<Rightarrow> Service result"
  assumes lookup_name: "lookup n = Inr s \<Longrightarrow> svc_Name s = n"
begin

lemma lookup_names: "map lookup ns = map Inr ss \<Longrightarrow> map svc_Name ss = ns"
  by (induction ns arbitrary: ss) (auto dest: lookup_name)

lemma lookup_inj: "lookup m = Inr s \<Longrightarrow> lookup n = Inr s \<Longrightarrow> m = n"
  using lookup_name by blast

end

lemma fillFromProperties_name: "fillFromProperties props s = Inr t \<Longrightarrow> svc_Name t = svc_Name s"
  by (auto simp: fillFromProperties_def Let_def split: option.splits)

lemma GetService_name: "GetService conn n = Inr s \<Longrightarrow> svc_Name s = n"
  by (auto simp: GetService_def wrap_error_Inl split: if_splits sum.splits list.splits
      dest: fillFromProperties_name)

interpretation systemd_services: service_lookup "GetService conn" for conn
  by unfold_locales (rule GetService_name)

end
