(* ===== verification/Resources.thy ===== *)
theory Resources
  imports Services
begin

section \<open>Resources (pkg/components/resource.go, resourceset.go)\<close>

text \<open>
  The files, quadlets and secrets a component consists of, their kinds, the systemd unit and the
  podman object behind a quadlet, the split of a combined \<open>.quadlets\<close> file, the kind of a file
  name, and the linked hash map of resources by path.  The parser of systemd unit files is
  podman's: it is the parameter \<open>unit_parser\<close>.
\<close>

subsection \<open>Kinds\<close>

datatype ResourceType =
    ResourceTypeUnknown
  | ResourceTypeComponent
  | ResourceTypeHost
  | ResourceTypeContainer
  | ResourceTypeVolume
  | ResourceTypePod
  | ResourceTypeNetwork
  | ResourceTypeKube
  | ResourceTypeBuild
  | ResourceTypeImage
  | ResourceTypeAppFile
  | ResourceTypeCombined
  | ResourceTypeDropinDir
  | ResourceTypeDropin
  | ResourceTypeFile
  | ResourceTypeManifest
  | ResourceTypeScript
  | ResourceTypeDirectory
  | ResourceTypeService
  | ResourceTypePodmanSecret

record Resource =
  res_Path :: string
  res_HostObject :: string
  res_Parent :: string
  res_Kind :: ResourceType
  res_Template :: bool
  res_Content :: string

definition zero_Resource :: Resource where
  "zero_Resource =
     \<lparr>res_Path = [], res_HostObject = [], res_Parent = [], res_Kind = ResourceTypeUnknown,
      res_Template = False, res_Content = []\<rparr>"

definition toExt :: "ResourceType \<Rightarrow> string result" where
  "toExt t = (case t of
       ResourceTypeBuild \<Rightarrow> Inr ''build''
     | ResourceTypeComponent \<Rightarrow> Inr ''component''
     | ResourceTypeContainer \<Rightarrow> Inr ''container''
     | ResourceTypeImage \<Rightarrow> Inr ''image''
     | ResourceTypeKube \<Rightarrow> Inr ''kube''
     | ResourceTypeManifest \<Rightarrow> Inr ''toml''
     | ResourceTypeNetwork \<Rightarrow> Inr ''network''
     | ResourceTypePod \<Rightarrow> Inr ''pod''
     | ResourceTypeScript \<Rightarrow> Inr ''sh''
     | ResourceTypeVolume \<Rightarrow> Inr ''volume''
     | ResourceTypeAppFile \<Rightarrow> Inr ''app''
     | ResourceTypeDropin \<Rightarrow> Inr ''conf''
     | _ \<Rightarrow> Inl (ErrMsg ''resource type wouldn't have file extension''))"

definition Resource_Validate :: "Resource \<Rightarrow> go_error option" where
  "Resource_Validate r =
     (if res_Kind r = ResourceTypeHost then
        (if res_Path r \<noteq> [] then Some (ErrMsg ''can't name host resource'') else None)
      else if res_Kind r = ResourceTypeUnknown then Some (ErrMsg ''unknown resource type'')
      else if res_Path r = [] then Some (ErrMsg ''resource without name'')
      else if res_Parent r = [] then Some (ErrMsg ''resource without parent component'')
      else None)"

definition Filepath :: "Resource \<Rightarrow> string" where
  "Filepath r = (if res_Template r then res_Path r @ ''.gotmpl'' else res_Path r)"

definition Resource_Name :: "Resource \<Rightarrow> string" where
  "Resource_Name r =
     (if res_Template r then Base (res_Path r @ ''.gotmpl'') else Base (res_Path r))"

definition Resource_Service :: "Resource \<Rightarrow> string" where
  "Resource_Service r =
     (let name = Base (res_Path r) in
      case res_Kind r of
        ResourceTypeContainer \<Rightarrow> ReplaceAll name ''.container'' ''.service''
      | ResourceTypeKube \<Rightarrow> ReplaceAll name ''.kube'' ''.service''
      | ResourceTypePod \<Rightarrow> ReplaceAll name ''.pod'' ''-pod.service''
      | ResourceTypeNetwork \<Rightarrow> ReplaceAll name ''.network'' ''-network.service''
      | ResourceTypeVolume \<Rightarrow> ReplaceAll name ''.volume'' ''-volume.service''
      | ResourceTypeBuild \<Rightarrow> ReplaceAll name ''.build'' ''-build.service''
      | ResourceTypeImage \<Rightarrow> ReplaceAll name ''.image'' ''-image.service''
      | ResourceTypeService \<Rightarrow> res_Path r
      | _ \<Rightarrow> [])"

definition quadlet_kinds :: "ResourceType list" where
  "quadlet_kinds =
     [ResourceTypeContainer, ResourceTypeKube, ResourceTypeVolume, ResourceTypeNetwork,
      ResourceTypePod, ResourceTypeBuild, ResourceTypeImage, ResourceTypeAppFile,
      ResourceTypeDropin]"

definition IsQuadlet :: "Resource \<Rightarrow> bool" where
  "IsQuadlet r \<longleftrightarrow> res_Kind r \<in> set quadlet_kinds"

definition file_kinds :: "ResourceType list" where
  "file_kinds =
     [ResourceTypeContainer, ResourceTypeFile, ResourceTypeKube, ResourceTypeManifest,
      ResourceTypeNetwork, ResourceTypePod, ResourceTypeImage, ResourceTypeBuild,
      ResourceTypeScript, ResourceTypeVolume, ResourceTypeService]"

definition IsFile :: "Resource \<Rightarrow> bool" where
  "IsFile r \<longleftrightarrow> res_Kind r \<in> set file_kinds"

definition groupForKind :: "ResourceType \<Rightarrow> string" where
  "groupForKind t = (case t of
       ResourceTypeContainer \<Rightarrow> ''Container''
     | ResourceTypeVolume \<Rightarrow> ''Volume''
     | ResourceTypeNetwork \<Rightarrow> ''Network''
     | ResourceTypePod \<Rightarrow> ''Pod''
     | ResourceTypeBuild \<Rightarrow> ''Build''
     | ResourceTypeImage \<Rightarrow> ''Image''
     | ResourceTypeKube \<Rightarrow> ''Kube''
     | _ \<Rightarrow> ''INVALID'')"

subsection \<open>The podman object behind a quadlet\<close>

text \<open>
  \<open>up_Parse\<close> is \<open>parser.NewUnitFile\<close> and \<open>Parse\<close>; the other fields are the methods of the
  parsed file.
\<close>

record 'u unit_parser =
  up_Parse :: "string \<Rightarrow> 'u result"
  up_Lookup :: "'u \<Rightarrow> string \<Rightarrow> string \<Rightarrow> string option"
  up_HasGroup :: "'u \<Rightarrow> string \<Rightarrow> bool"
  up_HasKey :: "'u \<Rightarrow> string \<Rightarrow> string \<Rightarrow> bool"
  up_LookupAll :: "'u \<Rightarrow> string \<Rightarrow> string \<Rightarrow> string list"

definition nameOption :: "ResourceType \<Rightarrow> string" where
  "nameOption t = (case t of
       ResourceTypeContainer \<Rightarrow> ''ContainerName''
     | ResourceTypeVolume \<Rightarrow> ''VolumeName''
     | ResourceTypeNetwork \<Rightarrow> ''NetworkName''
     | ResourceTypePod \<Rightarrow> ''PodName''
     | ResourceTypeBuild \<Rightarrow> ''ImageTag''
     | ResourceTypeImage \<Rightarrow> ''ImageTag''
     | ResourceTypeKube \<Rightarrow> ''Yaml''
     | _ \<Rightarrow> [])"

definition hostObjectFromUnitFile :: "'u unit_parser \<Rightarrow> Resource \<Rightarrow> 'u \<Rightarrow> string result" where
  "hostObjectFromUnitFile up r unitfile =
     (case up_Lookup up unitfile (groupForKind (res_Kind r)) (nameOption (res_Kind r)) of
        Some name \<Rightarrow> Inr name
      | None \<Rightarrow>
          (if res_Kind r = ResourceTypeImage then
             (case up_Lookup up unitfile (groupForKind (res_Kind r)) ''Image'' of
                None \<Rightarrow> Inl (ErrWrapped ''bad image resource'' (ErrSentinel ErrInvalidResource))
              | Some name \<Rightarrow> Inr name)
           else Inr (''systemd-'' @ TrimSuffix (Base (res_Path r)) (Ext (res_Path r)))))"

definition GetHostObject :: "'u unit_parser \<Rightarrow> Resource \<Rightarrow> string \<Rightarrow> string result" where
  "GetHostObject up r unitData =
     (if \<not> IsQuadlet r then Inl (ErrMsg ''can't get host object for non-quadlet'')
      else if res_Kind r = ResourceTypeAppFile then Inr []
      else case wrap_error ''error parsing systemd unit file'' (up_Parse up unitData) of
        Inl e \<Rightarrow> Inl e
      | Inr unitfile \<Rightarrow> hostObjectFromUnitFile up r unitfile)"

definition QueryQuadletData :: "'u unit_parser \<Rightarrow> Resource \<Rightarrow> string \<Rightarrow> string list result" where
  "QueryQuadletData up r key =
     (if \<not> IsQuadlet r then Inl (ErrMsg ''not a quadlet'')
      else case wrap_error ''unable to parse quadlet unit data'' (up_Parse up (res_Content r)) of
        Inl e \<Rightarrow> Inl e
      | Inr unitfile \<Rightarrow>
          (let group = groupForKind (res_Kind r) in
           if \<not> up_HasGroup up unitfile group
           then Inl (ErrWrapped [] (ErrSentinel ErrQuadletNoGroup))
           else if \<not> up_HasKey up unitfile group key
           then Inl (ErrWrapped ''quadlet group'' (ErrSentinel ErrQuadletNoKey))
           else Inr (up_LookupAll up unitfile group key)))"

subsection \<open>Combined quadlets\<close>

text \<open>
  One chunk of a \<open>.quadlets\<close> file: everything up to the \<open># FileName=\<close> line is dropped, blank
  lines are dropped.
\<close>

fun quadlet_chunk_lines :: "string \<Rightarrow> string list \<Rightarrow> string list \<Rightarrow> (string \<times> string list) result" where
  "quadlet_chunk_lines filename cleanLines [] = Inr (filename, cleanLines)"
| "quadlet_chunk_lines filename cleanLines (line # rest) =
     (if TrimSpace line = [] then quadlet_chunk_lines filename cleanLines rest
      else if filename = [] then
        (if HasPrefix line ''# FileName'' then
           (let name = Split line ''='' in
            if length name < 2 \<or> name ! 1 = [] then Inl (ErrMsg ''bad filename'')
            else quadlet_chunk_lines (name ! 1) cleanLines rest)
         else quadlet_chunk_lines filename cleanLines rest)
      else quadlet_chunk_lines filename (cleanLines @ [line]) rest)"

definition newline :: string where
  "newline = [CHR 0x0A]"

definition parseQuadletChunk :: "string \<Rightarrow> (string \<times> string) result" where
  "parseQuadletChunk data =
     (case quadlet_chunk_lines [] [] (Split data newline) of
        Inl e \<Rightarrow> Inl e
      | Inr (filename, cleanLines) \<Rightarrow> Inr (filename, Join cleanLines newline))"

text \<open>The kind of a chunk: the last quadlet group of the code's list that the file has.\<close>

definition kind_of_unitfile :: "'u unit_parser \<Rightarrow> 'u \<Rightarrow> ResourceType" where
  "kind_of_unitfile up u =
     (let k = ResourceTypeUnknown;
          k = (if up_HasGroup up u ''Container'' then ResourceTypeContainer else k);
          k = (if up_HasGroup up u ''Volume'' then ResourceTypeVolume else k);
          k = (if up_HasGroup up u ''Build'' then ResourceTypeBuild else k);
          k = (if up_HasGroup up u ''Image'' then ResourceTypeImage else k);
          k = (if up_HasGroup up u ''Network'' then ResourceTypeNetwork else k);
          k = (if up_HasGroup up u ''Pod'' then ResourceTypePod else k);
          k = (if up_HasGroup up u ''Kube'' then ResourceTypeKube else k)
      in if k = ResourceTypeUnknown then ResourceTypeService else k)"

text \<open>
  One iteration of the loop.  The manifest chunk builds a resource and then continues without
  appending it.
\<close>

definition resource_of_chunk :: "'u unit_parser \<Rightarrow> string \<Rightarrow> string \<Rightarrow> Resource list result" where
  "resource_of_chunk up parent quadlet =
     (case parseQuadletChunk quadlet of
        Inl e \<Rightarrow> Inl e
      | Inr (filename, content) \<Rightarrow>
     (if filename = ''MANIFEST.toml'' then Inr []
      else case wrap_error ''error parsing systemd unit file'' (up_Parse up content) of
        Inl e \<Rightarrow> Inl e
      | Inr unitfile \<Rightarrow>
     (let kind = kind_of_unitfile up unitfile in
      case toExt kind of
        Inl e \<Rightarrow> Inl e
      | Inr ext \<Rightarrow>
     (let res = zero_Resource\<lparr>res_Kind := kind, res_Content := content, res_Parent := parent,
                              res_Path := filename @ ''.'' @ ext\<rparr> in
      case hostObjectFromUnitFile up res unitfile of
        Inl e \<Rightarrow> Inl e
      | Inr ho \<Rightarrow> Inr [res\<lparr>res_HostObject := ho\<rparr>]))))"

definition GetResourcesFromQuadletsFile ::
    "'u unit_parser \<Rightarrow> string \<Rightarrow> string \<Rightarrow> Resource list result" where
  "GetResourcesFromQuadletsFile up parent quadletData =
     collect (resource_of_chunk up parent) (Split quadletData (''---'' @ newline))"

subsection \<open>The kind of a file name (component.go)\<close>

definition word_start :: "char \<Rightarrow> bool" where
  "word_start c \<longleftrightarrow>
     (CHR ''a'' \<le> c \<and> c \<le> CHR ''z'') \<or> (CHR ''A'' \<le> c \<and> c \<le> CHR ''Z'') \<or>
     (CHR ''0'' \<le> c \<and> c \<le> CHR ''9'') \<or> c = CHR ''_''"

definition word_rest :: "char \<Rightarrow> bool" where
  "word_rest c \<longleftrightarrow> word_start c \<or> c = CHR ''-''"

definition lower_case :: "char \<Rightarrow> bool" where
  "lower_case c \<longleftrightarrow> CHR ''a'' \<le> c \<and> c \<le> CHR ''z''"

text \<open>
  \<open>dropInDirRegex\<close>: an optional word and a dot, lower-case letters, and \<open>.d\<close> at the end.  No
  character class holds a dot, so the dots of the string decide where the groups end; the
  \<open>-?\<close> of the expression is covered by the class before it.
\<close>

definition dropInDirRegex :: "string \<Rightarrow> bool" where
  "dropInDirRegex s =
     (case Split s ''.'' of
        [kind, d] \<Rightarrow> kind \<noteq> [] \<and> list_all lower_case kind \<and> d = ''d''
      | [w, kind, d] \<Rightarrow>
          (case w of [] \<Rightarrow> False | c # cs \<Rightarrow> word_start c \<and> list_all word_rest cs) \<and>
          kind \<noteq> [] \<and> list_all lower_case kind \<and> d = ''d''
      | _ \<Rightarrow> False)"

definition IsDropin :: "string \<Rightarrow> bool" where
  "IsDropin file = (if Dir file = ''.'' then False else dropInDirRegex (Dir file))"

definition IsDropinDir :: "string \<Rightarrow> bool" where
  "IsDropinDir file = dropInDirRegex file"

definition IsTemplate :: "string \<Rightarrow> bool" where
  "IsTemplate file = HasSuffix file ''.gotmpl''"

definition service_exts :: "string list" where
  "service_exts =
     [''.service'', ''.timer'', ''.target'', ''.socket'', ''.path'', ''.mount'', ''.automount'',
      ''.swap'', ''.slice'', ''.scope'', ''.device'']"

definition FindResourceType :: "string \<Rightarrow> ResourceType" where
  "FindResourceType file =
     (let filename = TrimSuffix file ''.gotmpl''; e = Ext filename in
      if e = ''.pod'' then ResourceTypePod
      else if e = ''.container'' then ResourceTypeContainer
      else if e = ''.network'' then ResourceTypeNetwork
      else if e = ''.volume'' then ResourceTypeVolume
      else if e = ''.build'' then ResourceTypeBuild
      else if e = ''.image'' then ResourceTypeImage
      else if e = ''.kube'' then ResourceTypeKube
      else if e = ''.app'' then ResourceTypeAppFile
      else if e = ''.quadlets'' then ResourceTypeCombined
      else if e = ''.toml'' then
        (if Base file = ComponentManifestFile then ResourceTypeManifest else ResourceTypeFile)
      else if e \<in> set service_exts then ResourceTypeService
      else if e = ''.sh'' then ResourceTypeScript
      else if e = ''.conf'' then
        (if IsDropin file then ResourceTypeDropin else ResourceTypeFile)
      else if file = [] then ResourceTypeHost
      else if last file = CHR ''/'' then
        (if IsDropinDir file then ResourceTypeDropinDir else ResourceTypeDirectory)
      else ResourceTypeFile)"

subsection \<open>Resource sets\<close>

type_synonym ResourceSet = "(string, Resource) lhmap"

definition NewResourceSet :: ResourceSet where
  "NewResourceSet = []"

definition ResourceSet_Contains :: "ResourceSet \<Rightarrow> string \<Rightarrow> bool" where
  "ResourceSet_Contains r name = (case lhm_get r name of Some _ \<Rightarrow> True | None \<Rightarrow> False)"

definition ResourceSet_Get :: "ResourceSet \<Rightarrow> string \<Rightarrow> Resource result" where
  "ResourceSet_Get r name =
     (case lhm_get r name of
        None \<Rightarrow> Inl (ErrSentinel ErrResourceNotFound)
      | Some res \<Rightarrow> Inr res)"

definition ResourceSet_Set :: "Resource \<Rightarrow> ResourceSet \<Rightarrow> ResourceSet" where
  "ResourceSet_Set res r = lhm_put (res_Path res) res r"

definition ResourceSet_Add :: "Resource \<Rightarrow> ResourceSet \<Rightarrow> ResourceSet result" where
  "ResourceSet_Add res r =
     (case lhm_get r (res_Path res) of
        Some _ \<Rightarrow> Inl (ErrMsg ''resource already in set'')
      | None \<Rightarrow> Inr (lhm_put (res_Path res) res r))"

definition ResourceSet_Delete :: "string \<Rightarrow> ResourceSet \<Rightarrow> ResourceSet" where
  "ResourceSet_Delete name r = lhm_remove name r"

definition ResourceSet_Size :: "ResourceSet \<Rightarrow> nat" where
  "ResourceSet_Size r = length r"

definition ResourceSet_List :: "ResourceSet \<Rightarrow> Resource list" where
  "ResourceSet_List r = lhm_values r"

text \<open>\<open>_ = resultSet.Add(element)\<close>: a duplicate leaves the set as it is.\<close>

definition add_ignoring :: "Resource \<Rightarrow> ResourceSet \<Rightarrow> ResourceSet" where
  "add_ignoring res r = (case ResourceSet_Add res r of Inl _ \<Rightarrow> r | Inr r' \<Rightarrow> r')"

definition ResourceSet_Union :: "ResourceSet \<Rightarrow> ResourceSet \<Rightarrow> ResourceSet" where
  "ResourceSet_Union r other =
     fold add_ignoring (ResourceSet_List other) (fold add_ignoring (ResourceSet_List r) NewResourceSet)"

definition ResourceSet_Intersection :: "ResourceSet \<Rightarrow> ResourceSet \<Rightarrow> ResourceSet" where
  "ResourceSet_Intersection r other =
     fold add_ignoring
       (filter (\<lambda>e. ResourceSet_Contains other (res_Path e)) (ResourceSet_List r)) NewResourceSet"

definition ResourceSet_Difference :: "ResourceSet \<Rightarrow> ResourceSet \<Rightarrow> ResourceSet" where
  "ResourceSet_Difference r other =
     fold add_ignoring
       (filter (\<lambda>e. \<not> ResourceSet_Contains other (res_Path e)) (ResourceSet_List r)) NewResourceSet"

definition ResourceSet_inv :: "ResourceSet \<Rightarrow> bool" where
  "ResourceSet_inv r = lhm_inv res_Path r"

interpretation resource_set:
  deletable_store NewResourceSet ResourceSet_Set lhm_get ResourceSet_List res_Path ResourceSet_inv
    ResourceSet_Delete
  using lhm_deletable_store [of res_Path]
  by (simp add: NewResourceSet_def ResourceSet_Set_def [abs_def] ResourceSet_List_def [abs_def]
      ResourceSet_inv_def [abs_def] ResourceSet_Delete_def [abs_def])

end
