(* ===== verification/Components.thy ===== *)
theory Components
  imports Resources
begin

section \<open>Components (pkg/components/component.go, service\_config\_set.go)\<close>

text \<open>
  A component: its name and instance, its resources, its services and its lifecycle state; how an
  instance name is parsed and printed, how a manifest is applied and how the service configuration
  becomes the set of services the host should run.  The pointers \<open>Resources\<close> and
  \<open>ServiceConfigs\<close> are options; \<open>Component_Validate\<close> rejects a nil one, and the operations
  that read them are called on validated components (\<open>Component_Validate_pointers\<close>).
\<close>

subsection \<open>Service configurations\<close>

type_synonym ServiceConfigSet = "ServiceResourceConfig list"

definition NewServiceConfigSet :: ServiceConfigSet where
  "NewServiceConfigSet = []"

definition ServiceConfigSet_Add :: "ServiceResourceConfig \<Rightarrow> ServiceConfigSet \<Rightarrow> ServiceConfigSet" where
  "ServiceConfigSet_Add src s = tset_add src_Service src s"

definition ServiceConfigSet_List :: "ServiceConfigSet \<Rightarrow> ServiceResourceConfig list" where
  "ServiceConfigSet_List s = tset_entries s"

definition ServiceConfigSet_ListServiceNames :: "ServiceConfigSet \<Rightarrow> string list" where
  "ServiceConfigSet_ListServiceNames s = map src_Service (ServiceConfigSet_List s)"

definition ServiceConfigSet_Get :: "ServiceConfigSet \<Rightarrow> string \<Rightarrow> ServiceResourceConfig result" where
  "ServiceConfigSet_Get s name =
     (case tset_get src_Service s name of
        Some src \<Rightarrow> Inr src
      | None \<Rightarrow> Inl (ErrSentinel ErrServiceConfigNotFound))"

definition ServiceConfigSet_inv :: "ServiceConfigSet \<Rightarrow> bool" where
  "ServiceConfigSet_inv s = tset_inv src_Service s"

interpretation config_set:
  sorted_store NewServiceConfigSet ServiceConfigSet_Add "tset_get src_Service"
    ServiceConfigSet_List src_Service ServiceConfigSet_inv
  using tset_sorted_store [of src_Service]
  by (simp add: NewServiceConfigSet_def ServiceConfigSet_Add_def [abs_def]
      ServiceConfigSet_List_def [abs_def] ServiceConfigSet_inv_def [abs_def])

lemma ServiceConfigSet_Get_Inr [simp]:
  "ServiceConfigSet_Get s n = Inr v \<longleftrightarrow> tset_get src_Service s n = Some v"
  by (auto simp: ServiceConfigSet_Get_def split: option.splits)

subsection \<open>The component\<close>

datatype ComponentLifecycle =
    StateUnknown
  | StateStale
  | StateFresh
  | StateOK
  | StateMayNeedUpdate
  | StateNeedUpdate
  | StateNeedRemoval
  | StateRemoved
  | StateRoot

record Component =
  comp_Name :: string
  comp_Instance :: string
  comp_Overrides :: "string list"
  comp_Settings :: Settings
  comp_Resources :: "ResourceSet option"
  comp_State :: ComponentLifecycle
  comp_Defaults :: any_map
  comp_ServiceConfigs :: "ServiceConfigSet option"
  comp_Version :: int

definition DefaultComponentVersion :: int where
  "DefaultComponentVersion = 1"

definition resources_of :: "Component \<Rightarrow> ResourceSet" where
  "resources_of c = (case comp_Resources c of Some r \<Rightarrow> r | None \<Rightarrow> NewResourceSet)"

definition configs_of :: "Component \<Rightarrow> ServiceConfigSet" where
  "configs_of c = (case comp_ServiceConfigs c of Some s \<Rightarrow> s | None \<Rightarrow> NewServiceConfigSet)"

definition NewComponent :: "string \<Rightarrow> Component" where
  "NewComponent name =
     (let parts = Split name ''@'';
          (nm, inst) = (if Contains name ''@'' then (parts ! 0, parts ! 1) else (name, []))
      in \<lparr>comp_Name = nm, comp_Instance = inst, comp_Overrides = [], comp_Settings = zero_Settings,
          comp_Resources = Some NewResourceSet, comp_State = StateStale, comp_Defaults = [],
          comp_ServiceConfigs = Some NewServiceConfigSet, comp_Version = 0\<rparr>)"

definition NewRootComponent :: Component where
  "NewRootComponent =
     \<lparr>comp_Name = ''root'', comp_Instance = [], comp_Overrides = [], comp_Settings = zero_Settings,
      comp_Resources = Some NewResourceSet, comp_State = StateRoot, comp_Defaults = [],
      comp_ServiceConfigs = Some NewServiceConfigSet, comp_Version = 0\<rparr>"

definition IsInstanced :: "Component \<Rightarrow> bool" where
  "IsInstanced c \<longleftrightarrow> comp_Instance c \<noteq> []"

definition InstanceName :: "Component \<Rightarrow> string" where
  "InstanceName c =
     (if comp_Instance c = [] then comp_Name c else comp_Name c @ ''@'' @ comp_Instance c)"

definition Instantiate :: "Component \<Rightarrow> string \<Rightarrow> string" where
  "Instantiate c template =
     (if comp_Instance c \<noteq> [] \<and> Contains template ''@.''
      then ReplaceAll template ''@'' (''@'' @ comp_Instance c) else template)"

definition InstantiateResource :: "Component \<Rightarrow> Resource \<Rightarrow> Resource" where
  "InstantiateResource c template =
     (if comp_Instance c = [] then template
      else let template = template\<lparr>res_Parent := InstanceName c\<rparr> in
        (if Contains (res_Path template) ''@.''
         then template\<lparr>res_Path := ReplaceAll (res_Path template) ''@'' (''@'' @ comp_Instance c)\<rparr>
         else template))"

definition InstantiateServiceConfig ::
    "Component \<Rightarrow> ServiceResourceConfig \<Rightarrow> ServiceResourceConfig" where
  "InstantiateServiceConfig c template =
     (if comp_Instance c = [] then template
      else if Contains (src_Service template) ''@.''
      then template\<lparr>src_Service := ReplaceAll (src_Service template) ''@'' (''@'' @ comp_Instance c)\<rparr>
      else template)"

definition Component_Validate :: "Component \<Rightarrow> go_error option" where
  "Component_Validate c =
     (if comp_Name c = [] then Some (ErrMsg ''component without name'')
      else if comp_State c = StateUnknown then Some (ErrMsg ''component with unknown state'')
      else if comp_Resources c = None then Some (ErrMsg ''component without resource set'')
      else if comp_ServiceConfigs c = None then Some (ErrMsg ''component without services set'')
      else if set_SetupScript (comp_Settings c) \<noteq> [] \<and> set_CleanupScript (comp_Settings c) = []
      then Some (ErrMsg ''component has setup script but no cleanup script'')
      else if set_SetupScript (comp_Settings c) = [] \<and> set_CleanupScript (comp_Settings c) \<noteq> []
      then Some (ErrMsg ''component has cleanup script but no setup script'')
      else None)"

definition ToResource :: "Component \<Rightarrow> Resource" where
  "ToResource c =
     zero_Resource\<lparr>res_Path := comp_Name c, res_Parent := comp_Name c,
                   res_Kind := ResourceTypeComponent\<rparr>"

text \<open>\<open>GetManifest\<close>: decoding the TOML is the parameter.\<close>

definition Component_GetManifest ::
    "(string \<Rightarrow> ComponentManifest result) \<Rightarrow> Component \<Rightarrow> ComponentManifest result" where
  "Component_GetManifest decode c =
     (case comp_Resources c of
        None \<Rightarrow> Inl (ErrMsg ''unloaded component'')
      | Some rs \<Rightarrow>
     (case ResourceSet_Get rs ComponentManifestFile of
        Inl e \<Rightarrow> Inl e
      | Inr manResource \<Rightarrow>
          (if res_Content manResource = [] then Inl (ErrSentinel ErrUnloadedManifest)
           else decode (res_Content manResource))))"

subsection \<open>Applying a manifest\<close>

definition secret_resource :: "Component \<Rightarrow> string \<Rightarrow> Resource" where
  "secret_resource c s =
     zero_Resource\<lparr>res_Path := s, res_Kind := ResourceTypePodmanSecret, res_Parent := comp_Name c\<rparr>"

fun apply_services :: "Component \<Rightarrow> ServiceResourceConfig list \<Rightarrow> Component result" where
  "apply_services c [] = Inr c"
| "apply_services c (s # ss) =
     (case ServiceResourceConfig_Validate s of
        Some e \<Rightarrow> Inl (ErrWrapped ''invalid service for component'' e)
      | None \<Rightarrow>
          apply_services
            (c\<lparr>comp_ServiceConfigs :=
                 Some (ServiceConfigSet_Add (InstantiateServiceConfig c s) (configs_of c))\<rparr>) ss)"

text \<open>
  The resources the manifest lists as scripts are added again with the kind of a script, to the
  set they came from.
\<close>

fun apply_scripts :: "string list \<Rightarrow> Resource list \<Rightarrow> ResourceSet \<Rightarrow> ResourceSet result" where
  "apply_scripts scripts [] rs = Inr rs"
| "apply_scripts scripts (r # rest) rs =
     (if res_Kind r \<noteq> ResourceTypeScript \<and> res_Path r \<in> set scripts then
        (case ResourceSet_Add (r\<lparr>res_Kind := ResourceTypeScript\<rparr>) rs of
           Inl e \<Rightarrow> Inl e
         | Inr rs' \<Rightarrow> apply_scripts scripts rest rs')
      else apply_scripts scripts rest rs)"

definition ApplyManifest :: "Component \<Rightarrow> ComponentManifest \<Rightarrow> Component result" where
  "ApplyManifest c man =
     (let c = c\<lparr>comp_Defaults :=
                  (case cm_Defaults man of
                     None \<Rightarrow> comp_Defaults c
                   | Some ds \<Rightarrow> map_update_all (comp_Defaults c) ds)\<rparr>;
          c = c\<lparr>comp_Settings := cm_Settings man\<rparr>;
          secretResources = map (secret_resource c) (sort (cm_Secrets man))
      in case apply_services c (cm_Services man) of
        Inl e \<Rightarrow> Inl e
      | Inr c \<Rightarrow>
     (case apply_scripts (cm_Scripts man) (ResourceSet_List (resources_of c)) (resources_of c) of
        Inl e \<Rightarrow> Inl e
      | Inr rs \<Rightarrow> Inr (c\<lparr>comp_Resources := Some (fold ResourceSet_Set secretResources rs)\<rparr>)))"

subsection \<open>The services a component wants\<close>

definition service_of_config :: "ServiceResourceConfig \<Rightarrow> Service" where
  "service_of_config sc =
     \<lparr>svc_Name = src_Service sc,
      svc_State = (if src_Stopped sc \<or> src_Oneshot sc then StateInternalWildcard_s else StateActive_s),
      svc_Type = [],
      svc_Enabled =
        (if src_Disabled sc \<or> \<not> src_Static sc then EnableStateDisabled else EnableStateEnabled)\<rparr>"

definition ToServiceState :: "Component \<Rightarrow> ServiceSet" where
  "ToServiceState c =
     fold (\<lambda>sc result. ServiceSet_Add (service_of_config sc) result)
       (ServiceConfigSet_List (configs_of c)) NewServiceSet"

definition ToAppfile :: "Component \<Rightarrow> string" where
  "ToAppfile c =
     Join (map res_Path (filter IsQuadlet (ResourceSet_List (resources_of c)))) newline"

subsection \<open>The invariant\<close>

text \<open>
  A component is well formed when its resources are keyed by their paths and its service
  configurations are ordered by service name without repetition.
\<close>

definition comp_inv :: "Component \<Rightarrow> bool" where
  "comp_inv c \<longleftrightarrow> ResourceSet_inv (resources_of c) \<and> ServiceConfigSet_inv (configs_of c)"

lemma Component_Validate_pointers:
  "Component_Validate c = None \<Longrightarrow>
     comp_Resources c = Some (resources_of c) \<and> comp_ServiceConfigs c = Some (configs_of c)"
  by (auto simp: Component_Validate_def resources_of_def configs_of_def split: if_splits option.splits)

lemma NewComponent_inv [inv_intros]: "comp_inv (NewComponent n)"
  by (simp add: comp_inv_def NewComponent_def resources_of_def configs_of_def Let_def
      resource_set.inv_empty config_set.inv_empty split: prod.split)

lemma apply_services_inv:
  "apply_services c ss = Inr c' \<Longrightarrow> comp_inv c \<Longrightarrow> comp_inv c'"
proof (induction c ss rule: apply_services.induct)
  case (1 c)
  then show ?case by simp
next
  case (2 c s ss)
  then show ?case
    by (auto simp: comp_inv_def resources_of_def configs_of_def config_set.inv_put
        split: option.splits)
qed

lemma apply_services_frame:
  "apply_services c ss = Inr c' \<Longrightarrow>
     comp_Name c' = comp_Name c \<and> comp_Instance c' = comp_Instance c \<and>
     comp_Settings c' = comp_Settings c \<and> comp_Resources c' = comp_Resources c \<and>
     comp_State c' = comp_State c \<and> comp_Defaults c' = comp_Defaults c \<and>
     comp_Version c' = comp_Version c"
  by (induction c ss rule: apply_services.induct) (auto split: option.splits)

text \<open>
  The scripts loop adds a resource that is in the set already, so it either changes nothing or
  fails.
\<close>

lemma apply_scripts_unchanged:
  "apply_scripts scripts rest rs = Inr rs' \<Longrightarrow> set rest \<subseteq> set (ResourceSet_List rs) \<Longrightarrow>
   ResourceSet_inv rs \<Longrightarrow> rs' = rs"
proof (induction scripts rest rs rule: apply_scripts.induct)
  case (1 scripts rs)
  then show ?case by simp
next
  case (2 scripts r rest rs)
  from "2.prems" have "lhm_get rs (res_Path r) = Some r"
    by (simp add: resource_set.entries_iff [symmetric])
  with 2 show ?case by (auto simp: ResourceSet_Add_def split: if_splits)
qed

lemma apply_scripts_fails:
  assumes "r \<in> set rest" and "res_Kind r \<noteq> ResourceTypeScript" and "res_Path r \<in> set scripts"
    and "set rest \<subseteq> set (ResourceSet_List rs)" and "ResourceSet_inv rs"
  shows "\<exists>e. apply_scripts scripts rest rs = Inl e"
  using assms
proof (induction scripts rest rs rule: apply_scripts.induct)
  case (1 scripts rs)
  then show ?case by simp
next
  case (2 scripts q rest rs)
  from "2.prems" have "lhm_get rs (res_Path q) = Some q"
    by (simp add: resource_set.entries_iff [symmetric])
  then have "\<exists>e. ResourceSet_Add (q\<lparr>res_Kind := ResourceTypeScript\<rparr>) rs = Inl e"
    by (simp add: ResourceSet_Add_def)
  with 2 show ?case by auto
qed

lemma ApplyManifest_inv [inv_intros]:
  assumes "ApplyManifest c man = Inr c'" and "comp_inv c"
  shows "comp_inv c'"
proof -
  let ?c0 = "c\<lparr>comp_Defaults :=
      (case cm_Defaults man of None \<Rightarrow> comp_Defaults c | Some ds \<Rightarrow> map_update_all (comp_Defaults c) ds)\<rparr>
      \<lparr>comp_Settings := cm_Settings man\<rparr>"
  from assms(1) obtain c1 rs where
    c1: "apply_services ?c0 (cm_Services man) = Inr c1" and
    rs: "apply_scripts (cm_Scripts man) (ResourceSet_List (resources_of c1)) (resources_of c1) = Inr rs" and
    c': "c' = c1\<lparr>comp_Resources :=
           Some (fold ResourceSet_Set (map (secret_resource ?c0) (sort (cm_Secrets man))) rs)\<rparr>"
    by (auto simp: ApplyManifest_def Let_def split: sum.splits)
  have "comp_inv ?c0" using assms(2) by (simp add: comp_inv_def resources_of_def configs_of_def)
  with c1 have inv1: "comp_inv c1" by (rule apply_services_inv)
  then have "ResourceSet_inv (resources_of c1)" by (simp add: comp_inv_def)
  with rs have "ResourceSet_inv rs" using apply_scripts_unchanged by blast
  then have "ResourceSet_inv (fold ResourceSet_Set (map (secret_resource ?c0) (sort (cm_Secrets man))) rs)"
    by (rule resource_set.inv_fold)
  with inv1 c' show ?thesis by (simp add: comp_inv_def resources_of_def configs_of_def)
qed

lemma tset_fold_sorted:
  "tset_inv f (xs @ ys) \<Longrightarrow> fold (tset_add f) ys xs = xs @ ys"
proof (induction ys arbitrary: xs)
  case Nil
  then show ?case by simp
next
  case (Cons y ys)
  from Cons.prems have "tset_add f y xs = xs @ [y]"
    by (intro tset_add_snoc) (simp add: tset_inv_def sorted_wrt_append)
  with Cons show ?case by simp
qed

text \<open>The wanted services are the configurations, one by one and in their order.\<close>

lemma ToServiceState_eq:
  assumes "ServiceConfigSet_inv (configs_of c)"
  shows "ToServiceState c = map service_of_config (configs_of c)"
proof -
  have "tset_inv svc_Name (map service_of_config (configs_of c))"
    using assms by (simp add: ServiceConfigSet_inv_def tset_inv_def service_of_config_def comp_def)
  then have "fold (tset_add svc_Name) (map service_of_config (configs_of c)) [] =
      map service_of_config (configs_of c)"
    using tset_fold_sorted [of svc_Name "[]"] by simp
  then show ?thesis
    by (simp add: ToServiceState_def ServiceConfigSet_List_def tset_entries_def NewServiceSet_def
        ServiceSet_Add_def fold_map comp_def)
qed

lemma ToServiceState_inv [inv_intros]: "ServiceSet_inv (ToServiceState c)"
proof -
  have "ServiceSet_inv (fold ServiceSet_Add (map service_of_config xs) s)" if "ServiceSet_inv s" for xs s
    using that by (rule service_set.inv_fold)
  then show ?thesis by (simp add: ToServiceState_def fold_map comp_def service_set.inv_empty)
qed

end
