(* ===== verification/FileSystem.thy ===== *)
theory FileSystem
  imports Containers
begin

section \<open>Files (packages os, io/fs and path/filepath)\<close>

text \<open>
  The part of Go's \<open>os\<close> package the repositories use, over a file system that maps paths to
  directories and files.  A path is the list of its elements, from the root; the strings the code
  passes come out of \<open>filepath.Join\<close>, which cleans them, and are absolute.  The entries are an
  association list, so that a directory can be walked.  Permissions, links and input/output errors are
  not modelled: an operation fails when the path does not exist, exists already, is a file where a
  directory is needed or the other way round, or is a directory that is not empty.
\<close>

datatype node = Directory | PlainFile string

type_synonym path = "string list"
type_synonym fs = "(path \<times> node) list"

definition elems :: "string \<Rightarrow> path" where
  "elems p = clean_elems True [] (Split p ''/'')"

definition path_string :: "path \<Rightarrow> string" where
  "path_string k = ''/'' @ Join k ''/''"

definition node_at :: "fs \<Rightarrow> path \<Rightarrow> node option" where
  "node_at fs k = (if k = [] then Some Directory else map_of fs k)"

text \<open>A file on the way to a path: \<open>ENOTDIR\<close>, which is not \<open>ErrNotExist\<close>.\<close>

definition blocked :: "fs \<Rightarrow> path \<Rightarrow> bool" where
  "blocked fs k =
     list_ex (\<lambda>n. case node_at fs (take n k) of Some (PlainFile d) \<Rightarrow> True | _ \<Rightarrow> False) [0..<length k]"

definition Stat :: "fs \<Rightarrow> string \<Rightarrow> node result" where
  "Stat fs p =
     (if blocked fs (elems p) then Inl (ErrMsg ''not a directory'')
      else case node_at fs (elems p) of
        None \<Rightarrow> Inl (ErrSentinel ErrNotExist)
      | Some n \<Rightarrow> Inr n)"

definition is_not_exist :: "'a result \<Rightarrow> bool" where
  "is_not_exist r = (case r of Inl e \<Rightarrow> errors_is e ErrNotExist | Inr x \<Rightarrow> False)"

definition ReadFile :: "fs \<Rightarrow> string \<Rightarrow> string result" where
  "ReadFile fs p =
     (case Stat fs p of
        Inl e \<Rightarrow> Inl e
      | Inr Directory \<Rightarrow> Inl (ErrMsg ''is a directory'')
      | Inr (PlainFile d) \<Rightarrow> Inr d)"

text \<open>The parent of a path that is to be created.\<close>

definition parent_missing :: "fs \<Rightarrow> path \<Rightarrow> go_error option" where
  "parent_missing fs k =
     (if blocked fs k then Some (ErrMsg ''not a directory'')
      else case node_at fs (butlast k) of
        None \<Rightarrow> Some (ErrSentinel ErrNotExist)
      | Some n \<Rightarrow> None)"

definition Mkdir :: "string \<Rightarrow> fs \<Rightarrow> go_error option \<times> fs" where
  "Mkdir p fs =
     (case parent_missing fs (elems p) of
        Some e \<Rightarrow> (Some e, fs)
      | None \<Rightarrow>
          (case node_at fs (elems p) of
             Some n \<Rightarrow> (Some (ErrMsg ''file exists''), fs)
           | None \<Rightarrow> (None, AList.update (elems p) Directory fs)))"

definition WriteFile :: "string \<Rightarrow> string \<Rightarrow> fs \<Rightarrow> go_error option \<times> fs" where
  "WriteFile p d fs =
     (case parent_missing fs (elems p) of
        Some e \<Rightarrow> (Some e, fs)
      | None \<Rightarrow>
          (if node_at fs (elems p) = Some Directory then (Some (ErrMsg ''is a directory''), fs)
           else (None, AList.update (elems p) (PlainFile d) fs)))"

text \<open>\<open>OpenFile\<close> with \<open>O_CREATE\<close>: an existing file stays as it is.\<close>

definition CreateFile :: "string \<Rightarrow> fs \<Rightarrow> go_error option \<times> fs" where
  "CreateFile p fs =
     (case parent_missing fs (elems p) of
        Some e \<Rightarrow> (Some e, fs)
      | None \<Rightarrow>
          (case node_at fs (elems p) of
             Some Directory \<Rightarrow> (Some (ErrMsg ''is a directory''), fs)
           | Some (PlainFile d) \<Rightarrow> (None, fs)
           | None \<Rightarrow> (None, AList.update (elems p) (PlainFile []) fs)))"

definition children :: "fs \<Rightarrow> path \<Rightarrow> path list" where
  "children fs k = filter (\<lambda>c. c \<noteq> [] \<and> butlast c = k) (map fst fs)"

definition Remove :: "string \<Rightarrow> fs \<Rightarrow> go_error option \<times> fs" where
  "Remove p fs =
     (case Stat fs p of
        Inl e \<Rightarrow> (Some e, fs)
      | Inr Directory \<Rightarrow>
          (if elems p = [] \<or> children fs (elems p) \<noteq> [] then (Some (ErrMsg ''directory not empty''), fs)
           else (None, AList.delete (elems p) fs))
      | Inr (PlainFile d) \<Rightarrow> (None, AList.delete (elems p) fs))"

definition RemoveAll :: "string \<Rightarrow> fs \<Rightarrow> go_error option \<times> fs" where
  "RemoveAll p fs =
     (if blocked fs (elems p) then (Some (ErrMsg ''not a directory''), fs)
      else (None, filter (\<lambda>(k, n). \<not> prefix (elems p) k) fs))"

definition ReadDir :: "fs \<Rightarrow> string \<Rightarrow> (string \<times> node) list result" where
  "ReadDir fs p =
     (case Stat fs p of
        Inl e \<Rightarrow> Inl e
      | Inr (PlainFile d) \<Rightarrow> Inl (ErrMsg ''not a directory'')
      | Inr Directory \<Rightarrow>
          Inr (map (\<lambda>k. (last k, the (node_at fs k))) (sort (children fs (elems p)))))"

text \<open>
  \<open>filepath.WalkDir\<close> visits the root and everything below it, a directory before its entries and
  the entries of a directory in the order of their names, which is the order of the paths as lists.  A
  root that does not exist is an error the callbacks of this program return.
\<close>

definition WalkDir :: "fs \<Rightarrow> string \<Rightarrow> (path \<times> node) list result" where
  "WalkDir fs p =
     (case Stat fs p of
        Inl e \<Rightarrow> Inl e
      | Inr n \<Rightarrow>
          Inr ((elems p, n) #
               map (\<lambda>k. (k, the (node_at fs k))) (sort (filter (strict_prefix (elems p)) (map fst fs)))))"

text \<open>\<open>filepath.Rel\<close> of two absolute clean paths.\<close>

definition Rel :: "path \<Rightarrow> path \<Rightarrow> string" where
  "Rel base k =
     (let n = length (longest_common_prefix base k);
          es = replicate (length base - n) ''..'' @ drop n k
      in if es = [] then ''.'' else Join es ''/'')"

text \<open>The name of a walked entry: its last element.\<close>

definition entry_name :: "path \<Rightarrow> string" where
  "entry_name k = (if k = [] then ''/'' else last k)"

subsection \<open>Well-formed file systems\<close>

text \<open>No path twice, the elements of every path are names, and every entry lies in a directory.\<close>

definition good_elem :: "string \<Rightarrow> bool" where
  "good_elem e \<longleftrightarrow> e \<noteq> [] \<and> e \<noteq> ''.'' \<and> e \<noteq> ''..'' \<and> CHR ''/'' \<notin> set e"

definition fs_ok :: "fs \<Rightarrow> bool" where
  "fs_ok fs \<longleftrightarrow> distinct (map fst fs) \<and>
     list_all (\<lambda>k. k \<noteq> [] \<and> list_all good_elem k \<and> node_at fs (butlast k) = Some Directory) (map fst fs)"

subsection \<open>Joined paths\<close>

text \<open>A relative path in clean form that stays below its directory.\<close>

definition good_path :: "string \<Rightarrow> bool" where
  "good_path p \<longleftrightarrow> list_all good_elem (Split p ''/'')"

lemma clean_elems_good: "list_all good_elem es \<Longrightarrow> clean_elems r acc es = rev acc @ es"
  by (induction es arbitrary: acc) (auto simp: good_elem_def)

lemma clean_elems_append_good:
  "list_all good_elem es \<Longrightarrow> clean_elems r acc (xs @ es) = clean_elems r acc xs @ es"
  by (induction r acc xs rule: clean_elems.induct) (auto simp: clean_elems_good split: list.splits)

lemma Split_append_slash:
  "Split (a @ CHR ''/'' # b) ''/'' = Split a ''/'' @ Split b ''/''"
proof (induction a)
  case Nil
  then show ?case by simp
next
  case (Cons c a)
  show ?case
  proof (cases "c = CHR ''/''")
    case True
    with Cons show ?thesis by simp
  next
    case False
    then have "\<not> prefix ''/'' (c # x)" for x by simp
    with Cons show ?thesis by (auto split: list.split)
  qed
qed

lemma Split_Join: "es \<noteq> [] \<Longrightarrow> list_all (\<lambda>e. CHR ''/'' \<notin> set e) es \<Longrightarrow> Split (Join es ''/'') ''/'' = es"
proof (induction es "''/''" rule: Join.induct)
  case (1)
  then show ?case by simp
next
  case (2 s)
  then show ?case by (simp add: Split_no_sep)
next
  case (3 s t ts)
  then show ?case using Split_append_slash [of s "Join (t # ts) ''/''"] by (simp add: Split_no_sep)
qed

lemma elems_append: "good_path b \<Longrightarrow> elems (a @ CHR ''/'' # b) = elems a @ Split b ''/''"
  by (simp add: elems_def good_path_def Split_append_slash clean_elems_append_good)

lemma clean_elems_are_good:
  "list_all (\<lambda>e. CHR ''/'' \<notin> set e) xs \<Longrightarrow> list_all good_elem acc \<Longrightarrow> list_all good_elem (clean_elems True acc xs)"
proof (induction "True" acc xs rule: clean_elems.induct)
  case (1 acc)
  then show ?case by simp
next
  case (2 acc e es)
  then show ?case by (auto simp: good_elem_def split: list.splits)
qed

lemma Split_no_slash: "list_all (\<lambda>e. CHR ''/'' \<notin> set e) (Split s ''/'')"
proof (induction s "''/''" rule: Split.induct)
  case 1
  then show ?case by simp
next
  case (2 c s)
  then show ?case by (cases "c = CHR ''/''") (auto split: list.splits)
qed

lemma elems_good: "list_all good_elem (elems p)"
  by (simp add: elems_def clean_elems_are_good Split_no_slash)

lemma elems_path_string: "list_all good_elem k \<Longrightarrow> elems (path_string k) = k"
proof (cases "k = []")
  case True
  then show ?thesis by (simp add: elems_def path_string_def)
next
  case False
  assume k: "list_all good_elem k"
  then have "Split (path_string k) ''/'' = [] # k"
    using Split_append_slash [of "[]" "Join k ''/''"] False
    by (auto simp: path_string_def Split_Join good_elem_def list_all_iff)
  with k show ?thesis by (simp add: elems_def clean_elems_good)
qed

lemma Clean_rooted: "prefix ''/'' p \<Longrightarrow> Clean p = path_string (elems p)"
  by (simp add: Clean_def elems_def path_string_def Let_def)

lemma elems_Clean: "prefix ''/'' p \<Longrightarrow> elems (Clean p) = elems p"
  by (simp add: Clean_rooted elems_path_string elems_good)

text \<open>Joining a directory, a name and a clean relative path appends their elements.\<close>

lemma elems_JoinPath3:
  assumes "prefix ''/'' a" and "good_elem n" and "good_path p"
  shows "elems (JoinPath [a, n, p]) = elems a @ n # Split p ''/''"
proof -
  have ne: "a \<noteq> []" "n \<noteq> []" "p \<noteq> []"
    using assms by (auto simp: good_elem_def good_path_def)
  have gn: "good_path n" using assms(2) by (simp add: good_path_def good_elem_def Split_no_sep)
  have "elems (a @ CHR ''/'' # n @ CHR ''/'' # p) = elems a @ n # Split p ''/''"
    using elems_append [OF assms(3), of "a @ CHR ''/'' # n"] elems_append [OF gn, of a] assms(2)
    by (simp add: good_elem_def Split_no_sep)
  moreover have "prefix ''/'' (a @ CHR ''/'' # n @ CHR ''/'' # p)" using assms(1) by (cases a) auto
  ultimately show ?thesis using ne
    by (simp add: JoinPath_def elems_Clean)
qed

lemma elems_JoinPath2:
  assumes "prefix ''/'' a" and "good_path p"
  shows "elems (JoinPath [a, p]) = elems a @ Split p ''/''"
proof -
  have ne: "a \<noteq> []" "p \<noteq> []" using assms by (auto simp: good_elem_def good_path_def)
  have "prefix ''/'' (a @ CHR ''/'' # p)" using assms(1) by (cases a) auto
  with ne show ?thesis
    by (simp add: JoinPath_def elems_Clean elems_append [OF assms(2)])
qed

subsection \<open>What the operations do\<close>

lemma map_of_filter_key: "map_of (filter (\<lambda>(k, n). P k) fs) k = (if P k then map_of fs k else None)"
  by (induction fs) auto

lemma node_at_update: "k \<noteq> [] \<Longrightarrow> node_at (AList.update k n fs) = (node_at fs)(k \<mapsto> n)"
  by (auto simp: node_at_def update_conv' fun_eq_iff)

lemma node_at_delete: "k \<noteq> [] \<Longrightarrow> node_at (AList.delete k fs) = (node_at fs)(k := None)"
  by (auto simp: node_at_def delete_conv' fun_eq_iff)

lemma Mkdir_Inr: "Mkdir p fs = (None, fs') \<Longrightarrow>
    node_at fs (elems p) = None \<and> node_at fs (butlast (elems p)) \<noteq> None \<and> \<not> blocked fs (elems p) \<and>
    fs' = AList.update (elems p) Directory fs \<and> elems p \<noteq> []"
  by (auto simp: Mkdir_def parent_missing_def node_at_def split: option.splits if_splits)

lemma WriteFile_Inr: "WriteFile p d fs = (None, fs') \<Longrightarrow>
    node_at fs (elems p) \<noteq> Some Directory \<and> node_at fs (butlast (elems p)) \<noteq> None \<and> \<not> blocked fs (elems p) \<and>
    fs' = AList.update (elems p) (PlainFile d) fs \<and> elems p \<noteq> []"
  by (auto simp: WriteFile_def parent_missing_def node_at_def split: option.splits if_splits)

lemma Remove_Inr: "Remove p fs = (None, fs') \<Longrightarrow>
    node_at fs (elems p) \<noteq> None \<and> (node_at fs (elems p) = Some Directory \<longrightarrow> children fs (elems p) = []) \<and>
    fs' = AList.delete (elems p) fs \<and> elems p \<noteq> []"
  by (auto simp: Remove_def Stat_def split: option.splits if_splits node.splits)
    (simp_all add: node_at_def)

lemma WriteFile_node: "WriteFile p d fs = (None, fs') \<Longrightarrow> node_at fs' = (node_at fs)(elems p \<mapsto> PlainFile d)"
  by (auto dest!: WriteFile_Inr simp: node_at_update)

lemma Mkdir_node: "Mkdir p fs = (None, fs') \<Longrightarrow> node_at fs' = (node_at fs)(elems p \<mapsto> Directory)"
  by (auto dest!: Mkdir_Inr simp: node_at_update)

lemma Remove_node: "Remove p fs = (None, fs') \<Longrightarrow> node_at fs' = (node_at fs)(elems p := None)"
  by (auto dest!: Remove_Inr simp: node_at_delete)

lemma RemoveAll_node: "RemoveAll p fs = (None, fs') \<Longrightarrow> elems p \<noteq> [] \<Longrightarrow>
    node_at fs' k = (if prefix (elems p) k then None else node_at fs k)"
  by (auto simp: RemoveAll_def node_at_def map_of_filter_key split: if_splits)

text \<open>A failed operation leaves the files alone.\<close>

lemma failed_keeps:
  "Mkdir p fs = (Some e, fs') \<Longrightarrow> fs' = fs" "WriteFile p d fs = (Some e, fs') \<Longrightarrow> fs' = fs"
  "Remove p fs = (Some e, fs') \<Longrightarrow> fs' = fs" "RemoveAll p fs = (Some e, fs') \<Longrightarrow> fs' = fs"
  "CreateFile p fs = (Some e, fs') \<Longrightarrow> fs' = fs"
  by (auto simp: Mkdir_def WriteFile_def Remove_def RemoveAll_def CreateFile_def
      split: option.splits if_splits sum.splits node.splits)

subsection \<open>The operations keep file systems well formed\<close>

lemma unblocked_parent:
  assumes "\<not> blocked fs k" and "node_at fs (butlast k) \<noteq> None"
  shows "node_at fs (butlast k) = Some Directory"
proof (cases "k = []")
  case True
  then show ?thesis by (simp add: node_at_def)
next
  case False
  then have "length k - 1 \<in> set [0..<length k]" by simp
  with assms(1) have "\<not> (case node_at fs (take (length k - 1) k) of Some (PlainFile d) \<Rightarrow> True | _ \<Rightarrow> False)"
    unfolding blocked_def list_ex_iff by blast
  with assms(2) show ?thesis
    by (auto simp: butlast_conv_take split: option.splits node.splits)
qed

lemma fs_ok_iff:
  "fs_ok fs \<longleftrightarrow> distinct (map fst fs) \<and> (\<forall>k. map_of fs k \<noteq> None \<longrightarrow>
     k \<noteq> [] \<and> list_all good_elem k \<and> node_at fs (butlast k) = Some Directory)"
  by (auto simp: fs_ok_def list_all_iff map_of_eq_None_iff)

lemma fs_ok_update:
  assumes "fs_ok fs" and "k \<noteq> []" and "list_all good_elem k" and "node_at fs (butlast k) = Some Directory"
    and "n = Directory \<or> node_at fs k \<noteq> Some Directory"
  shows "fs_ok (AList.update k n fs)"
proof -
  have "distinct (map fst (AList.update k n fs))" using assms(1) by (simp add: fs_ok_def distinct_update)
  moreover have "j \<noteq> [] \<and> list_all good_elem j \<and> node_at (AList.update k n fs) (butlast j) = Some Directory"
    if j: "map_of (AList.update k n fs) j \<noteq> None" for j
  proof (cases "j = k")
    case True
    have "butlast k \<noteq> k" using assms(2) by (cases k rule: rev_cases) auto
    with True assms(2-4) show ?thesis by (simp add: node_at_update)
  next
    case False
    with j have "map_of fs j \<noteq> None" by (simp add: update_conv')
    with assms(1) have old: "j \<noteq> []" "list_all good_elem j" "node_at fs (butlast j) = Some Directory" by (auto simp: fs_ok_iff)
    with assms(2,5) show ?thesis by (auto simp: node_at_update)
  qed
  ultimately show ?thesis by (simp add: fs_ok_iff)
qed

lemma fs_ok_delete:
  assumes "fs_ok fs" and "k \<noteq> []" and "node_at fs k = Some Directory \<longrightarrow> children fs k = []"
  shows "fs_ok (AList.delete k fs)"
proof -
  have "distinct (map fst (AList.delete k fs))" using assms(1) by (simp add: fs_ok_def distinct_delete)
  moreover have "j \<noteq> [] \<and> list_all good_elem j \<and> node_at (AList.delete k fs) (butlast j) = Some Directory"
    if j: "map_of (AList.delete k fs) j \<noteq> None" for j
  proof -
    from j have j': "j \<noteq> k" "map_of fs j \<noteq> None" by (auto simp: delete_conv' split: if_splits)
    with assms(1) have old: "j \<noteq> []" "list_all good_elem j" "node_at fs (butlast j) = Some Directory" by (auto simp: fs_ok_iff)
    have "butlast j \<noteq> k"
    proof
      assume "butlast j = k"
      moreover have "j \<in> set (map fst fs)" using j'(2) by (simp add: map_of_eq_None_iff)
      ultimately have "j \<in> set (children fs k)" using old(1) by (auto simp: children_def)
      with assms(3) old(3) \<open>butlast j = k\<close> show False by auto
    qed
    with old assms(2) show ?thesis by (simp add: node_at_delete)
  qed
  ultimately show ?thesis by (simp add: fs_ok_iff)
qed

lemma fs_ok_RemoveAll:
  assumes "fs_ok fs"
  shows "fs_ok (filter (\<lambda>(k, n). \<not> prefix q k) fs)"
proof -
  have "distinct (map fst (filter (\<lambda>(k, n). \<not> prefix q k) fs))"
    using assms by (simp add: fs_ok_def distinct_map_filter)
  moreover have "j \<noteq> [] \<and> list_all good_elem j \<and> node_at (filter (\<lambda>(k, n). \<not> prefix q k) fs) (butlast j) = Some Directory"
    if "map_of (filter (\<lambda>(k, n). \<not> prefix q k) fs) j \<noteq> None" for j
  proof -
    from that have j: "\<not> prefix q j" "map_of fs j \<noteq> None" by (auto simp: map_of_filter_key split: if_splits)
    from j(1) have "\<not> prefix q (butlast j)" by (meson prefix_order.trans prefixeq_butlast)
    moreover have "j \<noteq> []" "list_all good_elem j" "node_at fs (butlast j) = Some Directory"
      using j(2) assms unfolding fs_ok_iff by blast+
    ultimately show ?thesis by (simp add: node_at_def map_of_filter_key split: if_splits)
  qed
  ultimately show ?thesis by (simp add: fs_ok_iff)
qed

lemma fs_ok_ops [inv_intros]:
  assumes "fs_ok fs"
  shows "fs_ok (snd (Mkdir p fs))" "fs_ok (snd (WriteFile p d fs))" "fs_ok (snd (CreateFile p fs))"
    "fs_ok (snd (Remove p fs))" "fs_ok (snd (RemoveAll p fs))"
proof -
  show "fs_ok (snd (Mkdir p fs))"
    using assms unblocked_parent [of fs "elems p"]
    by (auto simp: Mkdir_def parent_missing_def node_at_def [of _ "[]"] elems_good intro!: fs_ok_update split: option.splits if_splits)
  show "fs_ok (snd (WriteFile p d fs))"
    using assms unblocked_parent [of fs "elems p"]
    by (auto simp: WriteFile_def parent_missing_def node_at_def [of _ "[]"] elems_good intro!: fs_ok_update split: option.splits if_splits)
  show "fs_ok (snd (CreateFile p fs))"
    using assms unblocked_parent [of fs "elems p"]
    by (auto simp: CreateFile_def parent_missing_def node_at_def [of _ "[]"] elems_good intro!: fs_ok_update
        split: option.splits if_splits node.splits)
  show "fs_ok (snd (Remove p fs))"
    using assms by (auto simp: Remove_def Stat_def node_at_def [of _ "[]"] intro!: fs_ok_delete
        split: option.splits if_splits node.splits sum.splits)
  show "fs_ok (snd (RemoveAll p fs))"
    using assms by (simp add: RemoveAll_def fs_ok_RemoveAll)
qed

lemma fs_ok_keeps [keeps_intros]:
  "keeps fs_ok (Mkdir p)" "keeps fs_ok (WriteFile p d)" "keeps fs_ok (CreateFile p)"
  "keeps fs_ok (Remove p)" "keeps fs_ok (RemoveAll p)"
  by (simp_all add: keeps_def fs_ok_ops)

end
