(* ===== verification/Repository.thy ===== *)
theory Repository
  imports Components FileSystem
begin

section \<open>Component repositories (internal/repository)\<close>

text \<open>
  The files of the installed components (\<open>component.go\<close>), of the source components
  (\<open>source.go\<close>) and the plain directories for scripts and units (\<open>file.go\<close>).  An installed
  component has two directories of its instance name: one below the data prefix, with its version
  file, its manifest and its plain files, and one below the quadlet prefix, with the marker file
  \<open>.materia_managed\<close> and its quadlets and drop-ins.  TOML is a library: \<open>decode_version\<close> reads
  a version file, \<open>version_text\<close> is what \<open>VersonData\<close> encodes, \<open>decode\<close> reads a manifest.
\<close>

definition version_file :: string where
  "version_file = ''.component_version''"

definition managed_file :: string where
  "managed_file = ''.materia_managed''"

subsection \<open>Installed components: reading\<close>

record HostComponentRepository =
  hr_DataPrefix :: string
  hr_QuadletPrefix :: string

definition make_prefix :: "string \<Rightarrow> string \<Rightarrow> fs operation" where
  "make_prefix msg p fs =
     (if is_not_exist (Stat fs p) then wrap_op msg (Mkdir p) fs else (None, fs))"

definition NewHostComponentRepository ::
    "string \<Rightarrow> string \<Rightarrow> fs \<Rightarrow> HostComponentRepository result \<times> fs" where
  "NewHostComponentRepository quadletPrefix dataPrefix fs =
     (case then_op (make_prefix ''error creating ComponentRepository with data_prefix'' dataPrefix)
             (make_prefix ''error creating FileRepository with quadlet prefix'' quadletPrefix) fs of
        (Some e, fs') \<Rightarrow> (Inl e, fs')
      | (None, fs') \<Rightarrow> (Inr \<lparr>hr_DataPrefix = dataPrefix, hr_QuadletPrefix = quadletPrefix\<rparr>, fs'))"

definition Host_ReadResource :: "HostComponentRepository \<Rightarrow> fs \<Rightarrow> Resource \<Rightarrow> string result" where
  "Host_ReadResource r fs res =
     (if res_Kind res = ResourceTypeDirectory \<or> res_Kind res = ResourceTypeDropinDir then Inr []
      else if res_Kind res = ResourceTypePodmanSecret
      then Inl (ErrMsg ''secrets don't live in repositories'')
      else ReadFile fs
        (JoinPath [if IsQuadlet res then hr_QuadletPrefix r else hr_DataPrefix r, res_Parent res, Filepath res]))"

definition Host_NewResource ::
    "'u unit_parser \<Rightarrow> HostComponentRepository \<Rightarrow> fs \<Rightarrow> Component \<Rightarrow> string \<Rightarrow> Resource result" where
  "Host_NewResource up r fs parent path =
     (case Stat fs path of
        Inl e \<Rightarrow> Inl e
      | Inr fileInfo \<Rightarrow>
          (let isInQuadletDir = Contains path (hr_QuadletPrefix r);
               basePrefix = (if isInQuadletDir then hr_QuadletPrefix r else hr_DataPrefix r);
               relPath = Rel (elems (JoinPath [basePrefix, InstanceName parent])) (elems path);
               res = zero_Resource\<lparr>res_Path := relPath, res_Parent := InstanceName parent\<rparr>
           in case fileInfo of
                Directory \<Rightarrow>
                  Inr (res\<lparr>res_Kind :=
                    (if isInQuadletDir \<and> IsDropinDir relPath then ResourceTypeDropinDir
                     else ResourceTypeDirectory)\<rparr>)
              | PlainFile d \<Rightarrow>
                  (let res = res\<lparr>res_Kind := FindResourceType relPath\<rparr> in
                   if isInQuadletDir then
                     (case Host_ReadResource r fs res of
                        Inl e \<Rightarrow> Inl e
                      | Inr unitData \<Rightarrow>
                          (case GetHostObject up res unitData of
                             Inl e \<Rightarrow> Inl e
                           | Inr hostObject \<Rightarrow> Inr (res\<lparr>res_HostObject := hostObject\<rparr>)))
                   else Inr res)))"

text \<open>One visited entry: skipped by its name, or added to the resources.\<close>

definition add_entry ::
    "'u unit_parser \<Rightarrow> HostComponentRepository \<Rightarrow> fs \<Rightarrow> Component \<Rightarrow> string list \<Rightarrow>
       path \<times> node \<Rightarrow> ResourceSet \<Rightarrow> ResourceSet result" where
  "add_entry up r fs c skipped entry rs =
     (if entry_name (fst entry) \<in> set skipped then Inr rs
      else case Host_NewResource up r fs c (path_string (fst entry)) of
        Inl e \<Rightarrow> Inl e
      | Inr newRes \<Rightarrow> ResourceSet_Add newRes rs)"

definition walk_resources ::
    "'u unit_parser \<Rightarrow> HostComponentRepository \<Rightarrow> fs \<Rightarrow> Component \<Rightarrow> string list \<Rightarrow> string \<Rightarrow>
       ResourceSet \<Rightarrow> ResourceSet result" where
  "walk_resources up r fs c skipped dir rs =
     (case WalkDir fs dir of
        Inl e \<Rightarrow> Inl e
      | Inr entries \<Rightarrow> each (add_entry up r fs c skipped) entries rs)"

definition read_version :: "(string \<Rightarrow> int result) \<Rightarrow> fs \<Rightarrow> string \<Rightarrow> int result" where
  "read_version decode_version fs p =
     (case Stat fs p of
        Inl e \<Rightarrow>
          (if errors_is e ErrNotExist then Inr (- 1)
           else Inl (ErrWrapped ''error reading component version'' e))
      | Inr n \<Rightarrow> (case ReadFile fs p of Inl e \<Rightarrow> Inl e | Inr d \<Rightarrow> decode_version d))"

definition Host_GetComponent ::
    "'u unit_parser \<Rightarrow> (string \<Rightarrow> int result) \<Rightarrow> HostComponentRepository \<Rightarrow> fs \<Rightarrow> string \<Rightarrow> Component result" where
  "Host_GetComponent up decode_version r fs name =
     (let oldComp = NewComponent name;
          dataPath = JoinPath [hr_DataPrefix r, InstanceName oldComp];
          quadletPath = JoinPath [hr_QuadletPrefix r, InstanceName oldComp]
      in case read_version decode_version fs (JoinPath [dataPath, version_file]) of
           Inl e \<Rightarrow> Inl e
         | Inr v \<Rightarrow>
        (let oldComp = oldComp\<lparr>comp_Version := v\<rparr>;
             manifestPath = JoinPath [dataPath, ComponentManifestFile]
         in case Stat fs manifestPath of
              Inl e \<Rightarrow> Inl (if errors_is e ErrNotExist then ErrSentinel ErrCorruptComponent else e)
            | Inr n \<Rightarrow>
           (case Host_NewResource up r fs oldComp manifestPath of
              Inl e \<Rightarrow> Inl e
            | Inr manifestResource \<Rightarrow>
           (case ResourceSet_Add manifestResource (resources_of oldComp) of
              Inl e \<Rightarrow> Inl e
            | Inr rs \<Rightarrow>
           (case walk_resources up r fs oldComp
                   [InstanceName oldComp, version_file, ComponentManifestFile] dataPath rs of
              Inl e \<Rightarrow> Inl e
            | Inr rs \<Rightarrow>
           (case walk_resources up r fs oldComp [InstanceName oldComp, managed_file] quadletPath rs of
              Inl e \<Rightarrow> Inl e
            | Inr rs \<Rightarrow> Inr (oldComp\<lparr>comp_Resources := Some rs\<rparr>)))))))"

definition Host_GetManifest ::
    "(string \<Rightarrow> ComponentManifest result) \<Rightarrow> HostComponentRepository \<Rightarrow> fs \<Rightarrow> Component \<Rightarrow> ComponentManifest result" where
  "Host_GetManifest decode r fs parent =
     (case ReadFile fs (JoinPath [hr_DataPrefix r, InstanceName parent, ComponentManifestFile]) of
        Inl e \<Rightarrow> Inl e
      | Inr d \<Rightarrow> decode d)"

text \<open>The two conditions of \<open>GetResource\<close> as the code has them: a resource is built when \<open>Stat\<close> fails.\<close>

definition Host_GetResource ::
    "'u unit_parser \<Rightarrow> HostComponentRepository \<Rightarrow> fs \<Rightarrow> Component option \<Rightarrow> string \<Rightarrow> Resource result" where
  "Host_GetResource up r fs parent name =
     (case parent of
        None \<Rightarrow> Inl (ErrMsg ''invalid parent or resource'')
      | Some c \<Rightarrow>
     (if name = [] then Inl (ErrMsg ''invalid parent or resource'')
      else
       (let dataFile = JoinPath [JoinPath [hr_DataPrefix r, InstanceName c], name];
            quadletFile = JoinPath [JoinPath [hr_QuadletPrefix r, InstanceName c], name]
        in case Stat fs dataFile of
             Inl e \<Rightarrow>
               (if \<not> errors_is e ErrNotExist then Inl e else Host_NewResource up r fs c dataFile)
           | Inr n \<Rightarrow>
          (case Stat fs quadletFile of
             Inl e \<Rightarrow>
               (if \<not> errors_is e ErrNotExist then Inl e else Host_NewResource up r fs c quadletFile)
           | Inr n' \<Rightarrow> Inl (ErrMsg ''resource not found'')))))"

definition listed_resource :: "string \<Rightarrow> path \<Rightarrow> path \<Rightarrow> Resource" where
  "listed_resource parent base k =
     (let resName = Rel base k in
      zero_Resource\<lparr>res_Parent := parent, res_Path := resName, res_Kind := FindResourceType resName,
                    res_Template := IsTemplate resName\<rparr>)"

definition list_below :: "fs \<Rightarrow> string list \<Rightarrow> string \<Rightarrow> string \<Rightarrow> Resource list result" where
  "list_below fs skipped parent dir =
     (case WalkDir fs dir of
        Inl e \<Rightarrow> Inl e
      | Inr entries \<Rightarrow>
          Inr (map (\<lambda>(k, n). listed_resource parent (elems dir) k)
                 (filter (\<lambda>(k, n). entry_name k \<notin> set skipped) entries)))"

definition Host_ListResources :: "HostComponentRepository \<Rightarrow> fs \<Rightarrow> Component option \<Rightarrow> Resource list result" where
  "Host_ListResources r fs cp =
     (case cp of
        None \<Rightarrow> Inl (ErrMsg ''invalid parent or resource'')
      | Some c \<Rightarrow>
          (let skipped = [comp_Name c, version_file, managed_file] in
           collect (list_below fs skipped (InstanceName c))
             [JoinPath [hr_DataPrefix r, InstanceName c], JoinPath [hr_QuadletPrefix r, InstanceName c]]))"

definition dir_names :: "(string \<times> node) list \<Rightarrow> string list" where
  "dir_names entries = map fst (filter (\<lambda>(n, k). k = Directory) entries)"

definition Host_ListComponentNames :: "HostComponentRepository \<Rightarrow> fs \<Rightarrow> string list result" where
  "Host_ListComponentNames r fs =
     (case ReadDir fs (hr_DataPrefix r) of Inl e \<Rightarrow> Inl e | Inr entries \<Rightarrow> Inr (sort (dir_names entries)))"

definition Host_ComponentExists :: "HostComponentRepository \<Rightarrow> fs \<Rightarrow> string \<Rightarrow> bool result" where
  "Host_ComponentExists r fs name =
     (case Stat fs (JoinPath [hr_DataPrefix r, name]) of
        Inl e \<Rightarrow> (if errors_is e ErrNotExist then Inr False else Inl e)
      | Inr n \<Rightarrow> Inr True)"

subsection \<open>Installed components: writing\<close>

text \<open>A nil component panics in \<open>Validate\<close>, before the test for nil.\<close>

definition InstallComponent ::
    "(Component \<Rightarrow> string) \<Rightarrow> HostComponentRepository \<Rightarrow> Component option \<Rightarrow> fs operation" where
  "InstallComponent version_text r cp =
     (case cp of
        None \<Rightarrow> fail_op (Panic ''nil pointer dereference'')
      | Some c \<Rightarrow>
     (case Component_Validate c of
        Some e \<Rightarrow> fail_op e
      | None \<Rightarrow>
          (let qpath = JoinPath [hr_QuadletPrefix r, InstanceName c] in
           then_op (wrap_op ''error installing component'' (Mkdir (JoinPath [hr_DataPrefix r, InstanceName c])))
          (then_op (wrap_op ''error installing component'' (Mkdir qpath))
          (then_op (wrap_op ''error installing component'' (CreateFile (qpath @ ''/.materia_managed'')))
             (WriteFile (JoinPath [hr_DataPrefix r, InstanceName c, version_file]) (version_text c)))))))"

definition UpdateComponent ::
    "(Component \<Rightarrow> string) \<Rightarrow> HostComponentRepository \<Rightarrow> Component option \<Rightarrow> fs operation" where
  "UpdateComponent version_text r cp =
     (case cp of
        None \<Rightarrow> fail_op (Panic ''nil pointer dereference'')
      | Some c \<Rightarrow> WriteFile (JoinPath [hr_DataPrefix r, InstanceName c, version_file]) (version_text c))"

text \<open>
  The directories that are left are removed in the order the walk found them, which is the
  component's own directory first.
\<close>

definition remove_leftovers :: "string \<Rightarrow> fs operation" where
  "remove_leftovers dir fs =
     (case WalkDir fs dir of
        Inl e \<Rightarrow> (Some e, fs)
      | Inr entries \<Rightarrow>
          (if list_ex (\<lambda>(k, n). n \<noteq> Directory) entries
           then (Some (ErrMsg ''component data folder not empty''), fs)
           else each_op (\<lambda>(k, n). Remove (path_string k)) entries fs))"

definition RemoveComponent :: "HostComponentRepository \<Rightarrow> Component option \<Rightarrow> fs operation" where
  "RemoveComponent r cp =
     (case cp of
        None \<Rightarrow> fail_op (ErrMsg ''invalid component'')
      | Some c \<Rightarrow>
          (let compName = InstanceName c in
           then_op (Remove (JoinPath [hr_DataPrefix r, compName, version_file]))
          (then_op (remove_leftovers (JoinPath [hr_DataPrefix r, compName]))
          (then_op (Remove (JoinPath [hr_QuadletPrefix r, compName, managed_file]))
             (Remove (JoinPath [hr_QuadletPrefix r, compName]))))))"

definition InstallResource :: "HostComponentRepository \<Rightarrow> Resource \<Rightarrow> string \<Rightarrow> fs operation" where
  "InstallResource r res data =
     (case Resource_Validate res of
        Some e \<Rightarrow> fail_op (ErrWrapped ''can't install invalid resource'' e)
      | None \<Rightarrow>
          (if IsQuadlet res then WriteFile (JoinPath [hr_QuadletPrefix r, res_Parent res, res_Path res]) data
           else
             (let prefix' = JoinPath [hr_DataPrefix r, res_Parent res] in
              if res_Kind res = ResourceTypeDirectory then Mkdir (JoinPath [prefix', res_Path res])
              else WriteFile (JoinPath [prefix', res_Path res]) data)))"

definition RemoveResource :: "HostComponentRepository \<Rightarrow> Resource \<Rightarrow> fs operation" where
  "RemoveResource r res =
     Remove (JoinPath [if IsQuadlet res then hr_QuadletPrefix r else hr_DataPrefix r, res_Parent res, res_Path res])"

definition PurgeComponentByName :: "HostComponentRepository \<Rightarrow> string \<Rightarrow> fs operation" where
  "PurgeComponentByName r name =
     (if name = [] then fail_op (ErrMsg ''no component specified'')
      else then_op (RemoveAll (JoinPath [hr_DataPrefix r, name]))
             (RemoveAll (JoinPath [hr_QuadletPrefix r, name])))"

definition PurgeComponent :: "HostComponentRepository \<Rightarrow> Component option \<Rightarrow> fs operation" where
  "PurgeComponent r cp =
     (case cp of
        None \<Rightarrow> fail_op (ErrMsg ''no component specified'')
      | Some c \<Rightarrow>
          then_op (RemoveAll (JoinPath [hr_DataPrefix r, InstanceName c]))
            (RemoveAll (JoinPath [hr_QuadletPrefix r, InstanceName c])))"

definition clean_quadlet_dir :: "HostComponentRepository \<Rightarrow> string \<times> node \<Rightarrow> fs operation" where
  "clean_quadlet_dir r entry fs =
     (if snd entry \<noteq> Directory then (None, fs)
      else case Stat fs (hr_QuadletPrefix r @ ''/'' @ fst entry @ ''/.materia_managed'') of
        Inl e \<Rightarrow> (if errors_is e ErrNotExist then (None, fs) else (Some e, fs))
      | Inr n \<Rightarrow> RemoveAll (JoinPath [hr_QuadletPrefix r, fst entry]) fs)"

definition Host_Clean :: "HostComponentRepository \<Rightarrow> fs operation" where
  "Host_Clean r fs =
     (case ReadDir fs (hr_QuadletPrefix r) of
        Inl e \<Rightarrow> (Some e, fs)
      | Inr entries \<Rightarrow>
          then_op (each_op (clean_quadlet_dir r) entries) (RemoveAll (hr_DataPrefix r)) fs)"

subsection \<open>Source components\<close>

type_synonym SourceComponentRepository = "string list"

definition NewSourceComponentRepository :: "fs \<Rightarrow> string list \<Rightarrow> SourceComponentRepository result" where
  "NewSourceComponentRepository fs sourceDirs =
     (case collect (\<lambda>d. case Stat fs d of Inl e \<Rightarrow> Inl e | Inr n \<Rightarrow> Inr []) sourceDirs of
        Inl e \<Rightarrow> Inl e
      | Inr [] \<Rightarrow> Inr sourceDirs
      | Inr (x # xs) \<Rightarrow> Inr x)"

fun getPrefix :: "fs \<Rightarrow> SourceComponentRepository \<Rightarrow> string \<Rightarrow> string result" where
  "getPrefix fs [] name = Inl (ErrMsg ''can't get prefix for resource'')"
| "getPrefix fs (bd # bds) name =
     (case Stat fs (JoinPath [bd, ''components'', name]) of
        Inl e \<Rightarrow> (if errors_is e ErrNotExist then getPrefix fs bds name else Inl e)
      | Inr n \<Rightarrow> Inr (JoinPath [bd, ''components'', name]))"

definition Source_Validate :: "SourceComponentRepository \<Rightarrow> go_error option" where
  "Source_Validate s = (if length s < 1 then Some (ErrMsg ''no search paths for source components'') else None)"

definition Source_ReadResource :: "fs \<Rightarrow> SourceComponentRepository \<Rightarrow> Resource \<Rightarrow> string result" where
  "Source_ReadResource fs s res =
     (if res_Kind res = ResourceTypeDirectory then Inr []
      else case getPrefix fs s (res_Parent res) of
        Inl e \<Rightarrow> Inl e
      | Inr p \<Rightarrow> ReadFile fs (JoinPath [p, Filepath res]))"

text \<open>The names are those of the entries of the base directories themselves.\<close>

definition Source_ListComponentNames :: "fs \<Rightarrow> SourceComponentRepository \<Rightarrow> string list result" where
  "Source_ListComponentNames fs s =
     (case collect (\<lambda>bd. case ReadDir fs bd of Inl e \<Rightarrow> Inl e | Inr entries \<Rightarrow> Inr (dir_names entries)) s of
        Inl e \<Rightarrow> Inl e
      | Inr names \<Rightarrow> Inr (sort names))"

definition Source_Clean :: "SourceComponentRepository \<Rightarrow> fs operation" where
  "Source_Clean s = each_op RemoveAll s"

definition Source_NewResource ::
    "fs \<Rightarrow> SourceComponentRepository \<Rightarrow> Component \<Rightarrow> string \<Rightarrow> Resource result" where
  "Source_NewResource fs s parent path =
     (case getPrefix fs s (comp_Name parent) of
        Inl e \<Rightarrow> Inl e
      | Inr p \<Rightarrow>
     (case Stat fs path of
        Inl e \<Rightarrow> Inl e
      | Inr fileInfo \<Rightarrow>
          Inr (zero_Resource\<lparr>
            res_Path := Rel (elems p) (elems (TrimSuffix path ''.gotmpl'')),
            res_Parent := comp_Name parent,
            res_Template := IsTemplate path,
            res_Kind := (if fileInfo = Directory then ResourceTypeDirectory else FindResourceType path)\<rparr>)))"

text \<open>\<open>.git\<close> is looked for in the whole path, the base directory included.\<close>

definition add_source_entry ::
    "fs \<Rightarrow> SourceComponentRepository \<Rightarrow> Component \<Rightarrow> path \<times> node \<Rightarrow> ResourceSet \<Rightarrow> ResourceSet result" where
  "add_source_entry fs s c entry rs =
     (let fullPath = path_string (fst entry) in
      if entry_name (fst entry) \<in> {comp_Name c, ComponentManifestFile} then Inr rs
      else if Contains fullPath ''.git'' then Inr rs
      else case Source_NewResource fs s c fullPath of
        Inl e \<Rightarrow> Inl e
      | Inr newRes \<Rightarrow> ResourceSet_Add newRes rs)"

definition Source_GetComponent :: "fs \<Rightarrow> SourceComponentRepository \<Rightarrow> string \<Rightarrow> Component result" where
  "Source_GetComponent fs s name =
     (let name = (if Contains name ''@'' then Split name ''@'' ! 0 else name) in
      case getPrefix fs s name of
        Inl e \<Rightarrow> Inl e
      | Inr path \<Rightarrow>
     (let c = (NewComponent name)\<lparr>comp_State := StateFresh, comp_Version := DefaultComponentVersion\<rparr>;
          manifestPath = JoinPath [path, ComponentManifestFile]
      in case Stat fs manifestPath of
           Inl e \<Rightarrow> Inl (if errors_is e ErrNotExist then ErrSentinel ErrCorruptComponent else e)
         | Inr n \<Rightarrow>
        (case WalkDir fs path of
           Inl e \<Rightarrow> Inl e
         | Inr entries \<Rightarrow>
        (case each (add_source_entry fs s c) entries (resources_of c) of
           Inl e \<Rightarrow> Inl e
         | Inr rs \<Rightarrow>
        (case Source_NewResource fs s c manifestPath of
           Inl e \<Rightarrow> Inl e
         | Inr manifestResource \<Rightarrow>
        (case ResourceSet_Add manifestResource rs of
           Inl e \<Rightarrow> Inl e
         | Inr rs \<Rightarrow> Inr (c\<lparr>comp_Resources := Some rs\<rparr>)))))))"

definition Source_GetResource ::
    "fs \<Rightarrow> SourceComponentRepository \<Rightarrow> Component option \<Rightarrow> string \<Rightarrow> Resource result" where
  "Source_GetResource fs s parent name =
     (case parent of
        None \<Rightarrow> Inl (ErrMsg ''invalid parent or resource'')
      | Some c \<Rightarrow>
     (if name = [] then Inl (ErrMsg ''invalid parent or resource'')
      else case getPrefix fs s (comp_Name c) of
        Inl e \<Rightarrow> Inl e
      | Inr p \<Rightarrow> Source_NewResource fs s c (JoinPath [p, name])))"

definition Source_ListResources :: "fs \<Rightarrow> SourceComponentRepository \<Rightarrow> Component option \<Rightarrow> Resource list result" where
  "Source_ListResources fs s cp =
     (case cp of
        None \<Rightarrow> Inl (ErrMsg ''invalid parent or resource'')
      | Some c \<Rightarrow>
     (case getPrefix fs s (comp_Name c) of
        Inl e \<Rightarrow> Inl e
      | Inr dataPath \<Rightarrow> list_below fs [comp_Name c, version_file, managed_file] (comp_Name c) dataPath))"

definition Source_ComponentExists :: "fs \<Rightarrow> SourceComponentRepository \<Rightarrow> string \<Rightarrow> bool \<times> go_error option" where
  "Source_ComponentExists fs s name =
     (case getPrefix fs s name of Inl e \<Rightarrow> (False, Some e) | Inr p \<Rightarrow> (True, None))"

definition Source_GetManifest ::
    "(string \<Rightarrow> ComponentManifest result) \<Rightarrow> fs \<Rightarrow> SourceComponentRepository \<Rightarrow> Component \<Rightarrow> ComponentManifest result" where
  "Source_GetManifest decode fs s parent =
     (case getPrefix fs s (comp_Name parent) of
        Inl e \<Rightarrow> Inl e
      | Inr p \<Rightarrow> (case ReadFile fs (JoinPath [p, ComponentManifestFile]) of Inl e \<Rightarrow> Inl e | Inr d \<Rightarrow> decode d))"

subsection \<open>Scripts and units\<close>

definition NewFileRepository :: "string \<Rightarrow> fs operation" where
  "NewFileRepository p = make_prefix ''error creating FileRepository with prefix'' p"

definition File_Install :: "string \<Rightarrow> string \<Rightarrow> string \<Rightarrow> fs operation" where
  "File_Install p path data = WriteFile (JoinPath [p, path]) data"

definition File_Remove :: "string \<Rightarrow> string \<Rightarrow> fs operation" where
  "File_Remove p path = Remove (JoinPath [p, path])"

definition File_Exists :: "fs \<Rightarrow> string \<Rightarrow> string \<Rightarrow> bool result" where
  "File_Exists fs p path =
     (case Stat fs (JoinPath [p, path]) of
        Inl e \<Rightarrow> (if errors_is e ErrNotExist then Inr False else Inl e)
      | Inr n \<Rightarrow> Inr True)"

definition File_Get :: "string \<Rightarrow> string \<Rightarrow> string" where
  "File_Get p path = JoinPath [p, path]"

definition File_Clean :: "string \<Rightarrow> fs operation" where
  "File_Clean p fs =
     (case ReadDir fs p of
        Inl e \<Rightarrow> (Some e, fs)
      | Inr entries \<Rightarrow> each_op (\<lambda>(n, k). RemoveAll (JoinPath [p, n])) entries fs)"

end
