(* ===== verification/RepositoryFacts.thy ===== *)
theory RepositoryFacts
  imports Repository
begin

section \<open>What the host repository does to the files\<close>

subsection \<open>Where things are\<close>

definition repo_ok :: "HostComponentRepository \<Rightarrow> bool" where
  "repo_ok r \<longleftrightarrow> prefix ''/'' (hr_DataPrefix r) \<and> prefix ''/'' (hr_QuadletPrefix r) \<and>
     \<not> prefix (elems (hr_DataPrefix r)) (elems (hr_QuadletPrefix r)) \<and>
     \<not> prefix (elems (hr_QuadletPrefix r)) (elems (hr_DataPrefix r))"

definition good_resource :: "Resource \<Rightarrow> bool" where
  "good_resource res \<longleftrightarrow> good_elem (res_Parent res) \<and> good_path (res_Path res)"

definition resource_path :: "HostComponentRepository \<Rightarrow> Resource \<Rightarrow> path" where
  "resource_path r res =
     elems (if IsQuadlet res then hr_QuadletPrefix r else hr_DataPrefix r) @ res_Parent res # Split (res_Path res) ''/''"

lemma JoinPath_rooted: "prefix ''/'' a \<Longrightarrow> prefix ''/'' (JoinPath (a # ps))"
proof -
  assume a: "prefix ''/'' a"
  then obtain b where b: "a = CHR ''/'' # b" by (auto simp: prefix_def)
  obtain c where c: "Join (a # filter (\<lambda>p. p \<noteq> []) ps) ''/'' = CHR ''/'' # c"
    by (cases "filter (\<lambda>p. p \<noteq> []) ps") (auto simp: b)
  show ?thesis
    using a c by (simp add: JoinPath_def Clean_def Let_def b)
qed

lemma good_elem_path: "good_elem n \<Longrightarrow> good_path n"
  by (simp add: good_path_def good_elem_def Split_no_sep)

lemma Split_good: "good_elem n \<Longrightarrow> Split n ''/'' = [n]"
  by (simp add: good_elem_def Split_no_sep)

lemma elems_nested:
  "prefix ''/'' a \<Longrightarrow> good_elem n \<Longrightarrow> good_path p \<Longrightarrow>
   elems (JoinPath [JoinPath [a, n], p]) = elems a @ n # Split p ''/''"
  by (simp add: elems_JoinPath2 JoinPath_rooted good_elem_path Split_good)

lemma good_files [simp]: "good_path version_file" "good_path managed_file" "good_path ComponentManifestFile"
  "Split version_file ''/'' = [version_file]" "Split managed_file ''/'' = [managed_file]"
  "Split ComponentManifestFile ''/'' = [ComponentManifestFile]"
  by code_simp+

lemma elems_resource:
  assumes "repo_ok r" and "good_resource res"
  shows "elems (JoinPath [if IsQuadlet res then hr_QuadletPrefix r else hr_DataPrefix r, res_Parent res, res_Path res]) =
      resource_path r res"
    and "\<not> IsQuadlet res \<Longrightarrow> elems (JoinPath [JoinPath [hr_DataPrefix r, res_Parent res], res_Path res]) = resource_path r res"
  using assms by (simp_all add: repo_ok_def good_resource_def resource_path_def elems_JoinPath3 elems_nested)

subsection \<open>Every operation keeps the file system well formed\<close>

text \<open>
  A property of the files that every basic operation keeps at the paths the repository uses is kept by
  the operations built from them.
\<close>

definition tidy :: "(fs \<Rightarrow> bool) \<Rightarrow> fs \<Rightarrow> bool" where
  "tidy Q fs \<longleftrightarrow> fs_ok fs \<and> Q fs"

lemma keeps_tidy: "keeps fs_ok f \<Longrightarrow> keeps Q f \<Longrightarrow> keeps (tidy Q) f"
  by (simp add: keeps_def tidy_def)

lemma keeps_leftovers:
  assumes "\<And>k. prefix (elems dir) (elems (path_string k)) \<Longrightarrow> keeps (tidy Q) (Remove (path_string k))"
  shows "keeps (tidy Q) (remove_leftovers dir)"
proof (rule keepsI)
  fix fs assume P: "tidy Q fs"
  show "tidy Q (snd (remove_leftovers dir fs))"
  proof (cases "WalkDir fs dir")
    case (Inr entries)
    have "keeps (tidy Q) (Remove (path_string k))" if "(k, n) \<in> set entries" for k n
    proof (rule assms)
      from that Inr have "prefix (elems dir) k" and k: "k = elems dir \<or> k \<in> set (map fst fs)"
        by (auto simp: WalkDir_def strict_prefix_def split: sum.splits)
      moreover from k have "list_all good_elem k"
        using P elems_good [of dir] by (auto simp: tidy_def fs_ok_def list_all_iff)
      ultimately show "prefix (elems dir) (elems (path_string k))" by (simp add: elems_path_string)
    qed
    then have "keeps (tidy Q) (each_op (\<lambda>(k, n). Remove (path_string k)) entries)"
      by (intro keeps_each) auto
    with Inr P show ?thesis by (simp add: remove_leftovers_def keepsD)
  qed (simp add: remove_leftovers_def P)
qed

lemma keeps_clean_quadlet_dir:
  assumes "keeps P (RemoveAll (JoinPath [hr_QuadletPrefix r, fst e]))"
  shows "keeps P (clean_quadlet_dir r e)"
  using assms by (auto simp: keeps_def clean_quadlet_dir_def split: sum.split)

lemma keeps_Host_Clean:
  assumes "\<And>n. good_elem n \<Longrightarrow> keeps (tidy Q) (RemoveAll (JoinPath [hr_QuadletPrefix r, n]))"
    and "keeps (tidy Q) (RemoveAll (hr_DataPrefix r))"
  shows "keeps (tidy Q) (Host_Clean r)"
proof (rule keepsI)
  fix fs assume P: "tidy Q fs"
  show "tidy Q (snd (Host_Clean r fs))"
  proof (cases "ReadDir fs (hr_QuadletPrefix r)")
    case (Inr entries)
    have "good_elem (fst e)" if "e \<in> set entries" for e
    proof -
      from that Inr have "\<exists>k\<in>set (map fst fs). k \<noteq> [] \<and> fst e = last k"
        by (auto simp: ReadDir_def children_def image_iff split: sum.splits node.splits) force
      with P show ?thesis by (auto simp: tidy_def fs_ok_def list_all_iff)
    qed
    with assms(1) have "keeps (tidy Q) (each_op (clean_quadlet_dir r) entries)"
      by (intro keeps_each keeps_clean_quadlet_dir) auto
    with assms(2) have "keeps (tidy Q) (then_op (each_op (clean_quadlet_dir r) entries) (RemoveAll (hr_DataPrefix r)))"
      by (intro keeps_then)
    with Inr P show ?thesis by (simp add: Host_Clean_def keepsD)
  qed (simp add: Host_Clean_def P)
qed

text \<open>The operations of the host repository and of the directories of scripts and units.\<close>

datatype repo_op =
    OpInstallComponent Component
  | OpUpdateComponent Component
  | OpRemoveComponent Component
  | OpInstallResource Resource string
  | OpRemoveResource Resource
  | OpPurgeComponent Component
  | OpPurgeByName string
  | OpClean

fun repo_step :: "(Component \<Rightarrow> string) \<Rightarrow> HostComponentRepository \<Rightarrow> repo_op \<Rightarrow> fs operation" where
  "repo_step vt r (OpInstallComponent c) = InstallComponent vt r (Some c)"
| "repo_step vt r (OpUpdateComponent c) = UpdateComponent vt r (Some c)"
| "repo_step vt r (OpRemoveComponent c) = RemoveComponent r (Some c)"
| "repo_step vt r (OpInstallResource res d) = InstallResource r res d"
| "repo_step vt r (OpRemoveResource res) = RemoveResource r res"
| "repo_step vt r (OpPurgeComponent c) = PurgeComponent r (Some c)"
| "repo_step vt r (OpPurgeByName n) = PurgeComponentByName r n"
| "repo_step vt r OpClean = Host_Clean r"

inductive repo_run :: "(Component \<Rightarrow> string) \<Rightarrow> HostComponentRepository \<Rightarrow> (repo_op \<Rightarrow> bool) \<Rightarrow> fs \<Rightarrow> fs \<Rightarrow> bool"
  for vt r allowed where
  start: "repo_run vt r allowed fs fs"
| step: "repo_run vt r allowed fs fs1 \<Longrightarrow> allowed a \<Longrightarrow> repo_run vt r allowed fs (snd (repo_step vt r a fs1))"

lemma tidy_ok: "keeps (tidy (\<lambda>fs. True)) f \<Longrightarrow> keeps fs_ok f"
  by (simp add: keeps_def tidy_def)

lemma tidy_ok_leaves:
  "keeps (tidy (\<lambda>fs. True)) (Mkdir p)" "keeps (tidy (\<lambda>fs. True)) (WriteFile p d)"
  "keeps (tidy (\<lambda>fs. True)) (CreateFile p)" "keeps (tidy (\<lambda>fs. True)) (Remove p)" "keeps (tidy (\<lambda>fs. True)) (RemoveAll p)"
  by (simp_all add: keeps_def tidy_def fs_ok_ops)

lemma repo_step_ok: "keeps fs_ok (repo_step vt r a)"
proof (rule tidy_ok)
  show "keeps (tidy (\<lambda>fs. True)) (repo_step vt r a)"
    by (cases a)
      (auto simp: InstallComponent_def UpdateComponent_def RemoveComponent_def InstallResource_def RemoveResource_def
        PurgeComponent_def PurgeComponentByName_def Let_def
        intro!: keeps_intros keeps_leftovers keeps_Host_Clean tidy_ok_leaves)
qed


subsection \<open>Nothing outside the two prefixes is touched\<close>

fun good_op :: "repo_op \<Rightarrow> bool" where
  "good_op (OpInstallComponent c) = good_elem (InstanceName c)"
| "good_op (OpUpdateComponent c) = good_elem (InstanceName c)"
| "good_op (OpRemoveComponent c) = good_elem (InstanceName c)"
| "good_op (OpInstallResource res d) = good_resource res"
| "good_op (OpRemoveResource res) = good_resource res"
| "good_op (OpPurgeComponent c) = good_elem (InstanceName c)"
| "good_op (OpPurgeByName n) = good_elem n"
| "good_op OpClean = True"

definition inside :: "HostComponentRepository \<Rightarrow> path \<Rightarrow> bool" where
  "inside r k \<longleftrightarrow> prefix (elems (hr_DataPrefix r)) k \<or> prefix (elems (hr_QuadletPrefix r)) k"

definition same_outside :: "HostComponentRepository \<Rightarrow> fs \<Rightarrow> fs \<Rightarrow> bool" where
  "same_outside r fs fs' \<longleftrightarrow> (\<forall>k. \<not> inside r k \<longrightarrow> node_at fs' k = node_at fs k)"

lemma CreateFile_node:
  "CreateFile p fs = (None, fs') \<Longrightarrow> node_at fs' k = (if k = elems p \<and> node_at fs k = None then Some (PlainFile []) else node_at fs k)"
  by (auto simp: CreateFile_def node_at_update parent_missing_def split: option.splits node.splits if_splits)
    (auto simp: node_at_def update_conv' split: if_splits)

lemma op_cases: "P (snd x) \<longleftrightarrow> (\<forall>fs'. x = (None, fs') \<longrightarrow> P fs') \<and> (\<forall>e fs'. x = (Some e, fs') \<longrightarrow> P fs')"
  by (cases x; cases "fst x") auto

lemma node_outside:
  assumes "k \<noteq> elems p"
  shows "node_at (snd (Mkdir p fs)) k = node_at fs k" "node_at (snd (WriteFile p d fs)) k = node_at fs k"
    "node_at (snd (CreateFile p fs)) k = node_at fs k" "node_at (snd (Remove p fs)) k = node_at fs k"
  using assms
  by (subst op_cases [of "\<lambda>fs'. node_at fs' k = node_at fs k"];
      auto dest: Mkdir_node WriteFile_node CreateFile_node [of _ _ _ k] Remove_node failed_keeps)+

lemma RemoveAll_outside: "\<not> prefix (elems p) k \<Longrightarrow> node_at (snd (RemoveAll p fs)) k = node_at fs k"
  by (auto simp: RemoveAll_def node_at_def map_of_filter_key)

lemma keeps_outside:
  assumes "inside r (elems p)"
  shows "keeps (same_outside r fs) (Mkdir p)" "keeps (same_outside r fs) (WriteFile p d)"
    "keeps (same_outside r fs) (CreateFile p)" "keeps (same_outside r fs) (Remove p)"
    "keeps (same_outside r fs) (RemoveAll p)"
proof -
  have ne: "k \<noteq> elems p" if "\<not> inside r k" for k using that assms by auto
  have np: "\<not> prefix (elems p) k" if "\<not> inside r k" for k
    using that assms unfolding inside_def by (meson prefix_order.trans)
  show "keeps (same_outside r fs) (Mkdir p)" "keeps (same_outside r fs) (WriteFile p d)"
    "keeps (same_outside r fs) (CreateFile p)" "keeps (same_outside r fs) (Remove p)"
    using ne by (simp_all add: keeps_def same_outside_def node_outside)
  show "keeps (same_outside r fs) (RemoveAll p)"
    using np by (simp add: keeps_def same_outside_def RemoveAll_outside)
qed

lemma inside_paths:
  assumes "repo_ok r" and "good_elem n"
  shows "inside r (elems (JoinPath [hr_DataPrefix r, n]))" "inside r (elems (JoinPath [hr_QuadletPrefix r, n]))"
    "inside r (elems (JoinPath [hr_DataPrefix r, n, version_file]))"
    "inside r (elems (JoinPath [hr_QuadletPrefix r, n, managed_file]))"
    "inside r (elems (JoinPath [hr_QuadletPrefix r, n] @ ''/.materia_managed''))"
    "inside r (elems (hr_DataPrefix r))"
proof -
  have *: "elems (JoinPath [hr_QuadletPrefix r, n] @ ''/.materia_managed'') = elems (hr_QuadletPrefix r) @ [n, managed_file]"
    using elems_append [of managed_file "JoinPath [hr_QuadletPrefix r, n]"] assms
    by (simp add: managed_file_def [symmetric] repo_ok_def elems_JoinPath2 good_elem_path Split_good)
  show "inside r (elems (JoinPath [hr_QuadletPrefix r, n] @ ''/.materia_managed''))" by (simp add: * inside_def)
  show "inside r (elems (JoinPath [hr_DataPrefix r, n]))" "inside r (elems (JoinPath [hr_QuadletPrefix r, n]))"
    "inside r (elems (JoinPath [hr_DataPrefix r, n, version_file]))"
    "inside r (elems (JoinPath [hr_QuadletPrefix r, n, managed_file]))" "inside r (elems (hr_DataPrefix r))"
    using assms by (simp_all add: inside_def repo_ok_def elems_JoinPath2 elems_JoinPath3 good_elem_path)
qed

lemma inside_resource:
  assumes "repo_ok r" and "good_resource res"
  shows "inside r (resource_path r res)"
  using assms by (simp add: resource_path_def inside_def)

text \<open>
  What holds of all operations: a property that the basic operations keep inside the two prefixes, where
  directories are only made below the data prefix or directly in the quadlet prefix.
\<close>

definition makes_dir :: "HostComponentRepository \<Rightarrow> path \<Rightarrow> bool" where
  "makes_dir r k \<longleftrightarrow> prefix (elems (hr_DataPrefix r)) k \<or> (\<exists>n. k = elems (hr_QuadletPrefix r) @ [n])"

lemma makes_dir_paths:
  assumes "repo_ok r" and "good_elem n"
  shows "makes_dir r (elems (JoinPath [hr_DataPrefix r, n]))" "makes_dir r (elems (JoinPath [hr_QuadletPrefix r, n]))"
  using assms by (auto simp: makes_dir_def repo_ok_def elems_JoinPath2 good_elem_path Split_good)

lemma repo_step_keeps:
  assumes r: "repo_ok r" and a: "good_op a"
    and mk: "\<And>p. makes_dir r (elems p) \<Longrightarrow> keeps Q (Mkdir p)"
    and leaf: "\<And>p d. inside r (elems p) \<Longrightarrow> keeps Q (WriteFile p d)" "\<And>p. inside r (elems p) \<Longrightarrow> keeps Q (CreateFile p)"
      "\<And>p. inside r (elems p) \<Longrightarrow> keeps Q (Remove p)" "\<And>p. inside r (elems p) \<Longrightarrow> keeps Q (RemoveAll p)"
  shows "keeps (tidy Q) (repo_step vt r a)"
proof -
  note t = keeps_tidy [OF fs_ok_keeps(1) mk] keeps_tidy [OF fs_ok_keeps(2) leaf(1)] keeps_tidy [OF fs_ok_keeps(3) leaf(2)]
    keeps_tidy [OF fs_ok_keeps(4) leaf(3)] keeps_tidy [OF fs_ok_keeps(5) leaf(4)]
  note i = inside_paths [OF r] makes_dir_paths [OF r]
  have below: "inside r k" if "prefix (elems (JoinPath [hr_DataPrefix r, n])) k" and "good_elem n" for k n
    using that r by (auto simp: inside_def repo_ok_def elems_JoinPath2 good_elem_path Split_good prefix_def)
  show ?thesis
  proof (cases a)
    case (OpInstallComponent c)
    with a show ?thesis
      by (auto simp: InstallComponent_def Let_def intro!: keeps_intros t i)
  next
    case (OpUpdateComponent c)
    with a show ?thesis by (auto simp: UpdateComponent_def intro!: t i)
  next
    case (OpRemoveComponent c)
    with a show ?thesis
      by (auto simp: RemoveComponent_def Let_def intro!: keeps_then keeps_leftovers t i intro: below)
  next
    case (OpInstallResource res d)
    with a have g: "good_resource res" by simp
    have p: "elems (JoinPath [hr_QuadletPrefix r, res_Parent res, res_Path res]) = resource_path r res" if "IsQuadlet res"
      using elems_resource(1) [OF r g] that by simp
    have q: "elems (JoinPath [JoinPath [hr_DataPrefix r, res_Parent res], res_Path res]) = resource_path r res" if "\<not> IsQuadlet res"
      using elems_resource(2) [OF r g that] .
    have m: "makes_dir r (resource_path r res)" if "\<not> IsQuadlet res"
      using that by (simp add: makes_dir_def resource_path_def)
    show ?thesis
      by (auto simp: OpInstallResource InstallResource_def Let_def p q intro!: keeps_intros t inside_resource [OF r g] m)
  next
    case (OpRemoveResource res)
    with a have g: "good_resource res" by simp
    show ?thesis
      using t(4) [of "JoinPath [if IsQuadlet res then hr_QuadletPrefix r else hr_DataPrefix r, res_Parent res, res_Path res]"]
        elems_resource(1) [OF r g] inside_resource [OF r g]
      by (simp add: OpRemoveResource RemoveResource_def)
  next
    case (OpPurgeComponent c)
    with a show ?thesis by (auto simp: PurgeComponent_def intro!: keeps_then t i)
  next
    case (OpPurgeByName n)
    with a show ?thesis by (auto simp: PurgeComponentByName_def intro!: keeps_intros t i)
  next
    case OpClean
    have data: "inside r (elems (hr_DataPrefix r))" by (simp add: inside_def)
    have "keeps (tidy Q) (Host_Clean r)"
      by (rule keeps_Host_Clean; rule t(5)) (simp_all add: i(2) data)
    with OpClean show ?thesis by simp
  qed
qed

lemma repo_run_keeps:
  assumes "repo_run vt r good_op fs fs'" and "repo_ok r" and "fs_ok fs" and "Q fs"
    and "\<And>p. makes_dir r (elems p) \<Longrightarrow> keeps Q (Mkdir p)"
    and "\<And>p d. inside r (elems p) \<Longrightarrow> keeps Q (WriteFile p d)" "\<And>p. inside r (elems p) \<Longrightarrow> keeps Q (CreateFile p)"
      "\<And>p. inside r (elems p) \<Longrightarrow> keeps Q (Remove p)" "\<And>p. inside r (elems p) \<Longrightarrow> keeps Q (RemoveAll p)"
  shows "tidy Q fs'"
  using assms(1,3,4)
proof (induction rule: repo_run.induct)
  case (start fs)
  then show ?case by (simp add: tidy_def)
next
  case (step fs fs1 a)
  from repo_step_keeps [OF assms(2) \<open>good_op a\<close> assms(5-9)] have "keeps (tidy Q) (repo_step vt r a)" .
  with step show ?case by (simp add: keepsD)
qed

text \<open>
  C20: However the repository is used with proper names, the files outside its two prefixes never
  change.
\<close>

theorem repository_stays_inside:
  assumes "repo_run vt r good_op fs fs'" and "repo_ok r" and "fs_ok fs" and "\<not> inside r k"
  shows "node_at fs' k = node_at fs k"
proof -
  have mk: "inside r k" if "makes_dir r k" for k
    using that by (auto simp: makes_dir_def inside_def)
  have "tidy (same_outside r fs) fs'"
    using assms(1-3) by (rule repo_run_keeps) (auto simp: same_outside_def [of r fs fs] intro: keeps_outside mk)
  with assms(4) show ?thesis by (simp add: tidy_def same_outside_def)
qed

end
