(* ===== verification/RepositoryTrips.thy ===== *)
theory RepositoryTrips
  imports RepositoryFacts
begin

section \<open>Round trips through the host repository\<close>

text \<open>
  What is written is read back, what is installed can be removed again, and where the repository does
  not do what its names say.
\<close>

definition demo_repo :: HostComponentRepository where
  "demo_repo = \<lparr>hr_DataPrefix = ''/data'', hr_QuadletPrefix = ''/quadlets''\<rparr>"

definition demo_files :: fs where
  "demo_files = [([''data''], Directory), ([''quadlets''], Directory)]"

definition demo_web :: Component where
  "demo_web = (NewComponent ''web'')\<lparr>comp_Version := 1\<rparr>"

definition demo_installed :: fs where
  "demo_installed = snd (repo_step (\<lambda>c. []) demo_repo (OpInstallComponent demo_web) demo_files)"

definition demo_dropin :: Resource where
  "demo_dropin = zero_Resource\<lparr>res_Path := ''web.container.d/10-env.conf'', res_Parent := ''web'', res_Kind := ResourceTypeDropin\<rparr>"

definition demo_www :: fs where
  "demo_www = ([''data'', ''web'', ''www''], Directory) # demo_installed"

lemma demo_quadlets: "elems (hr_QuadletPrefix demo_repo) = [''quadlets'']"
  by code_simp

lemma demo_run:
  "allowed (OpInstallComponent demo_web) \<Longrightarrow> repo_run (\<lambda>c. []) demo_repo allowed demo_files demo_installed"
  unfolding demo_installed_def by (rule repo_run.step [OF repo_run.start])

lemma demo_repo_ok: "repo_ok demo_repo"
  by code_simp

lemma demo_files_ok: "fs_ok demo_files"
  by code_simp

subsection \<open>Reading what was installed\<close>

lemma Stat_node: "\<not> blocked fs (elems p) \<Longrightarrow> node_at fs (elems p) = Some n \<Longrightarrow> Stat fs p = Inr n"
  by (simp add: Stat_def)

lemma blocked_update:
  "k \<noteq> [] \<Longrightarrow> blocked (AList.update k n fs) k = blocked fs k"
proof -
  assume k: "k \<noteq> []"
  have "node_at (AList.update k n fs) (take i k) = node_at fs (take i k)" if "i \<in> set [0..<length k]" for i
  proof -
    have "take i k \<noteq> k" using that by (metis atLeastLessThan_iff atLeastLessThan_upt length_take less_irrefl min_less_iff_conj nat_less_le)
    with k show ?thesis by (simp add: node_at_update)
  qed
  then show ?thesis by (auto simp: blocked_def list_ex_iff)
qed

lemma written_read:
  assumes "WriteFile p d fs = (None, fs')" and "elems q = elems p"
  shows "ReadFile fs' q = Inr d"
proof -
  from assms(1) have p: "elems p \<noteq> []" "\<not> blocked fs (elems p)" "fs' = AList.update (elems p) (PlainFile d) fs"
    by (auto dest: WriteFile_Inr)
  then have "Stat fs' q = Inr (PlainFile d)"
    using assms(2) by (intro Stat_node) (simp_all add: blocked_update node_at_update)
  then show ?thesis by (simp add: ReadFile_def)
qed

definition has_text :: "Resource \<Rightarrow> bool" where
  "has_text res \<longleftrightarrow>
     res_Kind res \<notin> {ResourceTypeDirectory, ResourceTypeDropinDir, ResourceTypePodmanSecret} \<and> \<not> res_Template res"


definition demo_page :: Resource where
  "demo_page = zero_Resource\<lparr>res_Path := ''www/index.html'', res_Parent := ''web'', res_Kind := ResourceTypeFile\<rparr>"

definition demo_web_files :: fs where
  "demo_web_files = [([''data'', ''web'', ''www''], Directory), ([''data'', ''web''], Directory)] @ demo_files"


subsection \<open>A resource that exists is never found\<close>

text \<open>
  \<open>GetResource\<close> of the host repository never returns a resource: it builds one when \<open>Stat\<close>
  says the file does not exist (and then fails on it), and reports one that exists as not found.
\<close>

theorem Host_GetResource_always_fails: "\<exists>e. Host_GetResource up r fs c name = Inl e"
  by (auto simp: Host_GetResource_def Host_NewResource_def Let_def split: option.split sum.split)

subsection \<open>Installing and removing a component\<close>

lemma fs_ok_above:
  assumes "fs_ok fs" and "node_at fs (k @ ks) \<noteq> None" and "ks \<noteq> []"
  shows "node_at fs k = Some Directory"
  using assms(2,3)
proof (induction ks rule: rev_induct)
  case Nil
  then show ?case by simp
next
  case (snoc x xs)
  then have "node_at fs (butlast (k @ xs @ [x])) = Some Directory"
    using assms(1) by (auto simp: fs_ok_iff node_at_def split: if_splits)
  then have "node_at fs (k @ xs) = Some Directory" by (simp add: butlast_append flip: append_assoc)
  with snoc.IH show ?case by (cases "xs = []") auto
qed

lemma fs_ok_unblocked: "fs_ok fs \<Longrightarrow> node_at fs k \<noteq> None \<Longrightarrow> \<not> blocked fs k"
proof
  assume ok: "fs_ok fs" and k: "node_at fs k \<noteq> None" and "blocked fs k"
  then obtain i where i: "i < length k" "case node_at fs (take i k) of Some (PlainFile d) \<Rightarrow> True | _ \<Rightarrow> False"
    by (auto simp: blocked_def list_ex_iff)
  with ok k fs_ok_above [of fs "take i k" "drop i k"] show False by simp
qed

lemma Remove_file:
  "fs_ok fs \<Longrightarrow> node_at fs (elems p) = Some (PlainFile d) \<Longrightarrow> Remove p fs = (None, AList.delete (elems p) fs)"
  by (simp add: Remove_def Stat_node fs_ok_unblocked)

definition empty_below :: "fs \<Rightarrow> path \<Rightarrow> bool" where
  "empty_below fs k \<longleftrightarrow> (\<forall>j. strict_prefix k j \<longrightarrow> node_at fs j = None)"

lemma key_node: "j \<in> set (map fst fs) \<Longrightarrow> node_at fs j \<noteq> None"
  using map_of_eq_None_iff [of fs j] by (cases "map_of fs j") (auto simp: node_at_def)

lemma empty_below_children: "empty_below fs k \<Longrightarrow> children fs k = []"
proof -
  assume e: "empty_below fs k"
  have False if "j \<in> set (children fs k)" for j
  proof -
    from that have "j \<noteq> []" "butlast j = k" "j \<in> set (map fst fs)" by (auto simp: children_def)
    then have "strict_prefix k j" by (metis append_butlast_last_id not_Cons_self2 strict_prefixI' self_append_conv strict_prefix_def prefixI)
    with e key_node [OF \<open>j \<in> set (map fst fs)\<close>] show False by (simp add: empty_below_def)
  qed
  then show ?thesis by (metis last_in_set)
qed

lemma Remove_empty_dir:
  "fs_ok fs \<Longrightarrow> node_at fs (elems p) = Some Directory \<Longrightarrow> elems p \<noteq> [] \<Longrightarrow> empty_below fs (elems p) \<Longrightarrow>
   Remove p fs = (None, AList.delete (elems p) fs)"
  by (simp add: Remove_def Stat_node fs_ok_unblocked empty_below_children)

lemma remove_leftovers_empty:
  assumes "fs_ok fs" and "node_at fs (elems dir) = Some Directory" and "elems dir \<noteq> []" and "empty_below fs (elems dir)"
  shows "remove_leftovers dir fs = (None, AList.delete (elems dir) fs)"
proof -
  have "filter (strict_prefix (elems dir)) (map fst fs) = []"
    using assms(4) key_node unfolding filter_empty_conv empty_below_def by blast
  then have "WalkDir fs dir = Inr [(elems dir, Directory)]"
    using assms by (simp add: WalkDir_def Stat_node fs_ok_unblocked)
  moreover have "Remove (path_string (elems dir)) fs = (None, AList.delete (elems dir) fs)"
    using Remove_empty_dir [of fs "path_string (elems dir)"] assms by (simp add: elems_path_string elems_good)
  ultimately show ?thesis by (simp add: remove_leftovers_def)
qed

lemma empty_below_absent: "fs_ok fs \<Longrightarrow> node_at fs k = None \<Longrightarrow> empty_below fs k"
  unfolding empty_below_def
proof (intro allI impI)
  fix j assume ok: "fs_ok fs" and k: "node_at fs k = None" and "strict_prefix k j"
  then obtain ks where "j = k @ ks" "ks \<noteq> []" by (auto elim: strict_prefixE')
  with ok k fs_ok_above [of fs k ks] show "node_at fs j = None" by (cases "node_at fs j") auto
qed


lemma InstallComponent_nodes:
  assumes "InstallComponent vt r (Some c) fs = (None, fs')" and r: "repo_ok r" and n: "good_elem (InstanceName c)" and ok: "fs_ok fs"
  defines "D \<equiv> elems (hr_DataPrefix r) @ [InstanceName c]" and "Q \<equiv> elems (hr_QuadletPrefix r) @ [InstanceName c]"
  shows "node_at fs D = None \<and> node_at fs Q = None \<and>
    node_at fs' = (node_at fs)(D \<mapsto> Directory, Q \<mapsto> Directory, Q @ [managed_file] \<mapsto> PlainFile [],
      D @ [version_file] \<mapsto> PlainFile (vt c))"
proof -
  have p: "elems (JoinPath [hr_DataPrefix r, InstanceName c]) = D" "elems (JoinPath [hr_QuadletPrefix r, InstanceName c]) = Q"
    "elems (JoinPath [hr_DataPrefix r, InstanceName c, version_file]) = D @ [version_file]"
    "elems (JoinPath [hr_QuadletPrefix r, InstanceName c] @ ''/.materia_managed'') = Q @ [managed_file]"
    using r n elems_append [of managed_file "JoinPath [hr_QuadletPrefix r, InstanceName c]"]
    by (simp_all add: repo_ok_def D_def Q_def elems_JoinPath2 elems_JoinPath3 good_elem_path Split_good)
      (simp add: managed_file_def)
  from assms(1) obtain f1 f2 f3 where
    f1: "Mkdir (JoinPath [hr_DataPrefix r, InstanceName c]) fs = (None, f1)" and
    f2: "Mkdir (JoinPath [hr_QuadletPrefix r, InstanceName c]) f1 = (None, f2)" and
    f3: "CreateFile (JoinPath [hr_QuadletPrefix r, InstanceName c] @ ''/.materia_managed'') f2 = (None, f3)" and
    f4: "WriteFile (JoinPath [hr_DataPrefix r, InstanceName c, version_file]) (vt c) f3 = (None, fs')"
    by (auto simp: InstallComponent_def Let_def fail_op_def then_op_None split: option.splits)
  have DQ: "D \<noteq> Q" using r by (auto simp: D_def Q_def repo_ok_def)
  have n1: "node_at f1 = (node_at fs)(D \<mapsto> Directory)" "node_at fs D = None"
    using Mkdir_node [OF f1] Mkdir_Inr [OF f1] by (simp_all add: p)
  have n2: "node_at f2 = (node_at f1)(Q \<mapsto> Directory)" "node_at f1 Q = None"
    using Mkdir_node [OF f2] Mkdir_Inr [OF f2] by (simp_all add: p)
  have fQ: "node_at fs Q = None" using n1(1) n2(2) DQ by (auto split: if_splits)
  have "node_at fs (Q @ [managed_file]) = None"
    using fs_ok_above [OF ok, of Q "[managed_file]"] fQ by (cases "node_at fs (Q @ [managed_file])") auto
  moreover have "D \<noteq> Q @ [managed_file]"
    using r by (auto simp: D_def Q_def repo_ok_def)
  ultimately have M: "node_at f2 (Q @ [managed_file]) = None" by (simp add: n1 n2)
  have n3: "node_at f3 = (node_at f2)(Q @ [managed_file] \<mapsto> PlainFile [])"
    using CreateFile_node [OF f3] M by (auto simp: p fun_eq_iff)
  have "node_at fs' = (node_at f3)(D @ [version_file] \<mapsto> PlainFile (vt c))"
    using WriteFile_node [OF f4] by (simp add: p)
  with n1 n2 n3 fQ show ?thesis by simp
qed

text \<open>
  C22: Removing a component right after it was installed succeeds and gives the files back as they were.
\<close>

theorem install_remove_component_roundtrip:
  assumes "InstallComponent vt r (Some c) fs = (None, fs')" and "repo_ok r" and "good_elem (InstanceName c)" and "fs_ok fs"
  shows "\<exists>fs''. RemoveComponent r (Some c) fs' = (None, fs'') \<and> node_at fs'' = node_at fs"
proof -
  define D where "D = elems (hr_DataPrefix r) @ [InstanceName c]"
  define Q where "Q = elems (hr_QuadletPrefix r) @ [InstanceName c]"
  have p: "elems (JoinPath [hr_DataPrefix r, InstanceName c]) = D" "elems (JoinPath [hr_QuadletPrefix r, InstanceName c]) = Q"
    "elems (JoinPath [hr_DataPrefix r, InstanceName c, version_file]) = D @ [version_file]"
    "elems (JoinPath [hr_QuadletPrefix r, InstanceName c, managed_file]) = Q @ [managed_file]"
    using assms(2,3) by (simp_all add: repo_ok_def D_def Q_def elems_JoinPath2 elems_JoinPath3 good_elem_path Split_good)
  have ne: "D \<noteq> Q" "D \<noteq> []" "Q \<noteq> []" using assms(2) by (auto simp: D_def Q_def repo_ok_def)
  have nDQ: "\<not> prefix D Q" "\<not> prefix Q D"
    using assms(2) by (auto simp: D_def Q_def repo_ok_def prefix_snoc dest: prefix_snocD)
  have files: "managed_file \<noteq> version_file" "version_file \<noteq> managed_file" by code_simp+
  have far: "D @ [version_file] \<noteq> Q @ [managed_file]" "D @ [version_file] \<noteq> Q" "Q @ [managed_file] \<noteq> D" "D \<noteq> Q @ [managed_file]"
    using ne(1) nDQ prefixI [of Q D "[version_file]"] prefixI [of D Q "[managed_file]"]
    by (auto simp: files)
  have old: "node_at fs D = None" "node_at fs Q = None"
    "node_at fs' = (node_at fs)(D \<mapsto> Directory, Q \<mapsto> Directory, Q @ [managed_file] \<mapsto> PlainFile [],
      D @ [version_file] \<mapsto> PlainFile (vt c))"
    using InstallComponent_nodes [OF assms(1-3,4)] by (simp_all add: D_def Q_def)
  have low: "empty_below fs D" "empty_below fs Q" using assms(4) old by (simp_all add: empty_below_absent)
  have ok': "fs_ok fs'"
    using keepsD [OF repo_step_ok, of fs vt r "OpInstallComponent c"] assms(1,4) by simp
  define f1 where "f1 = AList.delete (D @ [version_file]) fs'"
  have r1: "Remove (JoinPath [hr_DataPrefix r, InstanceName c, version_file]) fs' = (None, f1)"
    unfolding f1_def p(3) [symmetric] by (rule Remove_file [where d = "vt c", OF ok']) (simp add: p old far)
  have ok1: "fs_ok f1" using fs_ok_ops(4) [OF ok', of "JoinPath [hr_DataPrefix r, InstanceName c, version_file]"] r1 by simp
  have n1: "node_at f1 = (node_at fs)(D \<mapsto> Directory, Q \<mapsto> Directory, Q @ [managed_file] \<mapsto> PlainFile [], D @ [version_file] := None)"
    by (simp add: f1_def node_at_delete old)
  define f2 where "f2 = AList.delete D f1"
  have e1: "empty_below f1 D"
    using low(1) nDQ by (auto simp: empty_below_def n1 strict_prefix_def prefix_snoc)
  have r2: "remove_leftovers (JoinPath [hr_DataPrefix r, InstanceName c]) f1 = (None, f2)"
    unfolding f2_def p(1) [symmetric] by (rule remove_leftovers_empty [OF ok1]) (simp_all add: p n1 far ne e1)
  have ok2: "fs_ok f2"
    using fs_ok_delete [OF ok1, of D] e1 ne by (simp add: f2_def empty_below_children)
  have n2: "node_at f2 = (node_at f1)(D := None)" using ne by (simp add: f2_def node_at_delete)
  define f3 where "f3 = AList.delete (Q @ [managed_file]) f2"
  have r3: "Remove (JoinPath [hr_QuadletPrefix r, InstanceName c, managed_file]) f2 = (None, f3)"
    unfolding f3_def p(4) [symmetric] by (rule Remove_file [where d = "[]", OF ok2]) (use ne(1) in \<open>auto simp: p n1 n2 far\<close>)
  have ok3: "fs_ok f3" using fs_ok_ops(4) [OF ok2, of "JoinPath [hr_QuadletPrefix r, InstanceName c, managed_file]"] r3 by simp
  have n3: "node_at f3 = (node_at f2)(Q @ [managed_file] := None)" by (simp add: f3_def node_at_delete)
  have e3: "empty_below f3 Q"
    using low(2) nDQ by (auto simp: empty_below_def n1 n2 n3 strict_prefix_def prefix_snoc)
  have r4: "Remove (JoinPath [hr_QuadletPrefix r, InstanceName c]) f3 = (None, AList.delete Q f3)"
    unfolding p(2) [symmetric] by (rule Remove_empty_dir [OF ok3]) (simp_all add: p n1 n2 n3 far far(2) [symmetric] ne ne(1) [symmetric] e3)
  have "RemoveComponent r (Some c) fs' = (None, AList.delete Q f3)"
    by (simp add: RemoveComponent_def Let_def then_op_None r1 r2 r3 r4)
  moreover have "node_at fs (D @ [version_file]) = None" "node_at fs (Q @ [managed_file]) = None"
    using low by (auto simp: empty_below_def strict_prefix_def)
  then have "node_at (AList.delete Q f3) = node_at fs"
    using old(1,2) ne by (simp add: node_at_delete n1 n2 n3 fun_eq_iff)
  ultimately show ?thesis by blast
qed

theorem install_remove_component_roundtrip_witness:
  "\<exists>fs''. RemoveComponent demo_repo (Some demo_web)
     (snd (InstallComponent (\<lambda>c. ''Version = 1'') demo_repo (Some demo_web) demo_files)) = (None, fs'')
     \<and> node_at fs'' = node_at demo_files"
proof -
  have "InstallComponent (\<lambda>c. ''Version = 1'') demo_repo (Some demo_web) demo_files =
      (None, snd (InstallComponent (\<lambda>c. ''Version = 1'') demo_repo (Some demo_web) demo_files))"
    by code_simp
  moreover have "good_elem (InstanceName demo_web)" by code_simp
  ultimately show ?thesis using demo_repo_ok demo_files_ok by (intro install_remove_component_roundtrip)
qed

subsection \<open>Leftover directories are not removed\<close>

lemma child_in_children:
  "node_at fs (k @ [n]) = Some x \<Longrightarrow> k @ [n] \<in> set (children fs k)"
  by (auto simp: node_at_def children_def image_iff dest!: map_of_SomeD) force

lemma Remove_full_dir:
  assumes "fs_ok fs" and "node_at fs (k @ [n]) \<noteq> None" and "elems p = k"
  shows "\<exists>e. Remove p fs = (Some e, fs)"
proof -
  have "node_at fs k = Some Directory" using fs_ok_above [OF assms(1,2)] by simp
  moreover from assms(2) have "children fs k \<noteq> []" using child_in_children by fastforce
  ultimately show ?thesis using assms by (simp add: Remove_def Stat_node fs_ok_unblocked)
qed

text \<open>
  Removing a component fails as soon as its data directory holds anything beside the version file,
  an empty directory included: the code collects the leftover directories to remove them, but starts with
  the component's own.  The version file is gone by then.
\<close>

theorem RemoveComponent_leaves_directories:
  assumes "repo_ok r" and "good_elem (InstanceName c)" and "fs_ok fs"
    and "node_at fs (elems (hr_DataPrefix r) @ [InstanceName c, version_file]) = Some (PlainFile v)"
    and "node_at fs (elems (hr_DataPrefix r) @ [InstanceName c, n]) \<noteq> None" and "n \<noteq> version_file"
  shows "\<exists>e fs'. RemoveComponent r (Some c) fs = (Some e, fs') \<and>
    node_at fs' = (node_at fs)(elems (hr_DataPrefix r) @ [InstanceName c, version_file] := None)"
proof -
  define D where "D = elems (hr_DataPrefix r) @ [InstanceName c]"
  have p: "elems (JoinPath [hr_DataPrefix r, InstanceName c]) = D"
    "elems (JoinPath [hr_DataPrefix r, InstanceName c, version_file]) = D @ [version_file]"
    using assms(1,2) by (simp_all add: repo_ok_def D_def elems_JoinPath2 elems_JoinPath3 good_elem_path Split_good)
  have old: "node_at fs (D @ [version_file]) = Some (PlainFile v)" "node_at fs (D @ [n]) \<noteq> None"
    using assms(4,5) by (simp_all add: D_def)
  define f1 where "f1 = AList.delete (D @ [version_file]) fs"
  have r1: "Remove (JoinPath [hr_DataPrefix r, InstanceName c, version_file]) fs = (None, f1)"
    unfolding f1_def p(2) [symmetric] by (rule Remove_file [where d = v, OF assms(3)]) (simp add: p old)
  have n1: "node_at f1 = (node_at fs)(D @ [version_file] := None)" by (simp add: f1_def node_at_delete)
  have ok1: "fs_ok f1"
    using fs_ok_ops(4) [OF assms(3), of "JoinPath [hr_DataPrefix r, InstanceName c, version_file]"] r1 by simp
  have "elems (path_string D) = D"
    using elems_good [of "JoinPath [hr_DataPrefix r, InstanceName c]"] by (simp add: p elems_path_string)
  then obtain e where first: "Remove (path_string D) f1 = (Some e, f1)"
    using Remove_full_dir [OF ok1, of D n] old assms(6) by (auto simp: n1)
  have "\<exists>e. remove_leftovers (JoinPath [hr_DataPrefix r, InstanceName c]) f1 = (Some e, f1)"
    by (auto simp: remove_leftovers_def WalkDir_def p first then_op_def split: sum.split)
  with r1 n1 show ?thesis
    by (auto simp: RemoveComponent_def Let_def then_op_None) (auto simp: then_op_def D_def)
qed

subsection \<open>Quadlets in a directory of their own cannot be installed\<close>

definition flat_quadlets :: "HostComponentRepository \<Rightarrow> fs \<Rightarrow> bool" where
  "flat_quadlets r fs \<longleftrightarrow> (\<forall>n m ks. node_at fs (elems (hr_QuadletPrefix r) @ n # m # ks) \<noteq> Some Directory)"

lemma no_new_directory:
  "node_at (snd (WriteFile p d fs)) k = Some Directory \<Longrightarrow> node_at fs k = Some Directory"
  "node_at (snd (CreateFile p fs)) k = Some Directory \<Longrightarrow> node_at fs k = Some Directory"
  "node_at (snd (Remove p fs)) k = Some Directory \<Longrightarrow> node_at fs k = Some Directory"
  "node_at (snd (RemoveAll p fs)) k = Some Directory \<Longrightarrow> node_at fs k = Some Directory"
proof -
  show "node_at (snd (WriteFile p d fs)) k = Some Directory \<Longrightarrow> node_at fs k = Some Directory"
    by (cases "WriteFile p d fs"; cases "fst (WriteFile p d fs)")
      (auto dest!: WriteFile_node failed_keeps split: if_splits)
  show "node_at (snd (CreateFile p fs)) k = Some Directory \<Longrightarrow> node_at fs k = Some Directory"
    by (cases "CreateFile p fs"; cases "fst (CreateFile p fs)")
      (auto dest!: CreateFile_node [where k = k] failed_keeps split: if_splits)
  show "node_at (snd (Remove p fs)) k = Some Directory \<Longrightarrow> node_at fs k = Some Directory"
    by (cases "Remove p fs"; cases "fst (Remove p fs)") (auto dest!: Remove_node failed_keeps split: if_splits)
  show "node_at (snd (RemoveAll p fs)) k = Some Directory \<Longrightarrow> node_at fs k = Some Directory"
    by (auto simp: RemoveAll_def node_at_def map_of_filter_key split: if_splits)
qed

lemma keeps_flat:
  "(\<And>n m ks. elems p \<noteq> elems (hr_QuadletPrefix r) @ n # m # ks) \<Longrightarrow> keeps (flat_quadlets r) (Mkdir p)"
  "keeps (flat_quadlets r) (WriteFile p d)" "keeps (flat_quadlets r) (CreateFile p)"
  "keeps (flat_quadlets r) (Remove p)" "keeps (flat_quadlets r) (RemoveAll p)"
  unfolding keeps_def flat_quadlets_def using node_outside(1) no_new_directory by metis+

lemma makes_dir_flat:
  assumes "repo_ok r" and "makes_dir r k"
  shows "k \<noteq> elems (hr_QuadletPrefix r) @ n # m # ks"
proof
  assume k: "k = elems (hr_QuadletPrefix r) @ n # m # ks"
  with assms(2) have "prefix (elems (hr_DataPrefix r)) k" by (auto simp: makes_dir_def)
  moreover have "prefix (elems (hr_QuadletPrefix r)) k" by (simp add: k)
  ultimately show False using assms(1) prefix_same_cases unfolding repo_ok_def by blast
qed

text \<open>
  However the repository is used, a quadlet or drop-in whose path has a directory in it, such as
  \<open>web.container.d/10-env.conf\<close>, can never be installed: no operation makes a directory below the
  quadlet directory of a component.
\<close>

theorem nested_quadlets_never_install:
  assumes "repo_run vt r good_op fs fs'" and "repo_ok r" and "fs_ok fs" and "flat_quadlets r fs"
    and "good_resource res" and "IsQuadlet res" and "CHR ''/'' \<in> set (res_Path res)"
  shows "\<exists>e. InstallResource r res d fs' = (Some e, fs')"
proof -
  have "tidy (flat_quadlets r) fs'"
    using assms(1-4) by (rule repo_run_keeps) (simp_all add: keeps_flat makes_dir_flat [OF assms(2)])
  then have flat: "flat_quadlets r fs'" by (simp add: tidy_def)
  obtain u v where "res_Path res = u @ CHR ''/'' # v" using assms(7) by (auto simp: in_set_conv_decomp)
  then obtain e es where "Split (res_Path res) ''/'' = e # es" "es \<noteq> []"
    using Split_append_slash [of u v] by (cases "Split u ''/''") auto
  then obtain n m ks where k: "butlast (resource_path r res) = elems (hr_QuadletPrefix r) @ n # m # ks"
    using assms(6) by (simp add: resource_path_def butlast_append)
  have "parent_missing fs' (resource_path r res) \<noteq> None"
    using unblocked_parent [of fs' "resource_path r res"] flat
    by (auto simp: parent_missing_def k flat_quadlets_def split: option.split)
  then show ?thesis
    using elems_resource(1) [OF assms(2,5)] assms(6)
    by (auto simp: InstallResource_def fail_op_def WriteFile_def split: option.split)
qed

theorem nested_quadlets_never_install_witness:
  "\<exists>e. InstallResource demo_repo demo_dropin ''[Container]'' demo_installed = (Some e, demo_installed)"
proof -
  have "repo_run (\<lambda>c. []) demo_repo good_op demo_files demo_installed"
    by (rule demo_run) code_simp
  moreover have "flat_quadlets demo_repo demo_files"
    by (simp add: flat_quadlets_def demo_files_def node_at_def demo_quadlets)
  moreover have "good_resource demo_dropin" "IsQuadlet demo_dropin" "CHR ''/'' \<in> set (res_Path demo_dropin)"
    by code_simp+
  ultimately show ?thesis
    using demo_repo_ok demo_files_ok by (intro nested_quadlets_never_install)
qed

theorem RemoveComponent_leaves_directories_witness:
  "\<exists>e fs'. RemoveComponent demo_repo (Some demo_web) demo_www = (Some e, fs') \<and>
     node_at fs' = (node_at demo_www)(elems ''/data'' @ [InstanceName demo_web, version_file] := None)"
proof -
  have "good_elem (InstanceName demo_web)" "fs_ok demo_www" "version_file \<noteq> ''www''" "''www'' \<noteq> version_file"
    by code_simp+
  moreover have "node_at demo_www (elems (hr_DataPrefix demo_repo) @ [InstanceName demo_web, version_file]) = Some (PlainFile [])"
    "node_at demo_www (elems (hr_DataPrefix demo_repo) @ [InstanceName demo_web, ''www'']) = Some Directory"
    by code_simp+
  moreover have "hr_DataPrefix demo_repo = ''/data''" by (simp add: demo_repo_def)
  ultimately show ?thesis
    using RemoveComponent_leaves_directories [OF demo_repo_ok, of demo_web demo_www "[]" "''www''"] by simp
qed

subsection \<open>Concrete runs\<close>


theorem repository_stays_inside_witness: "node_at demo_installed [''etc''] = node_at demo_files [''etc'']"
proof -
  have "repo_run (\<lambda>c. []) demo_repo good_op demo_files demo_installed"
    by (rule demo_run) code_simp
  moreover have "\<not> inside demo_repo [''etc'']" by code_simp
  ultimately show ?thesis using demo_repo_ok demo_files_ok by (intro repository_stays_inside)
qed

end
