(* ===== verification/Locks.thy ===== *)
theory Locks
  imports Prelude
begin

section \<open>Locks (pkg/lock)\<close>

text \<open>
  One materia process at a time may plan or execute.  A process that has a \<open>Locker\<close> (the interface of
  internal/materia/lock.go) calls its methods, which return at once or block; a blocked call returns when
  the lock is granted or its context is cancelled.  The world of any number of processes is a step
  relation over these events; what each process was told last is recorded beside the lock.  The kernel's
  \<open>flock\<close> and the message bus are parameters, with what the code relies on as predicates.
\<close>

subsection \<open>Lockers and their processes\<close>

datatype outcome = Returned "go_error option" | Blocked

record ('p, 'l) Locker =
  lk_Lock :: "'p \<Rightarrow> 'l \<Rightarrow> outcome \<times> 'l"
  lk_LockOrWait :: "'p \<Rightarrow> 'l \<Rightarrow> outcome \<times> 'l"
  lk_granted :: "'p \<Rightarrow> 'l \<Rightarrow> (outcome \<times> 'l) option"
  lk_cancelled :: "'p \<Rightarrow> 'l \<Rightarrow> (outcome \<times> 'l) option"
  lk_Unlock :: "'p \<Rightarrow> 'l operation"
  lk_Close :: "'p \<Rightarrow> 'l operation"

datatype 'p lock_event =
    EvLock 'p | EvLockOrWait 'p | EvGranted 'p | EvCancelled 'p | EvUnlock 'p | EvClose 'p

fun process :: "'p lock_event \<Rightarrow> 'p" where
  "process (EvLock p) = p"
| "process (EvLockOrWait p) = p"
| "process (EvGranted p) = p"
| "process (EvCancelled p) = p"
| "process (EvUnlock p) = p"
| "process (EvClose p) = p"

record ('p, 'l) lock_world =
  lw_lock :: 'l
  lw_waiting :: "'p \<Rightarrow> bool"
  lw_told :: "'p \<Rightarrow> bool"

text \<open>A locking call that returns without an error tells its process that it has the lock.\<close>

definition answer :: "'p \<Rightarrow> outcome \<times> 'l \<Rightarrow> ('p, 'l) lock_world \<Rightarrow> ('p, 'l) lock_world" where
  "answer p r w =
     w\<lparr>lw_lock := snd r, lw_waiting := (lw_waiting w)(p := fst r = Blocked),
       lw_told := (lw_told w)(p := lw_told w p \<or> fst r = Returned None)\<rparr>"

definition released :: "'p \<Rightarrow> bool \<Rightarrow> 'l \<Rightarrow> ('p, 'l) lock_world \<Rightarrow> ('p, 'l) lock_world" where
  "released p still l w = w\<lparr>lw_lock := l, lw_told := (lw_told w)(p := lw_told w p \<and> still)\<rparr>"

inductive lock_step :: "('p, 'l) Locker \<Rightarrow> 'p lock_event \<Rightarrow> ('p, 'l) lock_world \<Rightarrow> ('p, 'l) lock_world \<Rightarrow> bool"
  for L where
  Lock: "\<not> lw_waiting w p \<Longrightarrow> lock_step L (EvLock p) w (answer p (lk_Lock L p (lw_lock w)) w)"
| LockOrWait: "\<not> lw_waiting w p \<Longrightarrow> lock_step L (EvLockOrWait p) w (answer p (lk_LockOrWait L p (lw_lock w)) w)"
| Granted: "lw_waiting w p \<Longrightarrow> lk_granted L p (lw_lock w) = Some r \<Longrightarrow> lock_step L (EvGranted p) w (answer p r w)"
| Cancelled: "lw_waiting w p \<Longrightarrow> lk_cancelled L p (lw_lock w) = Some r \<Longrightarrow> lock_step L (EvCancelled p) w (answer p r w)"
| Unlock: "\<not> lw_waiting w p \<Longrightarrow> lk_Unlock L p (lw_lock w) = (e, l) \<Longrightarrow> lock_step L (EvUnlock p) w (released p (e \<noteq> None) l w)"
| Close: "\<not> lw_waiting w p \<Longrightarrow> lk_Close L p (lw_lock w) = (e, l) \<Longrightarrow> lock_step L (EvClose p) w (released p False l w)"

inductive_cases lock_stepE: "lock_step L e w w'"

inductive lock_run ::
    "('p, 'l) Locker \<Rightarrow> ('p lock_event \<Rightarrow> 'l \<Rightarrow> bool) \<Rightarrow> ('p, 'l) lock_world \<Rightarrow> ('p, 'l) lock_world \<Rightarrow> bool"
  for L allowed w where
  start: "lock_run L allowed w w"
| step: "lock_run L allowed w w1 \<Longrightarrow> allowed e (lw_lock w1) \<Longrightarrow> lock_step L e w1 w2 \<Longrightarrow> lock_run L allowed w w2"

text \<open>The same steps as a function, so that a list of events can be played.\<close>

fun lock_next :: "('p, 'l) Locker \<Rightarrow> 'p lock_event \<Rightarrow> ('p, 'l) lock_world \<Rightarrow> ('p, 'l) lock_world option" where
  "lock_next L (EvLock p) w = (if lw_waiting w p then None else Some (answer p (lk_Lock L p (lw_lock w)) w))"
| "lock_next L (EvLockOrWait p) w =
     (if lw_waiting w p then None else Some (answer p (lk_LockOrWait L p (lw_lock w)) w))"
| "lock_next L (EvGranted p) w =
     (if lw_waiting w p then map_option (\<lambda>r. answer p r w) (lk_granted L p (lw_lock w)) else None)"
| "lock_next L (EvCancelled p) w =
     (if lw_waiting w p then map_option (\<lambda>r. answer p r w) (lk_cancelled L p (lw_lock w)) else None)"
| "lock_next L (EvUnlock p) w =
     (if lw_waiting w p then None
      else case lk_Unlock L p (lw_lock w) of (e, l) \<Rightarrow> Some (released p (e \<noteq> None) l w))"
| "lock_next L (EvClose p) w =
     (if lw_waiting w p then None else case lk_Close L p (lw_lock w) of (e, l) \<Rightarrow> Some (released p False l w))"

lemma lock_next_step: "lock_next L e w = Some w' \<Longrightarrow> lock_step L e w w'"
  by (cases e) (auto intro: lock_step.intros simp del: not_None_eq split: if_splits prod.splits)

fun play ::
    "('p, 'l) Locker \<Rightarrow> ('p lock_event \<Rightarrow> 'l \<Rightarrow> bool) \<Rightarrow> 'p lock_event list \<Rightarrow> ('p, 'l) lock_world \<Rightarrow>
       ('p, 'l) lock_world option" where
  "play L allowed [] w = Some w"
| "play L allowed (e # es) w =
     (if allowed e (lw_lock w) then
        (case lock_next L e w of None \<Rightarrow> None | Some w' \<Rightarrow> play L allowed es w')
      else None)"

lemma play_run:
  assumes "play L allowed es w = Some w'"
  shows "lock_run L allowed w w'"
proof -
  have "lock_run L allowed w0 w'" if "lock_run L allowed w0 w" for w0
    using assms that
    by (induction es arbitrary: w) (auto split: if_splits option.splits intro: lock_run.step lock_next_step)
  then show ?thesis by (simp add: lock_run.start)
qed

definition fresh_world :: "'l \<Rightarrow> ('p, 'l) lock_world" where
  "fresh_world l = \<lparr>lw_lock = l, lw_waiting = (\<lambda>p. False), lw_told = (\<lambda>p. False)\<rparr>"

text \<open>
  The contract of a locker: an invariant of its state, an owner, and laws that say that a process is told
  it has the lock only when it is the owner and that nobody takes the lock from its owner.
\<close>

definition takes :: "('l \<Rightarrow> 'p option) \<Rightarrow> ('l \<Rightarrow> bool) \<Rightarrow> 'p \<Rightarrow> 'l \<Rightarrow> outcome \<times> 'l \<Rightarrow> bool" where
  "takes owner ok p l r \<longleftrightarrow>
     ok (snd r) \<and> (fst r = Returned None \<longrightarrow> owner (snd r) = Some p) \<and>
     (\<forall>q. owner l = Some q \<longrightarrow> owner (snd r) = Some q)"

definition gives_back :: "('l \<Rightarrow> 'p option) \<Rightarrow> ('l \<Rightarrow> bool) \<Rightarrow> 'p \<Rightarrow> 'l \<Rightarrow> 'l \<Rightarrow> bool" where
  "gives_back owner ok p l l' \<longleftrightarrow> ok l' \<and> (\<forall>q. q \<noteq> p \<longrightarrow> owner l = Some q \<longrightarrow> owner l' = Some q)"

locale exclusive_lock =
  fixes L :: "('p, 'l) Locker" and owner :: "'l \<Rightarrow> 'p option" and ok :: "'l \<Rightarrow> bool"
    and allowed :: "'p lock_event \<Rightarrow> 'l \<Rightarrow> bool"
  assumes Lock_ok: "ok l \<Longrightarrow> allowed (EvLock p) l \<Longrightarrow> takes owner ok p l (lk_Lock L p l)"
    and LockOrWait_ok: "ok l \<Longrightarrow> allowed (EvLockOrWait p) l \<Longrightarrow> takes owner ok p l (lk_LockOrWait L p l)"
    and granted_ok: "ok l \<Longrightarrow> allowed (EvGranted p) l \<Longrightarrow> lk_granted L p l = Some r \<Longrightarrow> takes owner ok p l r"
    and cancelled_ok: "ok l \<Longrightarrow> allowed (EvCancelled p) l \<Longrightarrow> lk_cancelled L p l = Some r \<Longrightarrow> takes owner ok p l r"
    and Unlock_ok: "ok l \<Longrightarrow> allowed (EvUnlock p) l \<Longrightarrow> lk_Unlock L p l = (e, l') \<Longrightarrow>
      gives_back owner ok p l l' \<and> (e \<noteq> None \<longrightarrow> owner l' = owner l)"
    and Close_ok: "ok l \<Longrightarrow> allowed (EvClose p) l \<Longrightarrow> lk_Close L p l = (e, l') \<Longrightarrow> gives_back owner ok p l l'"
begin

definition told_owner :: "('p, 'l) lock_world \<Rightarrow> bool" where
  "told_owner w \<longleftrightarrow> ok (lw_lock w) \<and> (\<forall>p. lw_told w p \<longrightarrow> owner (lw_lock w) = Some p)"

lemma answer_keeps: "told_owner w \<Longrightarrow> takes owner ok p (lw_lock w) r \<Longrightarrow> told_owner (answer p r w)"
  by (auto simp: told_owner_def answer_def takes_def)

lemma step_keeps:
  assumes "lock_step L e w w'" and "told_owner w" and "allowed e (lw_lock w)"
  shows "told_owner w'"
proof -
  have "ok (lw_lock w)" using assms(2) by (simp add: told_owner_def)
  from assms(1) this assms(2,3) show ?thesis
  proof cases
    case (Unlock p e l)
    with \<open>ok (lw_lock w)\<close> assms(2,3) Unlock_ok [of "lw_lock w" p e l] show ?thesis
      by (auto simp: told_owner_def released_def gives_back_def)
  next
    case (Close p e l)
    with \<open>ok (lw_lock w)\<close> assms(2,3) Close_ok [of "lw_lock w" p e l] show ?thesis
      by (auto simp: told_owner_def released_def gives_back_def)
  qed (auto intro: answer_keeps Lock_ok LockOrWait_ok granted_ok cancelled_ok)
qed

lemma run_keeps: "lock_run L allowed w w' \<Longrightarrow> told_owner w \<Longrightarrow> told_owner w'"
  by (induction rule: lock_run.induct) (auto intro: step_keeps)

lemma takes_stays: "takes owner ok q l r \<Longrightarrow> owner l = Some p \<Longrightarrow> owner (lw_lock (answer q r w)) = Some p"
  by (simp add: answer_def takes_def)

lemma owner_stays:
  assumes "lock_step L e w w'" and "told_owner w" and "allowed e (lw_lock w)"
    and "owner (lw_lock w) = Some p" and "process e \<noteq> p"
  shows "owner (lw_lock w') = Some p"
proof -
  have ok: "ok (lw_lock w)" using assms(2) by (simp add: told_owner_def)
  from assms(1) show ?thesis
  proof cases
    case (Lock q)
    with assms(3,4) show ?thesis by (auto intro: takes_stays [OF Lock_ok [OF ok]])
  next
    case (LockOrWait q)
    with assms(3,4) show ?thesis by (auto intro: takes_stays [OF LockOrWait_ok [OF ok]])
  next
    case (Granted q r)
    with assms(3,4) show ?thesis by (auto intro: takes_stays [OF granted_ok [OF ok]])
  next
    case (Cancelled q r)
    with assms(3,4) show ?thesis by (auto intro: takes_stays [OF cancelled_ok [OF ok]])
  next
    case (Unlock q e l)
    with assms(3-) Unlock_ok [OF ok, of q e l] show ?thesis by (simp add: released_def gives_back_def)
  next
    case (Close q e l)
    with assms(3-) Close_ok [OF ok, of q e l] show ?thesis by (simp add: released_def gives_back_def)
  qed
qed

lemma exclusive:
  assumes "lock_run L allowed (fresh_world l) w" and "ok l" and "lw_told w p" and "lw_told w q"
  shows "p = q"
proof -
  have "told_owner (fresh_world l)" using assms(2) by (simp add: told_owner_def fresh_world_def)
  from run_keeps [OF assms(1) this] assms(3,4) have "owner (lw_lock w) = Some p" "owner (lw_lock w) = Some q"
    unfolding told_owner_def by blast+
  then show ?thesis by simp
qed

end

subsection \<open>The file lock (file.go)\<close>

datatype flock_reply = FlockOk | FlockWouldBlock | FlockError go_error

record ('p, 'k) flock_api =
  fk_try :: "'p \<Rightarrow> 'k \<Rightarrow> flock_reply \<times> 'k"
  fk_block :: "'p \<Rightarrow> 'k \<Rightarrow> (go_error option \<times> 'k) option"
  fk_unlock :: "'p \<Rightarrow> 'k operation"
  fk_close :: "'p \<Rightarrow> 'k operation"
  fk_owner :: "'k \<Rightarrow> 'p option"

text \<open>
  What flock(2) promises for the open file of each process: a call that succeeds makes it the owner, one
  that fails changes nothing, nobody takes the lock from another process.
\<close>

definition keeps_others :: "('p, 'k) flock_api \<Rightarrow> 'p \<Rightarrow> 'k \<Rightarrow> 'k \<Rightarrow> bool" where
  "keeps_others K p k k' \<longleftrightarrow> (\<forall>q. q \<noteq> p \<longrightarrow> fk_owner K k = Some q \<longrightarrow> fk_owner K k' = Some q)"

definition flock_laws :: "('p, 'k) flock_api \<Rightarrow> bool" where
  "flock_laws K \<longleftrightarrow>
     (\<forall>p k r k'. fk_try K p k = (r, k') \<longrightarrow> keeps_others K p k k' \<and>
        (if r = FlockOk then fk_owner K k' = Some p else fk_owner K k' = fk_owner K k)) \<and>
     (\<forall>p k e k'. fk_block K p k = Some (e, k') \<longrightarrow> keeps_others K p k k' \<and>
        (if e = None then fk_owner K k' = Some p else fk_owner K k' = fk_owner K k)) \<and>
     (\<forall>p k e k'. fk_unlock K p k = (e, k') \<longrightarrow> keeps_others K p k k' \<and>
        (e \<noteq> None \<longrightarrow> fk_owner K k' = fk_owner K k)) \<and>
     (\<forall>p k e k'. fk_close K p k = (e, k') \<longrightarrow> keeps_others K p k k')"

record FileLock =
  fl_open :: bool
  fl_locked :: bool

record ('p, 'k) file_locks =
  fl_kernel :: 'k
  fl_of :: "'p \<Rightarrow> FileLock"

definition set_locked :: "'p \<Rightarrow> bool \<Rightarrow> ('p, 'k) file_locks \<Rightarrow> ('p, 'k) file_locks" where
  "set_locked p b s = s\<lparr>fl_of := (fl_of s)(p := (fl_of s p)\<lparr>fl_locked := b\<rparr>)\<rparr>"

definition FileLock_Lock :: "('p, 'k) flock_api \<Rightarrow> 'p \<Rightarrow> ('p, 'k) file_locks \<Rightarrow> outcome \<times> ('p, 'k) file_locks" where
  "FileLock_Lock K p s =
     (if fl_locked (fl_of s p) then (Returned None, s)
      else case fk_try K p (fl_kernel s) of
        (FlockWouldBlock, k) \<Rightarrow> (Returned (Some (ErrSentinel ErrLockInUse)), s\<lparr>fl_kernel := k\<rparr>)
      | (FlockError e, k) \<Rightarrow> (Returned (Some (ErrWrapped ''flock'' e)), s\<lparr>fl_kernel := k\<rparr>)
      | (FlockOk, k) \<Rightarrow> (Returned None, set_locked p True (s\<lparr>fl_kernel := k\<rparr>)))"

text \<open>The first part of \<open>LockOrWait\<close>, up to the goroutine that calls \<open>Flock\<close> without \<open>LOCK_NB\<close>.\<close>

definition FileLock_LockOrWait :: "('p, 'k) flock_api \<Rightarrow> 'p \<Rightarrow> ('p, 'k) file_locks \<Rightarrow> outcome \<times> ('p, 'k) file_locks" where
  "FileLock_LockOrWait K p s =
     (if fl_locked (fl_of s p) then (Returned None, s)
      else case fk_try K p (fl_kernel s) of
        (FlockOk, k) \<Rightarrow> (Returned None, set_locked p True (s\<lparr>fl_kernel := k\<rparr>))
      | (FlockError e, k) \<Rightarrow> (Returned (Some e), s\<lparr>fl_kernel := k\<rparr>)
      | (FlockWouldBlock, k) \<Rightarrow> (Blocked, s\<lparr>fl_kernel := k\<rparr>))"

text \<open>
  The two cases of its \<open>select\<close>: the goroutine's answer arrives, which leaves \<open>locked\<close> as it is, or the
  context is done, which closes the file and returns what \<open>Close\<close> returns.
\<close>

definition FileLock_granted ::
    "('p, 'k) flock_api \<Rightarrow> 'p \<Rightarrow> ('p, 'k) file_locks \<Rightarrow> (outcome \<times> ('p, 'k) file_locks) option" where
  "FileLock_granted K p s =
     (case fk_block K p (fl_kernel s) of
        None \<Rightarrow> None
      | Some (Some e, k) \<Rightarrow> Some (Returned (Some (ErrWrapped ''error getting file lock'' e)), s\<lparr>fl_kernel := k\<rparr>)
      | Some (None, k) \<Rightarrow> Some (Returned None, s\<lparr>fl_kernel := k\<rparr>))"

definition FileLock_Close :: "('p, 'k) flock_api \<Rightarrow> 'p \<Rightarrow> ('p, 'k) file_locks operation" where
  "FileLock_Close K p s =
     (case fk_close K p (fl_kernel s) of
        (e, k) \<Rightarrow> (e, s\<lparr>fl_kernel := k, fl_of := (fl_of s)(p := (fl_of s p)\<lparr>fl_open := False\<rparr>)\<rparr>))"

definition FileLock_cancelled ::
    "('p, 'k) flock_api \<Rightarrow> 'p \<Rightarrow> ('p, 'k) file_locks \<Rightarrow> (outcome \<times> ('p, 'k) file_locks) option" where
  "FileLock_cancelled K p s = (case FileLock_Close K p s of (e, s') \<Rightarrow> Some (Returned e, s'))"

definition FileLock_Unlock :: "('p, 'k) flock_api \<Rightarrow> 'p \<Rightarrow> ('p, 'k) file_locks operation" where
  "FileLock_Unlock K p s =
     (if \<not> fl_locked (fl_of s p) then (None, s)
      else case fk_unlock K p (fl_kernel s) of
        (Some e, k) \<Rightarrow> (Some (ErrWrapped ''flock unlock'' e), s\<lparr>fl_kernel := k\<rparr>)
      | (None, k) \<Rightarrow> (None, set_locked p False (s\<lparr>fl_kernel := k\<rparr>)))"

definition file_locker :: "('p, 'k) flock_api \<Rightarrow> ('p, ('p, 'k) file_locks) Locker" where
  "file_locker K =
     \<lparr>lk_Lock = FileLock_Lock K, lk_LockOrWait = FileLock_LockOrWait K, lk_granted = FileLock_granted K,
      lk_cancelled = FileLock_cancelled K, lk_Unlock = FileLock_Unlock K, lk_Close = FileLock_Close K\<rparr>"

text \<open>\<open>NewFileLock\<close> opens the file; the locks of all processes before any of them is used.\<close>

definition new_file_locks :: "'k \<Rightarrow> ('p, 'k) file_locks" where
  "new_file_locks k = \<lparr>fl_kernel = k, fl_of = (\<lambda>p. \<lparr>fl_open = True, fl_locked = False\<rparr>)\<rparr>"

definition file_owner :: "('p, 'k) flock_api \<Rightarrow> ('p, 'k) file_locks \<Rightarrow> 'p option" where
  "file_owner K s = fk_owner K (fl_kernel s)"

definition file_lock_ok :: "('p, 'k) flock_api \<Rightarrow> ('p, 'k) file_locks \<Rightarrow> bool" where
  "file_lock_ok K s \<longleftrightarrow>
     (\<forall>p. fl_locked (fl_of s p) \<longrightarrow> fl_open (fl_of s p) \<longrightarrow> file_owner K s = Some p)"

text \<open>No call after \<open>Close\<close> but a second \<open>Close\<close>, and no wait is cancelled.\<close>

fun file_allowed :: "'p lock_event \<Rightarrow> ('p, 'k) file_locks \<Rightarrow> bool" where
  "file_allowed (EvLock p) s = fl_open (fl_of s p)"
| "file_allowed (EvLockOrWait p) s = fl_open (fl_of s p)"
| "file_allowed (EvGranted p) s = True"
| "file_allowed (EvCancelled p) s = False"
| "file_allowed (EvUnlock p) s = fl_open (fl_of s p)"
| "file_allowed (EvClose p) s = True"

lemmas file_lock_simps =
  takes_def gives_back_def file_lock_ok_def file_owner_def set_locked_def keeps_others_def

locale flock_kernel =
  fixes K :: "('p, 'k) flock_api"
  assumes K: "flock_laws K"
begin

lemma flock_try:
  "fk_try K p k = (r, k') \<Longrightarrow>
   keeps_others K p k k' \<and> (if r = FlockOk then fk_owner K k' = Some p else fk_owner K k' = fk_owner K k)"
  using K by (simp add: flock_laws_def)

lemma flock_block:
  "fk_block K p k = Some (e, k') \<Longrightarrow>
   keeps_others K p k k' \<and> (if e = None then fk_owner K k' = Some p else fk_owner K k' = fk_owner K k)"
  using K unfolding flock_laws_def by blast

lemma flock_unlock:
  "fk_unlock K p k = (e, k') \<Longrightarrow> keeps_others K p k k' \<and> (e \<noteq> None \<longrightarrow> fk_owner K k' = fk_owner K k)"
  using K unfolding flock_laws_def by blast

lemma flock_close: "fk_close K p k = (e, k') \<Longrightarrow> keeps_others K p k k'"
  using K unfolding flock_laws_def by blast

lemma FileLock_Lock_takes:
  "file_lock_ok K l \<Longrightarrow> fl_open (fl_of l p) \<Longrightarrow> takes (file_owner K) (file_lock_ok K) p l (FileLock_Lock K p l)"
  using flock_try [of p "fl_kernel l"]
  by (auto simp: FileLock_Lock_def file_lock_simps split: prod.splits flock_reply.splits)

lemma FileLock_LockOrWait_takes:
  "file_lock_ok K l \<Longrightarrow> fl_open (fl_of l p) \<Longrightarrow> takes (file_owner K) (file_lock_ok K) p l (FileLock_LockOrWait K p l)"
  using flock_try [of p "fl_kernel l"]
  by (auto simp: FileLock_LockOrWait_def file_lock_simps split: prod.splits flock_reply.splits)

lemma FileLock_granted_takes:
  "file_lock_ok K l \<Longrightarrow> FileLock_granted K p l = Some r \<Longrightarrow> takes (file_owner K) (file_lock_ok K) p l r"
  using flock_block [of p "fl_kernel l"]
  by (auto simp: FileLock_granted_def file_lock_simps split: option.splits prod.splits)

lemma FileLock_Unlock_gives:
  assumes "file_lock_ok K l" and "FileLock_Unlock K p l = (e, l')" and "fl_open (fl_of l p)"
  shows "gives_back (file_owner K) (file_lock_ok K) p l l' \<and> (e \<noteq> None \<longrightarrow> file_owner K l' = file_owner K l)"
proof (cases "fl_locked (fl_of l p)")
  case True
  with assms(1,3) have "fk_owner K (fl_kernel l) = Some p" by (simp add: file_lock_ok_def file_owner_def)
  then have only: "q = p" if "fl_locked (fl_of l q)" "fl_open (fl_of l q)" for q
    using assms(1) that unfolding file_lock_ok_def file_owner_def by force
  obtain d k where u: "fk_unlock K p (fl_kernel l) = (d, k)" by fastforce
  show ?thesis
  proof (cases d)
    case None
    then have "l' = set_locked p False (l\<lparr>fl_kernel := k\<rparr>)" "e = None"
      using assms(2) True u by (simp_all add: FileLock_Unlock_def)
    with only flock_unlock [OF u] show ?thesis by (auto simp: file_lock_simps)
  next
    case (Some x)
    then have "l' = l\<lparr>fl_kernel := k\<rparr>" using assms(2) True u by (auto simp: FileLock_Unlock_def)
    moreover have "fk_owner K k = fk_owner K (fl_kernel l)" using flock_unlock [OF u] Some by simp
    ultimately show ?thesis using assms(1) by (simp add: gives_back_def file_lock_ok_def file_owner_def)
  qed
qed (use assms in \<open>auto simp: FileLock_Unlock_def gives_back_def\<close>)

lemma FileLock_Close_gives:
  "file_lock_ok K l \<Longrightarrow> FileLock_Close K p l = (e, l') \<Longrightarrow> gives_back (file_owner K) (file_lock_ok K) p l l'"
  using flock_close [of p "fl_kernel l"]
  by (cases "fk_close K p (fl_kernel l)") (auto simp: FileLock_Close_def file_lock_simps split: if_splits)

lemma file_locker_exclusive: "exclusive_lock (file_locker K) (file_owner K) (file_lock_ok K) file_allowed"
  by (unfold_locales)
    (auto simp: file_locker_def FileLock_Lock_takes FileLock_LockOrWait_takes FileLock_granted_takes
      FileLock_Unlock_gives intro: FileLock_Close_gives)

end

sublocale flock_kernel \<subseteq> file_lock: exclusive_lock "file_locker K" "file_owner K" "file_lock_ok K" file_allowed
  by (rule file_locker_exclusive)

text \<open>
  C24: As long as no wait is cancelled and no lock is used after it was closed, at most one process at a
  time has been told that it holds the file lock.
\<close>

theorem file_lock_exclusive:
  assumes "flock_laws K" and "lock_run (file_locker K) file_allowed (fresh_world (new_file_locks k)) w"
    and "lw_told w p" and "lw_told w q"
  shows "p = q"
proof (rule exclusive_lock.exclusive [OF flock_kernel.file_locker_exclusive assms(2) _ assms(3,4)])
  show "flock_kernel K" using assms(1) by (rule flock_kernel.intro)
  show "file_lock_ok K (new_file_locks k)" by (simp add: file_lock_ok_def new_file_locks_def)
qed

subsection \<open>A lock that was waited for\<close>

lemma other_file_lock:
  assumes "q \<noteq> p"
  shows "fl_of (snd (FileLock_Lock K q s)) p = fl_of s p" "fl_of (snd (FileLock_LockOrWait K q s)) p = fl_of s p"
    "FileLock_granted K q s = Some r \<Longrightarrow> fl_of (snd r) p = fl_of s p"
    "FileLock_cancelled K q s = Some r \<Longrightarrow> fl_of (snd r) p = fl_of s p"
    "FileLock_Unlock K q s = (e, s') \<Longrightarrow> fl_of s' p = fl_of s p"
    "FileLock_Close K q s = (e, s') \<Longrightarrow> fl_of s' p = fl_of s p"
proof -
  obtain a k where "fk_try K q (fl_kernel s) = (a, k)" by fastforce
  with assms show "fl_of (snd (FileLock_Lock K q s)) p = fl_of s p" "fl_of (snd (FileLock_LockOrWait K q s)) p = fl_of s p"
    by (cases a; simp add: FileLock_Lock_def FileLock_LockOrWait_def set_locked_def)+
  show "FileLock_granted K q s = Some r \<Longrightarrow> fl_of (snd r) p = fl_of s p"
    by (auto simp: FileLock_granted_def split: option.splits prod.splits)
  obtain e' k' where c: "fk_close K q (fl_kernel s) = (e', k')" by fastforce
  with assms show "FileLock_Close K q s = (e, s') \<Longrightarrow> fl_of s' p = fl_of s p"
    by (auto simp: FileLock_Close_def)
  from c assms show "FileLock_cancelled K q s = Some r \<Longrightarrow> fl_of (snd r) p = fl_of s p"
    by (auto simp: FileLock_cancelled_def FileLock_Close_def)
  obtain e'' k'' where "fk_unlock K q (fl_kernel s) = (e'', k'')" by fastforce
  with assms show "FileLock_Unlock K q s = (e, s') \<Longrightarrow> fl_of s' p = fl_of s p"
    by (cases e'') (auto simp: FileLock_Unlock_def set_locked_def split: if_splits)
qed

lemma other_file_lock_step:
  assumes "lock_step (file_locker K) e w w'" and "process e \<noteq> p"
  shows "fl_of (lw_lock w') p = fl_of (lw_lock w) p"
  using assms by cases (simp_all add: file_locker_def other_file_lock answer_def released_def)

definition holding_world :: "'p \<Rightarrow> 'l \<Rightarrow> ('p, 'l) lock_world" where
  "holding_world p l = \<lparr>lw_lock = l, lw_waiting = (\<lambda>q. False), lw_told = (\<lambda>q. q = p)\<rparr>"

lemma unlock_of_waited:
  assumes "lock_step (file_locker K) (EvUnlock p) w w'" and "\<not> fl_locked (fl_of (lw_lock w) p)"
  shows "lw_lock w' = lw_lock w \<and> (\<forall>q. lw_told w' q \<longrightarrow> lw_told w q)"
  using assms by cases (auto simp: file_locker_def FileLock_Unlock_def released_def)

text \<open>
  A file lock that a process had to wait for is not marked as locked, so \<open>Unlock\<close> does nothing:
  however often the process unlocks and whatever the others do, it stays the owner and nobody else ever
  gets the lock.
\<close>

theorem waited_lock_never_released:
  assumes "flock_laws K" and "file_lock_ok K s" and "\<not> fl_locked (fl_of s p)"
    and "FileLock_granted K p s = Some (Returned None, s')"
    and "lock_run (file_locker K) (\<lambda>e l. e = EvUnlock p \<or> process e \<noteq> p \<and> file_allowed e l) (holding_world p s') w"
  shows "file_owner K (lw_lock w) = Some p \<and> (\<forall>q. lw_told w q \<longrightarrow> q = p)"
proof -
  have K: "flock_kernel K" using assms(1) by (rule flock_kernel.intro)
  note lock = flock_kernel.file_locker_exclusive [OF K]
  have told: "exclusive_lock.told_owner (file_owner K) (file_lock_ok K) w \<longleftrightarrow>
      file_lock_ok K (lw_lock w) \<and> (\<forall>q. lw_told w q \<longrightarrow> file_owner K (lw_lock w) = Some q)" for w
    by (rule exclusive_lock.told_owner_def [OF lock])
  from assms(5) have "exclusive_lock.told_owner (file_owner K) (file_lock_ok K) w \<and>
      file_owner K (lw_lock w) = Some p \<and> \<not> fl_locked (fl_of (lw_lock w) p)"
  proof (induction rule: lock_run.induct)
    case start
    have "takes (file_owner K) (file_lock_ok K) p s (Returned None, s')"
      using flock_kernel.FileLock_granted_takes [OF K assms(2,4)] .
    moreover have "fl_of s' p = fl_of s p"
      using assms(4) by (auto simp: FileLock_granted_def split: option.splits prod.splits)
    ultimately show ?case using assms(3) by (simp add: told holding_world_def takes_def)
  next
    case (step w1 e w2)
    show ?case
    proof (cases "e = EvUnlock p")
      case True
      with unlock_of_waited [of K p w1 w2] step show ?thesis by (auto simp: told)
    next
      case False
      with step have e: "process e \<noteq> p" "file_allowed e (lw_lock w1)" by auto
      with step exclusive_lock.step_keeps [OF lock, of e w1 w2] exclusive_lock.owner_stays [OF lock, of e w1 w2 p]
        other_file_lock_step [of K e w1 w2 p]
      show ?thesis by simp
    qed
  qed
  then show ?thesis by (auto simp: told)
qed

subsection \<open>Concrete runs of file locks\<close>

text \<open>One kernel lock, held by a process or free.\<close>

definition one_flock :: "(nat, nat option) flock_api" where
  "one_flock =
     \<lparr>fk_try = (\<lambda>p k. if k = None \<or> k = Some p then (FlockOk, Some p) else (FlockWouldBlock, k)),
      fk_block = (\<lambda>p k. if k = None \<or> k = Some p then Some (None, Some p) else None),
      fk_unlock = (\<lambda>p k. (None, if k = Some p then None else k)),
      fk_close = (\<lambda>p k. (None, if k = Some p then None else k)),
      fk_owner = (\<lambda>k. k)\<rparr>"

lemma one_flock_laws: "flock_laws one_flock"
  by (simp add: flock_laws_def one_flock_def keeps_others_def)

interpretation one_flock: flock_kernel one_flock
  by unfold_locales (rule one_flock_laws)

text \<open>Process 0 takes the lock, process 1 has to wait.\<close>

definition contended :: "(nat, (nat, nat option) file_locks) lock_world" where
  "contended =
     the (play (file_locker one_flock) file_allowed [EvLockOrWait 0, EvLockOrWait 1] (fresh_world (new_file_locks None)))"

lemma played: "case play L allowed es w of None \<Rightarrow> False | Some v \<Rightarrow> True \<Longrightarrow> lock_run L allowed w (the (play L allowed es w))"
  by (rule play_run) (simp split: option.splits)

theorem file_lock_exclusive_witness: "lw_told contended 0 \<and> \<not> lw_told contended 1"
proof -
  have run: "lock_run (file_locker one_flock) file_allowed (fresh_world (new_file_locks None)) contended"
    unfolding contended_def by (rule played) code_simp
  have "lw_told contended 0" by code_simp
  with file_lock_exclusive [OF one_flock_laws run, of 0 1] show ?thesis by auto
qed

text \<open>
  A wait whose context is cancelled returns without an error: process 1 is told that it has the lock
  process 0 still holds.
\<close>

theorem cancelled_wait_breaks_exclusion:
  "\<exists>w. lock_run (file_locker one_flock) (\<lambda>e l. True) (fresh_world (new_file_locks None)) w \<and>
       file_owner one_flock (lw_lock w) = Some 0 \<and> lw_told w 0 \<and> lw_told w 1"
proof -
  let ?es = "[EvLockOrWait 0, EvLockOrWait 1, EvCancelled 1]"
  let ?w = "the (play (file_locker one_flock) (\<lambda>e l. True) ?es (fresh_world (new_file_locks None)))"
  have "lock_run (file_locker one_flock) (\<lambda>e l. True) (fresh_world (new_file_locks None)) ?w"
    by (rule played) code_simp
  moreover have "file_owner one_flock (lw_lock ?w) = Some 0 \<and> lw_told ?w 0 \<and> lw_told ?w 1" by code_simp
  ultimately show ?thesis by blast
qed

definition waited :: "(nat, nat option) file_locks" where
  "waited = lw_lock (the (play (file_locker one_flock) file_allowed [EvUnlock 0] contended))"

definition waited_for :: "(nat, nat option) file_locks" where
  "waited_for = snd (the (FileLock_granted one_flock 1 waited))"

definition stuck :: "(nat, (nat, nat option) file_locks) lock_world" where
  "stuck =
     the (play (file_locker one_flock) (\<lambda>e l. e = EvUnlock 1 \<or> process e \<noteq> 1 \<and> file_allowed e l)
       [EvUnlock 1, EvLockOrWait 0] (holding_world 1 waited_for))"

theorem waited_lock_never_released_witness: "file_owner one_flock (lw_lock stuck) = Some 1 \<and> \<not> lw_told stuck 0"
proof -
  have "\<not> fl_locked (fl_of waited p)" for p
    by (simp add: waited_def contended_def file_locker_def one_flock_def FileLock_LockOrWait_def FileLock_Unlock_def
        answer_def released_def set_locked_def fresh_world_def new_file_locks_def)
  then have "file_lock_ok one_flock waited" by (simp add: file_lock_ok_def)
  moreover have "\<not> fl_locked (fl_of waited 1)" by code_simp
  moreover have "fl_kernel waited = None" by code_simp
  then have "FileLock_granted one_flock 1 waited = Some (Returned None, waited_for)"
    by (simp add: waited_for_def FileLock_granted_def one_flock_def)
  moreover have "lock_run (file_locker one_flock) (\<lambda>e l. e = EvUnlock 1 \<or> process e \<noteq> 1 \<and> file_allowed e l)
      (holding_world 1 waited_for) stuck"
    unfolding stuck_def by (rule played) code_simp
  ultimately have "file_owner one_flock (lw_lock stuck) = Some 1 \<and> (\<forall>q. lw_told stuck q \<longrightarrow> q = 1)"
    by (rule waited_lock_never_released [OF one_flock_laws])
  then show ?thesis by auto
qed

subsection \<open>The lock on the message bus (dbus.go)\<close>

datatype name_reply = PrimaryOwner | InQueue | NameExists | AlreadyOwner

text \<open>
  The message bus as each connection sees it, for the one name \<open>systems.primamateria.materia\<close>:
  \<open>bs_acquired\<close> says that the signal \<open>NameAcquired\<close> has reached the channel of a process and that it
  has not lost the name since, \<open>bs_closed\<close> that the library has closed the channel.
\<close>

record ('p, 'b) bus_api =
  bs_AddMatchSignal :: "'p \<Rightarrow> 'b operation"
  bs_RequestName :: "'p \<Rightarrow> bool \<Rightarrow> ('b, name_reply) query"
  bs_ReleaseName :: "'p \<Rightarrow> 'b operation"
  bs_Signal :: "'p \<Rightarrow> 'b \<Rightarrow> 'b"
  bs_RemoveSignal :: "'p \<Rightarrow> 'b \<Rightarrow> 'b"
  bs_Close :: "'p \<Rightarrow> 'b operation"
  bs_owner :: "'b \<Rightarrow> 'p option"
  bs_acquired :: "'p \<Rightarrow> 'b \<Rightarrow> bool"
  bs_closed :: "'p \<Rightarrow> 'b \<Rightarrow> bool"

definition bus_laws :: "('p, 'b) bus_api \<Rightarrow> bool" where
  "bus_laws B \<longleftrightarrow>
     (\<forall>p b. bs_owner B (snd (bs_AddMatchSignal B p b)) = bs_owner B b \<and>
        bs_owner B (bs_Signal B p b) = bs_owner B b \<and> bs_owner B (bs_RemoveSignal B p b) = bs_owner B b) \<and>
     (\<forall>p f b q. bs_owner B b = Some q \<longrightarrow> bs_owner B (snd (bs_RequestName B p f b)) = Some q) \<and>
     (\<forall>p f b. fst (bs_RequestName B p f b) = Inr PrimaryOwner \<longrightarrow>
        bs_owner B (snd (bs_RequestName B p f b)) = Some p) \<and>
     (\<forall>p b q. q \<noteq> p \<longrightarrow> bs_owner B b = Some q \<longrightarrow>
        bs_owner B (snd (bs_ReleaseName B p b)) = Some q \<and> bs_owner B (snd (bs_Close B p b)) = Some q) \<and>
     (\<forall>p b. fst (bs_ReleaseName B p b) \<noteq> None \<longrightarrow> bs_owner B (snd (bs_ReleaseName B p b)) = bs_owner B b) \<and>
     (\<forall>p b. bs_acquired B p b \<longrightarrow> bs_owner B b = Some p) \<and>
     (\<forall>p b. bs_closed B p b \<longrightarrow> fst (bs_ReleaseName B p b) \<noteq> None)"

record ('p, 'b) dbus_locks =
  dl_bus :: 'b
  dl_locked :: "'p \<Rightarrow> bool"

definition bus_locked :: "'p \<Rightarrow> bool \<Rightarrow> 'b \<Rightarrow> ('p, 'b) dbus_locks \<Rightarrow> ('p, 'b) dbus_locks" where
  "bus_locked p v b s = s\<lparr>dl_bus := b, dl_locked := (dl_locked s)(p := v)\<rparr>"

definition DbusLock_Lock :: "('p, 'b) bus_api \<Rightarrow> 'p \<Rightarrow> ('p, 'b) dbus_locks \<Rightarrow> outcome \<times> ('p, 'b) dbus_locks" where
  "DbusLock_Lock B p s =
     (if dl_locked s p then (Returned None, s)
      else case bs_RequestName B p True (dl_bus s) of
        (Inl e, b) \<Rightarrow> (Returned (Some e), s\<lparr>dl_bus := b\<rparr>)
      | (Inr reply, b) \<Rightarrow>
          (if reply \<noteq> PrimaryOwner then (Returned (Some (ErrSentinel ErrLockInUse)), s\<lparr>dl_bus := b\<rparr>)
           else (Returned None, bus_locked p True b s)))"

text \<open>The deferred clean-up adds the match a second time; its error is only logged.\<close>

definition rematch :: "('p, 'b) bus_api \<Rightarrow> 'p \<Rightarrow> 'b \<Rightarrow> 'b" where
  "rematch B p b = snd (bs_AddMatchSignal B p b)"

definition DbusLock_LockOrWait :: "('p, 'b) bus_api \<Rightarrow> 'p \<Rightarrow> ('p, 'b) dbus_locks \<Rightarrow> outcome \<times> ('p, 'b) dbus_locks" where
  "DbusLock_LockOrWait B p s =
     (if dl_locked s p then (Returned None, s)
      else case bs_AddMatchSignal B p (dl_bus s) of
        (Some e, b) \<Rightarrow> (Returned (Some e), s\<lparr>dl_bus := b\<rparr>)
      | (None, b) \<Rightarrow>
          (case bs_RequestName B p False b of
             (Inl e, b) \<Rightarrow> (Returned (Some e), s\<lparr>dl_bus := rematch B p b\<rparr>)
           | (Inr PrimaryOwner, b) \<Rightarrow> (Returned None, bus_locked p True (rematch B p b) s)
           | (Inr InQueue, b) \<Rightarrow> (Blocked, s\<lparr>dl_bus := bs_Signal B p b\<rparr>)
           | (Inr reply, b) \<Rightarrow>
               (Returned (Some (ErrMsg ''unexpected dbus response when locking'')), s\<lparr>dl_bus := rematch B p b\<rparr>)))"

text \<open>
  The first loop over the signals ends only with the name or when the channel is closed; the second one,
  which also looks at the context, is reached only then.
\<close>

definition left_loop :: "('p, 'b) bus_api \<Rightarrow> 'p \<Rightarrow> 'b \<Rightarrow> 'b" where
  "left_loop B p b = rematch B p (bs_RemoveSignal B p b)"

definition DbusLock_granted ::
    "('p, 'b) bus_api \<Rightarrow> 'p \<Rightarrow> ('p, 'b) dbus_locks \<Rightarrow> (outcome \<times> ('p, 'b) dbus_locks) option" where
  "DbusLock_granted B p s =
     (if bs_acquired B p (dl_bus s) then Some (Returned None, bus_locked p True (left_loop B p (dl_bus s)) s)
      else if bs_closed B p (dl_bus s)
      then Some (Returned (Some (ErrMsg ''dbus lock signal closed'')), s\<lparr>dl_bus := left_loop B p (dl_bus s)\<rparr>)
      else None)"

definition DbusLock_cancelled ::
    "('p, 'b) bus_api \<Rightarrow> 'p \<Rightarrow> ('p, 'b) dbus_locks \<Rightarrow> (outcome \<times> ('p, 'b) dbus_locks) option" where
  "DbusLock_cancelled B p s =
     (if bs_closed B p (dl_bus s) then
        (case bs_ReleaseName B p (dl_bus s) of
           (Some e, b) \<Rightarrow> Some (Returned (Some e), s\<lparr>dl_bus := left_loop B p b\<rparr>)
         | (None, b) \<Rightarrow> Some (Blocked, s\<lparr>dl_bus := b\<rparr>))
      else None)"

definition DbusLock_Unlock :: "('p, 'b) bus_api \<Rightarrow> 'p \<Rightarrow> ('p, 'b) dbus_locks operation" where
  "DbusLock_Unlock B p s =
     (if \<not> dl_locked s p then (None, s)
      else case bs_ReleaseName B p (dl_bus s) of
        (Some e, b) \<Rightarrow> (Some e, s\<lparr>dl_bus := b\<rparr>)
      | (None, b) \<Rightarrow> (None, bus_locked p False b s))"

definition DbusLock_Close :: "('p, 'b) bus_api \<Rightarrow> 'p \<Rightarrow> ('p, 'b) dbus_locks operation" where
  "DbusLock_Close B p s = (case bs_Close B p (dl_bus s) of (e, b) \<Rightarrow> (e, bus_locked p False b s))"

definition dbus_locker :: "('p, 'b) bus_api \<Rightarrow> ('p, ('p, 'b) dbus_locks) Locker" where
  "dbus_locker B =
     \<lparr>lk_Lock = DbusLock_Lock B, lk_LockOrWait = DbusLock_LockOrWait B, lk_granted = DbusLock_granted B,
      lk_cancelled = DbusLock_cancelled B, lk_Unlock = DbusLock_Unlock B, lk_Close = DbusLock_Close B\<rparr>"

definition new_dbus_locks :: "'b \<Rightarrow> ('p, 'b) dbus_locks" where
  "new_dbus_locks b = \<lparr>dl_bus = b, dl_locked = (\<lambda>p. False)\<rparr>"

definition dbus_owner :: "('p, 'b) bus_api \<Rightarrow> ('p, 'b) dbus_locks \<Rightarrow> 'p option" where
  "dbus_owner B s = bs_owner B (dl_bus s)"

definition dbus_lock_ok :: "('p, 'b) bus_api \<Rightarrow> ('p, 'b) dbus_locks \<Rightarrow> bool" where
  "dbus_lock_ok B s \<longleftrightarrow> (\<forall>p. dl_locked s p \<longrightarrow> dbus_owner B s = Some p)"

lemmas dbus_lock_simps = takes_def gives_back_def dbus_lock_ok_def dbus_owner_def bus_locked_def left_loop_def

locale message_bus =
  fixes B :: "('p, 'b) bus_api"
  assumes B: "bus_laws B"
begin

lemma same_owner [simp]:
  "bs_owner B (snd (bs_AddMatchSignal B p b)) = bs_owner B b" "bs_owner B (bs_Signal B p b) = bs_owner B b"
  "bs_owner B (bs_RemoveSignal B p b) = bs_owner B b" "bs_owner B (rematch B p b) = bs_owner B b"
  using B by (simp_all add: bus_laws_def rematch_def)

lemma match_owner: "bs_AddMatchSignal B p b = (e, b') \<Longrightarrow> bs_owner B b' = bs_owner B b"
  using same_owner(1) [of p b] by simp

lemma request_keeps: "bs_RequestName B p f b = (r, b') \<Longrightarrow> bs_owner B b = Some q \<Longrightarrow> bs_owner B b' = Some q"
  using B unfolding bus_laws_def by (metis snd_conv)

lemma request_primary: "bs_RequestName B p f b = (Inr PrimaryOwner, b') \<Longrightarrow> bs_owner B b' = Some p"
  using B unfolding bus_laws_def by (metis fst_conv snd_conv)

lemma release_keeps:
  "bs_ReleaseName B p b = (e, b') \<Longrightarrow> q \<noteq> p \<Longrightarrow> bs_owner B b = Some q \<Longrightarrow> bs_owner B b' = Some q"
  using B unfolding bus_laws_def by (metis snd_conv)

lemma release_failed: "bs_ReleaseName B p b = (Some e, b') \<Longrightarrow> bs_owner B b' = bs_owner B b"
  using B unfolding bus_laws_def by (metis fst_conv option.discI snd_conv)

lemma close_keeps: "bs_Close B p b = (e, b') \<Longrightarrow> q \<noteq> p \<Longrightarrow> bs_owner B b = Some q \<Longrightarrow> bs_owner B b' = Some q"
  using B unfolding bus_laws_def by (metis snd_conv)

lemma acquired_owner: "bs_acquired B p b \<Longrightarrow> bs_owner B b = Some p"
  using B by (simp add: bus_laws_def)

lemma takes_kernel:
  assumes "dbus_lock_ok B l" and "\<And>q. bs_owner B (dl_bus l) = Some q \<Longrightarrow> bs_owner B b = Some q"
  shows "r \<noteq> Returned None \<Longrightarrow> takes (dbus_owner B) (dbus_lock_ok B) p l (r, l\<lparr>dl_bus := b\<rparr>)"
    and "bs_owner B b = Some p \<Longrightarrow> takes (dbus_owner B) (dbus_lock_ok B) p l (r, bus_locked p True b l)"
  using assms by (auto simp: dbus_lock_simps)

lemma takes_same: "dbus_lock_ok B l \<Longrightarrow> r \<noteq> Returned None \<or> dl_locked l p \<Longrightarrow> takes (dbus_owner B) (dbus_lock_ok B) p l (r, l)"
  by (auto simp: dbus_lock_simps)

lemma DbusLock_Lock_takes: "dbus_lock_ok B l \<Longrightarrow> takes (dbus_owner B) (dbus_lock_ok B) p l (DbusLock_Lock B p l)"
  by (auto simp: DbusLock_Lock_def intro!: takes_same takes_kernel dest: request_keeps request_primary
      split: prod.splits sum.splits)

lemma DbusLock_LockOrWait_takes:
  assumes "dbus_lock_ok B l"
  shows "takes (dbus_owner B) (dbus_lock_ok B) p l (DbusLock_LockOrWait B p l)"
proof -
  obtain e b where m: "bs_AddMatchSignal B p (dl_bus l) = (e, b)" by fastforce
  obtain r b' where q: "bs_RequestName B p False b = (r, b')" by fastforce
  note keep = request_keeps [OF q] match_owner [OF m]
  show ?thesis
  proof (cases e)
    case None
    show ?thesis
    proof (cases r)
      case (Inl a)
      with None m q keep assms show ?thesis by (auto simp: DbusLock_LockOrWait_def intro!: takes_same takes_kernel)
    next
      case (Inr reply)
      with None m q keep assms request_primary [of p False b b'] show ?thesis
        by (cases reply) (auto simp: DbusLock_LockOrWait_def intro!: takes_same takes_kernel)
    qed
  qed (use m keep assms in \<open>auto simp: DbusLock_LockOrWait_def intro!: takes_same takes_kernel\<close>)
qed

lemma DbusLock_granted_takes:
  "dbus_lock_ok B l \<Longrightarrow> DbusLock_granted B p l = Some r \<Longrightarrow> takes (dbus_owner B) (dbus_lock_ok B) p l r"
  by (auto simp: DbusLock_granted_def left_loop_def dest: acquired_owner intro!: takes_kernel split: if_splits)

lemma closed_release: "bs_closed B p b \<Longrightarrow> \<exists>e b'. bs_ReleaseName B p b = (Some e, b')"
  using B unfolding bus_laws_def by (metis not_None_eq prod.collapse)

lemma DbusLock_cancelled_takes:
  assumes "dbus_lock_ok B l" and "DbusLock_cancelled B p l = Some r"
  shows "takes (dbus_owner B) (dbus_lock_ok B) p l r"
proof -
  from assms(2) have c: "bs_closed B p (dl_bus l)" by (auto simp: DbusLock_cancelled_def split: if_splits)
  from closed_release [OF c] obtain e b where u: "bs_ReleaseName B p (dl_bus l) = (Some e, b)" by blast
  then have "r = (Returned (Some e), l\<lparr>dl_bus := left_loop B p b\<rparr>)"
    using assms(2) c by (simp add: DbusLock_cancelled_def)
  with assms(1) release_failed [OF u] show ?thesis by (auto simp: left_loop_def intro!: takes_kernel)
qed

lemma still_locked: "dbus_lock_ok B l \<Longrightarrow> dl_locked l q \<Longrightarrow> bs_owner B (dl_bus l) = Some q"
  by (simp add: dbus_lock_ok_def dbus_owner_def)

lemma gives_kernel:
  assumes "dbus_lock_ok B l" and "\<And>q. q \<noteq> p \<Longrightarrow> bs_owner B (dl_bus l) = Some q \<Longrightarrow> bs_owner B b = Some q"
  shows "gives_back (dbus_owner B) (dbus_lock_ok B) p l (bus_locked p False b l)"
  using assms(2) still_locked [OF assms(1)]
  by (simp add: gives_back_def dbus_lock_ok_def dbus_owner_def bus_locked_def)

lemma DbusLock_Unlock_gives:
  assumes "dbus_lock_ok B l" and "DbusLock_Unlock B p l = (e, l')"
  shows "gives_back (dbus_owner B) (dbus_lock_ok B) p l l' \<and> (e \<noteq> None \<longrightarrow> dbus_owner B l' = dbus_owner B l)"
proof (cases "dl_locked l p")
  case True
  obtain d b where u: "bs_ReleaseName B p (dl_bus l) = (d, b)" by fastforce
  show ?thesis
  proof (cases d)
    case None
    with assms(2) True u have "e = None" "l' = bus_locked p False b l" by (simp_all add: DbusLock_Unlock_def)
    with gives_kernel [OF assms(1) release_keeps [OF u]] show ?thesis by simp
  next
    case (Some x)
    with assms(2) True u have "l' = l\<lparr>dl_bus := b\<rparr>" by (simp add: DbusLock_Unlock_def)
    with assms(1) release_failed [of p "dl_bus l" x b] u Some show ?thesis by (simp add: dbus_lock_simps)
  qed
qed (use assms in \<open>auto simp: DbusLock_Unlock_def gives_back_def\<close>)

lemma DbusLock_Close_gives:
  assumes "dbus_lock_ok B l" and "DbusLock_Close B p l = (e, l')"
  shows "gives_back (dbus_owner B) (dbus_lock_ok B) p l l'"
proof -
  obtain d b where u: "bs_Close B p (dl_bus l) = (d, b)" by fastforce
  with assms(2) have "l' = bus_locked p False b l" by (simp add: DbusLock_Close_def)
  with gives_kernel [OF assms(1) close_keeps [OF u]] show ?thesis by simp
qed

lemma dbus_locker_exclusive: "exclusive_lock (dbus_locker B) (dbus_owner B) (dbus_lock_ok B) (\<lambda>e l. True)"
  by unfold_locales
    (auto simp: dbus_locker_def DbusLock_Lock_takes DbusLock_LockOrWait_takes
      dest: DbusLock_Unlock_gives intro: DbusLock_granted_takes DbusLock_cancelled_takes DbusLock_Close_gives)

end

sublocale message_bus \<subseteq> dbus_lock: exclusive_lock "dbus_locker B" "dbus_owner B" "dbus_lock_ok B" "\<lambda>e l. True"
  by (rule dbus_locker_exclusive)

text \<open>
  C25: At most one process at a time has been told that it holds the lock on the message bus, whatever the
  processes call, cancelled waits and closed connections included.
\<close>

theorem dbus_lock_exclusive:
  assumes "bus_laws B" and "lock_run (dbus_locker B) (\<lambda>e l. True) (fresh_world (new_dbus_locks b)) w"
    and "lw_told w p" and "lw_told w q"
  shows "p = q"
proof (rule exclusive_lock.exclusive [OF message_bus.dbus_locker_exclusive assms(2) _ assms(3,4)])
  show "message_bus B" using assms(1) by (rule message_bus.intro)
  show "dbus_lock_ok B (new_dbus_locks b)" by (simp add: dbus_lock_ok_def new_dbus_locks_def)
qed

text \<open>A bus that queues the requests for the name: the head of the queue owns it.\<close>

definition queue_bus :: "(nat, nat list) bus_api" where
  "queue_bus =
     \<lparr>bs_AddMatchSignal = (\<lambda>p b. (None, b)),
      bs_RequestName = (\<lambda>p f b.
        if b = [] then (Inr PrimaryOwner, [p])
        else if hd b = p then (Inr AlreadyOwner, b)
        else if f then (Inr NameExists, hd b # remove1 p (tl b))
        else (Inr InQueue, if p \<in> set b then b else b @ [p])),
      bs_ReleaseName = (\<lambda>p b. (None, removeAll p b)),
      bs_Signal = (\<lambda>p b. b), bs_RemoveSignal = (\<lambda>p b. b),
      bs_Close = (\<lambda>p b. (None, removeAll p b)),
      bs_owner = (\<lambda>b. if b = [] then None else Some (hd b)),
      bs_acquired = (\<lambda>p b. b \<noteq> [] \<and> hd b = p), bs_closed = (\<lambda>p b. False)\<rparr>"

lemma hd_removeAll: "hd b \<noteq> p \<Longrightarrow> b \<noteq> [] \<Longrightarrow> hd (removeAll p b) = hd b" "hd b \<noteq> p \<Longrightarrow> b \<noteq> [] \<Longrightarrow> removeAll p b \<noteq> []"
  by (cases b; simp)+

lemma queue_bus_laws: "bus_laws queue_bus"
  by (auto simp: bus_laws_def queue_bus_def hd_removeAll split: if_splits)

interpretation queue_bus: message_bus queue_bus
  by unfold_locales (rule queue_bus_laws)

definition queued :: "(nat, (nat, nat list) dbus_locks) lock_world" where
  "queued =
     the (play (dbus_locker queue_bus) (\<lambda>e l. True) [EvLockOrWait 0, EvLockOrWait 1, EvUnlock 0, EvGranted 1]
       (fresh_world (new_dbus_locks [])))"

theorem dbus_lock_exclusive_witness: "lw_told queued 1 \<and> \<not> lw_told queued 0"
proof -
  have run: "lock_run (dbus_locker queue_bus) (\<lambda>e l. True) (fresh_world (new_dbus_locks [])) queued"
    unfolding queued_def by (rule played) code_simp
  have "lw_told queued 1" by code_simp
  with dbus_lock_exclusive [OF queue_bus_laws run, of 1 0] show ?thesis by auto
qed

end
