(* ===== verification/ServiceManager.thy ===== *)
theory ServiceManager
  imports Services
begin

section \<open>The service manager (pkg/services/services.go)\<close>

text \<open>
  The operations of \<open>ServiceManager\<close> that change services or wait for them, over the connection to
  systemd, which is the library's: a record of operations on a state of any type.  Time passes in that
  state: \<open>sd_select\<close> is what a \<open>select\<close> over the context, the callback of a job and a timer receives
  first, \<open>sd_wait\<close> what the waiting loop receives next after so many ticks of its one-second ticker.
\<close>

datatype callback = JobResult string | JobCancelled | JobTimer

datatype wait_event = Tick | WaitCancelled | WaitTimer

datatype unit_job = StartUnit | StopUnit | RestartUnit | ReloadUnit

record 's Systemd =
  sd_Reload :: "'s operation"
  sd_dryrunQuadlets :: "'s operation"
  sd_Job :: "unit_job \<Rightarrow> string \<Rightarrow> 's operation"
  sd_EnableUnitFiles :: "string \<Rightarrow> 's operation"
  sd_DisableUnitFiles :: "string \<Rightarrow> 's operation"
  sd_StartTransientUnit :: "string \<Rightarrow> string list \<Rightarrow> 's operation"
  sd_ListUnits :: "string \<Rightarrow> ('s, string list) query"
  sd_Properties :: "string \<Rightarrow> ('s, any_map) query"
  sd_select :: "int \<Rightarrow> 's \<Rightarrow> callback \<times> 's"
  sd_wait :: "int \<Rightarrow> int \<Rightarrow> 's \<Rightarrow> wait_event \<times> 's"

record ServiceManager =
  sv_DryrunQuadlets :: bool

subsection \<open>Jobs\<close>

definition waitForCallback :: "'s Systemd \<Rightarrow> int \<Rightarrow> 's operation" where
  "waitForCallback sd timeout s =
     (case sd_select sd timeout s of
        (JobCancelled, s') \<Rightarrow> (Some (ErrMsg ''context cancelled during systemd operation''), s')
      | (JobResult result, s') \<Rightarrow>
          (if result \<noteq> ''done'' then
             (if result = ''failed'' then (Some (ErrSentinel ErrStateChangeFailed), s')
              else (Some (ErrMsg ''finished with status''), s'))
           else (None, s'))
      | (JobTimer, s') \<Rightarrow> (Some (ErrSentinel ErrOperationTimedOut), s'))"

text \<open>The actions that start a job of systemd and wait for its result.\<close>

definition job_of :: "ServiceAction \<Rightarrow> unit_job option" where
  "job_of a = (case a of
       ServiceStart \<Rightarrow> Some StartUnit
     | ServiceStop \<Rightarrow> Some StopUnit
     | ServiceRestart \<Rightarrow> Some RestartUnit
     | ServiceReloadService \<Rightarrow> Some ReloadUnit
     | _ \<Rightarrow> None)"

definition ApplyService :: "ServiceManager \<Rightarrow> 's Systemd \<Rightarrow> string \<Rightarrow> ServiceAction \<Rightarrow> int \<Rightarrow> 's operation" where
  "ApplyService sv sd name action timeout =
     (if action = ServiceReloadUnits then
        then_op
          (if sv_DryrunQuadlets sv
           then wrap_op ''failed quadlet generation while reloading units'' (sd_dryrunQuadlets sd)
           else (\<lambda>s. (None, s)))
          (sd_Reload sd)
      else
        (let timeout = (if timeout = 0 then 30 else timeout) in
         case job_of action of
           Some job \<Rightarrow>
             then_op (wrap_op ''error applying service change'' (sd_Job sd job name))
               (wrap_op ''error applying service change for'' (waitForCallback sd timeout))
         | None \<Rightarrow>
             (if action = ServiceEnable then wrap_op ''cannot enable unit'' (sd_EnableUnitFiles sd name)
              else wrap_op ''cannot disable unit'' (sd_DisableUnitFiles sd name))))"

definition RunOneshotCommand :: "'s Systemd \<Rightarrow> int \<Rightarrow> string \<Rightarrow> string list \<Rightarrow> 's operation" where
  "RunOneshotCommand sd timeout name actions =
     then_op (sd_StartTransientUnit sd name actions)
       (wrap_op ''error running oneshot operation'' (waitForCallback sd timeout))"

subsection \<open>Waiting for a state\<close>

text \<open>
  The loop of \<open>WaitUntilState\<close>; a value that is not a string makes the type assertion panic.  The value
  is \<open>None\<close> when the loop never returns.
\<close>

partial_function (option) wait_loop ::
    "'s Systemd \<Rightarrow> string \<Rightarrow> string \<Rightarrow> int \<Rightarrow> int \<Rightarrow> 's \<Rightarrow> (go_error option \<times> 's) option" where
  "wait_loop sd name state timeout ticks s =
     (case sd_wait sd timeout ticks s of
        (WaitCancelled, s') \<Rightarrow> Some (Some (ErrMsg ''context canceled while waiting for service''), s')
      | (WaitTimer, s') \<Rightarrow> Some (Some (ErrWrapped [] (ErrSentinel ErrOperationTimedOut)), s')
      | (Tick, s') \<Rightarrow>
          (case sd_Properties sd name s' of
             (Inl e, s'') \<Rightarrow> Some (Some e, s'')
           | (Inr props, s'') \<Rightarrow>
               (case as_string (map_of props ''ActiveState'') of
                  None \<Rightarrow> Some (Some (Panic ''interface conversion''), s'')
                | Some rawState \<Rightarrow>
                    (if NewServiceState rawState = state then Some (None, s'')
                     else if NewServiceState rawState = StateFailed_s
                     then Some (Some (ErrSentinel ErrStateChangeFailed), s'')
                     else wait_loop sd name state timeout (ticks + 1) s''))))"

declare wait_loop.simps [code]

text \<open>
  Before the loop the code compares the property, an interface that holds a \<open>string\<close>, with a
  \<open>ServiceState\<close>.  The types differ, so the two are never equal and there is no early return.
\<close>

definition WaitUntilState ::
    "'s Systemd \<Rightarrow> string \<Rightarrow> string \<Rightarrow> int \<Rightarrow> 's \<Rightarrow> (go_error option \<times> 's) option" where
  "WaitUntilState sd name state timeout s =
     (if state = StateInternalWildcard_s then Some (None, s)
      else case sd_ListUnits sd name s of
        (Inl e, s1) \<Rightarrow> Some (Some e, s1)
      | (Inr us, s1) \<Rightarrow>
          (if us = [] then Some (Some (ErrSentinel ErrServiceNotFound), s1)
           else case sd_Properties sd name s1 of
             (Inl e, s2) \<Rightarrow> Some (Some e, s2)
           | (Inr props, s2) \<Rightarrow> wait_loop sd name state timeout 0 s2))"

subsection \<open>Waiting ends\<close>

text \<open>
  What the loop relies on: the timer of \<open>timeout\<close> seconds and the ticker of one second start together,
  so that once \<open>timeout\<close> ticks were received the timer is what comes next, if the context is not done.
\<close>

definition timer_fires :: "'s Systemd \<Rightarrow> bool" where
  "timer_fires sd \<longleftrightarrow> (\<forall>timeout ticks s. timeout \<le> ticks \<longrightarrow> fst (sd_wait sd timeout ticks s) \<noteq> Tick)"

definition shows_state :: "'s Systemd \<Rightarrow> string \<Rightarrow> string \<Rightarrow> 's \<Rightarrow> bool" where
  "shows_state sd name state s \<longleftrightarrow>
     (\<exists>s0 props raw. sd_Properties sd name s0 = (Inr props, s) \<and>
        as_string (map_of props ''ActiveState'') = Some raw \<and> NewServiceState raw = state)"

lemma wait_loop_returns:
  assumes "timer_fires sd"
  shows "\<exists>r. wait_loop sd name state timeout ticks s = Some r \<and>
           (fst r = None \<longrightarrow> shows_state sd name state (snd r) \<and> ticks < timeout)"
proof (induction "nat (timeout - ticks)" arbitrary: ticks s rule: less_induct)
  case less
  obtain ev s1 where w: "sd_wait sd timeout ticks s = (ev, s1)" by fastforce
  show ?case
  proof (cases ev)
    case Tick
    with w assms have "ticks < timeout" unfolding timer_fires_def by (metis fst_conv not_le)
    obtain p s2 where q: "sd_Properties sd name s1 = (p, s2)" by fastforce
    show ?thesis
    proof (cases p)
      case (Inl e)
      with w q Tick show ?thesis by (simp add: wait_loop.simps [of sd name state timeout ticks s])
    next
      case (Inr props)
      from less [of "ticks + 1" s2] \<open>ticks < timeout\<close> have
        "\<exists>r. wait_loop sd name state timeout (ticks + 1) s2 = Some r \<and>
           (fst r = None \<longrightarrow> shows_state sd name state (snd r) \<and> ticks + 1 < timeout)" by simp
      moreover have "shows_state sd name state s2"
        if "as_string (map_of props ''ActiveState'') = Some raw" "NewServiceState raw = state" for raw
        using that q Inr by (auto simp: shows_state_def)
      ultimately show ?thesis
        using w q Tick Inr \<open>ticks < timeout\<close>
        by (subst wait_loop.simps) (auto split: option.split)
    qed
  qed (use w in \<open>simp_all add: wait_loop.simps [of sd name state timeout ticks s]\<close>)
qed


text \<open>A systemd whose one service takes some ticks to start.\<close>

definition slow_unit :: "int Systemd" where
  "slow_unit =
     \<lparr>sd_Reload = (\<lambda>s. (None, s)), sd_dryrunQuadlets = (\<lambda>s. (None, s)), sd_Job = (\<lambda>j n s. (None, s)),
      sd_EnableUnitFiles = (\<lambda>n s. (None, s)), sd_DisableUnitFiles = (\<lambda>n s. (None, s)),
      sd_StartTransientUnit = (\<lambda>n a s. (None, s)), sd_ListUnits = (\<lambda>n s. (Inr [n], s)),
      sd_Properties = (\<lambda>n s. (Inr [(''ActiveState'', AnyString (if s \<le> 0 then ''active'' else ''activating''))], s)),
      sd_select = (\<lambda>t s. (JobResult ''done'', s)),
      sd_wait = (\<lambda>t c s. if c < t then (Tick, s - 1) else (WaitTimer, s))\<rparr>"


end
