(* ===== verification/Actions.thy ===== *)
theory Actions
  imports Components
begin

section \<open>Actions (pkg/actions)\<close>

text \<open>
  A step of a plan.  The code keeps a pointer to the parent component; the model keeps the
  component as it is when the action is made, and \<open>None\<close> for a nil pointer.  After that the
  planner only writes the lifecycle state of a component, which no action reads but the check of
  \<open>Component_Validate\<close> that it is known.  The diff library is a parameter wherever a diff is
  computed; here only its exported diff type is used, and a nil diff slice is \<open>None\<close>.
\<close>

datatype ActionType =
    ActionUnknown
  | ActionInstall
  | ActionRemove
  | ActionUpdate
  | ActionStart
  | ActionStop
  | ActionRestart
  | ActionReload
  | ActionEnable
  | ActionDisable
  | ActionEnsure
  | ActionSetup
  | ActionCleanup
  | ActionMount
  | ActionImport
  | ActionDump
  | ActionExecute

definition service_action_types :: "ActionType list" where
  "service_action_types =
     [ActionStart, ActionRestart, ActionStop, ActionReload, ActionEnable, ActionDisable]"

definition IsServiceAction :: "ActionType \<Rightarrow> bool" where
  "IsServiceAction t \<longleftrightarrow> t \<in> set service_action_types"

definition IsResourceAction :: "ActionType \<Rightarrow> bool" where
  "IsResourceAction t \<longleftrightarrow> t = ActionInstall \<or> t = ActionRemove \<or> t = ActionUpdate"

definition IsHostAction :: "ActionType \<Rightarrow> bool" where
  "IsHostAction t \<longleftrightarrow>
     t = ActionSetup \<or> t = ActionCleanup \<or> t = ActionMount \<or> t = ActionImport \<or>
     t = ActionDump \<or> t = ActionEnable"

datatype Operation = DiffDelete | DiffInsert | DiffEqual

type_synonym Diff = "Operation \<times> string"

record ActionMetadata =
  md_ServiceTimeout :: "int option"
  md_ServiceUntilState :: "string option"
  md_Command :: "string option"
  md_VolumeName :: "string option"
  md_OneshotName :: "string option"

definition zero_ActionMetadata :: ActionMetadata where
  "zero_ActionMetadata =
     \<lparr>md_ServiceTimeout = None, md_ServiceUntilState = None, md_Command = None,
      md_VolumeName = None, md_OneshotName = None\<rparr>"

record Action =
  act_Todo :: ActionType
  act_Parent :: "Component option"
  act_Target :: Resource
  act_DiffContent :: "Diff list option"
  act_Priority :: int
  act_Metadata :: "ActionMetadata option"

definition zero_Action :: Action where
  "zero_Action =
     \<lparr>act_Todo = ActionUnknown, act_Parent = None, act_Target = zero_Resource,
      act_DiffContent = None, act_Priority = 0, act_Metadata = None\<rparr>"

definition Action_Validate :: "Action \<Rightarrow> go_error option" where
  "Action_Validate a =
     (if act_Todo a = ActionUnknown then Some (ErrMsg ''unknown action'')
      else if act_Parent a = None then Some (ErrMsg ''action without parent'')
      else case Resource_Validate (act_Target a) of
        Some e \<Rightarrow> Some (ErrWrapped ''invalid payload for action'' e)
      | None \<Rightarrow>
          (if act_Todo a = ActionUpdate \<and> IsFile (act_Target a) \<and> act_DiffContent a = None
           then Some (ErrMsg ''file related action has no diff'') else None))"

definition GetContentAsDiffs :: "Action \<Rightarrow> (Diff list option) result" where
  "GetContentAsDiffs a =
     (if act_Todo a \<noteq> ActionInstall \<and> act_Todo a \<noteq> ActionRemove \<and> act_Todo a \<noteq> ActionUpdate
      then Inl (ErrMsg ''action does not have diffs'') else Inr (act_DiffContent a))"

text \<open>\<open>a.Parent.Name\<close>, only read of validated actions.\<close>

definition parent_name :: "Action \<Rightarrow> string" where
  "parent_name a = (case act_Parent a of Some c \<Rightarrow> comp_Name c | None \<Rightarrow> [])"

text \<open>An action literal with the fields the planner sets; the rest is zero.\<close>

definition mk_action :: "ActionType \<Rightarrow> Component \<Rightarrow> Resource \<Rightarrow> Action" where
  "mk_action t c r = zero_Action\<lparr>act_Todo := t, act_Parent := Some c, act_Target := r\<rparr>"

definition host_resource :: Resource where
  "host_resource = zero_Resource\<lparr>res_Kind := ResourceTypeHost\<rparr>"

text \<open>The daemon-reload every part of the program writes as a literal.\<close>

definition reload_action :: Action where
  "reload_action = mk_action ActionReload NewRootComponent host_resource"

lemma mk_action_simps [simp]:
  "act_Todo (mk_action t c r) = t" "act_Parent (mk_action t c r) = Some c"
  "act_Target (mk_action t c r) = r" "act_DiffContent (mk_action t c r) = None"
  "act_Priority (mk_action t c r) = 0" "act_Metadata (mk_action t c r) = None"
  by (simp_all add: mk_action_def zero_Action_def)

lemma reload_action_simps [simp]:
  "act_Todo reload_action = ActionReload" "act_Parent reload_action = Some NewRootComponent"
  "act_Target reload_action = host_resource" "act_Priority reload_action = 0"
  by (simp_all add: reload_action_def)

lemma host_resource_simps [simp]:
  "res_Kind host_resource = ResourceTypeHost" "res_Path host_resource = []"
  by (simp_all add: host_resource_def zero_Resource_def)

lemma Action_ValidateD:
  "Action_Validate a = None \<Longrightarrow>
     act_Todo a \<noteq> ActionUnknown \<and> (\<exists>c. act_Parent a = Some c) \<and> Resource_Validate (act_Target a) = None"
  by (auto simp: Action_Validate_def split: if_splits option.splits)

subsection \<open>Order\<close>

text \<open>
  Go's constants are numbered by \<open>iota\<close>; the order of the types is that of the numbers.
\<close>

definition ActionType_iota :: "ActionType \<Rightarrow> nat" where
  "ActionType_iota t = (case t of
       ActionUnknown \<Rightarrow> 0 | ActionInstall \<Rightarrow> 1 | ActionRemove \<Rightarrow> 2 | ActionUpdate \<Rightarrow> 3
     | ActionStart \<Rightarrow> 4 | ActionStop \<Rightarrow> 5 | ActionRestart \<Rightarrow> 6 | ActionReload \<Rightarrow> 7
     | ActionEnable \<Rightarrow> 8 | ActionDisable \<Rightarrow> 9 | ActionEnsure \<Rightarrow> 10 | ActionSetup \<Rightarrow> 11
     | ActionCleanup \<Rightarrow> 12 | ActionMount \<Rightarrow> 13 | ActionImport \<Rightarrow> 14 | ActionDump \<Rightarrow> 15
     | ActionExecute \<Rightarrow> 16)"

lemma ActionType_iota_inj: "ActionType_iota s = ActionType_iota t \<Longrightarrow> s = t"
  by (cases s; cases t) (simp_all add: ActionType_iota_def)

instantiation ActionType :: linorder
begin

definition less_eq_ActionType :: "ActionType \<Rightarrow> ActionType \<Rightarrow> bool" where
  "less_eq_ActionType s t \<longleftrightarrow> ActionType_iota s \<le> ActionType_iota t"

definition less_ActionType :: "ActionType \<Rightarrow> ActionType \<Rightarrow> bool" where
  "less_ActionType s t \<longleftrightarrow> ActionType_iota s < ActionType_iota t"

instance
  by intro_classes (auto simp: less_eq_ActionType_def less_ActionType_def dest: ActionType_iota_inj)

end

end
