(* ===== verification/Plans.thy ===== *)
theory Plans
  imports Actions
begin

section \<open>Plans (pkg/plan/plan.go)\<close>

text \<open>
  A plan keeps, per component name, the resource changes and the service changes in the order of
  their priorities, counts what was added and remembers whether a daemon-reload is needed.
  \<open>Steps\<close> lays all of it out as one list.
\<close>

record componentChanges =
  cc_resourceChanges :: "Action list"
  cc_serviceChanges :: "Action list"

record Plan =
  pl_size :: nat
  pl_changesMap :: "(string \<times> componentChanges) list"
  pl_needReload :: bool

definition zero_componentChanges :: componentChanges where
  "zero_componentChanges = \<lparr>cc_resourceChanges = [], cc_serviceChanges = []\<rparr>"

definition NewPlan :: Plan where
  "NewPlan = \<lparr>pl_size = 0, pl_changesMap = [], pl_needReload = False\<rparr>"

subsection \<open>The tree map of changes\<close>

definition changes_Get :: "(string \<times> componentChanges) list \<Rightarrow> string \<Rightarrow> componentChanges option" where
  "changes_Get m name = map_option snd (tset_get fst m name)"

definition changes_Put ::
    "string \<Rightarrow> componentChanges \<Rightarrow> (string \<times> componentChanges) list \<Rightarrow> (string \<times> componentChanges) list" where
  "changes_Put name c m = tset_add fst (name, c) m"

definition changes_or_new :: "Plan \<Rightarrow> string \<Rightarrow> componentChanges" where
  "changes_or_new p name =
     (case changes_Get (pl_changesMap p) name of None \<Rightarrow> zero_componentChanges | Some c \<Rightarrow> c)"

definition addResourceChange :: "Plan \<Rightarrow> Action \<Rightarrow> Plan" where
  "addResourceChange p a =
     (let name = parent_name a; changes = changes_or_new p name;
          changes = changes\<lparr>cc_resourceChanges := sort_key act_Priority (cc_resourceChanges changes @ [a])\<rparr>
      in p\<lparr>pl_changesMap := changes_Put name changes (pl_changesMap p)\<rparr>)"

definition addServiceChange :: "Plan \<Rightarrow> Action \<Rightarrow> Plan" where
  "addServiceChange p a =
     (let name = parent_name a; changes = changes_or_new p name;
          changes = changes\<lparr>cc_serviceChanges := sort_key act_Priority (cc_serviceChanges changes @ [a])\<rparr>
      in p\<lparr>pl_changesMap := changes_Put name changes (pl_changesMap p)\<rparr>)"

definition getServiceChanges :: "Plan \<Rightarrow> string \<Rightarrow> Action list" where
  "getServiceChanges p name =
     (case changes_Get (pl_changesMap p) name of None \<Rightarrow> [] | Some c \<Rightarrow> cc_serviceChanges c)"

definition getResourceChanges :: "Plan \<Rightarrow> string \<Rightarrow> Action list" where
  "getResourceChanges p name =
     (case changes_Get (pl_changesMap p) name of None \<Rightarrow> [] | Some c \<Rightarrow> cc_resourceChanges c)"

definition listComponents :: "Plan \<Rightarrow> string list" where
  "listComponents p = filter (\<lambda>v. v \<noteq> ''root'') (map fst (pl_changesMap p))"

subsection \<open>Default priorities\<close>

definition crud_priorities :: "(ActionType \<times> int) list" where
  "crud_priorities = [(ActionInstall, 3), (ActionUpdate, 3), (ActionRemove, 3)]"

definition backup_priorities :: "(ActionType \<times> int) list" where
  "backup_priorities = [(ActionCleanup, 7), (ActionDump, 2)]"

definition unit_priorities :: "(ActionType \<times> int) list" where
  "unit_priorities = [(ActionStart, 6), (ActionStop, 1), (ActionRestart, 6), (ActionReload, 6)]"

definition priorityMap :: "ResourceType \<Rightarrow> (ActionType \<times> int) list" where
  "priorityMap k = (case k of
       ResourceTypeComponent \<Rightarrow>
         [(ActionInstall, 2), (ActionUpdate, 3), (ActionCleanup, 2), (ActionSetup, 5), (ActionRemove, 4)]
     | ResourceTypeDirectory \<Rightarrow> [(ActionInstall, 2), (ActionRemove, 4)]
     | ResourceTypeDropinDir \<Rightarrow> [(ActionInstall, 2), (ActionRemove, 4)]
     | ResourceTypeManifest \<Rightarrow> crud_priorities
     | ResourceTypeFile \<Rightarrow> crud_priorities @ backup_priorities
     | ResourceTypeAppFile \<Rightarrow> crud_priorities
     | ResourceTypeDropin \<Rightarrow> crud_priorities
     | ResourceTypeContainer \<Rightarrow> crud_priorities @ backup_priorities @ unit_priorities
     | ResourceTypePod \<Rightarrow> crud_priorities @ backup_priorities @ unit_priorities
     | ResourceTypeKube \<Rightarrow> crud_priorities @ backup_priorities @ unit_priorities
     | ResourceTypeNetwork \<Rightarrow>
         crud_priorities @ backup_priorities @ [(ActionEnsure, 5)] @ unit_priorities
     | ResourceTypeBuild \<Rightarrow> crud_priorities @ backup_priorities @ unit_priorities
     | ResourceTypeImage \<Rightarrow> crud_priorities @ backup_priorities @ unit_priorities
     | ResourceTypeScript \<Rightarrow> crud_priorities @ backup_priorities @ [(ActionExecute, 3)]
     | ResourceTypePodmanSecret \<Rightarrow> crud_priorities @ backup_priorities
     | ResourceTypeVolume \<Rightarrow>
         crud_priorities @ backup_priorities @ [(ActionEnsure, 5), (ActionImport, 4)] @ unit_priorities
     | ResourceTypeService \<Rightarrow>
         crud_priorities @
         [(ActionRestart, 6), (ActionStart, 6), (ActionEnable, 6), (ActionDisable, 6),
          (ActionStop, 1), (ActionReload, 6)]
     | ResourceTypeHost \<Rightarrow> [(ActionReload, 4)]
     | _ \<Rightarrow> [])"

definition getDefaultPriority :: "Action \<Rightarrow> int result" where
  "getDefaultPriority a =
     (case map_of (priorityMap (res_Kind (act_Target a))) (act_Todo a) of
        Some priority \<Rightarrow> Inr priority
      | None \<Rightarrow> Inl (ErrMsg ''invalid action type for resource type''))"

subsection \<open>Adding actions\<close>

definition Plan_Add :: "Plan \<Rightarrow> Action \<Rightarrow> Plan result" where
  "Plan_Add p a =
     (case Action_Validate a of
        Some e \<Rightarrow> Inl (ErrWrapped ''invalid action to add'' e)
      | None \<Rightarrow>
          (if act_Priority a = 0 then
             (case getDefaultPriority a of
                Inl e \<Rightarrow> Inl e
              | Inr priority \<Rightarrow>
                  (let a = a\<lparr>act_Priority := priority\<rparr>;
                       p = (if res_Kind (act_Target a) = ResourceTypeHost \<and> act_Todo a = ActionReload
                            then p\<lparr>pl_needReload := True\<rparr>
                            else if IsServiceAction (act_Todo a) then addServiceChange p a
                            else addResourceChange p a)
                   in Inr (p\<lparr>pl_size := Suc (pl_size p)\<rparr>)))
           else
             (let p = addResourceChange p a in Inr (p\<lparr>pl_size := Suc (pl_size p)\<rparr>))))"

fun Plan_Append :: "Plan \<Rightarrow> Action list \<Rightarrow> Plan result" where
  "Plan_Append p [] = Inr p"
| "Plan_Append p (todo # rest) =
     (case Plan_Add p todo of
        Inl e \<Rightarrow> Inl (ErrWrapped ''unable to append actions to plan'' e)
      | Inr p' \<Rightarrow> Plan_Append p' rest)"

definition Plan_Empty :: "Plan \<Rightarrow> bool" where
  "Plan_Empty p \<longleftrightarrow> pl_size p = 0"

subsection \<open>Laying out the steps\<close>

text \<open>The two maps and the result slice of \<open>coalesceServices\<close>.\<close>

record coalesce_state =
  cs_results :: "Action list"
  cs_serviceResults :: "(string \<times> nat) list"
  cs_serviceActions :: "(string \<times> Action) list"

definition coalesce_step :: "coalesce_state \<Rightarrow> Action \<Rightarrow> coalesce_state" where
  "coalesce_step s a =
     (let path = res_Path (act_Target a);
          s = (if map_of (cs_serviceResults s) path = None
               then s\<lparr>cs_serviceResults := AList.update path 0 (cs_serviceResults s)\<rparr> else s);
          endState = (case map_of (cs_serviceResults s) path of Some n \<Rightarrow> n | None \<Rightarrow> 0)
      in if act_Todo a = ActionEnable \<or> act_Todo a = ActionDisable
         then s\<lparr>cs_results := cs_results s @ [a]\<rparr>
         else
           (let upd = (\<lambda>t n (e, acts).
                  if act_Todo a = t \<and> e < n then (n, AList.update path a acts) else (e, acts));
                (endState, acts) =
                  upd ActionStop 4 (upd ActionRestart 3 (upd ActionStart 2 (upd ActionReload 1
                    (endState, cs_serviceActions s))))
            in s\<lparr>cs_serviceActions := acts,
                 cs_serviceResults := AList.update path endState (cs_serviceResults s)\<rparr>))"

text \<open>Reading a Go map at a missing key gives the zero value.\<close>

definition coalesceServices :: "Action list \<Rightarrow> Action list" where
  "coalesceServices changes =
     (let s = foldl coalesce_step
                \<lparr>cs_results = [], cs_serviceResults = [], cs_serviceActions = []\<rparr> changes;
          sortedResults = sort (map fst (cs_serviceResults s))
      in cs_results s @
         map (\<lambda>k. case map_of (cs_serviceActions s) k of Some a \<Rightarrow> a | None \<Rightarrow> zero_Action) sortedResults)"

fun mergeStepsIntoPlan :: "Action list \<Rightarrow> Action list \<Rightarrow> Action list" where
  "mergeStepsIntoPlan [] serviceSteps = serviceSteps"
| "mergeStepsIntoPlan (step # resourceSteps) serviceSteps =
     takeWhile (\<lambda>s. act_Priority s \<le> act_Priority step) serviceSteps @
     step # mergeStepsIntoPlan resourceSteps
              (dropWhile (\<lambda>s. act_Priority s \<le> act_Priority step) serviceSteps)"

definition resource_steps :: "Plan \<Rightarrow> Action list" where
  "resource_steps p = concat (map (getResourceChanges p) (listComponents p))"

definition service_steps :: "Plan \<Rightarrow> Action list" where
  "service_steps p =
     sort_key act_Priority
       (concat (map (\<lambda>k. coalesceServices (getServiceChanges p k)) (listComponents p)))"

definition Steps :: "Plan \<Rightarrow> Action list" where
  "Steps p =
     (let steps = resource_steps p;
          serviceSteps = service_steps p;
          steps = (if pl_needReload p then steps @ [reload_action] else steps)
      in mergeStepsIntoPlan steps serviceSteps)"

end
