(* ===== verification/PlanFacts.thy ===== *)
theory PlanFacts
  imports Plans
begin

section \<open>Facts about plans\<close>

text \<open>
  Lemmas about \<open>Plans\<close>: what merging the service steps keeps and orders, which plan a sequence of
  additions builds (\<open>holds\<close>), and the reference definition of coalescing (\<open>coalesce_spec\<close>) with
  the invariant of the code's loop over two maps that shows they agree.
\<close>

subsection \<open>Merging the service steps\<close>

lemma mset_mergeSteps: "mset (mergeStepsIntoPlan rs ss) = mset rs + mset ss"
proof (induction rs ss rule: mergeStepsIntoPlan.induct)
  case (1 ss)
  then show ?case by simp
next
  case (2 r rs ss)
  let ?P = "\<lambda>s. act_Priority s \<le> act_Priority r"
  have "mset ss = mset (takeWhile ?P ss) + mset (dropWhile ?P ss)"
    by (metis mset_append takeWhile_dropWhile_id)
  with 2 show ?case by simp
qed

lemma set_mergeSteps [simp]: "set (mergeStepsIntoPlan rs ss) = set rs \<union> set ss"
  using arg_cong [OF mset_mergeSteps [of rs ss], of set_mset] by simp

lemma sorted_all_before:
  "sorted (map f xs) \<Longrightarrow> all_before (\<lambda>x. f x < n) (\<lambda>x. n \<le> f x) xs"
  by (induction xs) fastforce+

lemma merge_low_before_high:
  assumes "sorted (map act_Priority ss)" and "\<forall>r\<in>set rs. act_Priority r < n"
  shows "all_before (\<lambda>a. act_Priority a < n) (\<lambda>a. n \<le> act_Priority a) (mergeStepsIntoPlan rs ss)"
  using assms
proof (induction rs ss rule: mergeStepsIntoPlan.induct)
  case (1 ss)
  then show ?case by (simp add: sorted_all_before)
next
  case (2 r rs ss)
  let ?P = "\<lambda>s. act_Priority s \<le> act_Priority r"
  from "2.prems"(1) have "sorted (map act_Priority (dropWhile ?P ss))"
    by (metis dropWhile_eq_drop drop_map sorted_wrt_drop)
  with 2 have rest: "all_before (\<lambda>a. act_Priority a < n) (\<lambda>a. n \<le> act_Priority a)
      (mergeStepsIntoPlan rs (dropWhile ?P ss))" by simp
  have "\<forall>s\<in>set (takeWhile ?P ss). \<not> n \<le> act_Priority s"
    using "2.prems"(2) by (auto dest!: set_takeWhileD)
  then show ?case using rest "2.prems"(2)
    by (auto simp: all_before_append intro: all_before_none)
qed

subsection \<open>What a sequence of additions builds\<close>

text \<open>
  The specification of \<open>Plan.Append\<close>: where each action goes is decided by the action alone, and
  each bucket is one stable sort of the actions sent to it.
\<close>

definition is_reload :: "Action \<Rightarrow> bool" where
  "is_reload a \<longleftrightarrow> act_Priority a = 0 \<and> res_Kind (act_Target a) = ResourceTypeHost \<and> act_Todo a = ActionReload"

definition to_services :: "Action \<Rightarrow> bool" where
  "to_services a \<longleftrightarrow> act_Priority a = 0 \<and> \<not> is_reload a \<and> IsServiceAction (act_Todo a)"

definition to_resources :: "Action \<Rightarrow> bool" where
  "to_resources a \<longleftrightarrow> \<not> is_reload a \<and> \<not> to_services a"

definition prioritized :: "Action \<Rightarrow> Action" where
  "prioritized a =
     (if act_Priority a = 0
      then (case getDefaultPriority a of Inr n \<Rightarrow> a\<lparr>act_Priority := n\<rparr> | Inl e \<Rightarrow> a) else a)"

definition addable :: "Action \<Rightarrow> bool" where
  "addable a \<longleftrightarrow>
     Action_Validate a = None \<and> (act_Priority a = 0 \<longrightarrow> (\<exists>n. getDefaultPriority a = Inr n))"

interpretation changes_map:
  sorted_store "[] :: (string \<times> componentChanges) list" "tset_add fst" "tset_get fst"
    tset_entries fst "tset_inv fst"
  by (rule tset_sorted_store)

lemma parent_name_priority [simp]: "parent_name (a\<lparr>act_Priority := n\<rparr>) = parent_name a"
  by (simp add: parent_name_def)

lemma parent_name_prioritized [simp]: "parent_name (prioritized a) = parent_name a"
  by (simp add: prioritized_def split: sum.split)

lemma prioritized_simps [simp]:
  "act_Todo (prioritized a) = act_Todo a" "act_Target (prioritized a) = act_Target a"
  "act_Parent (prioritized a) = act_Parent a" "act_DiffContent (prioritized a) = act_DiffContent a"
  "act_Metadata (prioritized a) = act_Metadata a"
  by (simp_all add: prioritized_def split: sum.split)

lemma Action_Validate_priority [simp]: "Action_Validate (a\<lparr>act_Priority := n\<rparr>) = Action_Validate a"
  unfolding Action_Validate_def by (cases a) (simp only: Action.select_convs Action.update_convs)

lemma Action_Validate_prioritized [simp]: "Action_Validate (prioritized a) = Action_Validate a"
  unfolding Action_Validate_def by (simp only: prioritized_simps)

lemma addable_iff: "addable a \<longleftrightarrow> (\<exists>p'. Plan_Add p a = Inr p')"
  by (auto simp: addable_def Plan_Add_def Let_def split: option.split sum.split)

lemma changes_Get_Put:
  "tset_inv fst m \<Longrightarrow> changes_Get (changes_Put k c m) k' = (if k' = k then Some c else changes_Get m k')"
  by (simp add: changes_Get_def changes_Put_def changes_map.get_put)

lemma Plan_Add_cases:
  assumes "Plan_Add p a = Inr p'"
  shows "Action_Validate a = None"
    and "is_reload a \<Longrightarrow> p' = p\<lparr>pl_needReload := True, pl_size := Suc (pl_size p)\<rparr>"
    and "to_services a \<Longrightarrow> p' = (addServiceChange p (prioritized a))\<lparr>pl_size := Suc (pl_size p)\<rparr>"
    and "to_resources a \<Longrightarrow> p' = (addResourceChange p (prioritized a))\<lparr>pl_size := Suc (pl_size p)\<rparr>"
  using assms
  by (auto simp: Plan_Add_def is_reload_def to_services_def to_resources_def prioritized_def Let_def
      addServiceChange_def addResourceChange_def split: option.splits sum.splits if_splits)

lemma buckets_disjoint: "is_reload a \<or> to_services a \<or> to_resources a"
  by (auto simp: to_resources_def)

lemma filter_eq_sort_key: "filter (\<lambda>x. k = f x) (sort_key f xs) = filter (\<lambda>x. k = f x) xs"
  using sort_key_stable [of f k xs] by (simp add: eq_commute)

lemma sort_key_append_sort: "sort_key f (sort_key f xs @ ys) = sort_key f (xs @ ys)"
  by (rule properties_for_sort_key) (simp_all add: filter_eq_sort_key)

text \<open>The plan that holds exactly the actions of a list.\<close>

definition holds :: "Plan \<Rightarrow> Action list \<Rightarrow> bool" where
  "holds p as \<longleftrightarrow>
     tset_inv fst (pl_changesMap p) \<and>
     (\<forall>n. getResourceChanges p n =
            sort_key act_Priority (map prioritized (filter (\<lambda>a. to_resources a \<and> parent_name a = n) as))) \<and>
     (\<forall>n. getServiceChanges p n =
            sort_key act_Priority (map prioritized (filter (\<lambda>a. to_services a \<and> parent_name a = n) as))) \<and>
     fst ` set (pl_changesMap p) = parent_name ` {a \<in> set as. \<not> is_reload a} \<and>
     pl_needReload p = list_ex is_reload as \<and>
     pl_size p = length as"

lemma holds_NewPlan: "holds NewPlan []"
  by (simp add: holds_def NewPlan_def getResourceChanges_def getServiceChanges_def changes_Get_def
      changes_map.get_empty changes_map.inv_empty)

lemma get_after_resource:
  assumes "tset_inv fst (pl_changesMap p)"
  shows "getResourceChanges (addResourceChange p a) n =
           (if n = parent_name a then sort_key act_Priority (getResourceChanges p n @ [a])
            else getResourceChanges p n)"
    and "getServiceChanges (addResourceChange p a) n = getServiceChanges p n"
    and "getServiceChanges (addServiceChange p a) n =
           (if n = parent_name a then sort_key act_Priority (getServiceChanges p n @ [a])
            else getServiceChanges p n)"
    and "getResourceChanges (addServiceChange p a) n = getResourceChanges p n"
  using assms
  by (auto simp: getResourceChanges_def getServiceChanges_def addResourceChange_def addServiceChange_def
      changes_or_new_def Let_def changes_Get_Put zero_componentChanges_def split: option.split)

lemma map_after_add:
  assumes "tset_inv fst (pl_changesMap p)"
  shows "tset_inv fst (pl_changesMap (addResourceChange p a))"
    and "tset_inv fst (pl_changesMap (addServiceChange p a))"
    and "fst ` set (pl_changesMap (addResourceChange p a)) = insert (parent_name a) (fst ` set (pl_changesMap p))"
    and "fst ` set (pl_changesMap (addServiceChange p a)) = insert (parent_name a) (fst ` set (pl_changesMap p))"
  using assms
  by (force simp: addResourceChange_def addServiceChange_def changes_Put_def Let_def changes_map.inv_put
      tset_inv_def set_tset_add tset_add_sorted)+

lemma add_other_fields [simp]:
  "pl_needReload (addResourceChange p a) = pl_needReload p" "pl_size (addResourceChange p a) = pl_size p"
  "pl_needReload (addServiceChange p a) = pl_needReload p" "pl_size (addServiceChange p a) = pl_size p"
  by (simp_all add: addResourceChange_def addServiceChange_def Let_def)

lemma get_changes_update [simp]:
  "getResourceChanges (p\<lparr>pl_size := s\<rparr>) n = getResourceChanges p n"
  "getServiceChanges (p\<lparr>pl_size := s\<rparr>) n = getServiceChanges p n"
  "getResourceChanges (p\<lparr>pl_needReload := b\<rparr>) n = getResourceChanges p n"
  "getServiceChanges (p\<lparr>pl_needReload := b\<rparr>) n = getServiceChanges p n"
  by (simp_all add: getResourceChanges_def getServiceChanges_def)

lemma holds_Add:
  assumes h: "holds p as" and add: "Plan_Add p a = Inr p'"
  shows "holds p' (as @ [a])"
proof -
  from h have inv: "tset_inv fst (pl_changesMap p)" by (simp add: holds_def)
  consider "is_reload a" | "to_services a" | "to_resources a" using buckets_disjoint by blast
  then show ?thesis
  proof cases
    case 1
    then have "\<not> to_services a" "\<not> to_resources a" by (simp_all add: to_services_def to_resources_def)
    with 1 h Plan_Add_cases(2) [OF add] show ?thesis by (auto simp: holds_def)
  next
    case 2
    then have "\<not> is_reload a" "\<not> to_resources a" by (simp_all add: to_services_def to_resources_def)
    with 2 h Plan_Add_cases(3) [OF add] show ?thesis
      by (auto simp: holds_def get_after_resource [OF inv] map_after_add [OF inv] sort_key_append_sort)
  next
    case 3
    then have "\<not> is_reload a" "\<not> to_services a" by (simp_all add: to_resources_def)
    with 3 h Plan_Add_cases(4) [OF add] show ?thesis
      by (auto simp: holds_def get_after_resource [OF inv] map_after_add [OF inv] sort_key_append_sort)
  qed
qed

lemma holds_Append:
  "holds p as \<Longrightarrow> Plan_Append p bs = Inr p' \<Longrightarrow> holds p' (as @ bs)"
proof (induction bs arbitrary: p as)
  case Nil
  then show ?case by simp
next
  case (Cons b bs)
  from Cons.prems(2) obtain q where q: "Plan_Add p b = Inr q" and rest: "Plan_Append q bs = Inr p'"
    by (auto split: sum.splits)
  from Cons.IH [OF holds_Add [OF Cons.prems(1) q] rest] show ?case by simp
qed

lemma Append_defined: "(\<exists>p'. Plan_Append p as = Inr p') \<longleftrightarrow> (\<forall>a\<in>set as. addable a)"
proof (induction as arbitrary: p)
  case Nil
  then show ?case by simp
next
  case (Cons a as)
  then show ?case using addable_iff [of a p] by (auto split: sum.split)
qed

subsection \<open>Coalescing service actions\<close>

definition service_rank :: "Action \<Rightarrow> nat" where
  "service_rank a = (case act_Todo a of
       ActionReload \<Rightarrow> 1 | ActionStart \<Rightarrow> 2 | ActionRestart \<Rightarrow> 3 | ActionStop \<Rightarrow> 4 | _ \<Rightarrow> 0)"

definition enables :: "Action \<Rightarrow> bool" where
  "enables a \<longleftrightarrow> act_Todo a = ActionEnable \<or> act_Todo a = ActionDisable"

definition strongest :: "Action list \<Rightarrow> Action option" where
  "strongest xs = find (\<lambda>a. 0 < service_rank a \<and> list_all (\<lambda>b. service_rank b \<le> service_rank a) xs) xs"

definition max_rank :: "Action list \<Rightarrow> nat" where
  "max_rank xs = foldr max (map service_rank xs) 0"

definition on_path :: "string \<Rightarrow> Action list \<Rightarrow> Action list" where
  "on_path path xs = filter (\<lambda>a. res_Path (act_Target a) = path) xs"

lemma enables_rank: "enables a \<Longrightarrow> service_rank a = 0"
  by (auto simp: enables_def service_rank_def)

lemma max_rank_snoc: "max_rank (xs @ [a]) = max (max_rank xs) (service_rank a)"
  by (induction xs) (auto simp: max_rank_def)

lemma max_rank_less: "max_rank xs < n \<longleftrightarrow> 0 < n \<and> (\<forall>x\<in>set xs. service_rank x < n)"
  by (induction xs) (auto simp: max_rank_def)

lemma max_rank_le: "max_rank xs \<le> n \<longleftrightarrow> (\<forall>x\<in>set xs. service_rank x \<le> n)"
  by (induction xs) (auto simp: max_rank_def)

lemma max_rank_simps [simp]: "max_rank [] = 0" "max_rank [a] = service_rank a"
  by (simp_all add: max_rank_def)

lemma max_rank_attained: "0 < max_rank xs \<Longrightarrow> \<exists>x\<in>set xs. service_rank x = max_rank xs"
  by (induction xs) (auto simp: max_rank_def max_def)

lemma strongest_None: "strongest xs = None \<longleftrightarrow> max_rank xs = 0"
proof
  assume none: "strongest xs = None"
  show "max_rank xs = 0"
  proof (rule ccontr)
    assume "max_rank xs \<noteq> 0"
    then obtain x where "x \<in> set xs" and "service_rank x = max_rank xs" and "0 < max_rank xs"
      using max_rank_attained by blast
    moreover from this max_rank_le [of xs "service_rank x"]
    have "list_all (\<lambda>b. service_rank b \<le> service_rank x) xs" by (simp add: list_all_iff)
    ultimately show False using none by (auto simp: strongest_def find_None_iff)
  qed
next
  assume "max_rank xs = 0"
  then have "\<forall>x\<in>set xs. service_rank x \<le> 0" using max_rank_le [of xs 0] by simp
  then show "strongest xs = None" by (simp add: strongest_def find_None_iff)
qed

lemma strongest_Nil [simp]: "strongest [] = None"
  by (simp add: strongest_def)

lemma find_append: "find P (xs @ ys) = (case find P xs of None \<Rightarrow> find P ys | Some x \<Rightarrow> Some x)"
  by (induction xs) auto

lemma find_cong': "(\<And>x. x \<in> set xs \<Longrightarrow> P x = Q x) \<Longrightarrow> find P xs = find Q xs"
  by (induction xs) auto

lemma strongest_snoc:
  "strongest (xs @ [a]) = (if max_rank xs < service_rank a then Some a else strongest xs)"
proof (cases "max_rank xs < service_rank a")
  case True
  then have "find (\<lambda>x. 0 < service_rank x \<and> list_all (\<lambda>b. service_rank b \<le> service_rank x) (xs @ [a])) xs = None"
    by (fastforce simp: find_None_iff max_rank_less list_all_iff)
  moreover have "0 < service_rank a" and "list_all (\<lambda>b. service_rank b \<le> service_rank a) xs"
    using True by (auto simp: max_rank_less list_all_iff intro: less_imp_le)
  ultimately show ?thesis using True by (simp add: strongest_def find_append)
next
  case False
  let ?old = "\<lambda>x. 0 < service_rank x \<and> list_all (\<lambda>b. service_rank b \<le> service_rank x) xs"
  let ?new = "\<lambda>x. 0 < service_rank x \<and> list_all (\<lambda>b. service_rank b \<le> service_rank x) (xs @ [a])"
  have "?old x = ?new x" for x
    using False max_rank_le [of xs "service_rank x"] by (auto simp: list_all_iff)
  then have "find ?new xs = find ?old xs" by (intro find_cong') blast
  moreover have "\<not> ?new a" if "find ?old xs = None"
  proof -
    from that strongest_None [of xs] have "max_rank xs = 0" by (simp add: strongest_def)
    with False show ?thesis by simp
  qed
  ultimately show ?thesis using False
    by (cases "find ?old xs") (simp_all add: strongest_def find_append del: list_all_append)
qed

definition coalesce_inv :: "Action list \<Rightarrow> coalesce_state \<Rightarrow> bool" where
  "coalesce_inv xs s \<longleftrightarrow>
     cs_results s = filter enables xs \<and>
     distinct (map fst (cs_serviceResults s)) \<and>
     (\<forall>path. map_of (cs_serviceResults s) path =
        (if on_path path xs = [] then None else Some (max_rank (on_path path xs)))) \<and>
     (\<forall>path. map_of (cs_serviceActions s) path = strongest (on_path path xs))"

definition coalesce_upd ::
    "string \<Rightarrow> Action \<Rightarrow> nat \<times> (string \<times> Action) list \<Rightarrow> nat \<times> (string \<times> Action) list" where
  "coalesce_upd path a = (\<lambda>(e, acts).
     if e < service_rank a then (service_rank a, AList.update path a acts) else (e, acts))"

lemma coalesce_step_eq:
  "coalesce_step s a =
     (let path = res_Path (act_Target a);
          old = (case map_of (cs_serviceResults s) path of None \<Rightarrow> 0 | Some n \<Rightarrow> n);
          res = (if map_of (cs_serviceResults s) path = None
                 then AList.update path 0 (cs_serviceResults s) else cs_serviceResults s)
      in if enables a then s\<lparr>cs_serviceResults := res, cs_results := cs_results s @ [a]\<rparr>
         else s\<lparr>cs_serviceActions := snd (coalesce_upd path a (old, cs_serviceActions s)),
                cs_serviceResults := AList.update path (max old (service_rank a)) res\<rparr>)"
proof -
  consider (e) "enables a" | (n) "\<not> enables a" by blast
  then show ?thesis
  proof cases
    case e
    then show ?thesis
      by (cases "map_of (cs_serviceResults s) (res_Path (act_Target a))")
        (simp_all add: coalesce_step_def enables_def Let_def)
  next
    case n
    then show ?thesis
      by (cases "map_of (cs_serviceResults s) (res_Path (act_Target a))"; cases "act_Todo a")
        (auto simp: coalesce_step_def enables_def Let_def service_rank_def coalesce_upd_def
          update_conv' max_def le_Suc_eq)
  qed
qed

lemma on_path_snoc: "on_path path (xs @ [a]) = (if res_Path (act_Target a) = path then on_path path xs @ [a] else on_path path xs)"
  by (simp add: on_path_def)

lemma coalesce_inv_step:
  assumes "coalesce_inv xs s"
  shows "coalesce_inv (xs @ [a]) (coalesce_step s a)"
proof (cases "enables a")
  case True
  then show ?thesis using assms
    by (auto simp: coalesce_inv_def coalesce_step_eq Let_def on_path_snoc update_conv' distinct_update
        strongest_snoc strongest_snoc [of "[]", simplified] max_rank_snoc enables_rank)
next
  case False
  then show ?thesis using assms
    by (auto simp: coalesce_inv_def coalesce_step_eq Let_def on_path_snoc update_conv' distinct_update
        strongest_snoc strongest_snoc [of "[]", simplified] max_rank_snoc coalesce_upd_def)
qed

lemma coalesce_inv_foldl: "coalesce_inv xs s \<Longrightarrow> coalesce_inv (xs @ ys) (foldl coalesce_step s ys)"
proof (induction ys arbitrary: xs s)
  case Nil
  then show ?case by simp
next
  case (Cons y ys)
  from Cons.IH [OF coalesce_inv_step [OF Cons.prems]] show ?case by simp
qed

definition coalesce_spec :: "Action list \<Rightarrow> Action list" where
  "coalesce_spec xs =
     filter enables xs @
     map (\<lambda>path. case strongest (on_path path xs) of Some a \<Rightarrow> a | None \<Rightarrow> zero_Action)
       (sort (remdups (map (\<lambda>a. res_Path (act_Target a)) xs)))"

lemma coalesceServices_eq: "coalesceServices xs = coalesce_spec xs"
proof -
  let ?init = "\<lparr>cs_results = [], cs_serviceResults = [], cs_serviceActions = []\<rparr>"
  let ?s = "foldl coalesce_step ?init xs"
  have "coalesce_inv [] ?init" by (simp add: coalesce_inv_def on_path_def)
  from coalesce_inv_foldl [OF this, of xs] have inv: "coalesce_inv xs ?s" by simp
  then have dist: "distinct (map fst (cs_serviceResults ?s))"
    and res: "\<And>path. map_of (cs_serviceResults ?s) path =
        (if on_path path xs = [] then None else Some (max_rank (on_path path xs)))"
    by (auto simp: coalesce_inv_def)
  have "set (map fst (cs_serviceResults ?s)) = dom (map_of (cs_serviceResults ?s))"
    by (simp add: dom_map_of_conv_image_fst)
  also have "\<dots> = set (map (\<lambda>a. res_Path (act_Target a)) xs)"
    by (auto simp: dom_def res on_path_def filter_empty_conv split: if_splits)
  finally have "sort (map fst (cs_serviceResults ?s)) = sort (remdups (map (\<lambda>a. res_Path (act_Target a)) xs))"
    using dist by (intro sorted_distinct_set_unique) simp_all
  with inv show ?thesis
    by (simp add: coalesceServices_def coalesce_spec_def Let_def coalesce_inv_def)
qed

subsection \<open>The steps of a built plan\<close>

lemma strongest_member: "strongest xs = Some a \<Longrightarrow> a \<in> set xs"
  by (auto simp: strongest_def find_Some_iff)

lemma set_coalesceServices: "set (coalesceServices xs) \<subseteq> insert zero_Action (set xs)"
proof -
  have "a \<in> set xs" if "strongest (on_path path xs) = Some a" for a path
    using strongest_member [OF that] by (simp add: on_path_def)
  then show ?thesis
    by (auto simp: coalesceServices_eq coalesce_spec_def split: option.splits)
qed

lemma service_priority:
  assumes "to_services a" and "addable a"
  shows "act_Priority (prioritized a) = (if act_Todo a = ActionStop then 1 else 6)"
  using assms
  by (cases "res_Kind (act_Target a)"; cases "act_Todo a")
    (auto simp: to_services_def addable_def prioritized_def is_reload_def IsServiceAction_def
      service_action_types_def getDefaultPriority_def priorityMap_def crud_priorities_def
      backup_priorities_def unit_priorities_def)

lemma default_priority_range: "getDefaultPriority a = Inr n \<Longrightarrow> 1 \<le> n \<and> n \<le> 7"
  by (cases "res_Kind (act_Target a)"; cases "act_Todo a")
    (auto simp: getDefaultPriority_def priorityMap_def crud_priorities_def
      backup_priorities_def unit_priorities_def)

text \<open>The actions of a built plan.\<close>

lemma Append_holds:
  "Plan_Append NewPlan as = Inr p \<Longrightarrow> holds p as \<and> (\<forall>a\<in>set as. addable a)"
  using holds_Append [OF holds_NewPlan, of as p] Append_defined [of NewPlan as] by auto

lemma service_change_cases:
  assumes "holds p as" and "\<forall>a\<in>set as. addable a" and "s \<in> set (service_steps p)"
  shows "s = zero_Action \<or> act_Priority s = (if act_Todo s = ActionStop then 1 else 6)"
proof (cases "s = zero_Action")
  case False
  from assms(3) obtain n where "s \<in> set (coalesceServices (getServiceChanges p n))"
    by (auto simp: service_steps_def)
  with False set_coalesceServices have "s \<in> set (getServiceChanges p n)" by blast
  with assms(1) obtain a where "a \<in> set as" and "to_services a" and "s = prioritized a"
    by (auto simp: holds_def)
  with assms(2) service_priority show ?thesis by auto
qed simp

lemma resource_change_cases:
  assumes "holds p as" and "r \<in> set (resource_steps p)"
  shows "\<exists>a\<in>set as. to_resources a \<and> r = prioritized a"
  using assms by (auto simp: holds_def resource_steps_def)

lemma sorted_service_steps: "sorted (map act_Priority (service_steps p))"
  by (simp add: service_steps_def)

lemma merge_all_before:
  assumes "sorted (map act_Priority ss)" and "all_before P Q ss" and "\<forall>r\<in>set rs. \<not> P r"
    and "\<forall>s\<in>set ss. P s \<longrightarrow> act_Priority s \<le> n" and "\<forall>r\<in>set rs. Q r \<longrightarrow> n \<le> act_Priority r"
  shows "all_before P Q (mergeStepsIntoPlan rs ss)"
  using assms
proof (induction rs ss rule: mergeStepsIntoPlan.induct)
  case (1 ss)
  then show ?case by simp
next
  case (2 r rs ss)
  let ?P = "\<lambda>s. act_Priority s \<le> act_Priority r"
  have drop: "set (dropWhile ?P ss) \<subseteq> set ss" by (auto dest: set_dropWhileD)
  have "all_before P Q (takeWhile ?P ss @ dropWhile ?P ss)" using "2.prems"(2) by simp
  then have tw: "all_before P Q (takeWhile ?P ss)" and dw: "all_before P Q (dropWhile ?P ss)"
    and td: "(\<exists>x\<in>set (takeWhile ?P ss). Q x) \<Longrightarrow> (\<forall>y\<in>set (dropWhile ?P ss). \<not> P y)"
    unfolding all_before_append by auto
  from "2.prems"(1) have srt: "sorted (map act_Priority (dropWhile ?P ss))"
    by (metis dropWhile_eq_drop drop_map sorted_wrt_drop)
  have rest: "all_before P Q (mergeStepsIntoPlan rs (dropWhile ?P ss))"
    by (rule "2.IH" [OF srt dw]) (use "2.prems" drop in auto)
  have "\<not> P s" if "Q r" and "s \<in> set (dropWhile ?P ss)" for s
  proof
    assume "P s"
    with that drop "2.prems"(4,5) have "act_Priority s \<le> act_Priority r" by fastforce
    moreover from that(2) obtain y ys where e: "dropWhile ?P ss = y # ys" by (cases "dropWhile ?P ss") auto
    then have "\<not> ?P y" by (metis dropWhile_eq_Cons_conv)
    moreover from srt e that(2) have "act_Priority y \<le> act_Priority s" by auto
    ultimately show False by linarith
  qed
  with "2.prems"(3) have "Q r \<Longrightarrow> \<forall>s\<in>set (mergeStepsIntoPlan rs (dropWhile ?P ss)). \<not> P s" by auto
  moreover have "\<forall>y\<in>set (mergeStepsIntoPlan rs (dropWhile ?P ss)). \<not> P y"
    if "\<exists>x\<in>set (takeWhile ?P ss). Q x"
    using td [OF that] "2.prems"(3) by auto
  ultimately show ?case using rest tw "2.prems"(3)
    by (auto simp: all_before_append)
qed

lemma root_not_listed: "''root'' \<notin> set (listComponents p)"
  by (simp add: listComponents_def)

lemma distinct_listComponents: "tset_inv fst (pl_changesMap p) \<Longrightarrow> distinct (listComponents p)"
  by (simp add: listComponents_def tset_inv_def strict_sorted_iff)

lemma mset_concat_filter:
  "distinct ns \<Longrightarrow>
   mset (concat (map (\<lambda>n. sort_key f (map g (filter (\<lambda>a. P a \<and> h a = n) xs))) ns)) =
   image_mset g (filter_mset (\<lambda>a. P a \<and> h a \<in> set ns) (mset xs))"
proof (induction ns)
  case Nil
  then show ?case by simp
next
  case (Cons n ns)
  have "filter_mset (\<lambda>a. P a \<and> h a \<in> set (n # ns)) (mset xs) =
      filter_mset (\<lambda>a. P a \<and> h a = n) (mset xs) + filter_mset (\<lambda>a. P a \<and> h a \<in> set ns) (mset xs)"
    using Cons.prems by (induction xs) auto
  with Cons show ?case by simp
qed

lemma resource_steps_mset:
  assumes "holds p as"
  shows "mset (resource_steps p) =
    image_mset prioritized (filter_mset (\<lambda>a. to_resources a \<and> parent_name a \<noteq> ''root'') (mset as))"
proof -
  have "mset (resource_steps p) =
      image_mset prioritized (filter_mset (\<lambda>a. to_resources a \<and> parent_name a \<in> set (listComponents p)) (mset as))"
  proof -
    from assms have "getResourceChanges p =
        (\<lambda>n. sort_key act_Priority (map prioritized (filter (\<lambda>a. to_resources a \<and> parent_name a = n) as)))"
      and inv: "tset_inv fst (pl_changesMap p)"
      by (auto simp: holds_def)
    then show ?thesis
      unfolding resource_steps_def by (simp only: mset_concat_filter [OF distinct_listComponents [OF inv]])
  qed
  also have "filter_mset (\<lambda>a. to_resources a \<and> parent_name a \<in> set (listComponents p)) (mset as) =
      filter_mset (\<lambda>a. to_resources a \<and> parent_name a \<noteq> ''root'') (mset as)"
  proof (rule filter_mset_cong [OF refl])
    fix a assume a: "a \<in># mset as"
    have "parent_name a \<in> fst ` set (pl_changesMap p)" if "to_resources a"
    proof -
      from assms have "fst ` set (pl_changesMap p) = parent_name ` {a \<in> set as. \<not> is_reload a}"
        by (simp add: holds_def)
      with a that show ?thesis by (auto simp: to_resources_def)
    qed
    then show "(to_resources a \<and> parent_name a \<in> set (listComponents p)) =
        (to_resources a \<and> parent_name a \<noteq> ''root'')"
      by (auto simp: listComponents_def)
  qed
  finally show ?thesis .
qed

lemma resource_change_no_stop:
  assumes "holds p as" and "\<forall>a\<in>set as. act_Todo a = ActionStop \<longrightarrow> act_Priority a = 0"
    and "r \<in> set (resource_steps p)"
  shows "act_Todo r \<noteq> ActionStop"
proof -
  from resource_change_cases [OF assms(1,3)] obtain a
    where a: "a \<in> set as" "to_resources a" "r = prioritized a" by blast
  have "act_Todo a \<noteq> ActionStop"
  proof
    assume "act_Todo a = ActionStop"
    with a(1) assms(2) have "to_services a"
      by (auto simp: to_services_def is_reload_def IsServiceAction_def service_action_types_def)
    with a(2) show False by (simp add: to_resources_def)
  qed
  with a(3) show ?thesis by simp
qed

lemma merge_snoc:
  "\<exists>pre post. mergeStepsIntoPlan (rs @ [r]) ss = pre @ r # post \<and>
     mset rs \<subseteq># mset pre \<and> set post \<subseteq> set ss"
proof (induction rs arbitrary: ss)
  case Nil
  show ?case by (auto dest: set_dropWhileD)
next
  case (Cons x rs)
  let ?P = "\<lambda>s. act_Priority s \<le> act_Priority x"
  from Cons obtain pre post where
    "mergeStepsIntoPlan (rs @ [r]) (dropWhile ?P ss) = pre @ r # post"
    and sub: "mset rs \<subseteq># mset pre" and "set post \<subseteq> set (dropWhile ?P ss)" by blast
  then have "mergeStepsIntoPlan ((x # rs) @ [r]) ss = (takeWhile ?P ss @ x # pre) @ r # post"
    and "set post \<subseteq> set ss" by (auto dest: set_dropWhileD)
  moreover from sub have "mset (x # rs) \<subseteq># mset (takeWhile ?P ss @ x # pre)"
    by (simp add: subset_mset.add_increasing)
  ultimately show ?case by blast
qed

end
