(* ===== verification/PlanOrder.thy ===== *)
theory PlanOrder
  imports PlanFacts
begin

section \<open>What a plan guarantees\<close>

text \<open>
  The properties of \<open>plan.Append\<close> and \<open>plan.Steps\<close>: which plan a sequence of additions gives,
  that no step is lost or invented, and in which order the steps come.
\<close>

subsection \<open>A small plan\<close>

definition hello :: Component where
  "hello = NewComponent ''hello''"

definition hello_container :: Resource where
  "hello_container = zero_Resource\<lparr>res_Path := ''hello.container'', res_Parent := ''hello'',
     res_Kind := ResourceTypeContainer, res_Content := ''[Container]'', res_HostObject := ''systemd-hello''\<rparr>"

definition hello_actions :: "Action list" where
  "hello_actions =
     [mk_action ActionStart hello hello_container,
      mk_action ActionInstall hello hello_container,
      reload_action,
      mk_action ActionStop hello (hello_container\<lparr>res_Path := ''old.container''\<rparr>)]"

definition hello_plan :: Plan where
  "hello_plan = projr (Plan_Append NewPlan hello_actions)"

lemma hello_plan_built: "Plan_Append NewPlan hello_actions = Inr hello_plan"
  by code_simp

lemma hello_plan_steps:
  "map act_Todo (Steps hello_plan) = [ActionStop, ActionInstall, ActionReload, ActionStart]"
  by code_simp

subsection \<open>Adding\<close>

text \<open>
  C9: \<open>Plan.Append\<close> on a new plan fails exactly when some action is invalid or has no priority, and
  otherwise builds the plan the actions describe: every bucket of every component is one stable sort
  by priority of the actions that belong to it, in the order they were added; the size counts every
  action; a reload is remembered and nothing else is dropped.
\<close>

theorem Plan_Append_spec:
  "case Plan_Append NewPlan as of
     Inl e \<Rightarrow> \<not> list_all addable as
   | Inr p \<Rightarrow> list_all addable as \<and> holds p as"
  using Append_holds [of as] Append_defined [of NewPlan as]
  by (auto simp: list_all_iff split: sum.split)

text \<open>
  Every priority the table gives lies between 1 and 7, so an action that went through
  \<open>Plan.Add\<close> never keeps the priority 0 that means ``not set''.
\<close>

theorem default_priorities_bounded:
  "case getDefaultPriority a of Inl e \<Rightarrow> True | Inr n \<Rightarrow> n \<in> {1..7}"
  using default_priority_range [of a] by (auto split: sum.split)

subsection \<open>The steps\<close>

text \<open>
  C10: \<open>Plan.Steps\<close> conserves what was added: as a multiset the steps are the resource changes of
  every component but the reserved name \<open>root\<close>, one daemon-reload if any was added, and the
  coalesced service changes of each component; nothing else, and nothing twice.
\<close>

theorem Steps_conserves:
  assumes "Plan_Append NewPlan as = Inr p"
  shows "mset (Steps p) =
    image_mset prioritized (filter_mset (\<lambda>a. to_resources a \<and> parent_name a \<noteq> ''root'') (mset as)) +
    (if list_ex is_reload as then {#reload_action#} else {#}) +
    mset (concat (map (\<lambda>n. coalesce_spec (getServiceChanges p n)) (listComponents p)))"
proof -
  from Append_holds [OF assms] have h: "holds p as" by simp
  then have "pl_needReload p = list_ex is_reload as" by (simp add: holds_def)
  with resource_steps_mset [OF h] show ?thesis
    by (simp add: Steps_def Let_def mset_mergeSteps service_steps_def coalesceServices_eq)
qed

theorem Steps_conserves_witness:
  "mset (Steps hello_plan) =
    image_mset prioritized (filter_mset (\<lambda>a. to_resources a \<and> parent_name a \<noteq> ''root'') (mset hello_actions)) +
    (if list_ex is_reload hello_actions then {#reload_action#} else {#}) +
    mset (concat (map (\<lambda>n. coalesce_spec (getServiceChanges hello_plan n)) (listComponents hello_plan)))"
  by (rule Steps_conserves [OF hello_plan_built])

text \<open>
  C11: \<open>coalesceServices\<close>, a loop that fills two maps and re-reads them, computes its specification:
  enabling and disabling pass through unchanged and in order, and then, path by path in string
  order, the first of the strongest actions (reload, start, restart, stop in rising strength).
  A path with nothing but enabling or disabling yields the zero \<open>Action\<close>, as the code's missing map
  entry does.
\<close>

theorem coalesceServices_spec: "coalesceServices xs = coalesce_spec xs"
  by (rule coalesceServices_eq)

text \<open>
  When no resource change has priority \<open>n\<close> or more (the planner's cleanups have 7), every step
  below \<open>n\<close>, the daemon-reload included, comes before every step from \<open>n\<close> on.  With \<open>n = 6\<close>: the
  services of all components start only after all components are installed and systemd is reloaded.
\<close>

theorem Steps_starts_last:
  assumes "Plan_Append NewPlan as = Inr p" and "0 < n"
    and "\<forall>a\<in>set as. to_resources a \<longrightarrow> act_Priority (prioritized a) < n"
  shows "all_before (\<lambda>a. act_Priority a < n) (\<lambda>a. n \<le> act_Priority a) (Steps p)"
proof -
  from Append_holds [OF assms(1)] have h: "holds p as" by simp
  have "\<forall>r\<in>set (resource_steps p). act_Priority r < n"
    using resource_change_cases [OF h] assms(3) by blast
  with assms(2) sorted_service_steps show ?thesis
    by (auto simp: Steps_def Let_def intro!: merge_low_before_high)
qed

theorem Steps_starts_last_witness:
  "all_before (\<lambda>a. act_Priority a < 6) (\<lambda>a. 6 \<le> act_Priority a) (Steps hello_plan)"
proof (rule Steps_starts_last [OF hello_plan_built])
  show "\<forall>a\<in>set hello_actions. to_resources a \<longrightarrow> act_Priority (prioritized a) < 6" by code_simp
qed simp

text \<open>
  C8: When no stop has a priority set by hand, all services that stop are stopped before any other
  step that has a priority at all: no file is replaced and nothing is started under a service that
  is about to be stopped.
\<close>

theorem Steps_stops_first:
  assumes "Plan_Append NewPlan as = Inr p"
    and "\<forall>a\<in>set as. act_Todo a = ActionStop \<longrightarrow> act_Priority a = 0"
  shows "all_before (\<lambda>a. act_Todo a = ActionStop)
           (\<lambda>a. act_Todo a \<noteq> ActionStop \<and> 1 \<le> act_Priority a) (Steps p)"
proof -
  let ?P = "\<lambda>a. act_Todo a = ActionStop" and ?Q = "\<lambda>a. act_Todo a \<noteq> ActionStop \<and> 1 \<le> act_Priority a"
  from Append_holds [OF assms(1)] have h: "holds p as" and ok: "\<forall>a\<in>set as. addable a" by simp_all
  have ss: "s = zero_Action \<or> act_Priority s = (if act_Todo s = ActionStop then 1 else 6)"
    if "s \<in> set (service_steps p)" for s using service_change_cases [OF h ok that] .
  have "all_before (\<lambda>a. act_Priority a < 2) (\<lambda>a. 2 \<le> act_Priority a) (service_steps p)"
    by (rule sorted_all_before) (rule sorted_service_steps)
  then have before: "all_before ?P ?Q (service_steps p)"
    by (rule all_before_mono) (auto dest!: ss simp: zero_Action_def split: if_splits)
  have none: "\<not> ?P r" if "r \<in> set (resource_steps p)" for r
    using resource_change_no_stop [OF h assms(2) that] .
  have low: "act_Priority s \<le> 1" if "s \<in> set (service_steps p)" and "?P s" for s
    using ss [OF that(1)] that(2) by (auto simp: zero_Action_def)
  show ?thesis
    unfolding Steps_def Let_def
    by (rule merge_all_before [OF sorted_service_steps before, where n = 1])
      (use none low in auto)
qed

theorem Steps_stops_first_witness:
  "all_before (\<lambda>a. act_Todo a = ActionStop)
     (\<lambda>a. act_Todo a \<noteq> ActionStop \<and> 1 \<le> act_Priority a) (Steps hello_plan)"
proof (rule Steps_stops_first [OF hello_plan_built])
  show "\<forall>a\<in>set hello_actions. act_Todo a = ActionStop \<longrightarrow> act_Priority a = 0" by code_simp
qed

text \<open>
  When a reload was asked for there is exactly one place for it: after every resource change of
  every component, and only service changes follow.  That includes changes with a priority set by
  hand: setup and post-update scripts run before the reload.
\<close>

theorem Steps_reload_position:
  assumes "Plan_Append NewPlan as = Inr p" and "list_ex is_reload as"
  shows "\<exists>pre post. Steps p = pre @ reload_action # post \<and>
           mset (resource_steps p) \<subseteq># mset pre \<and> set post \<subseteq> set (service_steps p)"
proof -
  from Append_holds [OF assms(1)] assms(2) have "pl_needReload p" by (simp add: holds_def)
  then show ?thesis
    using merge_snoc [of "resource_steps p" reload_action "service_steps p"]
    by (simp add: Steps_def Let_def)
qed

theorem Steps_reload_position_witness:
  "\<exists>pre post. Steps hello_plan = pre @ reload_action # post \<and>
     mset (resource_steps hello_plan) \<subseteq># mset pre \<and> set post \<subseteq> set (service_steps hello_plan)"
proof (rule Steps_reload_position [OF hello_plan_built])
  show "list_ex is_reload hello_actions" by code_simp
qed

end
