(* ===== verification/Validators.thy ===== *)
theory Validators
  imports PlanOrder
begin

section \<open>Plan validation (pkg/plan/validator.go)\<close>

text \<open>
  The validators that look at the finished steps before a plan is handed out, and the pipeline that
  runs them in order.  A validator is the function behind the \<open>ValidationStep\<close> interface; the step
  counters only serve the messages.  The declarative conditions (\<open>reload_follows_units\<close> and the
  others) say what an accepted plan looks like.
\<close>

subsection \<open>The interface\<close>

text \<open>
  A validation step accepts the empty plan.  Most steps are safety checks: what they reject stays
  rejected however the plan goes on.
\<close>

locale validation_step =
  fixes validate :: "Action list \<Rightarrow> go_error option"
  assumes accepts_empty: "validate [] = None"

locale safety_step = validation_step +
  assumes prefix_closed: "validate (xs @ ys) = None \<Longrightarrow> validate xs = None"
begin

lemma rejects_extension: "validate xs \<noteq> None \<Longrightarrow> validate (xs @ ys) \<noteq> None"
  by (erule contrapos_nn) (rule prefix_closed)

lemma accepts_take: "validate xs = None \<Longrightarrow> validate (take n xs) = None"
  using prefix_closed [of "take n xs" "drop n xs"] by simp

end

subsection \<open>The validators\<close>

definition ReloadValidator :: "Action list \<Rightarrow> go_error option" where
  "ReloadValidator steps =
     (let (needReload, reload) =
        foldl (\<lambda>(needReload, reload) a.
          (needReload \<or> (res_Kind (act_Target a) = ResourceTypeService \<or> IsQuadlet (act_Target a)) \<and>
             act_Todo a = ActionInstall,
           reload \<or> act_Todo a = ActionReload \<and> res_Path (act_Target a) = []))
          (False, False) steps
      in if needReload \<and> \<not> reload
         then Some (ErrMsg ''invalid plan: systemd units added without a daemon-reload'') else None)"

fun CombinedResourceValidator :: "Action list \<Rightarrow> go_error option" where
  "CombinedResourceValidator [] = None"
| "CombinedResourceValidator (a # steps) =
     (if res_Kind (act_Target a) = ResourceTypeCombined
      then Some (ErrMsg ''invalid plan: tried to act on a combined resource'')
      else CombinedResourceValidator steps)"

fun QuadletValidator :: "Action list \<Rightarrow> go_error option" where
  "QuadletValidator [] = None"
| "QuadletValidator (a # steps) =
     (if IsQuadlet (act_Target a) \<and> res_HostObject (act_Target a) = [] \<and>
         res_Kind (act_Target a) \<noteq> ResourceTypeAppFile
      then Some (ErrMsg ''tried to operate on a quadlet without a backing podman object'')
      else QuadletValidator steps)"

fun VolumeDump_loop :: "string list \<Rightarrow> Action list \<Rightarrow> go_error option" where
  "VolumeDump_loop deletedVoles [] = None"
| "VolumeDump_loop deletedVoles (a # steps) =
     (let deletedVoles =
            (if act_Todo a = ActionRemove \<and> res_Kind (act_Target a) = ResourceTypeVolume
             then deletedVoles @ [res_Path (act_Target a)] else deletedVoles)
      in if act_Todo a = ActionDump \<and> res_Kind (act_Target a) = ResourceTypeVolume \<and>
            res_Path (act_Target a) \<in> set deletedVoles
         then Some (ErrMsg ''invalid plan: deleted volume before dumping'')
         else VolumeDump_loop deletedVoles steps)"

definition VolumeDumpValidator :: "Action list \<Rightarrow> go_error option" where
  "VolumeDumpValidator steps = VolumeDump_loop [] steps"

fun ComponentInstall_loop :: "string list \<Rightarrow> Action list \<Rightarrow> go_error option" where
  "ComponentInstall_loop componentList [] = None"
| "ComponentInstall_loop componentList (a # steps) =
     (if res_Kind (act_Target a) = ResourceTypeCombined
      then Some (ErrMsg ''invalid plan: tried to act on a combined resource'')
      else if act_Todo a = ActionInstall then
        (if res_Kind (act_Target a) = ResourceTypeComponent
         then ComponentInstall_loop (componentList @ [parent_name a]) steps
         else if parent_name a \<notin> set componentList
         then Some (ErrMsg ''invalid plan: installed resource before parent component'')
         else ComponentInstall_loop componentList steps)
      else ComponentInstall_loop componentList steps)"

definition ComponentInstallValidator :: "string list \<Rightarrow> Action list \<Rightarrow> go_error option" where
  "ComponentInstallValidator existingComponents steps = ComponentInstall_loop existingComponents steps"

subsection \<open>The pipeline\<close>

fun run_stages :: "(Action list \<Rightarrow> go_error option) list \<Rightarrow> Action list \<Rightarrow> go_error option" where
  "run_stages [] steps = None"
| "run_stages (v # stages) steps =
     (case v steps of Some e \<Rightarrow> Some e | None \<Rightarrow> run_stages stages steps)"

definition Pipeline_Validate :: "(Action list \<Rightarrow> go_error option) list \<Rightarrow> Plan \<Rightarrow> go_error option" where
  "Pipeline_Validate stages plan = run_stages stages (Steps plan)"

definition NewDefaultValidationPipeline :: "string list \<Rightarrow> (Action list \<Rightarrow> go_error option) list" where
  "NewDefaultValidationPipeline installedComponents =
     [ReloadValidator, VolumeDumpValidator, ComponentInstallValidator installedComponents,
      QuadletValidator, CombinedResourceValidator]"

subsection \<open>What they accept\<close>

definition installs_unit :: "Action \<Rightarrow> bool" where
  "installs_unit a \<longleftrightarrow>
     act_Todo a = ActionInstall \<and>
     (res_Kind (act_Target a) = ResourceTypeService \<or> IsQuadlet (act_Target a))"

definition reloads_units :: "Action \<Rightarrow> bool" where
  "reloads_units a \<longleftrightarrow> act_Todo a = ActionReload \<and> res_Path (act_Target a) = []"

definition removes_volume :: "string \<Rightarrow> Action \<Rightarrow> bool" where
  "removes_volume v a \<longleftrightarrow>
     act_Todo a = ActionRemove \<and> res_Kind (act_Target a) = ResourceTypeVolume \<and> res_Path (act_Target a) = v"

definition dumps_volume :: "string \<Rightarrow> Action \<Rightarrow> bool" where
  "dumps_volume v a \<longleftrightarrow>
     act_Todo a = ActionDump \<and> res_Kind (act_Target a) = ResourceTypeVolume \<and> res_Path (act_Target a) = v"

definition installs_component :: "string \<Rightarrow> Action \<Rightarrow> bool" where
  "installs_component c a \<longleftrightarrow>
     act_Todo a = ActionInstall \<and> res_Kind (act_Target a) = ResourceTypeComponent \<and> parent_name a = c"

definition installs_into :: "string \<Rightarrow> Action \<Rightarrow> bool" where
  "installs_into c a \<longleftrightarrow>
     act_Todo a = ActionInstall \<and> res_Kind (act_Target a) \<noteq> ResourceTypeComponent \<and> parent_name a = c"

definition headless_quadlet :: "Action \<Rightarrow> bool" where
  "headless_quadlet a \<longleftrightarrow>
     IsQuadlet (act_Target a) \<and> res_HostObject (act_Target a) = [] \<and>
     res_Kind (act_Target a) \<noteq> ResourceTypeAppFile"

text \<open>Every element with \<open>P\<close> has an element with \<open>Q\<close> somewhere before it.\<close>

definition preceded_by :: "('a \<Rightarrow> bool) \<Rightarrow> ('a \<Rightarrow> bool) \<Rightarrow> 'a list \<Rightarrow> bool" where
  "preceded_by Q P xs \<longleftrightarrow> (\<forall>i < length xs. P (xs ! i) \<longrightarrow> (\<exists>j < i. Q (xs ! j)))"

lemma preceded_by_Nil [simp]: "preceded_by Q P []"
  by (simp add: preceded_by_def)

lemma preceded_by_Cons:
  "preceded_by Q P (x # xs) \<longleftrightarrow> \<not> P x \<and> (Q x \<or> preceded_by Q P xs)"
proof
  assume "preceded_by Q P (x # xs)"
  then have all: "\<And>i. i < Suc (length xs) \<Longrightarrow> P ((x # xs) ! i) \<Longrightarrow> \<exists>j<i. Q ((x # xs) ! j)"
    by (auto simp: preceded_by_def)
  have "\<not> P x" using all [of 0] by auto
  moreover have "preceded_by Q P xs" if "\<not> Q x"
    unfolding preceded_by_def
  proof (intro allI impI)
    fix i assume "i < length xs" and "P (xs ! i)"
    with all [of "Suc i"] obtain j where "j < Suc i" and "Q ((x # xs) ! j)" by auto
    with that show "\<exists>j<i. Q (xs ! j)" by (cases j) auto
  qed
  ultimately show "\<not> P x \<and> (Q x \<or> preceded_by Q P xs)" by blast
next
  assume r: "\<not> P x \<and> (Q x \<or> preceded_by Q P xs)"
  show "preceded_by Q P (x # xs)"
    unfolding preceded_by_def
  proof (intro allI impI)
    fix i assume i: "i < length (x # xs)" "P ((x # xs) ! i)"
    with r obtain k where k: "i = Suc k" by (cases i) auto
    show "\<exists>j<i. Q ((x # xs) ! j)"
    proof (cases "Q x")
      case True
      with k show ?thesis by (intro exI [of _ 0]) simp
    next
      case False
      with r i k obtain j where "j < k" and "Q (xs ! j)" by (auto simp: preceded_by_def)
      with k show ?thesis by (intro exI [of _ "Suc j"]) simp
    qed
  qed
qed

lemma ReloadValidator_iff:
  "ReloadValidator steps = None \<longleftrightarrow> (list_ex installs_unit steps \<longrightarrow> list_ex reloads_units steps)"
proof -
  have "foldl (\<lambda>(needReload, reload) a.
          (needReload \<or> (res_Kind (act_Target a) = ResourceTypeService \<or> IsQuadlet (act_Target a)) \<and>
             act_Todo a = ActionInstall,
           reload \<or> act_Todo a = ActionReload \<and> res_Path (act_Target a) = []))
          (n, r) steps = (n \<or> list_ex installs_unit steps, r \<or> list_ex reloads_units steps)" for n r
    by (induction steps arbitrary: n r) (auto simp: installs_unit_def reloads_units_def)
  then show ?thesis by (simp add: ReloadValidator_def)
qed

lemma CombinedResourceValidator_iff:
  "CombinedResourceValidator steps = None \<longleftrightarrow>
     list_all (\<lambda>a. res_Kind (act_Target a) \<noteq> ResourceTypeCombined) steps"
  by (induction steps) auto

lemma QuadletValidator_iff:
  "QuadletValidator steps = None \<longleftrightarrow> list_all (\<lambda>a. \<not> headless_quadlet a) steps"
  by (induction steps) (auto simp: headless_quadlet_def)

lemma VolumeDump_loop_iff:
  "VolumeDump_loop ds steps = None \<longleftrightarrow>
     (\<forall>v. all_before (dumps_volume v) (removes_volume v) steps \<and>
          (v \<in> set ds \<longrightarrow> list_all (\<lambda>a. \<not> dumps_volume v a) steps))"
proof (induction steps arbitrary: ds)
  case Nil
  then show ?case by simp
next
  case (Cons a steps)
  show ?case
    by (cases "removes_volume (res_Path (act_Target a)) a"; cases "dumps_volume (res_Path (act_Target a)) a")
      (auto simp: Cons.IH removes_volume_def dumps_volume_def Let_def list_all_iff)
qed

lemma ComponentInstall_loop_iff:
  "ComponentInstall_loop cs steps = None \<longleftrightarrow>
     list_all (\<lambda>a. res_Kind (act_Target a) \<noteq> ResourceTypeCombined) steps \<and>
     (\<forall>c. c \<notin> set cs \<longrightarrow> preceded_by (installs_component c) (installs_into c) steps)"
proof (induction steps arbitrary: cs)
  case Nil
  then show ?case by simp
next
  case (Cons a steps)
  have a: "installs_component c a \<longleftrightarrow>
      act_Todo a = ActionInstall \<and> res_Kind (act_Target a) = ResourceTypeComponent \<and> c = parent_name a"
    "installs_into c a \<longleftrightarrow>
      act_Todo a = ActionInstall \<and> res_Kind (act_Target a) \<noteq> ResourceTypeComponent \<and> c = parent_name a" for c
    by (auto simp: installs_component_def installs_into_def)
  show ?case
    by (cases "act_Todo a = ActionInstall"; cases "res_Kind (act_Target a) = ResourceTypeComponent";
        cases "parent_name a \<in> set cs")
      (auto simp: Cons.IH preceded_by_Cons a)
qed

subsection \<open>The validators are validation steps\<close>

interpretation reload_step: validation_step ReloadValidator
  by unfold_locales (simp add: ReloadValidator_iff)

interpretation combined_step: safety_step CombinedResourceValidator
  by unfold_locales (auto simp: CombinedResourceValidator_iff)

interpretation quadlet_step: safety_step QuadletValidator
  by unfold_locales (auto simp: QuadletValidator_iff)

interpretation volume_dump_step: safety_step VolumeDumpValidator
  by unfold_locales (auto simp: VolumeDumpValidator_def VolumeDump_loop_iff all_before_append)

lemma preceded_by_append: "preceded_by Q P (xs @ ys) \<Longrightarrow> preceded_by Q P xs"
  by (induction xs) (auto simp: preceded_by_Cons)

interpretation component_install_step: safety_step "ComponentInstallValidator existing" for existing
  by unfold_locales
    (auto simp: ComponentInstallValidator_def ComponentInstall_loop_iff dest: preceded_by_append)

lemma run_stages_iff: "run_stages stages steps = None \<longleftrightarrow> (\<forall>v\<in>set stages. v steps = None)"
  by (induction stages) (auto split: option.split)

lemma run_stages_empty: "(\<And>v. v \<in> set stages \<Longrightarrow> validation_step v) \<Longrightarrow> run_stages stages [] = None"
  by (auto simp: run_stages_iff validation_step.accepts_empty)

definition sound_steps :: "string list \<Rightarrow> Action list \<Rightarrow> bool" where
  "sound_steps installed steps \<longleftrightarrow>
     (list_ex installs_unit steps \<longrightarrow> list_ex reloads_units steps) \<and>
     (\<forall>v. all_before (dumps_volume v) (removes_volume v) steps) \<and>
     (\<forall>c. c \<notin> set installed \<longrightarrow> preceded_by (installs_component c) (installs_into c) steps) \<and>
     list_all (\<lambda>a. \<not> headless_quadlet a) steps \<and>
     list_all (\<lambda>a. res_Kind (act_Target a) \<noteq> ResourceTypeCombined) steps"

lemma default_pipeline_iff:
  "run_stages (NewDefaultValidationPipeline installed) steps = None \<longleftrightarrow> sound_steps installed steps"
  unfolding run_stages_iff NewDefaultValidationPipeline_def sound_steps_def
  by (auto simp: ReloadValidator_iff VolumeDumpValidator_def VolumeDump_loop_iff
      ComponentInstallValidator_def ComponentInstall_loop_iff QuadletValidator_iff
      CombinedResourceValidator_iff)

text \<open>
  C14: The default pipeline accepts a plan exactly when its steps are sound: a reload comes with
  every installed unit, no volume is dumped after it was removed, everything is installed into a
  component that was there before or was installed by an earlier step, no quadlet lacks its podman
  object and no step acts on a combined resource.
\<close>

theorem Pipeline_accepts_iff:
  "Pipeline_Validate (NewDefaultValidationPipeline installed) plan = None \<longleftrightarrow>
     sound_steps installed (Steps plan)"
  by (simp add: Pipeline_Validate_def default_pipeline_iff)

end
