(* ===== verification/Graph.thy ===== *)
theory Graph
  imports Components
begin

section \<open>The component graph (pkg/planner/graph.go)\<close>

text \<open>
  What is on the host and what the source assigns, joined by name.  The Go map from names to trees
  is an association list without repeated names; \<open>List\<close> walks it in string order.
\<close>

record ComponentTree =
  ct_Host :: "Component option"
  ct_Source :: "Component option"
  ct_Name :: string
  ct_FinalState :: ComponentLifecycle

type_synonym ComponentGraph = "(string \<times> ComponentTree) list"

definition zero_ComponentTree :: ComponentTree where
  "zero_ComponentTree =
     \<lparr>ct_Host = None, ct_Source = None, ct_Name = [], ct_FinalState = StateUnknown\<rparr>"

definition NewComponentGraph :: ComponentGraph where
  "NewComponentGraph = []"

definition Graph_Add :: "ComponentTree \<Rightarrow> ComponentGraph \<Rightarrow> ComponentGraph result" where
  "Graph_Add tree g =
     (case (ct_Source tree, ct_Host tree) of
        (None, None) \<Rightarrow> Inl (ErrMsg ''tried to add empty component tree'')
      | (Some s, Some h) \<Rightarrow>
          (if comp_Name s \<noteq> comp_Name h
           then Inl (ErrMsg ''tried to add two seperate components as tree'')
           else if ct_Name tree = [] then Inl (ErrMsg ''tried to add unnamed component'')
           else Inr (AList.update (ct_Name tree) tree g))
      | _ \<Rightarrow>
          (if ct_Name tree = [] then Inl (ErrMsg ''tried to add unnamed component'')
           else Inr (AList.update (ct_Name tree) tree g)))"

definition Graph_Get :: "ComponentGraph \<Rightarrow> string \<Rightarrow> ComponentTree result" where
  "Graph_Get g name =
     (case map_of g name of None \<Rightarrow> Inl (ErrSentinel ErrTreeNotFound) | Some tree \<Rightarrow> Inr tree)"

definition Graph_List :: "ComponentGraph \<Rightarrow> ComponentTree list" where
  "Graph_List g = map (\<lambda>name. the (map_of g name)) (sort (map fst g))"

definition host_tree_name :: "Component \<Rightarrow> string" where
  "host_tree_name v = (if IsInstanced v then InstanceName v else comp_Name v)"

fun add_installed :: "Component list \<Rightarrow> ComponentGraph \<Rightarrow> ComponentGraph result" where
  "add_installed [] g = Inr g"
| "add_installed (v # vs) g =
     (case Graph_Add (zero_ComponentTree\<lparr>ct_Name := host_tree_name v, ct_Host := Some v\<rparr>) g of
        Inl e \<Rightarrow> Inl e
      | Inr g' \<Rightarrow> add_installed vs g')"

fun add_assigned :: "Component list \<Rightarrow> ComponentGraph \<Rightarrow> ComponentGraph result" where
  "add_assigned [] g = Inr g"
| "add_assigned (v # vs) g =
     (let name = InstanceName v;
          tree = (case Graph_Get g name of
                    Inr tree \<Rightarrow> tree
                  | Inl e \<Rightarrow> zero_ComponentTree\<lparr>ct_Name := name\<rparr>)
      in case Graph_Add (tree\<lparr>ct_Source := Some v\<rparr>) g of
        Inl e \<Rightarrow> Inl e
      | Inr g' \<Rightarrow> add_assigned vs g')"

definition BuildComponentGraph :: "Component list \<Rightarrow> Component list \<Rightarrow> ComponentGraph result" where
  "BuildComponentGraph installedComponents assignedComponents =
     (case add_installed installedComponents NewComponentGraph of
        Inl e \<Rightarrow> Inl e
      | Inr g \<Rightarrow> add_assigned assignedComponents g)"

subsection \<open>The joined graph\<close>

lemma host_tree_name_eq [simp]: "host_tree_name v = InstanceName v"
  by (simp add: host_tree_name_def IsInstanced_def InstanceName_def)

lemma Graph_Add_Inr:
  "Graph_Add tree g = Inr g' \<longleftrightarrow>
     g' = AList.update (ct_Name tree) tree g \<and> ct_Name tree \<noteq> [] \<and>
     (ct_Source tree \<noteq> None \<or> ct_Host tree \<noteq> None) \<and>
     (\<forall>s h. ct_Source tree = Some s \<longrightarrow> ct_Host tree = Some h \<longrightarrow> comp_Name s = comp_Name h)"
  by (auto simp: Graph_Add_def split: option.splits)

text \<open>The last component of a list with a given instance name.\<close>

definition last_named :: "Component list \<Rightarrow> string \<Rightarrow> Component option" where
  "last_named cs name = find (\<lambda>c. InstanceName c = name) (rev cs)"

text \<open>The join as a function of the name.\<close>

definition joined :: "Component list \<Rightarrow> Component list \<Rightarrow> string \<Rightarrow> ComponentTree option" where
  "joined hosts sources name =
     (case (last_named hosts name, last_named sources name) of
        (None, None) \<Rightarrow> None
      | (h, s) \<Rightarrow> Some \<lparr>ct_Host = h, ct_Source = s, ct_Name = name, ct_FinalState = StateUnknown\<rparr>)"

lemma last_named_Nil [simp]: "last_named [] name = None"
  by (simp add: last_named_def)

lemma last_named_snoc:
  "last_named (cs @ [c]) name = (if InstanceName c = name then Some c else last_named cs name)"
  by (simp add: last_named_def)

lemma last_named_None: "last_named cs name = None \<longleftrightarrow> name \<notin> InstanceName ` set cs"
  by (induction cs rule: rev_induct) (auto simp: last_named_snoc)

lemma last_named_Some: "last_named cs name = Some c \<Longrightarrow> c \<in> set cs \<and> InstanceName c = name"
  by (induction cs rule: rev_induct) (auto simp: last_named_snoc split: if_splits)

definition graph_inv :: "Component list \<Rightarrow> Component list \<Rightarrow> ComponentGraph \<Rightarrow> bool" where
  "graph_inv hosts sources g \<longleftrightarrow> distinct (map fst g) \<and> map_of g = joined hosts sources"

lemma add_installed_inv:
  "add_installed vs g = Inr g' \<Longrightarrow> graph_inv us [] g \<Longrightarrow> graph_inv (us @ vs) [] g'"
proof (induction vs arbitrary: us g)
  case Nil
  then show ?case by simp
next
  case (Cons v vs)
  from Cons.prems(1) obtain g1 where
    g1: "Graph_Add (zero_ComponentTree\<lparr>ct_Name := host_tree_name v, ct_Host := Some v\<rparr>) g = Inr g1" and
    rest: "add_installed vs g1 = Inr g'" by (auto split: sum.splits)
  have "graph_inv (us @ [v]) [] g1"
    using g1 Cons.prems(2)
    by (auto simp: graph_inv_def Graph_Add_Inr distinct_update update_conv' fun_eq_iff joined_def
        last_named_snoc zero_ComponentTree_def split: option.splits)
  with Cons.IH [OF rest, of "us @ [v]"] show ?case by simp
qed

lemma add_assigned_inv:
  "add_assigned vs g = Inr g' \<Longrightarrow> graph_inv hs us g \<Longrightarrow> graph_inv hs (us @ vs) g'"
proof (induction vs arbitrary: us g)
  case Nil
  then show ?case by simp
next
  case (Cons v vs)
  let ?tree = "case Graph_Get g (InstanceName v) of Inr tree \<Rightarrow> tree
      | Inl e \<Rightarrow> zero_ComponentTree\<lparr>ct_Name := InstanceName v\<rparr>"
  from Cons.prems(1) obtain g1 where
    g1: "Graph_Add (?tree\<lparr>ct_Source := Some v\<rparr>) g = Inr g1" and
    rest: "add_assigned vs g1 = Inr g'" by (auto simp: Let_def split: sum.splits)
  have tree: "?tree\<lparr>ct_Source := Some v\<rparr> =
      \<lparr>ct_Host = last_named hs (InstanceName v), ct_Source = Some v, ct_Name = InstanceName v,
       ct_FinalState = StateUnknown\<rparr>"
    using Cons.prems(2)
    by (auto simp: graph_inv_def Graph_Get_def joined_def zero_ComponentTree_def split: option.splits)
  have "graph_inv hs (us @ [v]) g1"
    using g1 Cons.prems(2) unfolding tree
    by (auto simp: graph_inv_def Graph_Add_Inr distinct_update update_conv' fun_eq_iff joined_def
        last_named_snoc split: option.splits)
  with Cons.IH [OF rest, of "us @ [v]"] show ?case by simp
qed

lemma graph_inv_build:
  "BuildComponentGraph hosts sources = Inr g \<Longrightarrow> graph_inv hosts sources g"
  using add_installed_inv [of hosts "[]" _ "[]"] add_assigned_inv [of sources _ _ hosts "[]"]
  by (auto simp: BuildComponentGraph_def NewComponentGraph_def graph_inv_def joined_def fun_eq_iff
      split: sum.splits)

lemma joined_name: "joined hosts sources name = Some t \<Longrightarrow> ct_Name t = name"
  by (auto simp: joined_def split: option.splits)

lemma joined_dom:
  "joined hosts sources name \<noteq> None \<longleftrightarrow> name \<in> InstanceName ` (set hosts \<union> set sources)"
proof -
  have "joined hosts sources name \<noteq> None \<longleftrightarrow>
      last_named hosts name \<noteq> None \<or> last_named sources name \<noteq> None"
    by (auto simp: joined_def split: option.splits)
  then show ?thesis by (simp add: last_named_None image_Un)
qed

lemma Graph_List_joined:
  assumes "graph_inv hosts sources g"
  shows "Graph_List g = map (\<lambda>n. the (joined hosts sources n))
           (sort (remdups (map InstanceName (hosts @ sources))))"
proof -
  from assms have d: "distinct (map fst g)" and m: "map_of g = joined hosts sources"
    by (simp_all add: graph_inv_def)
  have "set (map fst g) = dom (joined hosts sources)"
    using m by (simp add: dom_map_of_conv_image_fst [symmetric])
  also have "\<dots> = set (map InstanceName (hosts @ sources))"
    using joined_dom [of hosts sources] by (auto simp: dom_def image_Un)
  finally have "sort (map fst g) = sort (remdups (map InstanceName (hosts @ sources)))"
    using d by (intro sorted_distinct_set_unique) simp_all
  with m show ?thesis by (simp add: Graph_List_def)
qed

text \<open>
  When the graph can be built, \<open>List\<close> gives every component name of either side once and in
  string order, each with the last component of that name the host and the source have.
\<close>

theorem BuildComponentGraph_joins:
  assumes "BuildComponentGraph hosts sources = Inr g"
  shows "map Some (Graph_List g) =
     map (joined hosts sources) (sort (remdups (map InstanceName (hosts @ sources))))"
proof -
  note l = Graph_List_joined [OF graph_inv_build [OF assms]]
  have "Some (the (joined hosts sources n)) = joined hosts sources n"
    if "n \<in> set (map InstanceName (hosts @ sources))" for n
    using that joined_dom [of hosts sources n] by (auto simp: image_Un)
  with l show ?thesis by simp
qed

definition three_components :: "Component list \<times> Component list" where
  "three_components = ([NewComponent ''web'', NewComponent ''db''], [NewComponent ''web@blue'', NewComponent ''web''])"

definition three_graph :: ComponentGraph where
  "three_graph = projr (BuildComponentGraph (fst three_components) (snd three_components))"

lemma three_graph_built: "BuildComponentGraph (fst three_components) (snd three_components) = Inr three_graph"
  by code_simp

lemma three_graph_names: "map ct_Name (Graph_List three_graph) = [''db'', ''web'', ''web@blue'']"
  by code_simp

theorem BuildComponentGraph_joins_witness:
  "map Some (Graph_List three_graph) =
     map (joined (fst three_components) (snd three_components))
       (sort (remdups (map InstanceName (fst three_components @ snd three_components))))"
  by (rule BuildComponentGraph_joins [OF three_graph_built])

end
