(* ===== verification/Planner.thy ===== *)
theory Planner
  imports Validators Graph
begin

section \<open>The planner (pkg/planner/planner.go)\<close>

text \<open>
  The planner compares what the host has with what the source assigns and produces a plan.  The
  host manager is asked while planning and not changed, so it is a record of queries.  Parameters
  of the model are the podman unit-file parser and the text diff of \<open>diffmatchpatch\<close>
  (\<open>dm old new\<close>, \<open>None\<close> for a nil slice).  A function that gives up with an error gives its callers
  a partial list as well; no caller looks at it, so only the error is kept.
\<close>

subsection \<open>The host as the planner sees it\<close>

record Volume =
  vol_Name :: string
  vol_Mountpoint :: string
  vol_Driver :: string

record Network =
  net_Name :: string
  net_Containers :: "string list"

record Image =
  img_Names :: "string list"
  img_ID :: string

record HostStateManager =
  hm_ListVolumes :: "Volume list result"
  hm_GetNetwork :: "string \<Rightarrow> Network result"
  hm_ListImages :: "Image list result"
  hm_ListNetworks :: "Network list result"
  hm_GetVolume :: "string \<Rightarrow> Volume result"
  hm_GetService :: "string \<Rightarrow> Service result"

record PlannerConfig =
  pc_OnlyResources :: bool
  pc_CleanupQuadlets :: bool
  pc_CleanupVolumes :: bool
  pc_BackupVolumes :: bool
  pc_MigrateVolumes :: bool

definition DefaultPlannerConfig :: PlannerConfig where
  "DefaultPlannerConfig =
     \<lparr>pc_OnlyResources = False, pc_CleanupQuadlets = False, pc_CleanupVolumes = False,
      pc_BackupVolumes = True, pc_MigrateVolumes = False\<rparr>"

type_synonym differ = "string \<Rightarrow> string \<Rightarrow> Diff list option"

subsection \<open>Service actions\<close>

definition serviceActionWithMetadata ::
    "Component \<Rightarrow> Resource \<Rightarrow> ServiceResourceConfig \<Rightarrow> ActionType \<Rightarrow> Action" where
  "serviceActionWithMetadata parent targetSrc s a =
     (mk_action a parent targetSrc)\<lparr>act_Metadata := Some (zero_ActionMetadata
        \<lparr>md_ServiceTimeout := (if src_Timeout s \<noteq> 0 then Some (src_Timeout s) else None),
         md_ServiceUntilState := (if src_Oneshot s then Some StateInternalWildcard_s else None)\<rparr>)\<rparr>"

definition with_timeout :: "int \<Rightarrow> Action \<Rightarrow> Action" where
  "with_timeout timeout a =
     a\<lparr>act_Metadata := Some (zero_ActionMetadata\<lparr>md_ServiceTimeout := Some timeout\<rparr>)\<rparr>"

text \<open>
  For an image or a build with a service configuration the code prepares metadata with the wildcard
  end state of a oneshot and then builds the action with fresh metadata that has the timeout only.
\<close>

definition resourceActionWithMetadata ::
    "'u unit_parser \<Rightarrow> Resource \<Rightarrow> Component \<Rightarrow> ActionType \<Rightarrow> Action result" where
  "resourceActionWithMetadata up res parent a =
     (if \<not> IsServiceAction a
      then Inl (ErrMsg ''can't create resource action with metadata from type'')
      else if \<not> IsQuadlet res \<and> res_Kind res \<noteq> ResourceTypeService
      then Inl (ErrMsg ''can't create resource service action from non-quadlet'')
      else
        (let act = mk_action a parent (InstantiateResource parent res) in
         if res_Kind res \<noteq> ResourceTypeContainer \<and> res_Kind res \<noteq> ResourceTypePod then Inr act
         else if res_Kind res = ResourceTypePod then Inr (with_timeout 60000 act)
         else case wrap_error ''error parsing systemd unit file'' (up_Parse up (res_Content res)) of
           Inl e \<Rightarrow> Inl e
         | Inr unitfile \<Rightarrow>
             (case up_Lookup up unitfile ''Container'' ''Image'' of
                None \<Rightarrow> Inl (ErrMsg ''invalid container quadlet'')
              | Some imageName \<Rightarrow>
                  (if HasSuffix imageName ''.image'' \<or> HasSuffix imageName ''.build'' then
                     (case ServiceConfigSet_Get (configs_of parent) imageName of
                        Inl e \<Rightarrow>
                          (if errors_is e ErrServiceConfigNotFound then Inr (with_timeout 60 act)
                           else Inl (ErrWrapped ''can't get service config for resource'' e))
                      | Inr src \<Rightarrow> Inr (with_timeout (int64 (src_Timeout src + 60)) act))
                   else Inr act))))"

definition getServiceAction ::
    "'u unit_parser \<Rightarrow> ServiceResourceConfig \<Rightarrow> Component \<Rightarrow> ActionType \<Rightarrow> Action result" where
  "getServiceAction up src parent a =
     (case ResourceSet_Get (resources_of parent) (src_Service src) of
        Inl e \<Rightarrow>
          Inr (serviceActionWithMetadata parent
                 (zero_Resource\<lparr>res_Parent := comp_Name parent, res_Path := src_Service src,
                                res_Kind := ResourceTypeService\<rparr>) src a)
      | Inr res \<Rightarrow> resourceActionWithMetadata up res parent a)"

definition getLiveService :: "HostStateManager \<Rightarrow> ServiceResourceConfig \<Rightarrow> Service result" where
  "getLiveService mgr src =
     (if src_Service src = [] then Inl (ErrMsg ''tried to get empty live service'')
      else
        (let name = PathToService (src_Service src) in
         case hm_GetService mgr name of
           Inr s \<Rightarrow> Inr s
         | Inl e \<Rightarrow>
             (if errors_is e ErrServiceNotFound
              then Inr (zero_Service\<lparr>svc_Name := name, svc_State := ''non-existent''\<rparr>)
              else Inl e)))"

subsection \<open>Cleaning up and migrating volumes\<close>

definition generateCleanupResourceActions ::
    "HostStateManager \<Rightarrow> PlannerConfig \<Rightarrow> Component \<Rightarrow> Resource \<Rightarrow> Action list result" where
  "generateCleanupResourceActions mgr opts parent res =
     (let cleanup = mk_action ActionCleanup parent res in
      if res_Kind res = ResourceTypeNetwork then
        (case hm_GetNetwork mgr (res_HostObject res) of
           Inl e \<Rightarrow> (if errors_is e ErrPodmanObjectNotFound then Inr []
                    else Inl (ErrMsg ''could not get network for cleanup''))
         | Inr n \<Rightarrow> Inr [cleanup])
      else if res_Kind res = ResourceTypeBuild \<or> res_Kind res = ResourceTypeImage then
        (case hm_ListImages mgr of
           Inl e \<Rightarrow> Inl e
         | Inr images \<Rightarrow>
             Inr (map (\<lambda>i. cleanup) (filter (\<lambda>i. res_HostObject res \<in> set (img_Names i)) images)))
      else if res_Kind res = ResourceTypeVolume then
        (if \<not> pc_CleanupVolumes opts then Inr []
         else case hm_GetVolume mgr (res_HostObject res) of
           Inl e \<Rightarrow> (if errors_is e ErrPodmanObjectNotFound then Inr []
                    else Inl (ErrMsg ''could not get volume for cleanup''))
         | Inr v \<Rightarrow>
             Inr ((if pc_BackupVolumes opts then [mk_action ActionDump parent res] else []) @ [cleanup]))
      else Inr [])"

text \<open>The stop of one service before its volume is migrated; nothing when it is not running.\<close>

definition migration_stop ::
    "'u unit_parser \<Rightarrow> HostStateManager \<Rightarrow> Component \<Rightarrow> ServiceResourceConfig \<Rightarrow> Action list result" where
  "migration_stop up mgr parent s =
     (case wrap_error ''can't get service when generating volume migration'' (getLiveService mgr s) of
        Inl e \<Rightarrow> Inl e
      | Inr currentServ \<Rightarrow>
          (if \<not> Started currentServ then Inr []
           else case getServiceAction up s parent ActionStop of
             Inl e \<Rightarrow> Inl e
           | Inr stopAction \<Rightarrow>
               (let md = (case act_Metadata stopAction of None \<Rightarrow> zero_ActionMetadata | Some m \<Rightarrow> m)
                in Inr [stopAction\<lparr>act_Priority := 1,
                          act_Metadata := Some (md\<lparr>md_ServiceUntilState := Some ''inactive''\<rparr>)\<rparr>])))"

definition migration_start :: "Component \<Rightarrow> Action \<Rightarrow> Action" where
  "migration_start parent s =
     (mk_action ActionStart parent (act_Target s))
       \<lparr>act_Priority := 5,
        act_Metadata := Some (zero_ActionMetadata\<lparr>md_ServiceUntilState := Some ''active''\<rparr>)\<rparr>"

definition generateVolumeMigrationActions ::
    "'u unit_parser \<Rightarrow> HostStateManager \<Rightarrow> Component \<Rightarrow> Resource \<Rightarrow> Action list result" where
  "generateVolumeMigrationActions up mgr parent volumeRes =
     (if res_Kind volumeRes \<noteq> ResourceTypeVolume then Inl (ErrMsg ''non volume resource'')
      else case wrap_error ''can't list volumes'' (hm_ListVolumes mgr) of
        Inl e \<Rightarrow> Inl e
      | Inr volumes \<Rightarrow>
          (if \<not> (\<exists>vol\<in>set volumes. vol_Name vol = res_HostObject volumeRes) then Inr []
           else case collect (migration_stop up mgr parent) (ServiceConfigSet_List (configs_of parent)) of
             Inl e \<Rightarrow> Inl e
           | Inr stops \<Rightarrow>
               Inr (stops @
                 [(mk_action ActionDump parent volumeRes)\<lparr>act_Priority := 1\<rparr>,
                  (mk_action ActionCleanup parent volumeRes)\<lparr>act_Priority := 2\<rparr>,
                  (mk_action ActionEnsure parent volumeRes)\<lparr>act_Priority := 4\<rparr>,
                  (mk_action ActionImport parent volumeRes)\<lparr>act_Priority := 4\<rparr>] @
                 map (migration_start parent) stops)))"

subsection \<open>Triggers\<close>

type_synonym triggers = "(string \<times> Action list) list"

definition add_trigger :: "string \<Rightarrow> Action \<Rightarrow> triggers \<Rightarrow> triggers" where
  "add_trigger trigger a ts =
     AList.update trigger ((case map_of ts trigger of None \<Rightarrow> [] | Some as \<Rightarrow> as) @ [a]) ts"

fun add_config_triggers ::
    "'u unit_parser \<Rightarrow> Component \<Rightarrow> ServiceResourceConfig \<Rightarrow> ActionType \<Rightarrow> string list \<Rightarrow>
       triggers \<Rightarrow> triggers result" where
  "add_config_triggers up c src t [] ts = Inr ts"
| "add_config_triggers up c src t (trigger # rest) ts =
     (case getServiceAction up src c t of
        Inl e \<Rightarrow> Inl e
      | Inr triggerAction \<Rightarrow> add_config_triggers up c src t rest (add_trigger trigger triggerAction ts))"

fun service_triggers ::
    "'u unit_parser \<Rightarrow> Component \<Rightarrow> ServiceResourceConfig list \<Rightarrow> triggers \<Rightarrow> triggers result" where
  "service_triggers up c [] ts = Inr ts"
| "service_triggers up c (src # rest) ts =
     (case add_config_triggers up c src ActionRestart (src_RestartedBy src) ts of
        Inl e \<Rightarrow> Inl e
      | Inr ts \<Rightarrow>
     (case add_config_triggers up c src ActionReload (src_ReloadedBy src) ts of
        Inl e \<Rightarrow> Inl e
      | Inr ts \<Rightarrow> service_triggers up c rest ts))"

fun resource_triggers ::
    "'u unit_parser \<Rightarrow> Component \<Rightarrow> Resource list \<Rightarrow> triggers \<Rightarrow> triggers result" where
  "resource_triggers up c [] ts = Inr ts"
| "resource_triggers up c (res # rest) ts =
     (if map_of ts (res_Path res) \<noteq> None then resource_triggers up c rest ts
      else if res_Kind res = ResourceTypeContainer \<or> res_Kind res = ResourceTypePod then
        (case resourceActionWithMetadata up res c ActionRestart of
           Inl e \<Rightarrow> Inl e
         | Inr resAct \<Rightarrow> resource_triggers up c rest (add_trigger (res_Path res) resAct ts))
      else resource_triggers up c rest ts)"

definition generateComponentServiceTriggers :: "'u unit_parser \<Rightarrow> Component \<Rightarrow> triggers result" where
  "generateComponentServiceTriggers up newComponent =
     (case service_triggers up newComponent (ServiceConfigSet_List (configs_of newComponent)) [] of
        Inl e \<Rightarrow> Inl e
      | Inr ts \<Rightarrow>
          (if set_NoRestart (comp_Settings newComponent) then Inr ts
           else resource_triggers up newComponent (ResourceSet_List (resources_of newComponent)) ts))"

definition live_trigger :: "HostStateManager \<Rightarrow> Action \<Rightarrow> Action list result" where
  "live_trigger mgr v =
     (case hm_GetService mgr (Resource_Service (act_Target v)) of
        Inl e \<Rightarrow> Inl e
      | Inr live \<Rightarrow> Inr (if svc_State live = ''active'' then [v] else []))"

definition processTriggeredUpdates ::
    "HostStateManager \<Rightarrow> triggers \<Rightarrow> Action list \<Rightarrow> Action list result" where
  "processTriggeredUpdates mgr triggers resourceActions =
     collect (\<lambda>d. case map_of triggers (res_Path (act_Target d)) of
                None \<Rightarrow> Inr []
              | Some updatedServiceActions \<Rightarrow>
                  (case collect (live_trigger mgr) updatedServiceActions of
                     Inl e \<Rightarrow> Inl e
                   | Inr running \<Rightarrow> Inr (running @ updatedServiceActions)))
       resourceActions"

subsection \<open>Keeping volumes and networks\<close>

definition object_found :: "Volume list \<Rightarrow> Network list \<Rightarrow> Resource \<Rightarrow> bool" where
  "object_found volumes networks r \<longleftrightarrow>
     (res_Kind r = ResourceTypeVolume \<and> res_HostObject r \<in> set (map vol_Name volumes)) \<or>
     (res_Kind r = ResourceTypeNetwork \<and> res_HostObject r \<in> set (map net_Name networks))"

definition ensure_resource ::
    "HostStateManager \<Rightarrow> Volume list \<Rightarrow> Network list \<Rightarrow> Component \<Rightarrow> Resource \<Rightarrow> Action list result" where
  "ensure_resource mgr volumes networks c r =
     (case hm_GetService mgr (Resource_Service r) of
        Inl e \<Rightarrow> (if errors_is e ErrServiceNotFound then Inr [] else Inl e)
      | Inr serv \<Rightarrow>
          (if \<not> Started serv \<or> object_found volumes networks r then Inr []
           else Inr [mk_action ActionEnsure c r]))"

definition questionable :: "Component \<Rightarrow> Component \<Rightarrow> Resource list" where
  "questionable c newComp =
     filter (\<lambda>r. (res_Kind r = ResourceTypeNetwork \<or> res_Kind r = ResourceTypeVolume) \<and>
                 ResourceSet_Contains (resources_of newComp) (Resource_Name r))
       (ResourceSet_List (resources_of c))"

definition generateQuadletEnsurements ::
    "HostStateManager \<Rightarrow> Component \<Rightarrow> Component \<Rightarrow> Action list result" where
  "generateQuadletEnsurements mgr c newComp =
     (let questionableResources = questionable c newComp in
      if questionableResources = [] then Inr []
      else case wrap_error ''can't list volumes'' (hm_ListVolumes mgr) of
        Inl e \<Rightarrow> Inl e
      | Inr volumes \<Rightarrow>
     (case wrap_error ''can't list networks'' (hm_ListNetworks mgr) of
        Inl e \<Rightarrow> Inl e
      | Inr networks \<Rightarrow> collect (ensure_resource mgr volumes networks c) questionableResources))"

subsection \<open>Bringing services to their state\<close>

definition serviceStateHelper :: "Service \<Rightarrow> Service \<Rightarrow> ActionType list" where
  "serviceStateHelper assigned current =
     (if svc_Name current = [] \<or> svc_State current = StateUnknown_s then
        (if svc_Enabled assigned = EnableStateEnabled then [ActionEnable] else []) @
        (if svc_State assigned = StateActive_s then [ActionStart] else [])
      else if svc_Name assigned = [] \<or> svc_State assigned = StateUnknown_s then
        (if svc_Enabled current = EnableStateEnabled then [ActionDisable] else []) @
        (if svc_State current = StateActive_s then [ActionStop] else [])
      else
        (if svc_Enabled assigned = EnableStateEnabled \<and> svc_Enabled current \<noteq> EnableStateEnabled
         then [ActionEnable] else []) @
        (if svc_Enabled assigned \<noteq> EnableStateEnabled \<and> svc_Enabled current = EnableStateEnabled
         then [ActionDisable] else []) @
        (if svc_State assigned = StateInactive_s \<and> svc_State current \<noteq> StateInactive_s
         then [ActionStop] else []) @
        (if svc_State assigned = StateActive_s \<and> svc_State current \<noteq> StateActive_s
         then [ActionStart] else []))"

fun live_services :: "HostStateManager \<Rightarrow> string list \<Rightarrow> ServiceSet \<Rightarrow> ServiceSet result" where
  "live_services mgr [] hostServices = Inr hostServices"
| "live_services mgr (v # vs) hostServices =
     (case hm_GetService mgr (PathToService v) of
        Inl e \<Rightarrow>
          (if errors_is e ErrServiceNotFound
           then live_services mgr vs
                  (ServiceSet_Add (zero_Service\<lparr>svc_Name := v, svc_State := StateInactive_s\<rparr>) hostServices)
           else Inl e)
      | Inr live \<Rightarrow> live_services mgr vs (ServiceSet_Add live hostServices))"

text \<open>The actions one configured service gets from its parent component.\<close>

definition state_actions ::
    "'u unit_parser \<Rightarrow> Component option \<Rightarrow> string \<Rightarrow> ActionType list \<Rightarrow> Action list result" where
  "state_actions up parent name ts =
     (case parent of
        None \<Rightarrow> Inl (Panic ''nil pointer dereference'')
      | Some c \<Rightarrow>
     (case ServiceConfigSet_Get (configs_of c) name of
        Inl e \<Rightarrow> Inl e
      | Inr src \<Rightarrow>
          collect (\<lambda>t. case getServiceAction up src c t of Inl e \<Rightarrow> Inl e | Inr act \<Rightarrow> Inr [act]) ts))"

definition stop_untracked ::
    "'u unit_parser \<Rightarrow> ServiceSet \<Rightarrow> Component option \<Rightarrow> Service \<Rightarrow> Action list result" where
  "stop_untracked up hostServices host v =
     (case ServiceSet_Get hostServices (svc_Name v) of
        Inl e \<Rightarrow> (if errors_is e ErrServiceNotFound then Inr [] else Inl e)
      | Inr live \<Rightarrow>
          (if svc_State live \<noteq> StateActive_s \<and> svc_State live \<noteq> StateActivating_s then Inr []
           else state_actions up host (svc_Name v) (serviceStateHelper zero_Service live)))"

definition change_tracked ::
    "'u unit_parser \<Rightarrow> ServiceSet \<Rightarrow> Component option \<Rightarrow> Service \<Rightarrow> Action list result" where
  "change_tracked up hostServices source v =
     (case (case ServiceSet_Get hostServices (PathToService (svc_Name v)) of
              Inr live \<Rightarrow> Inr live
            | Inl e \<Rightarrow> (if errors_is e ErrServiceNotFound then Inr zero_Service else Inl e)) of
        Inl e \<Rightarrow> Inl e
      | Inr live \<Rightarrow> state_actions up source (svc_Name v) (serviceStateHelper v live))"

definition service_state_of :: "Component option \<Rightarrow> ServiceSet" where
  "service_state_of c = (case c of None \<Rightarrow> NewServiceSet | Some c \<Rightarrow> ToServiceState c)"

definition GenerateServiceActions ::
    "'u unit_parser \<Rightarrow> HostStateManager \<Rightarrow> Component option \<Rightarrow> Component option \<Rightarrow> Action list result" where
  "GenerateServiceActions up mgr source host =
     (let assignedServices = service_state_of source;
          currentServices = service_state_of host;
          allServices = ServiceSet_ListServiceNames assignedServices @
                        ServiceSet_ListServiceNames currentServices
      in case live_services mgr allServices (ServiceSet_Union assignedServices currentServices) of
        Inl e \<Rightarrow> Inl e
      | Inr hostServices \<Rightarrow>
     (case collect (stop_untracked up hostServices host)
             (ServiceSet_List (ServiceSet_Difference currentServices assignedServices)) of
        Inl e \<Rightarrow> Inl e
      | Inr stops \<Rightarrow>
     (case collect (change_tracked up hostServices source) (ServiceSet_List assignedServices) of
        Inl e \<Rightarrow> Inl e
      | Inr changes \<Rightarrow> Inr (stops @ changes))))"

end
