(* ===== verification/Planning.thy ===== *)
theory Planning
  imports Planner
begin

section \<open>Planning components (pkg/planner/planner.go)\<close>

text \<open>
  The three cases of a component tree (only assigned, only installed, both) and the plan of a whole
  host.  The code writes the lifecycle state, the version and the final state into the tree while
  it plans; the model returns the tree it leaves behind.
\<close>

subsection \<open>Resources\<close>

definition component_resource :: "string \<Rightarrow> Resource" where
  "component_resource name =
     zero_Resource\<lparr>res_Parent := name, res_Kind := ResourceTypeComponent, res_Path := name\<rparr>"

definition diffable_content :: "Resource \<Rightarrow> string" where
  "diffable_content r = (if res_Kind r \<noteq> ResourceTypePodmanSecret then res_Content r else [])"

definition install_action :: "differ \<Rightarrow> Component \<Rightarrow> Resource \<Rightarrow> Action" where
  "install_action dm c r =
     (mk_action ActionInstall c r)\<lparr>act_DiffContent := dm [] (diffable_content r)\<rparr>"

definition generateFreshComponentResources :: "differ \<Rightarrow> Component \<Rightarrow> Action list result" where
  "generateFreshComponentResources dm c =
     (case Component_Validate c of
        Some e \<Rightarrow> Inl (ErrWrapped ''invalid component'' e)
      | None \<Rightarrow>
          (if comp_State c \<noteq> StateFresh then Inl (ErrMsg ''expected fresh component'')
           else Inr (mk_action ActionInstall c (component_resource (comp_Name c)) #
                     map (install_action dm c) (ResourceSet_List (resources_of c)))))"

definition remove_missing ::
    "HostStateManager \<Rightarrow> PlannerConfig \<Rightarrow> Component \<Rightarrow> Resource \<Rightarrow> Action list result" where
  "remove_missing mgr opts host v =
     (if res_Kind v = ResourceTypeDropin \<or> res_Kind v = ResourceTypeDropinDir then Inr []
      else
        (let remove = (mk_action ActionRemove host v)\<lparr>act_DiffContent := Some []\<rparr> in
         if pc_CleanupQuadlets opts then
           (case generateCleanupResourceActions mgr opts host v of
              Inl e \<Rightarrow> Inl e
            | Inr cleanupActions \<Rightarrow> Inr (remove # cleanupActions))
         else Inr [remove]))"

text \<open>
  A nil diff means no difference; an empty slice that is not nil would make the code read its
  first element.
\<close>

definition update_changed ::
    "'u unit_parser \<Rightarrow> differ \<Rightarrow> HostStateManager \<Rightarrow> PlannerConfig \<Rightarrow> Component \<Rightarrow> Component \<Rightarrow>
       Resource \<Rightarrow> Action list result" where
  "update_changed up dm mgr opts host source conflicted =
     (case ResourceSet_Get (resources_of source) (res_Path conflicted) of
        Inl e \<Rightarrow> Inl e
      | Inr sourceRes \<Rightarrow>
     (case ResourceSet_Get (resources_of host) (res_Path conflicted) of
        Inl e \<Rightarrow> Inl e
      | Inr hostResource \<Rightarrow>
     (case dm (res_Content hostResource) (res_Content sourceRes) of
        None \<Rightarrow> Inr []
      | Some [] \<Rightarrow> Inl (Panic ''index out of range'')
      | Some (d # ds) \<Rightarrow>
          (if ds \<noteq> [] \<or> fst d \<noteq> DiffEqual then
             (let update = (mk_action ActionUpdate source conflicted)\<lparr>act_DiffContent := Some (d # ds)\<rparr> in
              if res_Kind conflicted = ResourceTypeVolume \<and> pc_MigrateVolumes opts then
                (case generateVolumeMigrationActions up mgr source conflicted of
                   Inl e \<Rightarrow> Inl e
                 | Inr volumeMigrationActions \<Rightarrow> Inr (update # volumeMigrationActions))
              else Inr [update])
           else Inr []))))"

definition generateUpdatedComponentResources ::
    "'u unit_parser \<Rightarrow> differ \<Rightarrow> HostStateManager \<Rightarrow> PlannerConfig \<Rightarrow> Component \<Rightarrow> Component \<Rightarrow>
       Action list result" where
  "generateUpdatedComponentResources up dm mgr opts host source =
     (case Component_Validate host of
        Some e \<Rightarrow> Inl (ErrWrapped ''self component invalid during comparison'' e)
      | None \<Rightarrow>
     (case Component_Validate source of
        Some e \<Rightarrow> Inl (ErrWrapped ''other component invalid during comparison'' e)
      | None \<Rightarrow>
          (let toRemove = ResourceSet_Difference (resources_of host) (resources_of source);
               toInstall = ResourceSet_Difference (resources_of source) (resources_of host);
               potentialUpdates = ResourceSet_Intersection (resources_of host) (resources_of source)
           in case collect (remove_missing mgr opts host) (ResourceSet_List toRemove) of
                Inl e \<Rightarrow> Inl e
              | Inr removed \<Rightarrow>
             (case collect (update_changed up dm mgr opts host source) (ResourceSet_List potentialUpdates) of
                Inl e \<Rightarrow> Inl e
              | Inr updated \<Rightarrow>
                  Inr (removed @ map (install_action dm source) (ResourceSet_List toInstall) @ updated)))))"

definition remove_action :: "differ \<Rightarrow> Component \<Rightarrow> Resource \<Rightarrow> Action" where
  "remove_action dm c r = (mk_action ActionRemove c r)\<lparr>act_DiffContent := dm (res_Content r) []\<rparr>"

definition remove_resource ::
    "differ \<Rightarrow> HostStateManager \<Rightarrow> PlannerConfig \<Rightarrow> Component \<Rightarrow> Resource \<Rightarrow> Action list result" where
  "remove_resource dm mgr opts c r =
     (let removal = (if res_Path r \<noteq> ComponentManifestFile \<and> IsFile r then [remove_action dm c r] else [])
      in if pc_CleanupQuadlets opts then
           (case generateCleanupResourceActions mgr opts c r of
              Inl e \<Rightarrow> Inl e
            | Inr cleanupActions \<Rightarrow> Inr (removal @ cleanupActions))
         else Inr removal)"

definition generateRemovedComponentResources ::
    "differ \<Rightarrow> HostStateManager \<Rightarrow> PlannerConfig \<Rightarrow> Component \<Rightarrow> Action list result" where
  "generateRemovedComponentResources dm mgr opts c =
     (case Component_Validate c of
        Some e \<Rightarrow> Inl (ErrWrapped ''invalid component'' e)
      | None \<Rightarrow>
          (if comp_State c \<noteq> StateNeedRemoval then Inl (ErrMsg ''expected to be removed component'')
           else case wrap_error ''can't get component manifest''
                       (ResourceSet_Get (resources_of c) ComponentManifestFile) of
             Inl e \<Rightarrow> Inl e
           | Inr manifestResource \<Rightarrow>
               (let resourceList = rev (ResourceSet_List (resources_of c));
                    dirs = filter (\<lambda>r. res_Path r \<noteq> ComponentManifestFile \<and> \<not> IsFile r) resourceList
                in case collect (remove_resource dm mgr opts c) resourceList of
                  Inl e \<Rightarrow> Inl e
                | Inr files \<Rightarrow>
                    Inr (files @ map (mk_action ActionRemove c) dirs @
                         [remove_action dm c manifestResource,
                          mk_action ActionRemove c (component_resource (comp_Name c))]))))"

subsection \<open>The three cases\<close>

text \<open>A script resource of the component, looked up when its name is set.\<close>

definition script_action ::
    "string \<Rightarrow> Component \<Rightarrow> string \<Rightarrow> (Resource \<Rightarrow> Action) \<Rightarrow> Action list result" where
  "script_action msg c script act =
     (if script = [] then Inr []
      else case wrap_error msg (ResourceSet_Get (resources_of c) script) of
        Inl e \<Rightarrow> Inl e
      | Inr r \<Rightarrow> Inr [act r])"

definition oneshot_metadata :: "string \<Rightarrow> ActionMetadata" where
  "oneshot_metadata name = zero_ActionMetadata\<lparr>md_OneshotName := Some name\<rparr>"

definition PlanFreshComponent ::
    "'u unit_parser \<Rightarrow> differ \<Rightarrow> PlannerConfig \<Rightarrow> HostStateManager \<Rightarrow> ComponentTree \<Rightarrow>
       (Action list \<times> ComponentTree) result" where
  "PlanFreshComponent up dm opts mgr tree =
     (case ct_Source tree of
        None \<Rightarrow> Inl (Panic ''nil pointer dereference'')
      | Some source \<Rightarrow>
     (case wrap_error ''can't generate fresh resources'' (generateFreshComponentResources dm source) of
        Inl e \<Rightarrow> Inl e
      | Inr resourceActions \<Rightarrow>
     (case wrap_error ''can't ensure resources'' (generateQuadletEnsurements mgr source source) of
        Inl e \<Rightarrow> Inl e
      | Inr ensureActions \<Rightarrow>
          (let resourceActions = resourceActions @ ensureActions in
           if pc_OnlyResources opts then Inr (resourceActions, tree)
           else
             (let resourceActions =
                    (if resourceActions \<noteq> [] then resourceActions @ [reload_action] else resourceActions)
              in case wrap_error ''can't plan fresh services'' (GenerateServiceActions up mgr (Some source) None) of
                Inl e \<Rightarrow> Inl e
              | Inr serviceActions \<Rightarrow>
             (case script_action ''setup resource not found'' source (set_SetupScript (comp_Settings source))
                     (\<lambda>r. (mk_action ActionSetup source r)\<lparr>act_Priority := 5\<rparr>) of
                Inl e \<Rightarrow> Inl e
              | Inr script \<Rightarrow>
                  Inr (resourceActions @ serviceActions @ script,
                       tree\<lparr>ct_FinalState := StateFresh\<rparr>)))))))"

definition PlanRemovedComponent ::
    "'u unit_parser \<Rightarrow> differ \<Rightarrow> PlannerConfig \<Rightarrow> HostStateManager \<Rightarrow> ComponentTree \<Rightarrow>
       (Action list \<times> ComponentTree) result" where
  "PlanRemovedComponent up dm opts mgr tree =
     (case ct_Host tree of
        None \<Rightarrow> Inl (Panic ''nil pointer dereference'')
      | Some host \<Rightarrow>
     (case wrap_error ''can't generate removed resources'' (generateRemovedComponentResources dm mgr opts host) of
        Inl e \<Rightarrow> Inl e
      | Inr resourceActions \<Rightarrow>
          (if pc_OnlyResources opts then Inr (resourceActions, tree)
           else case wrap_error ''can't plan removed services'' (GenerateServiceActions up mgr None (Some host)) of
             Inl e \<Rightarrow> Inl e
           | Inr serviceActions \<Rightarrow>
          (case script_action ''cleanup resource not found'' host (set_CleanupScript (comp_Settings host))
                  (\<lambda>r. (mk_action ActionCleanup host r)\<lparr>act_Priority := 2\<rparr>) of
             Inl e \<Rightarrow> Inl e
           | Inr cleanup \<Rightarrow>
               Inr (resourceActions @ [reload_action] @ serviceActions @ cleanup,
                    tree\<lparr>ct_FinalState := StateNeedRemoval\<rparr>)))))"

text \<open>The pre- and post-update scripts run as oneshot units named after the component.\<close>

definition update_script_action :: "Component \<Rightarrow> int \<Rightarrow> string \<Rightarrow> Resource \<Rightarrow> Action" where
  "update_script_action c priority sfx r =
     (mk_action ActionExecute c r)\<lparr>act_Priority := priority,
        act_Metadata := Some (oneshot_metadata (comp_Name c @ sfx))\<rparr>"

definition version_update :: "Component \<Rightarrow> Component \<Rightarrow> Action" where
  "version_update host source = mk_action ActionUpdate host (component_resource (comp_Name source))"

definition upgraded_host :: "Component \<Rightarrow> Component" where
  "upgraded_host host =
     (if comp_Version host \<noteq> DefaultComponentVersion
      then host\<lparr>comp_Version := DefaultComponentVersion\<rparr> else host)"

text \<open>Triggers of changed resources, then the state of every service: the last part of an update.\<close>

definition update_services ::
    "'u unit_parser \<Rightarrow> HostStateManager \<Rightarrow> Component \<Rightarrow> Component \<Rightarrow> Action list \<Rightarrow>
       (Action list \<times> Action list) result" where
  "update_services up mgr host source resourceActions =
     (case wrap_error ''can't generate component service triggers'' (generateComponentServiceTriggers up source) of
        Inl e \<Rightarrow> Inl e
      | Inr triggeredActions \<Rightarrow>
     (case wrap_error ''unable to trigger services updates''
             (processTriggeredUpdates mgr triggeredActions resourceActions) of
        Inl e \<Rightarrow> Inl e
      | Inr triggeredUpdates \<Rightarrow>
     (case wrap_error ''can't plan changed services'' (GenerateServiceActions up mgr (Some source) (Some host)) of
        Inl e \<Rightarrow> Inl e
      | Inr serviceActions \<Rightarrow> Inr (triggeredUpdates, serviceActions))))"

definition PlanUpdatedComponent ::
    "'u unit_parser \<Rightarrow> differ \<Rightarrow> PlannerConfig \<Rightarrow> HostStateManager \<Rightarrow> ComponentTree \<Rightarrow>
       (Action list \<times> ComponentTree) result" where
  "PlanUpdatedComponent up dm opts mgr tree =
     (case (ct_Host tree, ct_Source tree) of
        (Some host, Some source) \<Rightarrow>
     (case wrap_error ''can't generate resources''
             (generateUpdatedComponentResources up dm mgr opts host source) of
        Inl e \<Rightarrow> Inl e
      | Inr resourceActions \<Rightarrow>
     (case (if resourceActions \<noteq> [] \<and> \<not> pc_OnlyResources opts
            then script_action ''pre-update resource not found'' source (set_PreScript (comp_Settings source))
                   (update_script_action source 1 ''-materia-pre-update.service'')
            else Inr []) of
        Inl e \<Rightarrow> Inl e
      | Inr pre \<Rightarrow>
          (let host' = upgraded_host host;
               resourceActions =
                 (if comp_Version host \<noteq> DefaultComponentVersion
                  then resourceActions @ [version_update host' source] else resourceActions);
               steps = pre @ resourceActions
           in if pc_OnlyResources opts then Inr (steps, tree\<lparr>ct_Host := Some host'\<rparr>)
              else case wrap_error ''can't ensure resources'' (generateQuadletEnsurements mgr host' source) of
                Inl e \<Rightarrow> Inl e
              | Inr ensureActions \<Rightarrow>
             (case (if resourceActions \<noteq> []
                    then script_action ''post-update resource not found'' source
                           (set_PostScript (comp_Settings source))
                           (update_script_action source 4 ''-materia-post-update.service'')
                    else Inr []) of
                Inl e \<Rightarrow> Inl e
              | Inr post \<Rightarrow>
                  (let host'' = (if resourceActions \<noteq> [] then host'\<lparr>comp_State := StateNeedUpdate\<rparr> else host');
                       steps = steps @ ensureActions @
                               (if resourceActions \<noteq> [] then [reload_action] else []) @ post
                   in case update_services up mgr host'' source resourceActions of
                     Inl e \<Rightarrow> Inl e
                   | Inr (triggeredUpdates, serviceActions) \<Rightarrow>
                       (let final = (if serviceActions \<noteq> [] then StateNeedUpdate else StateOK)
                        in Inr (steps @ triggeredUpdates @ serviceActions,
                                tree\<lparr>ct_Host := Some (host''\<lparr>comp_State := final\<rparr>),
                                     ct_FinalState := final\<rparr>)))))))
      | _ \<Rightarrow> Inl (Panic ''nil pointer dereference''))"

subsection \<open>The whole host\<close>

definition plan_tree ::
    "'u unit_parser \<Rightarrow> differ \<Rightarrow> PlannerConfig \<Rightarrow> HostStateManager \<Rightarrow> ComponentTree \<Rightarrow>
       (Action list \<times> ComponentTree) result" where
  "plan_tree up dm opts mgr tree =
     (case (ct_Host tree, ct_Source tree) of
        (None, None) \<Rightarrow> Inl (Panic ''nil pointer dereference'')
      | (None, Some source) \<Rightarrow>
          PlanFreshComponent up dm opts mgr
            (tree\<lparr>ct_Source := Some (source\<lparr>comp_State := StateFresh\<rparr>)\<rparr>)
      | (Some host, None) \<Rightarrow>
          PlanRemovedComponent up dm opts mgr
            (tree\<lparr>ct_Host := Some (host\<lparr>comp_State := StateNeedRemoval\<rparr>)\<rparr>)
      | (Some host, Some source) \<Rightarrow>
          PlanUpdatedComponent up dm opts mgr
            (tree\<lparr>ct_Host := Some (host\<lparr>comp_State := StateMayNeedUpdate\<rparr>),
                 ct_Source := Some (source\<lparr>comp_State := StateFresh\<rparr>)\<rparr>))"

fun plan_trees ::
    "'u unit_parser \<Rightarrow> differ \<Rightarrow> PlannerConfig \<Rightarrow> HostStateManager \<Rightarrow> ComponentTree list \<Rightarrow> Plan \<Rightarrow>
       Plan result" where
  "plan_trees up dm opts mgr [] p = Inr p"
| "plan_trees up dm opts mgr (tree # trees) p =
     (case plan_tree up dm opts mgr tree of
        Inl e \<Rightarrow> Inl e
      | Inr (actions, tree') \<Rightarrow>
     (case wrap_error ''error calculating component differences'' (Plan_Append p actions) of
        Inl e \<Rightarrow> Inl e
      | Inr p' \<Rightarrow> plan_trees up dm opts mgr trees p'))"

definition Planner_Plan ::
    "'u unit_parser \<Rightarrow> differ \<Rightarrow> PlannerConfig \<Rightarrow> HostStateManager \<Rightarrow> Component list \<Rightarrow> Component list \<Rightarrow>
       Plan result" where
  "Planner_Plan up dm opts mgr installedComponents assignedComponents =
     (case BuildComponentGraph installedComponents assignedComponents of
        Inl e \<Rightarrow> Inl e
      | Inr componentGraph \<Rightarrow>
     (case plan_trees up dm opts mgr (Graph_List componentGraph) NewPlan of
        Inl e \<Rightarrow> Inl e
      | Inr actionPlan \<Rightarrow>
     (case Pipeline_Validate (NewDefaultValidationPipeline (map comp_Name installedComponents)) actionPlan of
        Some e \<Rightarrow> Inl (ErrWrapped ''generated invalid plan'' e)
      | None \<Rightarrow> Inr actionPlan)))"

end
