(* ===== verification/Samples.thy ===== *)
theory Samples
  imports Planning
begin

section \<open>Sample hosts and components\<close>

text \<open>
  Concrete values for the parameters of the planner (a parser whose unit file is its text, a diff
  that replaces everything, a host where every unit is loaded and stopped) and a small component.
  The witnesses of the planner's properties evaluate on them.
\<close>

definition demo_parser :: "string unit_parser" where
  "demo_parser =
     \<lparr>up_Parse = Inr,
      up_Lookup = (\<lambda>u g k. if g = ''Container'' \<and> k = ''Image'' then Some u else None),
      up_HasGroup = (\<lambda>u g. g = ''Container''),
      up_HasKey = (\<lambda>u g k. k = ''Image''),
      up_LookupAll = (\<lambda>u g k. [u])\<rparr>"

definition demo_diff :: differ where
  "demo_diff a b =
     (if a = b then (if a = [] then None else Some [(DiffEqual, a)])
      else if a = [] then Some [(DiffInsert, b)]
      else if b = [] then Some [(DiffDelete, a)]
      else Some [(DiffDelete, a), (DiffInsert, b)])"

definition demo_host :: HostStateManager where
  "demo_host =
     \<lparr>hm_ListVolumes = Inr [\<lparr>vol_Name = ''systemd-data'', vol_Mountpoint = [], vol_Driver = ''local''\<rparr>],
      hm_GetNetwork = (\<lambda>n. Inl (ErrSentinel ErrPodmanObjectNotFound)),
      hm_ListImages = Inr [],
      hm_ListNetworks = Inr [],
      hm_GetVolume = (\<lambda>n. Inl (ErrSentinel ErrPodmanObjectNotFound)),
      hm_GetService = (\<lambda>n. Inr (zero_Service\<lparr>svc_Name := n, svc_State := StateInactive_s\<rparr>))\<rparr>"

lemma demo_host_lookup: "service_lookup (hm_GetService demo_host)"
  by unfold_locales (auto simp: demo_host_def)

definition demo_manifest :: Resource where
  "demo_manifest = zero_Resource\<lparr>res_Path := ''MANIFEST.toml'', res_Parent := ''web'',
     res_Kind := ResourceTypeManifest, res_Content := ''[Settings]''\<rparr>"

definition demo_container :: Resource where
  "demo_container = zero_Resource\<lparr>res_Path := ''web.container'', res_Parent := ''web'',
     res_Kind := ResourceTypeContainer, res_Content := ''nginx'', res_HostObject := ''systemd-web''\<rparr>"

definition demo_volume :: Resource where
  "demo_volume = zero_Resource\<lparr>res_Path := ''data.volume'', res_Parent := ''web'',
     res_Kind := ResourceTypeVolume, res_Content := ''v'', res_HostObject := ''systemd-data''\<rparr>"

definition demo_config :: ServiceResourceConfig where
  "demo_config =
     \<lparr>src_Service = ''web.container'', src_RestartedBy = [], src_ReloadedBy = [], src_Disabled = False,
      src_Static = False, src_Stopped = False, src_Oneshot = False, src_Timeout = 0\<rparr>"

definition with_resources :: "Resource list \<Rightarrow> Component \<Rightarrow> Component" where
  "with_resources rs c = c\<lparr>comp_Resources := Some (fold ResourceSet_Set rs NewResourceSet)\<rparr>"

definition demo_component :: Component where
  "demo_component =
     (with_resources [demo_manifest, demo_container, demo_volume] (NewComponent ''web''))
       \<lparr>comp_ServiceConfigs := Some (ServiceConfigSet_Add demo_config NewServiceConfigSet),
        comp_State := StateFresh, comp_Version := 1\<rparr>"

lemma with_resources_inv: "comp_inv c \<Longrightarrow> comp_inv (with_resources rs c)"
  by (simp add: comp_inv_def with_resources_def resources_of_def configs_of_def resource_set.inv_fold
      resource_set.inv_empty)

lemma demo_component_inv: "comp_inv demo_component"
proof -
  have "comp_inv (with_resources [demo_manifest, demo_container, demo_volume] (NewComponent ''web''))"
    by (intro with_resources_inv NewComponent_inv)
  then show ?thesis
    by (simp add: demo_component_def comp_inv_def resources_of_def configs_of_def config_set.inv_put
        config_set.inv_empty)
qed

end
