(* ===== verification/ServicePlanning.thy ===== *)
theory ServicePlanning
  imports Samples
begin

section \<open>Service planning\<close>

text \<open>
  What \<open>serviceStateHelper\<close> and \<open>GenerateServiceActions\<close> achieve: the effect of a service action
  on a service is the specification \<open>apply_service\<close>, and the planned actions bring a service to the
  state its configuration asks for.
\<close>

definition apply_service :: "ActionType \<Rightarrow> Service \<Rightarrow> Service" where
  "apply_service t s = (case t of
       ActionEnable \<Rightarrow> s\<lparr>svc_Enabled := EnableStateEnabled\<rparr>
     | ActionDisable \<Rightarrow> s\<lparr>svc_Enabled := EnableStateDisabled\<rparr>
     | ActionStart \<Rightarrow> s\<lparr>svc_State := StateActive_s\<rparr>
     | ActionStop \<Rightarrow> s\<lparr>svc_State := StateInactive_s\<rparr>
     | _ \<Rightarrow> s)"

lemma enable_states_differ [simp]:
  "EnableStateEnabled \<noteq> EnableStateDisabled" "EnableStateDisabled \<noteq> EnableStateEnabled"
  by (simp_all add: EnableStateEnabled_def EnableStateDisabled_def)

lemma states_differ [simp]:
  "StateActive_s \<noteq> StateInactive_s" "StateInactive_s \<noteq> StateActive_s"
  "StateActive_s \<noteq> StateUnknown_s" "StateInactive_s \<noteq> StateUnknown_s"
  "StateUnknown_s \<noteq> StateActive_s" "StateUnknown_s \<noteq> StateInactive_s"
  "StateInternalWildcard_s \<noteq> StateUnknown_s" "StateInternalWildcard_s \<noteq> StateActive_s"
  "StateInternalWildcard_s \<noteq> StateInactive_s"
  "StateActive_s \<noteq> StateInternalWildcard_s" "StateInactive_s \<noteq> StateInternalWildcard_s"
  "StateActivating_s \<noteq> StateActive_s" "StateActivating_s \<noteq> StateUnknown_s"
  "StateActive_s \<noteq> StateActivating_s"
  by (simp_all add: StateActive_s_def StateInactive_s_def StateUnknown_s_def StateInternalWildcard_s_def
      StateActivating_s_def)

definition known :: "Service \<Rightarrow> bool" where
  "known s \<longleftrightarrow> svc_Name s \<noteq> [] \<and> svc_State s \<noteq> StateUnknown_s"

text \<open>
  C13: For a service the host knows, carrying out what \<open>serviceStateHelper\<close> lists brings it to the
  assigned state on both axes (running and enabled), and planning again then finds nothing to do.
\<close>

theorem serviceStateHelper_converges:
  assumes "known assigned" and "known current"
  shows "let reached = fold apply_service (serviceStateHelper assigned current) current in
     (svc_Enabled reached = EnableStateEnabled \<longleftrightarrow> svc_Enabled assigned = EnableStateEnabled) \<and>
     (svc_State assigned = StateActive_s \<or> svc_State assigned = StateInactive_s
        \<longrightarrow> svc_State reached = svc_State assigned) \<and>
     (svc_State assigned \<noteq> StateActive_s \<and> svc_State assigned \<noteq> StateInactive_s
        \<longrightarrow> svc_State reached = svc_State current) \<and>
     serviceStateHelper assigned reached = []"
  using assms
  by (auto simp: known_def serviceStateHelper_def apply_service_def Let_def)

definition running_web :: Service where
  "running_web = zero_Service\<lparr>svc_Name := ''web.service'', svc_State := StateFailed_s,
     svc_Enabled := EnableStateDisabled\<rparr>"

definition wanted_web :: Service where
  "wanted_web = zero_Service\<lparr>svc_Name := ''web.service'', svc_State := StateActive_s,
     svc_Enabled := EnableStateEnabled\<rparr>"

theorem serviceStateHelper_converges_witness:
  "serviceStateHelper wanted_web running_web = [ActionEnable, ActionStart] \<and>
   serviceStateHelper wanted_web (fold apply_service [ActionEnable, ActionStart] running_web) = []"
proof -
  have k: "known wanted_web" "known running_web"
    by (simp_all add: known_def wanted_web_def running_web_def StateActive_s_def StateFailed_s_def StateUnknown_s_def)
  have "serviceStateHelper wanted_web running_web = [ActionEnable, ActionStart]" by code_simp
  with serviceStateHelper_converges [OF k] show ?thesis by (simp add: Let_def)
qed

subsection \<open>The planned service actions\<close>

text \<open>
  The answer \<open>GenerateServiceActions\<close> keeps for a unit: what the host says about it, whatever other
  names the configurations use for it.
\<close>

lemma live_services_inv:
  "live_services mgr vs S = Inr H \<Longrightarrow> ServiceSet_inv S \<Longrightarrow> ServiceSet_inv H"
  by (induction mgr vs S rule: live_services.induct)
    (auto split: sum.splits if_splits intro: service_set.inv_put)

lemma live_services_answers:
  "live_services mgr vs S = Inr H \<Longrightarrow> v \<in> set vs \<Longrightarrow>
   (\<exists>s. hm_GetService mgr (PathToService v) = Inr s) \<or>
   (\<exists>e. hm_GetService mgr (PathToService v) = Inl e \<and> errors_is e ErrServiceNotFound)"
  by (induction mgr vs S rule: live_services.induct) (auto split: sum.splits if_splits)

lemma live_services_keeps:
  assumes "service_lookup (hm_GetService mgr)" and "hm_GetService mgr u = Inr live" and "PathToService u = u"
    and "live_services mgr vs S = Inr H" and "ServiceSet_inv S" and "tset_get svc_Name S u = Some live"
  shows "tset_get svc_Name H u = Some live"
  using assms(4-)
proof (induction mgr\<equiv>mgr vs S rule: live_services.induct)
  case (1 S)
  then show ?case by simp
next
  case (2 w ws S)
  show ?case
  proof (cases "hm_GetService mgr (PathToService w)")
    case (Inr s)
    with assms(1) have name: "svc_Name s = PathToService w"
      by (rule service_lookup.lookup_name)
    have "tset_get svc_Name (ServiceSet_Add s S) u = Some live"
    proof (cases "u = PathToService w")
      case True
      with Inr assms(2) "2.prems" name show ?thesis by (simp add: service_set.get_put)
    next
      case False
      with "2.prems" name show ?thesis by (simp add: service_set.get_put)
    qed
    with 2 Inr show ?thesis by (simp add: service_set.inv_put)
  next
    case (Inl e)
    let ?gone = "zero_Service\<lparr>svc_Name := w, svc_State := StateInactive_s\<rparr>"
    from Inl "2.prems"(1) have e: "errors_is e ErrServiceNotFound"
      and rest: "live_services mgr ws (ServiceSet_Add ?gone S) = Inr H"
      by (auto split: if_splits)
    have "w \<noteq> u" using Inl assms(2,3) by auto
    with "2.prems" have "tset_get svc_Name (ServiceSet_Add ?gone S) u = Some live"
      by (simp add: service_set.get_put)
    with "2.hyps"(1) [OF Inl e rest] "2.prems"(2) show ?thesis by (simp add: service_set.inv_put)
  qed
qed

lemma live_services_found:
  assumes "service_lookup (hm_GetService mgr)"
    and "live_services mgr vs S = Inr H" and "ServiceSet_inv S" and "v \<in> set vs"
    and "hm_GetService mgr (PathToService v) = Inr live"
  shows "tset_get svc_Name H (PathToService v) = Some live"
  using assms(2-4)
proof (induction mgr\<equiv>mgr vs S rule: live_services.induct)
  case (1 S)
  then show ?case by simp
next
  case (2 w ws S)
  show ?case
  proof (cases "v \<in> set ws")
    case True
    with 2 show ?thesis by (auto split: sum.splits if_splits simp: service_set.inv_put)
  next
    case False
    with "2.prems"(3) have w: "w = v" by simp
    with "2.prems"(1) assms(5) have rest: "live_services mgr ws (ServiceSet_Add live S) = Inr H" by simp
    have name: "svc_Name live = PathToService v"
      using service_lookup.lookup_name [OF assms(1,5)] .
    show ?thesis
      by (rule live_services_keeps [OF assms(1,5) PathToService_idem rest])
        (use "2.prems"(2) name in \<open>simp_all add: service_set.inv_put service_set.get_put\<close>)
  qed
qed

lemma with_timeout_simps [simp]:
  "act_Todo (with_timeout n a) = act_Todo a" "act_Parent (with_timeout n a) = act_Parent a"
  "act_Target (with_timeout n a) = act_Target a" "act_Priority (with_timeout n a) = act_Priority a"
  by (simp_all add: with_timeout_def)

lemma resourceActionWithMetadata_Inr:
  "resourceActionWithMetadata up res c t = Inr a \<Longrightarrow>
     act_Todo a = t \<and> act_Parent a = Some c \<and> act_Target a = InstantiateResource c res \<and>
     act_Priority a = 0 \<and> IsServiceAction t \<and> (IsQuadlet res \<or> res_Kind res = ResourceTypeService)"
  by (auto simp: resourceActionWithMetadata_def Let_def split: if_splits sum.splits option.splits)

lemma getServiceAction_Inr:
  "getServiceAction up src c t = Inr a \<Longrightarrow>
     act_Todo a = t \<and> act_Parent a = Some c \<and> act_Priority a = 0"
  by (auto simp: getServiceAction_def serviceActionWithMetadata_def
      dest: resourceActionWithMetadata_Inr split: sum.splits)

lemma state_actions_todos:
  assumes "state_actions up (Some c) name ts = Inr as"
  shows "map act_Todo as = ts \<and> (\<forall>a\<in>set as. act_Parent a = Some c)"
proof -
  from assms obtain src where
    "collect (\<lambda>t. case getServiceAction up src c t of Inl e \<Rightarrow> Inl e | Inr act \<Rightarrow> Inr [act]) ts = Inr as"
    by (auto simp: state_actions_def split: sum.splits)
  then show ?thesis
    by (induction ts arbitrary: as) (auto split: sum.splits dest: getServiceAction_Inr)
qed


definition demo_service_actions :: "Action list" where
  "demo_service_actions =
     projr (GenerateServiceActions demo_parser demo_host (Some demo_component) None)"

lemma demo_service_actions_planned:
  "GenerateServiceActions demo_parser demo_host (Some demo_component) None = Inr demo_service_actions \<and>
   demo_config \<in> set (configs_of demo_component) \<and>
   hm_GetService demo_host (PathToService (src_Service demo_config)) =
     Inr (zero_Service\<lparr>svc_Name := ''web.service'', svc_State := StateInactive_s\<rparr>) \<and>
   map act_Todo demo_service_actions = [ActionStart]"
  by code_simp


text \<open>
  A host whose unit \<open>job.service\<close> runs, and a component that was removed and had configured
  \<open>job.container\<close> as a oneshot.
\<close>

definition busy_host :: HostStateManager where
  "busy_host = demo_host\<lparr>hm_GetService :=
     (\<lambda>n. Inr (zero_Service\<lparr>svc_Name := n, svc_State := StateActive_s\<rparr>))\<rparr>"

definition old_job :: "bool \<Rightarrow> string \<Rightarrow> Component" where
  "old_job oneshot name =
     (with_resources [demo_container\<lparr>res_Path := name, res_Kind := FindResourceType name\<rparr>] (NewComponent ''job''))
       \<lparr>comp_ServiceConfigs := Some (ServiceConfigSet_Add
          (demo_config\<lparr>src_Service := name, src_Oneshot := oneshot\<rparr>) NewServiceConfigSet)\<rparr>"

text \<open>
  The stop of a service that is no longer tracked looks it up under the name its configuration
  uses.  Under a unit name the live state decides; under a quadlet name the lookup finds the
  configured state instead, so that of two running services of a removed component, both configured
  as oneshots, only the one configured by its unit name is stopped.
\<close>

theorem untracked_quadlet_uses_configured_state:
  "map_sum id (map act_Todo) (GenerateServiceActions demo_parser busy_host None (Some (old_job True ''job.service''))) =
     Inr [ActionStop] \<and>
   map_sum id (map act_Todo) (GenerateServiceActions demo_parser busy_host None (Some (old_job False ''job.container''))) =
     Inr [ActionStop] \<and>
   map_sum id (map act_Todo) (GenerateServiceActions demo_parser busy_host None (Some (old_job True ''job.container''))) =
     Inr []"
  by code_simp

end
