(* ===== verification/ResourceSets.thy ===== *)
theory ResourceSets
  imports Samples
begin

section \<open>The algebra of resource sets (pkg/components/resourceset.go)\<close>

text \<open>
  The set operations copy into a fresh set with \<open>Add\<close> and ignore its error.  The lemmas give their
  listings, which the planner walks, and their lookups.
\<close>

lemma update_new: "k \<notin> fst ` set m \<Longrightarrow> AList.update k v m = m @ [(k, v)]"
  by (induction m) auto

lemma lhm_get_None: "lhm_get m k = None \<longleftrightarrow> k \<notin> fst ` set m"
  by (simp add: lhm_get_def map_of_eq_None_iff)

lemma fold_add_ignoring:
  "distinct (map fst m @ map res_Path xs) \<Longrightarrow>
   fold add_ignoring xs m = m @ map (\<lambda>r. (res_Path r, r)) xs"
proof (induction xs arbitrary: m)
  case Nil
  then show ?case by simp
next
  case (Cons x xs)
  then have "res_Path x \<notin> fst ` set m" by auto
  then have "add_ignoring x m = m @ [(res_Path x, x)]"
    by (simp add: add_ignoring_def ResourceSet_Add_def lhm_get_None [THEN iffD2] lhm_put_def update_new)
  with Cons show ?case by simp
qed

lemma fold_add_ignoring_entries:
  "distinct (map res_Path xs) \<Longrightarrow> ResourceSet_List (fold add_ignoring xs NewResourceSet) = xs"
  using fold_add_ignoring [of "[]" xs]
  by (simp add: NewResourceSet_def ResourceSet_List_def lhm_values_def comp_def)

lemma add_ignoring_inv: "ResourceSet_inv s \<Longrightarrow> ResourceSet_inv (add_ignoring r s)"
  using resource_set.inv_put [of s r]
  by (auto simp: add_ignoring_def ResourceSet_Add_def ResourceSet_Set_def split: option.split)

lemma fold_add_ignoring_inv: "ResourceSet_inv s \<Longrightarrow> ResourceSet_inv (fold add_ignoring xs s)"
  by (induction xs arbitrary: s) (auto intro: add_ignoring_inv)

lemma List_Difference:
  "ResourceSet_inv r \<Longrightarrow>
   ResourceSet_List (ResourceSet_Difference r s) =
     filter (\<lambda>e. \<not> ResourceSet_Contains s (res_Path e)) (ResourceSet_List r)"
  unfolding ResourceSet_Difference_def
  by (intro fold_add_ignoring_entries distinct_map_filter resource_set.distinct_entries)

lemma List_Intersection:
  "ResourceSet_inv r \<Longrightarrow>
   ResourceSet_List (ResourceSet_Intersection r s) =
     filter (\<lambda>e. ResourceSet_Contains s (res_Path e)) (ResourceSet_List r)"
  unfolding ResourceSet_Intersection_def
  by (intro fold_add_ignoring_entries distinct_map_filter resource_set.distinct_entries)

lemma ResourceSet_ops_inv [inv_intros]:
  "ResourceSet_inv (ResourceSet_Difference r s)" "ResourceSet_inv (ResourceSet_Intersection r s)"
  "ResourceSet_inv (ResourceSet_Union r s)"
  by (simp_all add: ResourceSet_Difference_def ResourceSet_Intersection_def ResourceSet_Union_def
      fold_add_ignoring_inv resource_set.inv_empty)

lemma Contains_iff: "ResourceSet_Contains s p \<longleftrightarrow> lhm_get s p \<noteq> None"
  by (simp add: ResourceSet_Contains_def split: option.split)

lemma get_by_entries:
  assumes "ResourceSet_inv s" and "ResourceSet_inv r"
    and "\<And>e. e \<in> set (ResourceSet_List s) \<longleftrightarrow> e \<in> set (ResourceSet_List r) \<and> P (res_Path e)"
  shows "lhm_get s p = (if P p then lhm_get r p else None)"
proof (cases "lhm_get s p")
  case (Some e)
  then have "e \<in> set (ResourceSet_List s)" and "res_Path e = p"
    using resource_set.get_Some_iff [OF assms(1)] by auto
  with assms(3) have "P p" and "e \<in> set (ResourceSet_List r)" by auto
  moreover from this \<open>res_Path e = p\<close> have "lhm_get r p = Some e"
    using resource_set.get_Some_iff [OF assms(2), of p e] by simp
  ultimately show ?thesis using Some by simp
next
  case None
  show ?thesis
  proof (cases "lhm_get r p")
    case (Some e)
    then have "e \<in> set (ResourceSet_List r)" and "res_Path e = p"
      using resource_set.get_Some_iff [OF assms(2)] by auto
    then show ?thesis using None assms(3) resource_set.get_None_iff [OF assms(1), of p] by auto
  qed (simp add: None)
qed

lemma lhm_get_Difference:
  assumes "ResourceSet_inv r"
  shows "lhm_get (ResourceSet_Difference r s) p = (if lhm_get s p = None then lhm_get r p else None)"
  by (rule get_by_entries) (auto simp: assms ResourceSet_ops_inv List_Difference Contains_iff)

lemma lhm_get_Intersection:
  assumes "ResourceSet_inv r"
  shows "lhm_get (ResourceSet_Intersection r s) p = (if lhm_get s p \<noteq> None then lhm_get r p else None)"
  by (rule get_by_entries [where P = "\<lambda>p. lhm_get s p \<noteq> None"])
    (auto simp: assms ResourceSet_ops_inv List_Intersection Contains_iff)

lemma get_fold_add_ignoring:
  "ResourceSet_inv s \<Longrightarrow> distinct (map res_Path xs) \<Longrightarrow>
   lhm_get (fold add_ignoring xs s) p =
     (case lhm_get s p of Some e \<Rightarrow> Some e | None \<Rightarrow> find (\<lambda>e. res_Path e = p) xs)"
proof (induction xs arbitrary: s)
  case Nil
  then show ?case by (simp split: option.split)
next
  case (Cons x xs)
  have step: "lhm_get (add_ignoring x s) p =
      (case lhm_get s p of Some e \<Rightarrow> Some e | None \<Rightarrow> if res_Path x = p then Some x else None)"
    using resource_set.get_put [OF Cons.prems(1), of x]
    by (auto simp: add_ignoring_def ResourceSet_Add_def ResourceSet_Set_def split: option.split)
  have "find (\<lambda>e. res_Path e = p) xs = None" if "res_Path x = p"
    using Cons.prems(2) that by (auto simp: find_None_iff) (metis image_eqI)
  with step Cons.IH [OF add_ignoring_inv [OF Cons.prems(1)], of x] Cons.prems(2) show ?case
    by (auto split: option.splits)
qed

lemma find_entries: "ResourceSet_inv s \<Longrightarrow> find (\<lambda>e. res_Path e = p) (ResourceSet_List s) = lhm_get s p"
proof (cases "lhm_get s p")
  case None
  assume "ResourceSet_inv s"
  with None show ?thesis
    using resource_set.get_None_iff [of s p] by (auto simp: find_None_iff)
next
  case (Some e)
  assume inv: "ResourceSet_inv s"
  with Some have e: "e \<in> set (ResourceSet_List s)" "res_Path e = p"
    using resource_set.get_Some_iff by blast+
  then obtain e' where f: "find (\<lambda>e. res_Path e = p) (ResourceSet_List s) = Some e'"
    by (cases "find (\<lambda>e. res_Path e = p) (ResourceSet_List s)") (auto simp: find_None_iff)
  then have "e' \<in> set (ResourceSet_List s)" "res_Path e' = p" by (auto simp: find_Some_iff)
  with e inv have "e' = e" using resource_set.entries_inj by metis
  with f Some show ?thesis by simp
qed

text \<open>
  Difference, intersection and union of resource sets are those of the maps from paths to
  resources: the difference and the intersection keep the left operand's entries in their order, and
  on a path in both the union keeps the left one.
\<close>

theorem ResourceSet_algebra:
  assumes "ResourceSet_inv r" and "ResourceSet_inv s"
  shows "lhm_get (ResourceSet_Union r s) = lhm_get s ++ lhm_get r \<and>
     ResourceSet_List (ResourceSet_Difference r s) = filter (\<lambda>e. lhm_get s (res_Path e) = None) (ResourceSet_List r) \<and>
     ResourceSet_List (ResourceSet_Intersection r s) = filter (\<lambda>e. lhm_get s (res_Path e) \<noteq> None) (ResourceSet_List r)"
proof -
  have "lhm_get (ResourceSet_Union r s) p = (lhm_get s ++ lhm_get r) p" for p
    using assms resource_set.distinct_entries
    by (simp add: ResourceSet_Union_def get_fold_add_ignoring fold_add_ignoring_inv
        resource_set.inv_empty resource_set.get_empty find_entries map_add_def split: option.split)
  then show ?thesis
    using assms by (simp add: List_Difference List_Intersection Contains_iff fun_eq_iff)
qed

theorem ResourceSet_algebra_witness:
  "lhm_get (ResourceSet_Union (resources_of demo_component) NewResourceSet) =
     lhm_get NewResourceSet ++ lhm_get (resources_of demo_component) \<and>
   length (ResourceSet_List (ResourceSet_Difference (resources_of demo_component) NewResourceSet)) = 3"
proof -
  have inv: "ResourceSet_inv (resources_of demo_component)" using demo_component_inv by (simp add: comp_inv_def)
  have "length (ResourceSet_List (ResourceSet_Difference (resources_of demo_component) NewResourceSet)) = 3"
    by code_simp
  with ResourceSet_algebra [OF inv resource_set.inv_empty] show ?thesis by simp
qed

end
