(* ===== verification/UpdatePlanning.thy ===== *)
theory UpdatePlanning
  imports ServicePlanning ResourceSets
begin

section \<open>Planning an update\<close>

text \<open>
  What the resource actions of an update are and what they do to the files of the host.  The diff
  library enters by \<open>diff_laws\<close>: the new text can be read off a diff, and a nil diff or a single
  equal piece means equal texts; \<open>diff_refl\<close> says what it returns for equal texts.
\<close>

subsection \<open>Installing, updating, removing\<close>

definition is_crud :: "Action \<Rightarrow> bool" where
  "is_crud a \<longleftrightarrow> IsResourceAction (act_Todo a)"

definition is_dropin :: "Resource \<Rightarrow> bool" where
  "is_dropin r \<longleftrightarrow> res_Kind r = ResourceTypeDropin \<or> res_Kind r = ResourceTypeDropinDir"

text \<open>What is documented of the diff library.\<close>

definition diff_laws :: "differ \<Rightarrow> (Diff list option \<Rightarrow> string) \<Rightarrow> bool" where
  "diff_laws dm text2 \<longleftrightarrow>
     (\<forall>a b. text2 (dm a b) = b) \<and>
     (\<forall>a b. dm a b = None \<longrightarrow> a = b) \<and>
     (\<forall>a b d. dm a b = Some [d] \<and> fst d = DiffEqual \<longrightarrow> a = b)"

lemma generateCleanup_no_crud:
  "generateCleanupResourceActions mgr opts c r = Inr as \<Longrightarrow> filter is_crud as = []"
  by (auto simp: generateCleanupResourceActions_def Let_def is_crud_def IsResourceAction_def filter_empty_conv
      split: if_splits sum.splits)

lemma migration_stop_no_crud:
  "migration_stop up mgr c s = Inr as \<Longrightarrow> \<forall>a\<in>set as. act_Todo a = ActionStop"
  by (auto simp: migration_stop_def Let_def split: if_splits sum.splits option.splits dest: getServiceAction_Inr)

lemma filter_collect:
  assumes "collect f xs = Inr zs" and "\<And>x ys. x \<in> set xs \<Longrightarrow> f x = Inr ys \<Longrightarrow> filter P ys = g x"
  shows "filter P zs = concat (map g xs)"
  using assms
proof (induction xs arbitrary: zs)
  case Nil
  then show ?case by simp
next
  case (Cons x xs)
  from Cons.prems(1) obtain us vs where "f x = Inr us" and "collect f xs = Inr vs" and "zs = us @ vs"
    by (auto split: sum.splits)
  with Cons.IH [of vs] Cons.prems(2) show ?case by auto
qed

lemma concat_map_if: "concat (map (\<lambda>x. if P x then [f x] else []) xs) = map f (filter P xs)"
  by (induction xs) auto

lemma migration_no_crud:
  assumes "generateVolumeMigrationActions up mgr c r = Inr as"
  shows "filter is_crud as = []"
proof -
  have "filter is_crud stops = []"
    if "collect (migration_stop up mgr c) xs = Inr stops" for stops xs
  proof -
    have "\<forall>a\<in>set stops. act_Todo a = ActionStop"
      using collect_memberD [OF that] migration_stop_no_crud by blast
    then show ?thesis by (auto simp: is_crud_def IsResourceAction_def filter_empty_conv)
  qed
  with assms show ?thesis
    by (auto simp: generateVolumeMigrationActions_def is_crud_def IsResourceAction_def migration_start_def
        filter_empty_conv split: if_splits sum.splits)
qed

definition removal :: "Component \<Rightarrow> Resource \<Rightarrow> Action" where
  "removal host r = (mk_action ActionRemove host r)\<lparr>act_DiffContent := Some []\<rparr>"

definition changed :: "differ \<Rightarrow> string \<Rightarrow> string \<Rightarrow> bool" where
  "changed dm old new \<longleftrightarrow> (case dm old new of None \<Rightarrow> False | Some ds \<Rightarrow> map fst ds \<noteq> [DiffEqual])"

definition update_action :: "differ \<Rightarrow> Component \<Rightarrow> Resource \<Rightarrow> string \<Rightarrow> Action" where
  "update_action dm source r new =
     (mk_action ActionUpdate source r)\<lparr>act_DiffContent := dm (res_Content r) new\<rparr>"

definition source_content :: "Component \<Rightarrow> Resource \<Rightarrow> string" where
  "source_content source r =
     (case lhm_get (resources_of source) (res_Path r) of Some s \<Rightarrow> res_Content s | None \<Rightarrow> [])"

lemma remove_missing_crud:
  "remove_missing mgr opts host v = Inr as \<Longrightarrow>
     filter is_crud as = (if \<not> is_dropin v then [removal host v] else [])"
  by (auto simp: remove_missing_def is_dropin_def Let_def removal_def split: if_splits sum.splits
      dest!: generateCleanup_no_crud) (auto simp: is_crud_def IsResourceAction_def)

lemma ResourceSet_Get_Inr: "ResourceSet_Get rs p = Inr r \<longleftrightarrow> lhm_get rs p = Some r"
  by (simp add: ResourceSet_Get_def split: option.split)

lemma update_changed_crud:
  assumes "update_changed up dm mgr opts host source r = Inr as"
    and "lhm_get (resources_of host) (res_Path r) = Some r"
  shows "filter is_crud as =
    (if changed dm (res_Content r) (source_content source r)
     then [update_action dm source r (source_content source r)] else [])"
proof -
  from assms(1) obtain s where s: "lhm_get (resources_of source) (res_Path r) = Some s"
    by (auto simp: update_changed_def ResourceSet_Get_Inr split: sum.splits)
  show ?thesis
  proof (cases "dm (res_Content r) (res_Content s)")
    case None
    with assms s show ?thesis
      by (simp add: update_changed_def ResourceSet_Get_def changed_def source_content_def)
  next
    case (Some ds)
    then obtain d ds' where ds: "ds = d # ds'"
      using assms s by (cases ds) (auto simp: update_changed_def ResourceSet_Get_def)
    let ?u = "update_action dm source r (res_Content s)"
    have u: "is_crud ?u" by (simp add: is_crud_def IsResourceAction_def update_action_def)
    have ueq: "?u = (mk_action ActionUpdate source r)\<lparr>act_DiffContent := Some (d # ds')\<rparr>"
      using Some ds by (simp add: update_action_def)
    from assms s Some ds have "as = (if ds' \<noteq> [] \<or> fst d \<noteq> DiffEqual then [?u] else []) \<or>
        (\<exists>ms. (ds' \<noteq> [] \<or> fst d \<noteq> DiffEqual) \<and>
           generateVolumeMigrationActions up mgr source r = Inr ms \<and> as = ?u # ms)"
      by (auto simp: update_changed_def ResourceSet_Get_def ueq Let_def split: if_splits sum.splits)
    moreover have "changed dm (res_Content r) (res_Content s) \<longleftrightarrow> ds' \<noteq> [] \<or> fst d \<noteq> DiffEqual"
      using Some ds by (auto simp: changed_def)
    ultimately show ?thesis
      using s u migration_no_crud by (auto simp: source_content_def)
  qed
qed

lemma install_is_crud [simp]: "is_crud (install_action dm c r)"
  by (simp add: install_action_def is_crud_def IsResourceAction_def)

lemma update_crud_actions:
  assumes "generateUpdatedComponentResources up dm mgr opts host source = Inr as"
    and "comp_inv host" and "comp_inv source"
  shows "filter is_crud as =
    map (removal host) (filter (\<lambda>r. \<not> is_dropin r)
      (filter (\<lambda>r. lhm_get (resources_of source) (res_Path r) = None) (ResourceSet_List (resources_of host)))) @
    map (install_action dm source)
      (filter (\<lambda>r. lhm_get (resources_of host) (res_Path r) = None) (ResourceSet_List (resources_of source))) @
    map (\<lambda>r. update_action dm source r (source_content source r))
      (filter (\<lambda>r. changed dm (res_Content r) (source_content source r))
        (filter (\<lambda>r. lhm_get (resources_of source) (res_Path r) \<noteq> None) (ResourceSet_List (resources_of host))))"
proof -
  let ?H = "resources_of host" and ?S = "resources_of source"
  from assms have invH: "ResourceSet_inv ?H" and invS: "ResourceSet_inv ?S" by (simp_all add: comp_inv_def)
  from assms(1) obtain removed updated where
    rem: "collect (remove_missing mgr opts host) (ResourceSet_List (ResourceSet_Difference ?H ?S)) = Inr removed" and
    upd: "collect (update_changed up dm mgr opts host source)
        (ResourceSet_List (ResourceSet_Intersection ?H ?S)) = Inr updated" and
    as: "as = removed @ map (install_action dm source) (ResourceSet_List (ResourceSet_Difference ?S ?H)) @ updated"
    by (auto simp: generateUpdatedComponentResources_def Let_def split: option.splits sum.splits)
  have r: "filter is_crud removed =
      map (removal host) (filter (\<lambda>r. \<not> is_dropin r) (ResourceSet_List (ResourceSet_Difference ?H ?S)))"
    using filter_collect [OF rem, of is_crud "\<lambda>v. if \<not> is_dropin v then [removal host v] else []"]
      remove_missing_crud by (simp only: concat_map_if)
  have entry: "lhm_get ?H (res_Path v) = Some v" if "v \<in> set (ResourceSet_List (ResourceSet_Intersection ?H ?S))" for v
    using that invH by (simp add: List_Intersection resource_set.entries_iff)
  have "filter is_crud updated =
      concat (map (\<lambda>r. if changed dm (res_Content r) (source_content source r)
         then [update_action dm source r (source_content source r)] else [])
        (ResourceSet_List (ResourceSet_Intersection ?H ?S)))"
    by (rule filter_collect [OF upd]) (rule update_changed_crud, assumption, rule entry)
  then have u: "filter is_crud updated =
      map (\<lambda>r. update_action dm source r (source_content source r))
        (filter (\<lambda>r. changed dm (res_Content r) (source_content source r))
          (ResourceSet_List (ResourceSet_Intersection ?H ?S)))"
    by (simp only: concat_map_if)
  from as r u show ?thesis
    using invH invS by (simp add: List_Difference List_Intersection Contains_iff comp_def)
qed

subsection \<open>The effect of an update\<close>

text \<open>
  What the executor writes for an install or an update: the new text of the diff, but for secrets
  the content of the target.
\<close>

definition written :: "(Diff list option \<Rightarrow> string) \<Rightarrow> Action \<Rightarrow> string" where
  "written text2 a =
     (if res_Kind (act_Target a) = ResourceTypePodmanSecret then res_Content (act_Target a)
      else text2 (act_DiffContent a))"

definition apply_change ::
    "(Diff list option \<Rightarrow> string) \<Rightarrow> Action \<Rightarrow> (string \<Rightarrow> string option) \<Rightarrow> (string \<Rightarrow> string option)" where
  "apply_change text2 a m =
     (if act_Todo a = ActionRemove then m(res_Path (act_Target a) := None)
      else if act_Todo a = ActionInstall \<or> act_Todo a = ActionUpdate
      then m(res_Path (act_Target a) \<mapsto> written text2 a) else m)"

definition contents :: "Component \<Rightarrow> string \<Rightarrow> string option" where
  "contents c p = map_option res_Content (lhm_get (resources_of c) p)"

lemma fold_apply_crud: "fold (apply_change text2) as m = fold (apply_change text2) (filter is_crud as) m"
  by (induction as arbitrary: m) (auto simp: apply_change_def is_crud_def IsResourceAction_def)

lemma fold_removals:
  "fold (apply_change text2) (map (removal c) rs) m p = (if p \<in> res_Path ` set rs then None else m p)"
  by (induction rs arbitrary: m) (auto simp: apply_change_def removal_def)

lemma fold_writes:
  assumes "\<And>r. r \<in> set rs \<Longrightarrow> act_Todo (f r) = ActionInstall \<or> act_Todo (f r) = ActionUpdate"
    and "\<And>r. r \<in> set rs \<Longrightarrow> act_Target (f r) = r" and "distinct (map res_Path rs)"
  shows "fold (apply_change text2) (map f rs) m p =
    (case find (\<lambda>r. res_Path r = p) rs of None \<Rightarrow> m p | Some r \<Rightarrow> Some (written text2 (f r)))"
  using assms
proof (induction rs arbitrary: m)
  case Nil
  then show ?case by simp
next
  case (Cons r rs)
  have step: "apply_change text2 (f r) m = m(res_Path r \<mapsto> written text2 (f r))"
    using Cons.prems(1) [of r] Cons.prems(2) [of r] by (auto simp: apply_change_def)
  have "find (\<lambda>r. res_Path r = p) rs = None" if "res_Path r = p"
    using Cons.prems(3) that by (auto simp: find_None_iff) (metis image_eqI)
  with step Cons show ?case by (auto split: option.split)
qed

lemma find_filter_entries:
  assumes "ResourceSet_inv s"
  shows "find (\<lambda>r. res_Path r = p) (filter P (ResourceSet_List s)) =
    (case lhm_get s p of None \<Rightarrow> None | Some r \<Rightarrow> if P r then Some r else None)"
proof -
  have d: "distinct (map res_Path (ResourceSet_List s))" using assms by (rule resource_set.distinct_entries)
  then have "find (\<lambda>r. res_Path r = p) (filter P xs) =
      (case find (\<lambda>r. res_Path r = p) xs of None \<Rightarrow> None | Some r \<Rightarrow> if P r then Some r else None)"
    if "distinct (map res_Path xs)" for xs
    using that
  proof (induction xs)
    case (Cons x xs)
    have "find (\<lambda>r. res_Path r = p) xs = None" if "res_Path x = p"
      using Cons.prems that by (auto simp: find_None_iff) (metis image_eqI)
    with Cons show ?case by (auto split: option.splits)
  qed simp
  from this [OF d] show ?thesis by (simp add: find_entries [OF assms])
qed

definition reached :: "Component \<Rightarrow> Component \<Rightarrow> string \<Rightarrow> string option" where
  "reached host source p =
     (case (lhm_get (resources_of host) p, lhm_get (resources_of source) p) of
        (None, None) \<Rightarrow> None
      | (None, Some s) \<Rightarrow> Some (res_Content s)
      | (Some h, None) \<Rightarrow> (if is_dropin h then Some (res_Content h) else None)
      | (Some h, Some s) \<Rightarrow>
          Some (if res_Kind h = ResourceTypePodmanSecret then res_Content h else res_Content s))"

lemma written_install: "diff_laws dm text2 \<Longrightarrow> written text2 (install_action dm c r) = res_Content r"
  by (simp add: diff_laws_def written_def install_action_def diffable_content_def)

lemma written_update:
  "diff_laws dm text2 \<Longrightarrow> written text2 (update_action dm c r new) =
     (if res_Kind r = ResourceTypePodmanSecret then res_Content r else new)"
  by (simp add: diff_laws_def written_def update_action_def)

lemma unchanged_same: "diff_laws dm text2 \<Longrightarrow> \<not> changed dm old new \<Longrightarrow> old = new"
  by (fastforce simp: diff_laws_def changed_def split: option.splits)

lemma update_reaches:
  assumes "generateUpdatedComponentResources up dm mgr opts host source = Inr as"
    and "comp_inv host" and "comp_inv source" and "diff_laws dm text2"
  shows "fold (apply_change text2) as (contents host) p = reached host source p"
proof -
  let ?H = "resources_of host" and ?S = "resources_of source"
  let ?gone = "filter (\<lambda>r. \<not> is_dropin r) (filter (\<lambda>r. lhm_get ?S (res_Path r) = None) (ResourceSet_List ?H))"
  let ?new = "filter (\<lambda>r. lhm_get ?H (res_Path r) = None) (ResourceSet_List ?S)"
  let ?upd = "filter (\<lambda>r. changed dm (res_Content r) (source_content source r))
        (filter (\<lambda>r. lhm_get ?S (res_Path r) \<noteq> None) (ResourceSet_List ?H))"
  let ?u = "\<lambda>r. update_action dm source r (source_content source r)"
  from assms have invH: "ResourceSet_inv ?H" and invS: "ResourceSet_inv ?S" by (simp_all add: comp_inv_def)
  note dH = resource_set.distinct_entries [OF invH] and dS = resource_set.distinct_entries [OF invS]
  have m1: "fold (apply_change text2) (map (removal host) ?gone) (contents host) p =
      (if p \<in> res_Path ` set ?gone then None else contents host p)" for p
    by (rule fold_removals)
  have gone: "p \<in> res_Path ` set ?gone \<longleftrightarrow>
      (\<exists>h. lhm_get ?H p = Some h \<and> lhm_get ?S p = None \<and> \<not> is_dropin h)"
    using resource_set.get_Some_iff [OF invH] by auto
  have m2: "fold (apply_change text2) (map (install_action dm source) ?new) m p =
      (case find (\<lambda>r. res_Path r = p) ?new of None \<Rightarrow> m p | Some r \<Rightarrow> Some (written text2 (install_action dm source r)))" for m
    by (rule fold_writes) (simp_all add: install_action_def dS distinct_map_filter)
  have m3: "fold (apply_change text2) (map ?u ?upd) m p =
      (case find (\<lambda>r. res_Path r = p) ?upd of None \<Rightarrow> m p | Some r \<Rightarrow> Some (written text2 (?u r)))" for m
    by (rule fold_writes) (simp_all add: update_action_def dH distinct_map_filter)
  have path: "lhm_get ?H p = Some h \<Longrightarrow> res_Path h = p" "lhm_get ?S p = Some s \<Longrightarrow> res_Path s = p" for h s
    using resource_set.get_key [OF invH] resource_set.get_key [OF invS] by auto
  have fnew: "find (\<lambda>r. res_Path r = p) ?new =
      (case lhm_get ?S p of None \<Rightarrow> None | Some s \<Rightarrow> if lhm_get ?H p = None then Some s else None)"
    using path by (simp add: find_filter_entries [OF invS] split: option.split)
  have fupd: "find (\<lambda>r. res_Path r = p) ?upd =
      (case lhm_get ?H p of None \<Rightarrow> None | Some h \<Rightarrow>
         if lhm_get ?S p \<noteq> None \<and> changed dm (res_Content h) (source_content source h) then Some h else None)"
    using path find_filter_entries [OF invH, of p
        "\<lambda>r. changed dm (res_Content r) (source_content source r) \<and> lhm_get ?S (res_Path r) \<noteq> None"]
    by (auto simp: conj_commute split: option.splits)
  have sc: "lhm_get ?H p = Some h \<Longrightarrow> source_content source h =
      (case lhm_get ?S p of Some s \<Rightarrow> res_Content s | None \<Rightarrow> [])" for h
    using path by (simp add: source_content_def)
  show ?thesis
    unfolding fold_apply_crud [of text2 as] update_crud_actions [OF assms(1-3)] fold_append comp_apply m2 m3 m1 fnew fupd gone
    using assms(4) unchanged_same [OF assms(4)]
    by (auto simp: reached_def contents_def written_install written_update sc split: option.split)
qed

definition demo_text2 :: "Diff list option \<Rightarrow> string" where
  "demo_text2 ds = (case ds of None \<Rightarrow> [] | Some ds \<Rightarrow> concat (map snd (filter (\<lambda>d. fst d \<noteq> DiffDelete) ds)))"

lemma demo_diff_laws: "diff_laws demo_diff demo_text2"
  by (simp add: diff_laws_def demo_diff_def demo_text2_def)

text \<open>
  C1: Carrying out the resource actions of an update turns the host's files into the source's: every
  path of the source holds the source's text, every other path is gone except the drop-ins, which
  belong to the user.  The one exception is a secret that exists on both sides: the action carries
  the host's resource, so the executor writes the old value back.
\<close>

theorem update_reaches_source:
  assumes "generateUpdatedComponentResources up dm mgr opts host source = Inr as"
    and "comp_inv host" and "comp_inv source" and "diff_laws dm text2"
  shows "fold (apply_change text2) as (contents host) = reached host source"
  using update_reaches [OF assms] by (rule ext)

definition demo_secret :: "string \<Rightarrow> Resource" where
  "demo_secret v = zero_Resource\<lparr>res_Path := ''token'', res_Parent := ''web'',
     res_Kind := ResourceTypePodmanSecret, res_Content := v\<rparr>"

definition demo_old :: Component where
  "demo_old = with_resources
     [demo_manifest, demo_container\<lparr>res_Content := ''httpd''\<rparr>, demo_secret ''old''] demo_component"

definition demo_new :: Component where
  "demo_new = with_resources [demo_manifest, demo_container, demo_volume, demo_secret ''new''] demo_component"

definition demo_update :: "Action list" where
  "demo_update = projr (generateUpdatedComponentResources demo_parser demo_diff demo_host
     DefaultPlannerConfig demo_old demo_new)"

lemma demo_update_planned:
  "generateUpdatedComponentResources demo_parser demo_diff demo_host DefaultPlannerConfig demo_old demo_new =
     Inr demo_update"
  by code_simp

lemma demo_reached:
  "reached demo_old demo_new ''web.container'' = Some ''nginx'' \<and>
   reached demo_old demo_new ''data.volume'' = Some ''v'' \<and>
   reached demo_old demo_new ''token'' = Some ''old''"
  by code_simp

theorem update_reaches_source_witness:
  "fold (apply_change demo_text2) demo_update (contents demo_old) = reached demo_old demo_new \<and>
   fold (apply_change demo_text2) demo_update (contents demo_old) ''web.container'' = Some ''nginx'' \<and>
   fold (apply_change demo_text2) demo_update (contents demo_old) ''token'' = Some ''old''"
proof -
  have "comp_inv demo_old" "comp_inv demo_new"
    unfolding demo_old_def demo_new_def by (intro with_resources_inv demo_component_inv)+
  from update_reaches_source [OF demo_update_planned this demo_diff_laws] demo_reached
  show ?thesis by simp
qed

subsection \<open>Nothing to do\<close>

definition same_contents :: "Component \<Rightarrow> Component \<Rightarrow> bool" where
  "same_contents host source \<longleftrightarrow> (\<forall>p. contents host p = contents source p)"

definition diff_refl :: "differ \<Rightarrow> bool" where
  "diff_refl dm \<longleftrightarrow> (\<forall>a. dm a a = None \<or> (\<exists>d. dm a a = Some [d] \<and> fst d = DiffEqual))"

lemma generateUpdated_noop:
  assumes "Component_Validate host = None" and "Component_Validate source = None"
    and "comp_inv host" and "comp_inv source" and "same_contents host source" and "diff_refl dm"
  shows "generateUpdatedComponentResources up dm mgr opts host source = Inr []"
proof -
  let ?H = "resources_of host" and ?S = "resources_of source"
  from assms have invH: "ResourceSet_inv ?H" and invS: "ResourceSet_inv ?S" by (simp_all add: comp_inv_def)
  have eq: "map_option res_Content (lhm_get ?H p) = map_option res_Content (lhm_get ?S p)" for p
    using assms(5) by (simp add: same_contents_def contents_def)
  have none: "lhm_get ?H p = None \<longleftrightarrow> lhm_get ?S p = None" for p
    using eq [of p] by (metis option.map_disc_iff)
  have entry: "lhm_get ?H (res_Path r) = Some r" if "r \<in> set (ResourceSet_List ?H)" for r
    using that invH by (simp add: resource_set.entries_iff)
  have entry': "lhm_get ?S (res_Path r) = Some r" if "r \<in> set (ResourceSet_List ?S)" for r
    using that invS by (simp add: resource_set.entries_iff)
  have d1: "ResourceSet_List (ResourceSet_Difference ?H ?S) = []"
    by (simp add: List_Difference [OF invH] Contains_iff filter_empty_conv) (use entry none in \<open>metis not_None_eq\<close>)
  have d2: "ResourceSet_List (ResourceSet_Difference ?S ?H) = []"
    by (simp add: List_Difference [OF invS] Contains_iff filter_empty_conv) (use entry' none in \<open>metis not_None_eq\<close>)
  have upd: "update_changed up dm mgr opts host source r = Inr []"
    if r: "r \<in> set (ResourceSet_List (ResourceSet_Intersection ?H ?S))" for r
  proof -
    from r invH have h: "lhm_get ?H (res_Path r) = Some r" by (auto simp: List_Intersection entry)
    with eq [of "res_Path r"] obtain s where s: "lhm_get ?S (res_Path r) = Some s" "res_Content s = res_Content r"
      by (auto simp: map_option_case split: option.splits)
    from assms(6) consider "dm (res_Content r) (res_Content r) = None"
      | d where "dm (res_Content r) (res_Content r) = Some [d]" "fst d = DiffEqual"
      unfolding diff_refl_def by metis
    then show ?thesis
      by cases (simp_all add: update_changed_def ResourceSet_Get_def h s)
  qed
  have "collect (update_changed up dm mgr opts host source)
      (ResourceSet_List (ResourceSet_Intersection ?H ?S)) = Inr (concat (map (\<lambda>_. []) (ResourceSet_List (ResourceSet_Intersection ?H ?S))))"
    by (rule collect_total) (rule upd)
  then have "collect (update_changed up dm mgr opts host source)
      (ResourceSet_List (ResourceSet_Intersection ?H ?S)) = Inr []" by simp
  with d1 d2 show ?thesis
    using assms(1,2) by (simp add: generateUpdatedComponentResources_def Let_def)
qed

lemma serviceStateHelper_set:
  "set (serviceStateHelper assigned current) \<subseteq> {ActionEnable, ActionDisable, ActionStart, ActionStop}"
  by (auto simp: serviceStateHelper_def)

lemma state_actions_set:
  "state_actions up c name ts = Inr as \<Longrightarrow> act_Todo ` set as \<subseteq> set ts"
proof (cases c)
  case None
  then show "state_actions up c name ts = Inr as \<Longrightarrow> act_Todo ` set as \<subseteq> set ts"
    by (simp add: state_actions_def)
next
  case (Some c')
  assume "state_actions up c name ts = Inr as"
  with Some state_actions_todos [of up c' name ts as] show ?thesis by (metis list.set_map subset_refl)
qed

lemma GenerateServiceActions_set:
  assumes "GenerateServiceActions up mgr source host = Inr as" and "a \<in> set as"
  shows "act_Todo a \<in> {ActionEnable, ActionDisable, ActionStart, ActionStop}"
proof -
  have seg: "act_Todo a \<in> {ActionEnable, ActionDisable, ActionStart, ActionStop}"
    if "state_actions up c name (serviceStateHelper v w) = Inr ys" and "a \<in> set ys" for c name v w ys
    using state_actions_set [OF that(1)] serviceStateHelper_set [of v w] that(2) by blast
  from assms(1) obtain H stops changes xs zs where
    st: "collect (stop_untracked up H host) xs = Inr stops" and
    ch: "collect (change_tracked up H source) zs = Inr changes" and as: "as = stops @ changes"
    by (auto simp: GenerateServiceActions_def Let_def split: sum.splits)
  from assms(2) as consider "a \<in> set stops" | "a \<in> set changes" by auto
  then show ?thesis
  proof cases
    case 1
    from collect_memberD [OF st 1] obtain x ys where "stop_untracked up H host x = Inr ys" and a: "a \<in> set ys"
      by blast
    then obtain w where "state_actions up host (svc_Name x) (serviceStateHelper zero_Service w) = Inr ys"
      by (auto simp: stop_untracked_def split: sum.splits if_splits)
    then show ?thesis using a by (rule seg)
  next
    case 2
    from collect_memberD [OF ch 2] obtain x ys where "change_tracked up H source x = Inr ys" and a: "a \<in> set ys"
      by blast
    then obtain w where "state_actions up source (svc_Name x) (serviceStateHelper x w) = Inr ys"
      by (auto simp: change_tracked_def split: sum.splits if_splits)
    then show ?thesis using a by (rule seg)
  qed
qed

lemma generateQuadletEnsurements_set:
  assumes "generateQuadletEnsurements mgr c d = Inr as" and "a \<in> set as"
  shows "act_Todo a = ActionEnsure \<and> act_Parent a = Some c \<and> act_Priority a = 0 \<and>
     act_Target a \<in> set (questionable c d)"
proof -
  from assms obtain vs ns where "collect (ensure_resource mgr vs ns c) (questionable c d) = Inr as"
    by (auto simp: generateQuadletEnsurements_def Let_def split: if_splits sum.splits)
  from collect_memberD [OF this assms(2)] obtain r ys
    where "r \<in> set (questionable c d)" "ensure_resource mgr vs ns c r = Inr ys" "a \<in> set ys" by blast
  then show ?thesis by (auto simp: ensure_resource_def split: sum.splits if_splits)
qed

text \<open>
  C3: Planning is idempotent: when the host already has what the source assigns and the component's
  version is current, the plan installs, removes, updates, restarts and reloads nothing; all it may
  hold is ensured volumes and networks and services brought to their state.
\<close>

theorem PlanUpdated_idempotent:
  assumes "PlanUpdatedComponent up dm opts mgr tree = Inr (as, tree')"
    and "ct_Host tree = Some host" and "ct_Source tree = Some source"
    and "comp_inv host" and "comp_inv source" and "same_contents host source" and "diff_refl dm"
    and "comp_Version host = DefaultComponentVersion"
  shows "list_all (\<lambda>a. act_Todo a \<in> {ActionEnsure, ActionEnable, ActionDisable, ActionStart, ActionStop}) as"
proof -
  from assms(1-3) obtain ra where ra: "generateUpdatedComponentResources up dm mgr opts host source = Inr ra"
    by (auto simp: PlanUpdatedComponent_def split: sum.splits)
  then have "Component_Validate host = None" "Component_Validate source = None"
    by (auto simp: generateUpdatedComponentResources_def split: option.splits)
  from generateUpdated_noop [OF this assms(4-7)] have noop:
    "generateUpdatedComponentResources up dm mgr opts host source = Inr []" by blast
  show ?thesis
  proof (cases "pc_OnlyResources opts")
    case True
    with assms noop show ?thesis by (simp add: PlanUpdatedComponent_def)
  next
    case False
    with assms noop obtain ens sas where
      ens: "generateQuadletEnsurements mgr host source = Inr ens" and
      sas: "GenerateServiceActions up mgr (Some source) (Some host) = Inr sas" and as: "as = ens @ sas"
      by (auto simp: PlanUpdatedComponent_def update_services_def processTriggeredUpdates_def
          upgraded_host_def Let_def split: sum.splits)
    show ?thesis
      using generateQuadletEnsurements_set [OF ens] GenerateServiceActions_set [OF sas]
      by (auto simp: as list_all_iff)
  qed
qed

definition demo_tree :: ComponentTree where
  "demo_tree = \<lparr>ct_Host = Some demo_component, ct_Source = Some demo_component, ct_Name = ''web'',
     ct_FinalState = StateUnknown\<rparr>"

lemma demo_tree_planned:
  "PlanUpdatedComponent demo_parser demo_diff DefaultPlannerConfig demo_host demo_tree =
     Inr (projr (PlanUpdatedComponent demo_parser demo_diff DefaultPlannerConfig demo_host demo_tree)) \<and>
   map act_Todo (fst (projr (PlanUpdatedComponent demo_parser demo_diff DefaultPlannerConfig demo_host demo_tree))) =
     [ActionStart]"
  by code_simp

theorem PlanUpdated_idempotent_witness:
  "list_all (\<lambda>a. act_Todo a \<in> {ActionEnsure, ActionEnable, ActionDisable, ActionStart, ActionStop})
     (fst (projr (PlanUpdatedComponent demo_parser demo_diff DefaultPlannerConfig demo_host demo_tree)))"
proof (rule PlanUpdated_idempotent [OF _ _ _ demo_component_inv demo_component_inv])
  show "PlanUpdatedComponent demo_parser demo_diff DefaultPlannerConfig demo_host demo_tree =
      Inr (fst (projr (PlanUpdatedComponent demo_parser demo_diff DefaultPlannerConfig demo_host demo_tree)),
           snd (projr (PlanUpdatedComponent demo_parser demo_diff DefaultPlannerConfig demo_host demo_tree)))"
    using demo_tree_planned by simp
  show "diff_refl demo_diff" by (simp add: diff_refl_def demo_diff_def)
  show "same_contents demo_component demo_component" by (simp add: same_contents_def)
  show "comp_Version demo_component = DefaultComponentVersion" by code_simp
qed (simp_all add: demo_tree_def)

end
