(* ===== verification/RemovalPlanning.thy ===== *)
theory RemovalPlanning
  imports UpdatePlanning
begin

section \<open>Migrating volumes and removing components\<close>

text \<open>
  The two places where the order inside one component matters most, followed from the generated
  actions into the plan that is built from them.
\<close>

subsection \<open>Migrating a volume\<close>

lemma sort_key_snoc_max:
  "\<forall>y\<in>set xs. f y \<le> f x \<Longrightarrow> sort_key f (xs @ [x]) = sort_key f xs @ [x]"
  by (rule properties_for_sort_key) (auto simp: filter_eq_sort_key sorted_append)

lemma sort_key_Cons_min:
  "\<forall>y\<in>set xs. f x \<le> f y \<Longrightarrow> sort_key f (x # xs) = x # sort_key f xs"
  by (rule properties_for_sort_key) (auto simp: filter_eq_sort_key)

lemma migration_stop_Inr:
  assumes "migration_stop up mgr c s = Inr as" and "a \<in> set as"
  shows "act_Todo a = ActionStop \<and> act_Parent a = Some c \<and> act_Priority a = 1"
  using assms
  by (auto simp: migration_stop_def Let_def split: if_splits sum.splits option.splits dest: getServiceAction_Inr)

lemma migration_start_simps [simp]:
  "act_Todo (migration_start c s) = ActionStart" "act_Parent (migration_start c s) = Some c"
  "act_Target (migration_start c s) = act_Target s" "act_Priority (migration_start c s) = 5"
  by (simp_all add: migration_start_def)

lemma map_const_replicate: "(\<And>x. x \<in> set xs \<Longrightarrow> f x = c) \<Longrightarrow> map f xs = replicate (length xs) c"
  by (induction xs) auto

lemma migration_shape:
  assumes "generateVolumeMigrationActions up mgr c r = Inr as" and "as \<noteq> []"
  obtains stops where "as = stops @
      [(mk_action ActionDump c r)\<lparr>act_Priority := 1\<rparr>, (mk_action ActionCleanup c r)\<lparr>act_Priority := 2\<rparr>,
       (mk_action ActionEnsure c r)\<lparr>act_Priority := 4\<rparr>, (mk_action ActionImport c r)\<lparr>act_Priority := 4\<rparr>] @
      map (migration_start c) stops"
    and "\<And>s. s \<in> set stops \<Longrightarrow> act_Todo s = ActionStop \<and> act_Parent s = Some c \<and> act_Priority s = 1"
proof -
  from assms obtain stops where
    st: "collect (migration_stop up mgr c) (ServiceConfigSet_List (configs_of c)) = Inr stops" and
    as: "as = stops @
      [(mk_action ActionDump c r)\<lparr>act_Priority := 1\<rparr>, (mk_action ActionCleanup c r)\<lparr>act_Priority := 2\<rparr>,
       (mk_action ActionEnsure c r)\<lparr>act_Priority := 4\<rparr>, (mk_action ActionImport c r)\<lparr>act_Priority := 4\<rparr>] @
      map (migration_start c) stops"
    by (auto simp: generateVolumeMigrationActions_def split: if_splits sum.splits)
  have "act_Todo s = ActionStop \<and> act_Parent s = Some c \<and> act_Priority s = 1" if "s \<in> set stops" for s
    using collect_memberD [OF st that] migration_stop_Inr by blast
  with as show thesis by (rule that)
qed

text \<open>
  C6: Migrating a volume keeps its order inside a plan: all its steps go to the resource changes of
  the component, where they stand as generated: every running service is stopped, then the volume is
  dumped, removed, created again and filled, and the same services are started.
\<close>

theorem migration_order:
  assumes "generateVolumeMigrationActions up mgr c r = Inr as" and "Plan_Append NewPlan as = Inr p"
    and "as \<noteq> []"
  shows "getResourceChanges p (comp_Name c) = as \<and>
     (\<exists>k. map act_Todo as = replicate k ActionStop @
        [ActionDump, ActionCleanup, ActionEnsure, ActionImport] @ replicate k ActionStart \<and>
        map act_Target (take k as) = map act_Target (drop (k + 4) as))"
proof -
  from migration_shape [OF assms(1,3)] obtain stops where as: "as = stops @
      [(mk_action ActionDump c r)\<lparr>act_Priority := 1\<rparr>, (mk_action ActionCleanup c r)\<lparr>act_Priority := 2\<rparr>,
       (mk_action ActionEnsure c r)\<lparr>act_Priority := 4\<rparr>, (mk_action ActionImport c r)\<lparr>act_Priority := 4\<rparr>] @
      map (migration_start c) stops"
    and stops: "\<And>s. s \<in> set stops \<Longrightarrow> act_Todo s = ActionStop \<and> act_Parent s = Some c \<and> act_Priority s = 1"
    by blast
  have prio: "act_Priority a \<noteq> 0 \<and> parent_name a = comp_Name c" if "a \<in> set as" for a
    using that stops by (auto simp: as parent_name_def)
  have keep: "filter (\<lambda>a. to_resources a \<and> parent_name a = comp_Name c) as = as"
    using prio by (intro filter_True) (auto simp: to_resources_def to_services_def is_reload_def)
  have same: "map prioritized as = as"
    using prio by (intro map_idI) (auto simp: prioritized_def)
  have "sorted (map act_Priority stops)"
    using stops by (simp add: map_const_replicate [of stops act_Priority 1])
  then have srt: "sorted (map act_Priority as)"
    using stops by (auto simp: as sorted_append comp_def map_const_replicate [of stops "\<lambda>_. 5 :: int" 5])
  from Append_holds [OF assms(2)] have "holds p as" by simp
  then have "getResourceChanges p (comp_Name c) = as"
    by (simp add: holds_def keep same sort_key_id [OF srt])
  moreover have "map act_Todo as = replicate (length stops) ActionStop @
      [ActionDump, ActionCleanup, ActionEnsure, ActionImport] @ replicate (length stops) ActionStart"
    using stops by (simp add: as comp_def map_const_replicate [of stops act_Todo ActionStop]
        map_const_replicate [of stops "\<lambda>_. ActionStart" ActionStart])
  moreover have "map act_Target (take (length stops) as) = map act_Target (drop (length stops + 4) as)"
    by (simp add: as comp_def)
  ultimately show ?thesis by blast
qed

definition demo_running_host :: HostStateManager where
  "demo_running_host = demo_host\<lparr>hm_GetService :=
     (\<lambda>n. Inr (zero_Service\<lparr>svc_Name := n, svc_State := StateActive_s\<rparr>))\<rparr>"

definition demo_migration :: "Action list" where
  "demo_migration = projr (generateVolumeMigrationActions demo_parser demo_running_host demo_component demo_volume)"

lemma demo_migration_planned:
  "generateVolumeMigrationActions demo_parser demo_running_host demo_component demo_volume = Inr demo_migration \<and>
   Plan_Append NewPlan demo_migration = Inr (projr (Plan_Append NewPlan demo_migration)) \<and>
   length demo_migration = 6"
  by code_simp

theorem migration_order_witness:
  "getResourceChanges (projr (Plan_Append NewPlan demo_migration)) (comp_Name demo_component) = demo_migration \<and>
     (\<exists>k. map act_Todo demo_migration = replicate k ActionStop @
        [ActionDump, ActionCleanup, ActionEnsure, ActionImport] @ replicate k ActionStart \<and>
        map act_Target (take k demo_migration) = map act_Target (drop (k + 4) demo_migration))"
  using demo_migration_planned by (intro migration_order) auto

subsection \<open>Removing a component\<close>

definition removes :: "Action \<Rightarrow> bool" where
  "removes a \<longleftrightarrow> act_Todo a = ActionRemove"

lemma cleanup_no_remove:
  "generateCleanupResourceActions mgr opts c r = Inr as \<Longrightarrow>
     \<forall>a\<in>set as. (act_Todo a = ActionCleanup \<or> act_Todo a = ActionDump) \<and> act_Parent a = Some c \<and> act_Priority a = 0"
  by (auto simp: generateCleanupResourceActions_def Let_def split: if_splits sum.splits)

lemma remove_action_simps [simp]:
  "act_Todo (remove_action dm c r) = ActionRemove" "act_Parent (remove_action dm c r) = Some c"
  "act_Target (remove_action dm c r) = r" "act_Priority (remove_action dm c r) = 0"
  by (simp_all add: remove_action_def)

lemma remove_resource_removes:
  assumes "remove_resource dm mgr opts c r = Inr as"
  shows "filter removes as =
    (if res_Path r \<noteq> ComponentManifestFile \<and> IsFile r then [remove_action dm c r] else [])"
proof -
  have none: "filter removes cs = []" if "generateCleanupResourceActions mgr opts c r = Inr cs" for cs
    using cleanup_no_remove [OF that] by (auto simp: removes_def filter_empty_conv)
  have one: "filter removes [remove_action dm c r] = [remove_action dm c r]" by (simp add: removes_def)
  from assms show ?thesis
    by (auto simp: remove_resource_def Let_def none removes_def split: if_splits sum.splits)
qed

lemma removed_shape:
  assumes "generateRemovedComponentResources dm mgr opts c = Inr as"
  obtains m where "lhm_get (resources_of c) ComponentManifestFile = Some m"
    and "filter removes as =
      map (remove_action dm c) (filter (\<lambda>r. res_Path r \<noteq> ComponentManifestFile \<and> IsFile r)
        (rev (ResourceSet_List (resources_of c)))) @
      map (mk_action ActionRemove c) (filter (\<lambda>r. res_Path r \<noteq> ComponentManifestFile \<and> \<not> IsFile r)
        (rev (ResourceSet_List (resources_of c)))) @
      [remove_action dm c m, mk_action ActionRemove c (component_resource (comp_Name c))]"
    and "\<forall>a\<in>set as. act_Parent a = Some c \<and> act_Priority a = 0 \<and>
           act_Todo a \<in> {ActionRemove, ActionCleanup, ActionDump}"
proof -
  let ?L = "rev (ResourceSet_List (resources_of c))"
  let ?dirs = "filter (\<lambda>r. res_Path r \<noteq> ComponentManifestFile \<and> \<not> IsFile r) ?L"
  from assms obtain m files where
    m: "ResourceSet_Get (resources_of c) ComponentManifestFile = Inr m" and
    f: "collect (remove_resource dm mgr opts c) ?L = Inr files" and
    as: "as = files @ map (mk_action ActionRemove c) ?dirs @
      [remove_action dm c m, mk_action ActionRemove c (component_resource (comp_Name c))]"
    by (auto simp: generateRemovedComponentResources_def Let_def split: option.splits if_splits sum.splits)
  have ff: "filter removes files =
      map (remove_action dm c) (filter (\<lambda>r. res_Path r \<noteq> ComponentManifestFile \<and> IsFile r) ?L)"
    using filter_collect [OF f, of removes
        "\<lambda>r. if res_Path r \<noteq> ComponentManifestFile \<and> IsFile r then [remove_action dm c r] else []"]
      remove_resource_removes by (simp only: concat_map_if)
  have fa: "act_Parent a = Some c \<and> act_Priority a = 0 \<and> act_Todo a \<in> {ActionRemove, ActionCleanup, ActionDump}"
    if "a \<in> set files" for a
  proof -
    from collect_memberD [OF f that] obtain r ys where r: "remove_resource dm mgr opts c r = Inr ys" and "a \<in> set ys"
      by blast
    then show ?thesis
      using cleanup_no_remove by (fastforce simp: remove_resource_def Let_def split: if_splits sum.splits)
  qed
  show thesis
  proof (rule that)
    show "lhm_get (resources_of c) ComponentManifestFile = Some m" using m by (simp add: ResourceSet_Get_Inr)
    have "filter removes (map (mk_action ActionRemove c) xs) = map (mk_action ActionRemove c) xs" for xs
      by (rule filter_True) (auto simp: removes_def)
    then show "filter removes as =
      map (remove_action dm c) (filter (\<lambda>r. res_Path r \<noteq> ComponentManifestFile \<and> IsFile r) ?L) @
      map (mk_action ActionRemove c) ?dirs @
      [remove_action dm c m, mk_action ActionRemove c (component_resource (comp_Name c))]"
      by (simp add: as ff removes_def)
    show "\<forall>a\<in>set as. act_Parent a = Some c \<and> act_Priority a = 0 \<and>
           act_Todo a \<in> {ActionRemove, ActionCleanup, ActionDump}"
      using fa by (auto simp: as)
  qed
qed

lemma remove_priority:
  "addable a \<Longrightarrow> act_Todo a = ActionRemove \<Longrightarrow> act_Priority a = 0 \<Longrightarrow> act_Priority (prioritized a) \<le> 4"
  by (cases "res_Kind (act_Target a)")
    (auto simp: addable_def prioritized_def getDefaultPriority_def priorityMap_def crud_priorities_def
      backup_priorities_def unit_priorities_def)

lemma component_remove_priority:
  "act_Priority (prioritized (mk_action ActionRemove c (component_resource n))) = 4"
  by (simp add: prioritized_def getDefaultPriority_def priorityMap_def component_resource_def)

lemma parted_filter:
  assumes "ResourceSet_inv s" and "lhm_get s k = Some m"
  shows "mset (filter (\<lambda>r. res_Path r \<noteq> k \<and> P r) (ResourceSet_List s)) +
     mset (filter (\<lambda>r. res_Path r \<noteq> k \<and> \<not> P r) (ResourceSet_List s)) + {#m#} = mset (ResourceSet_List s)"
proof -
  have part: "mset (filter (\<lambda>r. res_Path r \<noteq> k \<and> P r) xs) + mset (filter (\<lambda>r. res_Path r \<noteq> k \<and> \<not> P r) xs) +
      mset (filter (\<lambda>r. res_Path r = k) xs) = mset xs" for xs
    by (induction xs) auto
  have eq: "filter (\<lambda>r. res_Path r = k) (ResourceSet_List s) = [m]"
  proof -
    have one: "filter (\<lambda>r. f r = k) xs = [m]" if "distinct (map f xs)" "m \<in> set xs" "f m = k"
      for f :: "Resource \<Rightarrow> string" and xs
      using that
    proof (induction xs)
      case (Cons x xs)
      show ?case
      proof (cases "x = m")
        case True
        with Cons.prems have "\<forall>r\<in>set xs. f r \<noteq> k" by (metis distinct.simps(2) image_eqI list.map(2) list.set_map)
        then have "filter (\<lambda>r. f r = k) xs = []" by (simp add: filter_empty_conv)
        with True Cons.prems show ?thesis by simp
      next
        case False
        with Cons.prems have "m \<in> set xs" and "f x \<noteq> k" by auto
        with Cons show ?thesis by simp
      qed
    qed simp
    from assms have "m \<in> set (ResourceSet_List s)" "res_Path m = k"
      using resource_set.get_Some_iff by blast+
    with resource_set.distinct_entries [OF assms(1)] show ?thesis by (rule one)
  qed
  from part [of "ResourceSet_List s"] show ?thesis by (simp only: eq mset.simps)
qed

text \<open>
  C5: A removed component is taken down completely and in order: in its part of the plan every
  resource it has is removed exactly once, and the removal of the component itself is the last of
  the removals.
\<close>

theorem removal_complete_and_last:
  assumes "generateRemovedComponentResources dm mgr opts c = Inr as" and "comp_inv c"
    and "Plan_Append NewPlan as = Inr p"
  shows "let rs = filter removes (getResourceChanges p (comp_Name c)) in
     mset (map act_Target rs) =
       mset (ResourceSet_List (resources_of c)) + {#component_resource (comp_Name c)#} \<and>
     act_Target (last rs) = component_resource (comp_Name c)"
proof -
  let ?L = "rev (ResourceSet_List (resources_of c))"
  let ?top = "mk_action ActionRemove c (component_resource (comp_Name c))"
  from removed_shape [OF assms(1)] obtain m where
    m: "lhm_get (resources_of c) ComponentManifestFile = Some m" and
    shape: "filter removes as =
      map (remove_action dm c) (filter (\<lambda>r. res_Path r \<noteq> ComponentManifestFile \<and> IsFile r) ?L) @
      map (mk_action ActionRemove c) (filter (\<lambda>r. res_Path r \<noteq> ComponentManifestFile \<and> \<not> IsFile r) ?L) @
      [remove_action dm c m, ?top]" and
    all: "\<forall>a\<in>set as. act_Parent a = Some c \<and> act_Priority a = 0 \<and>
           act_Todo a \<in> {ActionRemove, ActionCleanup, ActionDump}" by blast
  from Append_holds [OF assms(3)] have h: "holds p as" and ok: "\<forall>a\<in>set as. addable a" by simp_all
  have "filter (\<lambda>a. to_resources a \<and> parent_name a = comp_Name c) as = as"
    using all by (intro filter_True)
      (auto simp: to_resources_def to_services_def is_reload_def parent_name_def IsServiceAction_def
        service_action_types_def)
  with h have "getResourceChanges p (comp_Name c) = sort_key act_Priority (map prioritized as)"
    by (simp add: holds_def)
  moreover have "removes (prioritized a) = removes a" for a by (simp add: removes_def)
  ultimately have rs: "filter removes (getResourceChanges p (comp_Name c)) =
      sort_key act_Priority (map prioritized (filter removes as))"
    by (simp add: filter_sort filter_map comp_def)
  obtain front where front: "filter removes as = front @ [?top]" using shape by simp
  have low: "act_Priority (prioritized a) \<le> 4" if "a \<in> set front" for a
  proof -
    have "a \<in> set (filter removes as)" using that front by simp
    then have "a \<in> set as" "act_Todo a = ActionRemove" by (simp_all add: removes_def)
    with all ok show ?thesis by (intro remove_priority) auto
  qed
  then have "sort_key act_Priority (map prioritized (filter removes as)) =
      sort_key act_Priority (map prioritized front) @ [prioritized ?top]"
    using component_remove_priority by (simp add: front sort_key_snoc_max)
  with rs have "act_Target (last (filter removes (getResourceChanges p (comp_Name c)))) = component_resource (comp_Name c)"
    by simp
  moreover have "mset (map act_Target (filter removes (getResourceChanges p (comp_Name c)))) =
      mset (map act_Target (filter removes as))"
  proof -
    have "image_mset act_Target (image_mset prioritized M) = image_mset act_Target M" for M
      by (simp add: multiset.map_comp comp_def)
    with rs show ?thesis by simp
  qed
  moreover have "mset (map act_Target (filter removes as)) =
      mset (ResourceSet_List (resources_of c)) + {#component_resource (comp_Name c)#}"
  proof -
    have mr: "mset (filter P (rev xs)) = mset (filter P xs)" for P and xs :: "Resource list"
      by (simp add: rev_filter [symmetric])
    from assms(2) have "ResourceSet_inv (resources_of c)" by (simp add: comp_inv_def)
    from parted_filter [OF this m, of IsFile] show ?thesis
      by (simp add: shape comp_def mr)
  qed
  ultimately show ?thesis by (simp add: Let_def)
qed

definition demo_removed :: Component where
  "demo_removed = demo_component\<lparr>comp_State := StateNeedRemoval\<rparr>"

definition demo_removal :: "Action list" where
  "demo_removal = projr (generateRemovedComponentResources demo_diff demo_host
     (DefaultPlannerConfig\<lparr>pc_CleanupQuadlets := True\<rparr>) demo_removed)"

definition demo_removal_plan :: Plan where
  "demo_removal_plan = projr (Plan_Append NewPlan demo_removal)"

lemma demo_removal_planned:
  "generateRemovedComponentResources demo_diff demo_host
     (DefaultPlannerConfig\<lparr>pc_CleanupQuadlets := True\<rparr>) demo_removed = Inr demo_removal"
  "Plan_Append NewPlan demo_removal = Inr demo_removal_plan"
  by code_simp+

theorem removal_complete_and_last_witness:
  "let rs = filter removes (getResourceChanges demo_removal_plan (comp_Name demo_removed)) in
     mset (map act_Target rs) =
       mset (ResourceSet_List (resources_of demo_removed)) + {#component_resource (comp_Name demo_removed)#} \<and>
     act_Target (last rs) = component_resource (comp_Name demo_removed)"
proof (rule removal_complete_and_last [OF demo_removal_planned(1) _ demo_removal_planned(2)])
  show "comp_inv demo_removed"
    using demo_component_inv by (simp add: demo_removed_def comp_inv_def resources_of_def configs_of_def)
qed

end
