(* ===== verification/PlanSoundness.thy ===== *)
theory PlanSoundness
  imports RemovalPlanning
begin

section \<open>Plans pass their validation\<close>

text \<open>
  Why the planner's own validators do not reject what it plans: the steps of a fresh component, and
  the soundness of every plan that is handed out.
\<close>

subsection \<open>Installing a component\<close>

definition good_target :: "Resource \<Rightarrow> bool" where
  "good_target r \<longleftrightarrow>
     res_Kind r \<noteq> ResourceTypeCombined \<and>
     (IsQuadlet r \<and> res_Kind r \<noteq> ResourceTypeAppFile \<longrightarrow> res_HostObject r \<noteq> [])"

lemma InstantiateResource_good [simp]: "good_target (InstantiateResource c r) = good_target r"
  by (simp add: good_target_def InstantiateResource_def IsQuadlet_def Let_def)

lemma good_targets [simp]:
  "good_target host_resource" "good_target (component_resource n)"
  "good_target (zero_Resource\<lparr>res_Parent := p, res_Path := n, res_Kind := ResourceTypeService\<rparr>)"
  by (simp_all add: good_target_def component_resource_def IsQuadlet_def quadlet_kinds_def)

lemma good_not_headless: "good_target (act_Target a) \<Longrightarrow> \<not> headless_quadlet a"
  by (auto simp: good_target_def headless_quadlet_def)

lemma Steps_members:
  assumes "holds p as" and "x \<in> set (Steps p)"
  shows "x = zero_Action \<or> x = reload_action \<or>
    (\<exists>a\<in>set as. x = prioritized a \<and> (to_resources a \<or> to_services a))"
proof -
  have svc: "x = zero_Action \<or> (\<exists>a\<in>set as. x = prioritized a \<and> to_services a)" if "x \<in> set (service_steps p)"
  proof -
    from that obtain n where "x \<in> set (coalesceServices (getServiceChanges p n))"
      by (auto simp: service_steps_def)
    then have "x = zero_Action \<or> x \<in> set (getServiceChanges p n)" using set_coalesceServices by blast
    with assms(1) show ?thesis by (auto simp: holds_def)
  qed
  from assms(2) have "x \<in> set (resource_steps p) \<or> x = reload_action \<or> x \<in> set (service_steps p)"
    by (auto simp: Steps_def Let_def split: if_splits)
  with svc resource_change_cases [OF assms(1)] show ?thesis by blast
qed

lemma mergeSteps_filter_resources:
  "\<forall>s\<in>set ss. \<not> P s \<Longrightarrow> filter P (mergeStepsIntoPlan rs ss) = filter P rs"
proof (induction rs ss rule: mergeStepsIntoPlan.induct)
  case (1 ss)
  then show ?case by simp
next
  case (2 r rs ss)
  let ?P = "\<lambda>s. act_Priority s \<le> act_Priority r"
  have "filter P (takeWhile ?P ss) = []"
    using 2 by (auto simp: filter_empty_conv dest: set_takeWhileD)
  moreover have "\<forall>s\<in>set (dropWhile ?P ss). \<not> P s"
    using "2.prems" by (auto dest: set_dropWhileD)
  ultimately show ?case using "2.IH" by simp
qed

lemma preceded_by_filter:
  "(\<And>x. P x \<or> Q x \<Longrightarrow> R x) \<Longrightarrow> preceded_by Q P (filter R xs) = preceded_by Q P xs"
  by (induction xs) (auto simp: preceded_by_Cons)

lemma preceded_by_none: "\<forall>x\<in>set xs. \<not> P x \<Longrightarrow> preceded_by Q P xs"
  by (simp add: preceded_by_def)

lemma only_key:
  assumes "distinct (map fst m)" and "fst ` set m = {k}"
  shows "map fst m = [k]"
proof -
  from assms have "set (map fst m) = set [k]" and "distinct [k]" by auto
  with assms(1) show ?thesis
    by (metis distinct_card empty_set length_0_conv length_Suc_conv list.simps(15) singleton_iff list.set_intros(1) One_nat_def length_Cons list.size(3) set_empty)
qed

text \<open>All the resource changes of a plan for one component are its one bucket.\<close>

lemma single_component_steps:
  assumes "holds p as" and "\<forall>a\<in>set as. \<not> is_reload a \<longrightarrow> parent_name a = n" and "n \<noteq> ''root''"
    and "\<exists>a\<in>set as. \<not> is_reload a"
  shows "resource_steps p = sort_key act_Priority (map prioritized (filter to_resources as))"
proof -
  from assms have inv: "tset_inv fst (pl_changesMap p)"
    and "fst ` set (pl_changesMap p) = parent_name ` {a \<in> set as. \<not> is_reload a}" by (simp_all add: holds_def)
  moreover have "parent_name ` {a \<in> set as. \<not> is_reload a} = {n}" using assms(2,4) by auto
  ultimately have "fst ` set (pl_changesMap p) = {n}" by simp
  with inv have "map fst (pl_changesMap p) = [n]"
    by (intro only_key) (simp_all add: tset_inv_def strict_sorted_iff)
  with assms(3) have "resource_steps p = getResourceChanges p n"
    by (simp add: resource_steps_def listComponents_def)
  moreover have "filter (\<lambda>a. to_resources a \<and> parent_name a = n) as = filter to_resources as"
    using assms(2) by (intro filter_cong) (auto simp: to_resources_def)
  ultimately show ?thesis using assms(1) by (simp add: holds_def)
qed

lemma getServiceAction_good:
  assumes "getServiceAction up src c t = Inr a" and "\<forall>r\<in>set (ResourceSet_List (resources_of c)). good_target r"
    and "comp_inv c"
  shows "good_target (act_Target a)"
proof (cases "ResourceSet_Get (resources_of c) (src_Service src)")
  case (Inl e)
  with assms show ?thesis by (auto simp: getServiceAction_def serviceActionWithMetadata_def)
next
  case (Inr r)
  then have "r \<in> set (ResourceSet_List (resources_of c))"
    using assms(3) resource_set.get_Some_iff by (auto simp: ResourceSet_Get_Inr comp_inv_def)
  with assms Inr show ?thesis
    by (auto simp: getServiceAction_def dest: resourceActionWithMetadata_Inr)
qed

lemma state_actions_good:
  assumes "state_actions up (Some c) name ts = Inr as" and "a \<in> set as"
    and "\<forall>r\<in>set (ResourceSet_List (resources_of c)). good_target r" and "comp_inv c"
  shows "good_target (act_Target a) \<and> act_Parent a = Some c \<and> act_Priority a = 0"
proof -
  from assms(1) obtain src where
    col: "collect (\<lambda>t. case getServiceAction up src c t of Inl e \<Rightarrow> Inl e | Inr act \<Rightarrow> Inr [act]) ts = Inr as"
    by (auto simp: state_actions_def split: sum.splits)
  from collect_memberD [OF col assms(2)] obtain t where "getServiceAction up src c t = Inr a"
    by (auto split: sum.splits) (metis sumE)
  with getServiceAction_good [OF this assms(3,4)] show ?thesis by (auto dest: getServiceAction_Inr)
qed

lemma GenerateServiceActions_fresh:
  assumes "GenerateServiceActions up mgr (Some c) None = Inr as" and "a \<in> set as"
    and "\<forall>r\<in>set (ResourceSet_List (resources_of c)). good_target r" and "comp_inv c"
  shows "good_target (act_Target a) \<and> act_Parent a = Some c \<and> act_Priority a = 0"
proof -
  have "ServiceSet_List (ServiceSet_Difference NewServiceSet s) = []" for s
    by (simp add: ServiceSet_Difference_def ServiceSet_List_def NewServiceSet_def tset_entries_def)
  with assms(1) obtain H where
    ch: "collect (change_tracked up H (Some c)) (ServiceSet_List (ToServiceState c)) = Inr as"
    by (auto simp: GenerateServiceActions_def service_state_of_def Let_def split: sum.splits)
  from collect_memberD [OF ch assms(2)] obtain x ys
    where "change_tracked up H (Some c) x = Inr ys" and a: "a \<in> set ys" by blast
  then obtain w where "state_actions up (Some c) (svc_Name x) (serviceStateHelper x w) = Inr ys"
    by (auto simp: change_tracked_def split: sum.splits if_splits)
  then show ?thesis using a assms(3,4) by (rule state_actions_good)
qed

definition fresh_todos :: "ActionType set" where
  "fresh_todos = {ActionInstall, ActionEnsure, ActionReload, ActionEnable, ActionDisable, ActionStart,
     ActionStop, ActionSetup}"

lemma PlanFreshComponent_Inr:
  assumes "PlanFreshComponent up dm opts mgr tree = Inr (as, tree')" and "ct_Source tree = Some c"
    and "\<not> pc_OnlyResources opts"
  shows "\<exists>ra ens sas su. generateFreshComponentResources dm c = Inr ra \<and>
    generateQuadletEnsurements mgr c c = Inr ens \<and>
    GenerateServiceActions up mgr (Some c) None = Inr sas \<and>
    script_action ''setup resource not found'' c (set_SetupScript (comp_Settings c))
      (\<lambda>r. (mk_action ActionSetup c r)\<lparr>act_Priority := 5\<rparr>) = Inr su \<and>
    as = (if ra @ ens \<noteq> [] then (ra @ ens) @ [reload_action] else ra @ ens) @ sas @ su"
proof -
  obtain ra where ra: "generateFreshComponentResources dm c = Inr ra"
    using assms by (cases "generateFreshComponentResources dm c") (simp_all add: PlanFreshComponent_def)
  obtain ens where ens: "generateQuadletEnsurements mgr c c = Inr ens"
    using assms ra by (cases "generateQuadletEnsurements mgr c c") (simp_all add: PlanFreshComponent_def)
  obtain sas where sas: "GenerateServiceActions up mgr (Some c) None = Inr sas"
    using assms ra ens
    by (cases "GenerateServiceActions up mgr (Some c) None") (simp_all add: PlanFreshComponent_def Let_def)
  obtain su where "script_action ''setup resource not found'' c (set_SetupScript (comp_Settings c))
      (\<lambda>r. (mk_action ActionSetup c r)\<lparr>act_Priority := 5\<rparr>) = Inr su"
    using assms ra ens sas
    by (cases "script_action ''setup resource not found'' c (set_SetupScript (comp_Settings c))
      (\<lambda>r. (mk_action ActionSetup c r)\<lparr>act_Priority := 5\<rparr>)") (simp_all add: PlanFreshComponent_def Let_def)
  with assms ra ens sas show ?thesis by (simp add: PlanFreshComponent_def Let_def)
qed

text \<open>The actions of a fresh component: its installation first, and what else there can be.\<close>

lemma fresh_actions:
  assumes "PlanFreshComponent up dm opts mgr tree = Inr (as, tree')" and "ct_Source tree = Some c"
    and "\<not> pc_OnlyResources opts" and "comp_inv c"
    and "\<forall>r\<in>set (ResourceSet_List (resources_of c)). good_target r"
  obtains rest where "as = mk_action ActionInstall c (component_resource (comp_Name c)) # rest"
    and "reload_action \<in> set rest"
    and "\<And>a. a \<in> set rest \<Longrightarrow> a = reload_action \<or>
       good_target (act_Target a) \<and> act_Parent a = Some c \<and>
       (act_Priority a = 0 \<and> act_Todo a \<in> {ActionInstall, ActionEnsure, ActionEnable, ActionDisable, ActionStart, ActionStop} \<or>
        act_Priority a = 5 \<and> act_Todo a = ActionSetup)"
proof -
  let ?top = "mk_action ActionInstall c (component_resource (comp_Name c))"
  let ?inst = "map (install_action dm c) (ResourceSet_List (resources_of c))"
  from PlanFreshComponent_Inr [OF assms(1-3)] obtain ra ens sas su where
    ra: "generateFreshComponentResources dm c = Inr ra" and
    ens: "generateQuadletEnsurements mgr c c = Inr ens" and
    sas: "GenerateServiceActions up mgr (Some c) None = Inr sas" and
    su: "script_action ''setup resource not found'' c (set_SetupScript (comp_Settings c))
      (\<lambda>r. (mk_action ActionSetup c r)\<lparr>act_Priority := 5\<rparr>) = Inr su" and
    as: "as = (if ra @ ens \<noteq> [] then (ra @ ens) @ [reload_action] else ra @ ens) @ sas @ su" by blast
  from ra have ra': "ra = ?top # ?inst"
    by (auto simp: generateFreshComponentResources_def split: option.splits if_splits)
  have inst: "good_target (act_Target a) \<and> act_Parent a = Some c \<and> act_Priority a = 0 \<and> act_Todo a = ActionInstall"
    if "a \<in> set ?inst" for a
    using that assms(5) by (auto simp: install_action_def)
  have ensured: "good_target (act_Target a) \<and> act_Parent a = Some c \<and> act_Priority a = 0 \<and> act_Todo a = ActionEnsure"
    if "a \<in> set ens" for a
    using generateQuadletEnsurements_set [OF ens that] assms(5) by (auto simp: questionable_def)
  have set_up: "good_target (act_Target a) \<and> act_Parent a = Some c \<and> act_Priority a = 5 \<and> act_Todo a = ActionSetup"
    if "a \<in> set su" for a
  proof -
    from su that obtain r where r: "lhm_get (resources_of c) (set_SetupScript (comp_Settings c)) = Some r"
      and a: "a = (mk_action ActionSetup c r)\<lparr>act_Priority := 5\<rparr>"
      by (auto simp: script_action_def ResourceSet_Get_Inr split: if_splits sum.splits)
    from r assms(4) have "r \<in> set (ResourceSet_List (resources_of c))"
      using resource_set.get_Some_iff by (auto simp: comp_inv_def)
    with assms(5) a show ?thesis by simp
  qed
  show thesis
  proof (rule that)
    show "as = ?top # (?inst @ ens @ [reload_action] @ sas @ su)" by (simp add: as ra')
    show "reload_action \<in> set (?inst @ ens @ [reload_action] @ sas @ su)" by simp
    show "a = reload_action \<or>
       good_target (act_Target a) \<and> act_Parent a = Some c \<and>
       (act_Priority a = 0 \<and> act_Todo a \<in> {ActionInstall, ActionEnsure, ActionEnable, ActionDisable, ActionStart, ActionStop} \<or>
        act_Priority a = 5 \<and> act_Todo a = ActionSetup)"
      if "a \<in> set (?inst @ ens @ [reload_action] @ sas @ su)" for a
    proof -
      from that consider "a \<in> set ?inst" | "a \<in> set ens" | "a = reload_action" | "a \<in> set sas" | "a \<in> set su"
        by auto
      then show ?thesis
      proof cases
        case 1
        from inst [OF 1] show ?thesis by simp
      next
        case 2
        from ensured [OF 2] show ?thesis by simp
      next
        case 3
        then show ?thesis by simp
      next
        case 4
        from GenerateServiceActions_fresh [OF sas 4 assms(5,4)] GenerateServiceActions_set [OF sas 4]
        show ?thesis by auto
      next
        case 5
        from set_up [OF 5] show ?thesis by simp
      qed
    qed
  qed
qed

lemma resource_priority_low:
  "addable a \<Longrightarrow> act_Priority a = 0 \<Longrightarrow> act_Todo a \<in> {ActionInstall, ActionEnsure} \<Longrightarrow>
     2 \<le> act_Priority (prioritized a)"
  by (cases "res_Kind (act_Target a)")
    (auto simp: addable_def prioritized_def getDefaultPriority_def priorityMap_def crud_priorities_def
      backup_priorities_def unit_priorities_def)


definition demo_fresh :: "Action list" where
  "demo_fresh = fst (projr (PlanFreshComponent demo_parser demo_diff DefaultPlannerConfig demo_host
     (demo_tree\<lparr>ct_Host := None\<rparr>)))"

definition demo_fresh_plan :: Plan where
  "demo_fresh_plan = projr (Plan_Append NewPlan demo_fresh)"

lemma demo_fresh_planned:
  "PlanFreshComponent demo_parser demo_diff DefaultPlannerConfig demo_host (demo_tree\<lparr>ct_Host := None\<rparr>) =
     Inr (demo_fresh, snd (projr (PlanFreshComponent demo_parser demo_diff DefaultPlannerConfig demo_host
       (demo_tree\<lparr>ct_Host := None\<rparr>))))"
  "Plan_Append NewPlan demo_fresh = Inr demo_fresh_plan"
  by code_simp+


subsection \<open>The whole plan\<close>

lemma plan_trees_appends:
  "plan_trees up dm opts mgr trees q = Inr p \<Longrightarrow> \<exists>as. Plan_Append q as = Inr p"
proof (induction trees arbitrary: q)
  case Nil
  then show ?case by (intro exI [of _ "[]"]) simp
next
  case (Cons t trees)
  then obtain as t' q' where a: "Plan_Append q as = Inr q'" and "plan_trees up dm opts mgr trees q' = Inr p"
    by (auto split: sum.splits prod.splits)
  with Cons.IH obtain bs where b: "Plan_Append q' bs = Inr p" by blast
  have "Plan_Append q (as @ bs) = Inr p"
    using a b by (induction as arbitrary: q) (auto split: sum.splits)
  then show ?case by blast
qed

text \<open>
  C7: Every plan the planner hands out was built by appending actions to an empty plan and its steps
  are sound with respect to the components that were installed.
\<close>

theorem Planner_Plan_sound:
  assumes "Planner_Plan up dm opts mgr installed assigned = Inr p"
  shows "(\<exists>as. Plan_Append NewPlan as = Inr p \<and> holds p as) \<and> sound_steps (map comp_Name installed) (Steps p)"
proof -
  from assms obtain g where
    "plan_trees up dm opts mgr (Graph_List g) NewPlan = Inr p" and
    v: "Pipeline_Validate (NewDefaultValidationPipeline (map comp_Name installed)) p = None"
    by (auto simp: Planner_Plan_def split: sum.splits option.splits)
  then obtain as where "Plan_Append NewPlan as = Inr p" using plan_trees_appends by blast
  with v Append_holds show ?thesis by (auto simp: Pipeline_Validate_def default_pipeline_iff)
qed

definition demo_plan :: Plan where
  "demo_plan = projr (Planner_Plan demo_parser demo_diff DefaultPlannerConfig demo_host [demo_old] [demo_new])"

lemma demo_plan_made:
  "Planner_Plan demo_parser demo_diff DefaultPlannerConfig demo_host [demo_old] [demo_new] = Inr demo_plan"
  by code_simp

theorem Planner_Plan_sound_witness:
  "(\<exists>as. Plan_Append NewPlan as = Inr demo_plan \<and> holds demo_plan as) \<and>
   sound_steps (map comp_Name [demo_old]) (Steps demo_plan)"
  by (rule Planner_Plan_sound [OF demo_plan_made])

end
