(* ===== verification/Executor.thy ===== *)
theory Executor
  imports PlanSoundness
begin

section \<open>The executor (pkg/executor)\<close>

text \<open>
  Executing a plan changes the host.  The host is a state of any type \<open>'h\<close>; the \<open>Host\<close> interface of
  the code is a record of operations on it, and an operation returns the error (or the answer) with
  the state it leaves.  Handlers are the functions of \<open>files.go\<close>, \<open>component.go\<close>, \<open>volume.go\<close>,
  \<open>quadlet.go\<close>, \<open>unit.go\<close>, \<open>scripts.go\<close> and \<open>secret.go\<close>; the table of \<open>handler.go\<close> maps a resource
  kind and an action to one of them.  Reading the new text off a diff is the library's
  \<open>DiffText2\<close>, the parameter \<open>text2\<close>.
\<close>

subsection \<open>The host\<close>

record ContainerListFilter =
  cf_Image :: string
  cf_Volume :: string
  cf_Network :: string
  cf_Pod :: string
  cf_All :: bool

definition zero_ContainerListFilter :: ContainerListFilter where
  "zero_ContainerListFilter =
     \<lparr>cf_Image = [], cf_Volume = [], cf_Network = [], cf_Pod = [], cf_All = False\<rparr>"

record 'h Host =
  ho_ApplyService :: "string \<Rightarrow> ServiceAction \<Rightarrow> int \<Rightarrow> 'h operation"
  ho_GetService :: "string \<Rightarrow> ('h, Service) query"
  ho_RunOneshotCommand :: "int \<Rightarrow> string \<Rightarrow> string list \<Rightarrow> 'h operation"
  ho_WaitUntilState :: "string \<Rightarrow> string \<Rightarrow> int \<Rightarrow> 'h operation"
  ho_ListContainers :: "ContainerListFilter \<Rightarrow> ('h, string list) query"
  ho_ExecContainer :: "string \<Rightarrow> string list \<Rightarrow> 'h operation"
  ho_DumpVolume :: "Volume \<Rightarrow> string \<Rightarrow> 'h operation"
  ho_ImportVolume :: "Volume \<Rightarrow> string \<Rightarrow> 'h operation"
  ho_RemoveVolume :: "Volume \<Rightarrow> 'h operation"
  ho_GetNetwork :: "string \<Rightarrow> ('h, Network) query"
  ho_RemoveNetwork :: "Network \<Rightarrow> 'h operation"
  ho_WriteSecret :: "string \<Rightarrow> string \<Rightarrow> 'h operation"
  ho_RemoveSecret :: "string \<Rightarrow> 'h operation"
  ho_RemoveImage :: "string \<Rightarrow> 'h operation"
  ho_InstallComponent :: "Component option \<Rightarrow> 'h operation"
  ho_UpdateComponent :: "Component option \<Rightarrow> 'h operation"
  ho_RemoveComponent :: "Component option \<Rightarrow> 'h operation"
  ho_InstallResource :: "Resource \<Rightarrow> string \<Rightarrow> 'h operation"
  ho_RemoveResource :: "Resource \<Rightarrow> 'h operation"
  ho_InstallScript :: "string \<Rightarrow> string \<Rightarrow> 'h operation"
  ho_RemoveScript :: "string \<Rightarrow> 'h operation"
  ho_InstallUnit :: "string \<Rightarrow> string \<Rightarrow> 'h operation"
  ho_RemoveUnit :: "string \<Rightarrow> 'h operation"

record ExecutorConfig =
  ec_CleanupComponents :: bool
  ec_MateriaDir :: string
  ec_QuadletDir :: string
  ec_ScriptsDir :: string
  ec_ServiceDir :: string
  ec_OutputDir :: string

definition ExecutorConfig_Validate :: "ExecutorConfig \<Rightarrow> go_error option" where
  "ExecutorConfig_Validate e =
     (if ec_MateriaDir e = [] then Some (ErrMsg ''no materia directory set'')
      else if ec_QuadletDir e = [] then Some (ErrMsg ''no quadlet directory set'')
      else if ec_ScriptsDir e = [] then Some (ErrMsg ''no scripts directory set'')
      else if ec_ServiceDir e = [] then Some (ErrMsg ''no service directory set'')
      else if ec_OutputDir e = [] then Some (ErrMsg ''no output directory set'')
      else None)"

record 'h Executor =
  ex_conf :: ExecutorConfig
  ex_host :: "'h Host"
  ex_defaultTimeout :: int
  ex_text2 :: "Diff list option \<Rightarrow> string"

subsection \<open>Services (service_helpers.go)\<close>

definition getServiceType :: "Action \<Rightarrow> ServiceAction result" where
  "getServiceType a = (case act_Todo a of
       ActionDisable \<Rightarrow> Inr ServiceDisable
     | ActionEnable \<Rightarrow> Inr ServiceEnable
     | ActionReload \<Rightarrow>
         Inr (if res_Kind (act_Target a) = ResourceTypeHost then ServiceReloadUnits else ServiceReloadService)
     | ActionRestart \<Rightarrow> Inr ServiceRestart
     | ActionStart \<Rightarrow> Inr ServiceStart
     | ActionStop \<Rightarrow> Inr ServiceStop
     | _ \<Rightarrow> Inl (Panic ''unexpected actions.ActionType''))"

definition is_service_target :: "Resource \<Rightarrow> bool" where
  "is_service_target r \<longleftrightarrow>
     IsQuadlet r \<or> res_Kind r = ResourceTypeService \<or> res_Kind r = ResourceTypeHost"

definition command_timeout :: "Action \<Rightarrow> int \<Rightarrow> int" where
  "command_timeout command timeout =
     (case act_Metadata command of
        None \<Rightarrow> timeout
      | Some md \<Rightarrow> (case md_ServiceTimeout md of None \<Rightarrow> timeout | Some t \<Rightarrow> t))"

text \<open>A failed state change becomes the error that makes the caller roll back.\<close>

definition unhealthy :: "string \<Rightarrow> 'h operation \<Rightarrow> 'h operation" where
  "unhealthy name f h =
     (case f h of
        (Some e, h') \<Rightarrow>
          (Some (if errors_is e ErrStateChangeFailed then ErrServiceUnhealthy name e else e), h')
      | (None, h') \<Rightarrow> (None, h'))"

definition modifyService :: "'h Host \<Rightarrow> Action \<Rightarrow> int \<Rightarrow> 'h operation" where
  "modifyService sm command timeout =
     (case Action_Validate command of
        Some e \<Rightarrow> fail_op e
      | None \<Rightarrow>
          (let res = act_Target command in
           if \<not> is_service_target res then fail_op (ErrMsg ''tried to modify resource as a service'')
           else case Resource_Validate res of
             Some e \<Rightarrow> fail_op (ErrWrapped ''invalid resource when modifying service'' e)
           | None \<Rightarrow>
               (case getServiceType command of
                  Inl e \<Rightarrow> fail_op e
                | Inr cmd \<Rightarrow>
                    unhealthy (Resource_Service res)
                      (ho_ApplyService sm (Resource_Service res) cmd (command_timeout command timeout)))))"

definition until_state :: "Action \<Rightarrow> string option" where
  "until_state a = (case act_Metadata a of None \<Rightarrow> None | Some md \<Rightarrow> md_ServiceUntilState md)"

definition waitService :: "'h Host \<Rightarrow> Action \<Rightarrow> int \<Rightarrow> 'h operation" where
  "waitService sm command timeout =
     (case Action_Validate command of
        Some e \<Rightarrow> fail_op e
      | None \<Rightarrow>
          (case until_state command of
             None \<Rightarrow> (\<lambda>h. (None, h))
           | Some s \<Rightarrow>
               (let res = act_Target command in
                if \<not> is_service_target res then fail_op (ErrMsg ''tried to wait on resource as a service'')
                else case Resource_Validate res of
                  Some e \<Rightarrow> fail_op (ErrWrapped ''invalid resource when modifying service'' e)
                | None \<Rightarrow>
                    unhealthy (Resource_Service res)
                      (ho_WaitUntilState sm (Resource_Service res) (NewServiceState s)
                         (command_timeout command timeout)))))"

subsection \<open>Handlers\<close>

text \<open>The new text of an install or update action.\<close>

definition resource_data :: "'h Executor \<Rightarrow> Action \<Rightarrow> string result" where
  "resource_data e v =
     (case GetContentAsDiffs v of Inl err \<Rightarrow> Inl err | Inr diffs \<Rightarrow> Inr (ex_text2 e diffs))"

definition installOrUpdateFile :: "'h Executor \<Rightarrow> Action \<Rightarrow> 'h operation" where
  "installOrUpdateFile e v =
     (case resource_data e v of
        Inl err \<Rightarrow> fail_op err
      | Inr data \<Rightarrow> ho_InstallResource (ex_host e) (act_Target v) data)"

definition removeFile :: "'h Executor \<Rightarrow> Action \<Rightarrow> 'h operation" where
  "removeFile e v = ho_RemoveResource (ex_host e) (act_Target v)"

definition installDir :: "'h Executor \<Rightarrow> Action \<Rightarrow> 'h operation" where
  "installDir e v = ho_InstallResource (ex_host e) (act_Target v) []"

definition removeDir :: "'h Executor \<Rightarrow> Action \<Rightarrow> 'h operation" where
  "removeDir e v = ho_RemoveResource (ex_host e) (act_Target v)"

definition installOrUpdateUnit :: "'h Executor \<Rightarrow> Action \<Rightarrow> 'h operation" where
  "installOrUpdateUnit e v =
     (case resource_data e v of
        Inl err \<Rightarrow> fail_op err
      | Inr data \<Rightarrow>
          then_op (ho_InstallResource (ex_host e) (act_Target v) data)
            (ho_InstallUnit (ex_host e) (res_Path (act_Target v)) data))"

definition removeUnit :: "'h Executor \<Rightarrow> Action \<Rightarrow> 'h operation" where
  "removeUnit e v =
     then_op (ho_RemoveResource (ex_host e) (act_Target v))
       (ho_RemoveUnit (ex_host e) (res_Path (act_Target v)))"

definition installOrUpdateScript :: "'h Executor \<Rightarrow> Action \<Rightarrow> 'h operation" where
  "installOrUpdateScript e v =
     (case resource_data e v of
        Inl err \<Rightarrow> fail_op err
      | Inr data \<Rightarrow>
          then_op (ho_InstallResource (ex_host e) (act_Target v) data)
            (ho_InstallScript (ex_host e) (res_Path (act_Target v)) data))"

definition removeScript :: "'h Executor \<Rightarrow> Action \<Rightarrow> 'h operation" where
  "removeScript e v =
     then_op (ho_RemoveResource (ex_host e) (act_Target v))
       (ho_RemoveScript (ex_host e) (res_Path (act_Target v)))"

definition installOrUpdateSecret :: "'h Executor \<Rightarrow> Action \<Rightarrow> 'h operation" where
  "installOrUpdateSecret e v =
     ho_WriteSecret (ex_host e) (res_Path (act_Target v)) (res_Content (act_Target v))"

definition removeSecret :: "'h Executor \<Rightarrow> Action \<Rightarrow> 'h operation" where
  "removeSecret e v = ho_RemoveSecret (ex_host e) (res_Path (act_Target v))"

definition installComponent :: "'h Executor \<Rightarrow> Action \<Rightarrow> 'h operation" where
  "installComponent e v = ho_InstallComponent (ex_host e) (act_Parent v)"

definition updateComponent :: "'h Executor \<Rightarrow> Action \<Rightarrow> 'h operation" where
  "updateComponent e v = ho_UpdateComponent (ex_host e) (act_Parent v)"

definition removeComponent :: "'h Executor \<Rightarrow> Action \<Rightarrow> 'h operation" where
  "removeComponent e v = ho_RemoveComponent (ex_host e) (act_Parent v)"

definition volume_named :: "string \<Rightarrow> string \<Rightarrow> Volume" where
  "volume_named name driver = \<lparr>vol_Name = name, vol_Mountpoint = [], vol_Driver = driver\<rparr>"

text \<open>Skipping what is still in use is a warning in the log, not an error.\<close>

definition cleanupVolume :: "'h Executor \<Rightarrow> Action \<Rightarrow> 'h operation" where
  "cleanupVolume e v h =
     (case ho_ListContainers (ex_host e)
             (zero_ContainerListFilter\<lparr>cf_Volume := res_HostObject (act_Target v), cf_All := True\<rparr>) h of
        (Inl err, h') \<Rightarrow> (Some (ErrWrapped ''can't cleanup volume'' err), h')
      | (Inr containersWithVolume, h') \<Rightarrow>
          (if containersWithVolume \<noteq> [] then (None, h')
           else ho_RemoveVolume (ex_host e) (volume_named (res_HostObject (act_Target v)) []) h'))"

definition importVolume :: "'h Executor \<Rightarrow> Action \<Rightarrow> 'h operation" where
  "importVolume e v =
     (let importName = JoinPath [ec_OutputDir (ex_conf e), res_HostObject (act_Target v) @ ''-volume.tar''];
          importName =
            (case act_Metadata v of
               None \<Rightarrow> importName
             | Some md \<Rightarrow> (case md_VolumeName md of None \<Rightarrow> importName | Some n \<Rightarrow> n))
      in wrap_op ''error importing volume''
           (ho_ImportVolume (ex_host e) (volume_named (res_HostObject (act_Target v)) ''local'') importName))"

definition dumpVolume :: "'h Executor \<Rightarrow> Action \<Rightarrow> 'h operation" where
  "dumpVolume e v =
     wrap_op ''error dumping volume''
       (ho_DumpVolume (ex_host e) (volume_named (res_HostObject (act_Target v)) []) (ec_OutputDir (ex_conf e)))"

definition cleanupNetwork :: "'h Executor \<Rightarrow> Action \<Rightarrow> 'h operation" where
  "cleanupNetwork e v h =
     (case ho_GetNetwork (ex_host e) (res_HostObject (act_Target v)) h of
        (Inl err, h') \<Rightarrow> (Some (ErrWrapped ''can't cleanup network'' err), h')
      | (Inr network, h') \<Rightarrow>
          (if net_Containers network = []
           then ho_RemoveNetwork (ex_host e)
                  \<lparr>net_Name = res_HostObject (act_Target v), net_Containers = []\<rparr> h'
           else (None, h')))"

definition cleanupBuildArtifact :: "'h Executor \<Rightarrow> Action \<Rightarrow> 'h operation" where
  "cleanupBuildArtifact e v h =
     (case ho_ListContainers (ex_host e)
             (zero_ContainerListFilter\<lparr>cf_Image := res_HostObject (act_Target v), cf_All := True\<rparr>) h of
        (Inl err, h') \<Rightarrow> (Some (ErrWrapped ''can't cleanup image/build'' err), h')
      | (Inr containerWithImage, h') \<Rightarrow>
          (if containerWithImage \<noteq> [] then (None, h')
           else ho_RemoveImage (ex_host e) (res_HostObject (act_Target v)) h'))"

definition ensure_restart :: "Action \<Rightarrow> Action" where
  "ensure_restart v =
     zero_Action\<lparr>act_Todo := ActionRestart, act_Parent := act_Parent v,
       act_Target := zero_Resource\<lparr>res_Parent := parent_name v,
         res_Path := Resource_Service (act_Target v), res_Kind := ResourceTypeService\<rparr>\<rparr>"

definition ensureQuadlet :: "'h Executor \<Rightarrow> Action \<Rightarrow> 'h operation" where
  "ensureQuadlet e v =
     then_op (modifyService (ex_host e) reload_action (ex_defaultTimeout e))
       (modifyService (ex_host e) (ensure_restart v) (ex_defaultTimeout e))"

definition serviceAction :: "'h Executor \<Rightarrow> Action \<Rightarrow> 'h operation" where
  "serviceAction e v =
     then_op (modifyService (ex_host e) v (ex_defaultTimeout e))
       (waitService (ex_host e) v (ex_defaultTimeout e))"

definition executeInContainer :: "'h Executor \<Rightarrow> Action \<Rightarrow> 'h operation" where
  "executeInContainer e v =
     (let cmd = (case act_Metadata v of
                   None \<Rightarrow> []
                 | Some md \<Rightarrow> (case md_Command md of None \<Rightarrow> [] | Some c \<Rightarrow> c))
      in if cmd = [] then fail_op (ErrMsg ''action has no command metadata'')
         else wrap_op ''could not execute in container''
                (ho_ExecContainer (ex_host e) (res_HostObject (act_Target v)) (Split cmd '' '')))"

definition script_path :: "'h Executor \<Rightarrow> Action \<Rightarrow> string" where
  "script_path e v = JoinPath [ec_ScriptsDir (ex_conf e), res_Path (act_Target v)]"

text \<open>
  The counterpart of a setup or cleanup script is stopped when it is still active; whatever goes
  wrong there is only logged.
\<close>

definition stop_counterpart :: "'h Executor \<Rightarrow> string \<Rightarrow> 'h operation" where
  "stop_counterpart e name h =
     (case ho_GetService (ex_host e) name h of
        (Inl err, h') \<Rightarrow> (None, h')
      | (Inr srv, h') \<Rightarrow>
          (if svc_State srv = ''active''
           then (None, snd (ho_ApplyService (ex_host e) name ServiceStop (ex_defaultTimeout e) h'))
           else (None, h')))"

definition setupScript :: "'h Executor \<Rightarrow> Action \<Rightarrow> 'h operation" where
  "setupScript e v =
     then_op (ho_RunOneshotCommand (ex_host e) (ex_defaultTimeout e)
                (parent_name v @ ''-materia-setup.service'') [script_path e v])
       (stop_counterpart e (parent_name v @ ''-materia-cleanup.service''))"

definition cleanupScript :: "'h Executor \<Rightarrow> Action \<Rightarrow> 'h operation" where
  "cleanupScript e v =
     then_op (ho_RunOneshotCommand (ex_host e) (ex_defaultTimeout e)
                (parent_name v @ ''-materia-cleanup.service'') [script_path e v])
       (stop_counterpart e (parent_name v @ ''-materia-setup.service''))"

definition executeScript :: "'h Executor \<Rightarrow> Action \<Rightarrow> 'h operation" where
  "executeScript e v =
     (let cmdName = parent_name v @ ''-materia-execute.service'';
          cmdName =
            (case act_Metadata v of
               None \<Rightarrow> cmdName
             | Some md \<Rightarrow> (case md_OneshotName md of None \<Rightarrow> cmdName | Some n \<Rightarrow> n))
      in ho_RunOneshotCommand (ex_host e) (ex_defaultTimeout e) cmdName [script_path e v])"

subsection \<open>Dispatch (handler.go)\<close>

text \<open>The functions the table of handlers refers to, and what they stand for.\<close>

datatype handler =
    H_installComponent | H_updateComponent | H_removeComponent
  | H_installOrUpdateFile | H_removeFile
  | H_ensureQuadlet | H_cleanupVolume | H_importVolume | H_dumpVolume
  | H_serviceAction | H_executeInContainer
  | H_cleanupNetwork | H_cleanupBuildArtifact
  | H_installOrUpdateScript | H_removeScript | H_setupScript | H_cleanupScript | H_executeScript
  | H_installDir | H_removeDir
  | H_installOrUpdateUnit | H_removeUnit
  | H_installOrUpdateSecret | H_removeSecret

definition run_handler :: "handler \<Rightarrow> 'h Executor \<Rightarrow> Action \<Rightarrow> 'h operation" where
  "run_handler f = (case f of
       H_installComponent \<Rightarrow> installComponent
     | H_updateComponent \<Rightarrow> updateComponent
     | H_removeComponent \<Rightarrow> removeComponent
     | H_installOrUpdateFile \<Rightarrow> installOrUpdateFile
     | H_removeFile \<Rightarrow> removeFile
     | H_ensureQuadlet \<Rightarrow> ensureQuadlet
     | H_cleanupVolume \<Rightarrow> cleanupVolume
     | H_importVolume \<Rightarrow> importVolume
     | H_dumpVolume \<Rightarrow> dumpVolume
     | H_serviceAction \<Rightarrow> serviceAction
     | H_executeInContainer \<Rightarrow> executeInContainer
     | H_cleanupNetwork \<Rightarrow> cleanupNetwork
     | H_cleanupBuildArtifact \<Rightarrow> cleanupBuildArtifact
     | H_installOrUpdateScript \<Rightarrow> installOrUpdateScript
     | H_removeScript \<Rightarrow> removeScript
     | H_setupScript \<Rightarrow> setupScript
     | H_cleanupScript \<Rightarrow> cleanupScript
     | H_executeScript \<Rightarrow> executeScript
     | H_installDir \<Rightarrow> installDir
     | H_removeDir \<Rightarrow> removeDir
     | H_installOrUpdateUnit \<Rightarrow> installOrUpdateUnit
     | H_removeUnit \<Rightarrow> removeUnit
     | H_installOrUpdateSecret \<Rightarrow> installOrUpdateSecret
     | H_removeSecret \<Rightarrow> removeSecret)"

definition file_handlers :: "(ActionType \<times> handler) list" where
  "file_handlers =
     [(ActionInstall, H_installOrUpdateFile), (ActionUpdate, H_installOrUpdateFile),
      (ActionRemove, H_removeFile)]"

definition unit_handlers :: "(ActionType \<times> handler) list" where
  "unit_handlers =
     [(ActionStart, H_serviceAction), (ActionStop, H_serviceAction), (ActionRestart, H_serviceAction),
      (ActionEnable, H_serviceAction), (ActionDisable, H_serviceAction)]"

definition dir_handlers :: "(ActionType \<times> handler) list" where
  "dir_handlers = [(ActionInstall, H_installDir), (ActionRemove, H_removeDir)]"

definition handlerList :: "ResourceType \<Rightarrow> (ActionType \<times> handler) list option" where
  "handlerList k = (case k of
       ResourceTypeComponent \<Rightarrow>
         Some [(ActionInstall, H_installComponent), (ActionUpdate, H_updateComponent),
               (ActionRemove, H_removeComponent)]
     | ResourceTypeVolume \<Rightarrow>
         Some (file_handlers @
           [(ActionEnsure, H_ensureQuadlet), (ActionCleanup, H_cleanupVolume),
            (ActionImport, H_importVolume), (ActionDump, H_dumpVolume)])
     | ResourceTypeContainer \<Rightarrow>
         Some (file_handlers @ [(ActionEnsure, H_ensureQuadlet)] @ unit_handlers @
           [(ActionReload, H_serviceAction), (ActionExecute, H_executeInContainer)])
     | ResourceTypePod \<Rightarrow>
         Some (file_handlers @ [(ActionEnsure, H_ensureQuadlet)] @ unit_handlers @
           [(ActionReload, H_serviceAction)])
     | ResourceTypeNetwork \<Rightarrow>
         Some (file_handlers @ [(ActionEnsure, H_ensureQuadlet)] @ unit_handlers @
           [(ActionCleanup, H_cleanupNetwork)])
     | ResourceTypeKube \<Rightarrow>
         Some (file_handlers @ [(ActionEnsure, H_ensureQuadlet)] @ unit_handlers)
     | ResourceTypeBuild \<Rightarrow>
         Some (file_handlers @ [(ActionEnsure, H_ensureQuadlet)] @ unit_handlers @
           [(ActionCleanup, H_cleanupBuildArtifact)])
     | ResourceTypeImage \<Rightarrow>
         Some (file_handlers @ [(ActionEnsure, H_ensureQuadlet)] @ unit_handlers @
           [(ActionCleanup, H_cleanupBuildArtifact)])
     | ResourceTypeCombined \<Rightarrow> Some file_handlers
     | ResourceTypeAppFile \<Rightarrow> Some file_handlers
     | ResourceTypeFile \<Rightarrow> Some file_handlers
     | ResourceTypeDropin \<Rightarrow> Some file_handlers
     | ResourceTypeManifest \<Rightarrow> Some file_handlers
     | ResourceTypeScript \<Rightarrow>
         Some [(ActionInstall, H_installOrUpdateScript), (ActionUpdate, H_installOrUpdateScript),
               (ActionRemove, H_removeScript), (ActionSetup, H_setupScript),
               (ActionCleanup, H_cleanupScript), (ActionExecute, H_executeScript)]
     | ResourceTypeDirectory \<Rightarrow> Some dir_handlers
     | ResourceTypeDropinDir \<Rightarrow> Some dir_handlers
     | ResourceTypeHost \<Rightarrow> Some [(ActionReload, H_serviceAction)]
     | ResourceTypeService \<Rightarrow>
         Some ([(ActionInstall, H_installOrUpdateUnit), (ActionUpdate, H_installOrUpdateUnit),
                (ActionRemove, H_removeUnit)] @ unit_handlers @ [(ActionReload, H_serviceAction)])
     | ResourceTypePodmanSecret \<Rightarrow>
         Some [(ActionInstall, H_installOrUpdateSecret), (ActionUpdate, H_installOrUpdateSecret),
               (ActionRemove, H_removeSecret)]
     | ResourceTypeUnknown \<Rightarrow> None)"

definition find_handler :: "Action \<Rightarrow> handler result" where
  "find_handler v =
     (case handlerList (res_Kind (act_Target v)) of
        None \<Rightarrow> Inl (ErrMsg ''unsupported resource type'')
      | Some handlers \<Rightarrow>
          (case map_of handlers (act_Todo v) of
             None \<Rightarrow> Inl (ErrMsg ''no handler registered for action type'')
           | Some f \<Rightarrow> Inr f))"

definition executeAction :: "'h Executor \<Rightarrow> Action \<Rightarrow> 'h operation" where
  "executeAction e v =
     (case find_handler v of Inl err \<Rightarrow> fail_op err | Inr f \<Rightarrow> run_handler f e v)"

subsection \<open>Executing a plan (execute.go)\<close>

text \<open>The two maps and the counter of \<open>Execute\<close>.\<close>

record exec_state =
  es_lastAction :: "(string \<times> ActionType) list"
  es_expectedServices :: "(string \<times> string) list"
  es_steps :: int

definition zero_exec_state :: exec_state where
  "zero_exec_state = \<lparr>es_lastAction = [], es_expectedServices = [], es_steps = 0\<rparr>"

text \<open>
  What is noted after a step: a service action with a known end state is expected to reach it (and
  the step is not counted), another service action is the last one of its service.
\<close>

definition note_step :: "Action \<Rightarrow> exec_state \<Rightarrow> exec_state" where
  "note_step v s =
     (let service = IsServiceAction (act_Todo v) \<and> res_Kind (act_Target v) \<noteq> ResourceTypeHost;
          name = Resource_Service (act_Target v)
      in case (service, until_state v) of
           (True, Some st) \<Rightarrow>
             s\<lparr>es_expectedServices := AList.update name (NewServiceState st) (es_expectedServices s)\<rparr>
         | (True, None) \<Rightarrow>
             s\<lparr>es_lastAction := AList.update name (act_Todo v) (es_lastAction s),
               es_steps := es_steps s + 1\<rparr>
         | (False, _) \<Rightarrow> s\<lparr>es_steps := es_steps s + 1\<rparr>)"

fun run_steps ::
    "'h Executor \<Rightarrow> Action list \<Rightarrow> exec_state \<Rightarrow> 'h \<Rightarrow> (go_error option \<times> exec_state) \<times> 'h" where
  "run_steps e [] s h = ((None, s), h)"
| "run_steps e (v # vs) s h =
     (case executeAction e v h of
        (Some err, h') \<Rightarrow> ((Some err, s), h')
      | (None, h') \<Rightarrow> run_steps e vs (note_step v s) h')"

text \<open>
  The end state the last action of each service leads to.  Go visits the entries of a map in no
  fixed order: the callers below pass the entries in the order they are visited.
\<close>

fun expect_last ::
    "'h Executor \<Rightarrow> (string \<times> ActionType) list \<Rightarrow> (string \<times> string) list \<Rightarrow> 'h \<Rightarrow>
       (string \<times> string) list result \<times> 'h" where
  "expect_last e [] expected h = (Inr expected, h)"
| "expect_last e ((k, v) # rest) expected h =
     (case ho_GetService (ex_host e) k h of
        (Inl err, h') \<Rightarrow>
          (if errors_is err ErrServiceNotFound \<and> v = ActionStop then expect_last e rest expected h'
           else (Inl (ErrWrapped ''unable to get service for final check'' err), h'))
      | (Inr serv, h') \<Rightarrow>
          (if v = ActionRestart \<or> v = ActionStart \<or> v = ActionReload
           then expect_last e rest (AList.update (svc_Name serv) StateActive_s expected) h'
           else if v = ActionStop
           then expect_last e rest (AList.update (svc_Name serv) StateInactive_s expected) h'
           else if v = ActionEnable \<or> v = ActionDisable then expect_last e rest expected h'
           else (Inl (ErrMsg ''unknown service action state''), h')))"

text \<open>
  One final check: the state a service ended in (none when it is gone) and whether that is bad.
\<close>

definition final_check :: "'h Executor \<Rightarrow> string \<Rightarrow> string \<Rightarrow> 'h \<Rightarrow> (bool \<times> string option) \<times> 'h" where
  "final_check e serv state h =
     (case ho_WaitUntilState (ex_host e) serv state (ex_defaultTimeout e) h of
        (None, h') \<Rightarrow> ((False, Some state), h')
      | (Some err, h') \<Rightarrow>
          (case ho_GetService (ex_host e) serv h' of
             (Inl err', h'') \<Rightarrow>
               (if errors_is err' ErrServiceNotFound \<and> state = StateInactive_s
                then ((True, None), h'') else ((True, Some StateUnknown_s), h''))
           | (Inr fserv, h'') \<Rightarrow> ((True, Some (svc_State fserv)), h'')))"

text \<open>
  The checks run in goroutines; the model runs them one after the other.
\<close>

fun final_checks ::
    "'h Executor \<Rightarrow> (string \<times> string) list \<Rightarrow> (string \<times> string) list \<Rightarrow> bool \<Rightarrow> 'h \<Rightarrow>
       (bool \<times> (string \<times> string) list) \<times> 'h" where
  "final_checks e [] final bad h = ((bad, final), h)"
| "final_checks e ((serv, state) # rest) final bad h =
     (case final_check e serv state h of
        ((b, None), h') \<Rightarrow> final_checks e rest final (bad \<or> b) h'
      | ((b, Some st), h') \<Rightarrow> final_checks e rest (AList.update serv st final) (bad \<or> b) h')"

text \<open>\<open>order\<close> and \<open>order'\<close> are the orders in which the two maps are visited.\<close>

definition Execute ::
    "((string \<times> ActionType) list \<Rightarrow> (string \<times> ActionType) list) \<Rightarrow>
     ((string \<times> string) list \<Rightarrow> (string \<times> string) list) \<Rightarrow>
     'h Executor \<Rightarrow> Plan \<Rightarrow> 'h \<Rightarrow> (int \<times> go_error option) \<times> 'h" where
  "Execute order order' e plan h =
     (if Plan_Empty plan then ((- 1, None), h)
      else case run_steps e (Steps plan) zero_exec_state h of
        ((Some err, s), h1) \<Rightarrow> ((es_steps s, Some err), h1)
      | ((None, s), h1) \<Rightarrow>
          (case expect_last e (order (es_lastAction s)) (es_expectedServices s) h1 of
             (Inl err, h2) \<Rightarrow> ((es_steps s, Some err), h2)
           | (Inr expected, h2) \<Rightarrow>
               (case final_checks e (order' expected) [] False h2 of
                  ((bad, final), h3) \<Rightarrow>
                    ((es_steps s, if bad then Some (ErrFinalStateUnhealthy expected final) else None), h3))))"

end
