(* ===== verification/ExecutorFacts.thy ===== *)
theory ExecutorFacts
  imports Executor
begin

section \<open>What executing a plan does\<close>

text \<open>
  The run of a plan step by step, the dispatch table against the table of priorities, and the guards
  of the cleanup handlers.  \<open>logging_host\<close> is a host that records what it is asked to do and
  whose services do not start; the witnesses run on it.
\<close>

definition log_op :: "string \<Rightarrow> string list operation" where
  "log_op s h = (None, h @ [s])"

definition logging_host :: "string list Host" where
  "logging_host =
     \<lparr>ho_ApplyService = (\<lambda>n a t.
        if a = ServiceStart then fail_op (ErrSentinel ErrStateChangeFailed) else log_op (''service '' @ n)),
      ho_GetService = (\<lambda>n h. (Inr (zero_Service\<lparr>svc_Name := n, svc_State := StateInactive_s\<rparr>), h)),
      ho_RunOneshotCommand = (\<lambda>t n c. log_op (''oneshot '' @ n)),
      ho_WaitUntilState = (\<lambda>n s t. log_op (''wait '' @ n)),
      ho_ListContainers = (\<lambda>f h. (Inr [], h)),
      ho_ExecContainer = (\<lambda>n c. log_op (''exec '' @ n)),
      ho_DumpVolume = (\<lambda>v d. log_op (''dump '' @ vol_Name v)),
      ho_ImportVolume = (\<lambda>v d. log_op (''import '' @ vol_Name v)),
      ho_RemoveVolume = (\<lambda>v. log_op (''rm volume '' @ vol_Name v)),
      ho_GetNetwork = (\<lambda>n h. (Inr \<lparr>net_Name = n, net_Containers = []\<rparr>, h)),
      ho_RemoveNetwork = (\<lambda>n. log_op (''rm network '' @ net_Name n)),
      ho_WriteSecret = (\<lambda>n v. log_op (''secret '' @ n)),
      ho_RemoveSecret = (\<lambda>n. log_op (''rm secret '' @ n)),
      ho_RemoveImage = (\<lambda>n. log_op (''rm image '' @ n)),
      ho_InstallComponent = (\<lambda>c. log_op ''component''),
      ho_UpdateComponent = (\<lambda>c. log_op ''component''),
      ho_RemoveComponent = (\<lambda>c. log_op ''rm component''),
      ho_InstallResource = (\<lambda>r d. log_op (''install '' @ res_Path r)),
      ho_RemoveResource = (\<lambda>r. log_op (''rm '' @ res_Path r)),
      ho_InstallScript = (\<lambda>p d. log_op (''script '' @ p)),
      ho_RemoveScript = (\<lambda>p. log_op (''rm script '' @ p)),
      ho_InstallUnit = (\<lambda>p d. log_op (''unit '' @ p)),
      ho_RemoveUnit = (\<lambda>p. log_op (''rm unit '' @ p))\<rparr>"

definition demo_text :: "Diff list option \<Rightarrow> string" where
  "demo_text ds = (case ds of None \<Rightarrow> [] | Some ds \<Rightarrow> concat (map snd ds))"

definition logging_executor :: "string list Executor" where
  "logging_executor =
     \<lparr>ex_conf = \<lparr>ec_CleanupComponents = False, ec_MateriaDir = ''/m'', ec_QuadletDir = ''/q'',
                 ec_ScriptsDir = ''/s'', ec_ServiceDir = ''/u'', ec_OutputDir = ''/o''\<rparr>,
      ex_host = logging_host, ex_defaultTimeout = 30, ex_text2 = demo_text\<rparr>"

subsection \<open>Steps\<close>

fun run_ok :: "'h Executor \<Rightarrow> Action list \<Rightarrow> 'h \<Rightarrow> 'h option" where
  "run_ok e [] h = Some h"
| "run_ok e (v # vs) h =
     (case executeAction e v h of (Some err, h') \<Rightarrow> None | (None, h') \<Rightarrow> run_ok e vs h')"

definition counted :: "Action \<Rightarrow> bool" where
  "counted v \<longleftrightarrow>
     \<not> (IsServiceAction (act_Todo v) \<and> res_Kind (act_Target v) \<noteq> ResourceTypeHost \<and> until_state v \<noteq> None)"

lemma note_step_steps: "es_steps (note_step v s) = es_steps s + (if counted v then 1 else 0)"
  by (auto simp: note_step_def counted_def Let_def split: option.split bool.split)

lemma fold_note_steps: "es_steps (fold note_step vs s) = es_steps s + int (length (filter counted vs))"
  by (induction vs arbitrary: s) (auto simp: note_step_steps)

lemma run_steps_ok:
  "run_ok e vs h = Some h' \<Longrightarrow> run_steps e vs s h = ((None, fold note_step vs s), h')"
  by (induction vs arbitrary: s h) (auto split: prod.splits option.splits)

lemma run_steps_append:
  "run_ok e vs h = Some h' \<Longrightarrow> run_steps e (vs @ ws) s h = run_steps e ws (fold note_step vs s) h'"
  by (induction vs arbitrary: s h) (auto split: prod.splits option.splits)

lemma run_ok_append:
  "run_ok e (vs @ ws) h = (case run_ok e vs h of None \<Rightarrow> None | Some h' \<Rightarrow> run_ok e ws h')"
  by (induction vs arbitrary: h) (auto split: prod.splits option.splits)

text \<open>
  C15: Executing a plan carries out its steps in order and stops at the first that fails: its error is
  returned with the number of steps counted so far, the host is left as that step left it, and no
  later step and no final check runs.  Steps with a known end state do not count.
\<close>

theorem Execute_stops_at_failure:
  assumes "\<not> Plan_Empty plan" and "Steps plan = pre @ a # post"
    and "run_ok e pre h = Some h1" and "executeAction e a h1 = (Some err, h2)"
  shows "Execute order order' e plan h = ((int (length (filter counted pre)), Some err), h2)"
proof -
  have "run_steps e (Steps plan) zero_exec_state h =
      ((Some err, fold note_step pre zero_exec_state), h2)"
    using assms(2-4) by (simp add: run_steps_append)
  with assms(1) show ?thesis
    by (simp add: Execute_def fold_note_steps zero_exec_state_def)
qed

lemma failing_start:
  "run_ok logging_executor (take 3 (Steps hello_plan)) [] =
     Some [''service old.service'', ''install hello.container'', ''service '']"
  "executeAction logging_executor (Steps hello_plan ! 3)
     [''service old.service'', ''install hello.container'', ''service ''] =
     (Some (ErrServiceUnhealthy ''hello.service'' (ErrSentinel ErrStateChangeFailed)),
      [''service old.service'', ''install hello.container'', ''service ''])"
  "Steps hello_plan = take 3 (Steps hello_plan) @ Steps hello_plan ! 3 # []"
  "\<not> Plan_Empty hello_plan"
  "filter counted (take 3 (Steps hello_plan)) = take 3 (Steps hello_plan)"
  by code_simp+

theorem Execute_stops_at_failure_witness:
  "Execute id id logging_executor hello_plan [] =
     ((3, Some (ErrServiceUnhealthy ''hello.service'' (ErrSentinel ErrStateChangeFailed))),
      [''service old.service'', ''install hello.container'', ''service ''])"
  using Execute_stops_at_failure [OF failing_start(4,3,1,2)] by (simp add: failing_start(5)) code_simp

text \<open>
  An empty plan leaves the host alone and reports -1 steps.
\<close>

theorem Execute_empty: "Execute order order' e NewPlan h = ((- 1, None), h)"
  by (simp add: Execute_def Plan_Empty_def NewPlan_def)

subsection \<open>Dispatch\<close>

text \<open>
  Whatever the table sends to the service handler is a service action on something that has a
  unit, so the panic for an unexpected action type is unreachable.
\<close>

theorem service_dispatch_never_panics:
  assumes "find_handler v = Inr H_serviceAction"
  shows "(\<exists>t. getServiceType v = Inr t) \<and> is_service_target (act_Target v)"
  using assms
  by (cases "res_Kind (act_Target v)"; cases "act_Todo v")
    (simp_all add: find_handler_def handlerList_def file_handlers_def unit_handlers_def dir_handlers_def
      getServiceType_def is_service_target_def IsQuadlet_def quadlet_kinds_def)

theorem service_dispatch_never_panics_witness:
  "(\<exists>t. getServiceType (mk_action ActionStart hello hello_container) = Inr t) \<and>
   is_service_target (act_Target (mk_action ActionStart hello hello_container))"
  by (rule service_dispatch_never_panics) code_simp

definition all_kinds :: "ResourceType list" where
  "all_kinds =
     [ResourceTypeUnknown, ResourceTypeComponent, ResourceTypeHost, ResourceTypeContainer,
      ResourceTypeVolume, ResourceTypePod, ResourceTypeNetwork, ResourceTypeKube, ResourceTypeBuild,
      ResourceTypeImage, ResourceTypeAppFile, ResourceTypeCombined, ResourceTypeDropinDir,
      ResourceTypeDropin, ResourceTypeFile, ResourceTypeManifest, ResourceTypeScript,
      ResourceTypeDirectory, ResourceTypeService, ResourceTypePodmanSecret]"

definition all_todos :: "ActionType list" where
  "all_todos =
     [ActionUnknown, ActionInstall, ActionRemove, ActionUpdate, ActionStart, ActionStop, ActionRestart,
      ActionReload, ActionEnable, ActionDisable, ActionEnsure, ActionSetup, ActionCleanup, ActionMount,
      ActionImport, ActionDump, ActionExecute]"

definition probe :: "ResourceType \<Rightarrow> ActionType \<Rightarrow> Action" where
  "probe k t = zero_Action\<lparr>act_Todo := t, act_Target := zero_Resource\<lparr>res_Kind := k\<rparr>\<rparr>"

definition plannable :: "ResourceType \<Rightarrow> ActionType \<Rightarrow> bool" where
  "plannable k t = (case getDefaultPriority (probe k t) of Inr n \<Rightarrow> True | Inl e \<Rightarrow> False)"

definition executable :: "ResourceType \<Rightarrow> ActionType \<Rightarrow> bool" where
  "executable k t = (case find_handler (probe k t) of Inr f \<Rightarrow> True | Inl e \<Rightarrow> False)"

definition table_gap :: "(ResourceType \<Rightarrow> ActionType \<Rightarrow> bool) \<Rightarrow> (ResourceType \<Rightarrow> ActionType \<Rightarrow> bool) \<Rightarrow>
    (ResourceType \<times> ActionType list) list" where
  "table_gap has lacks =
     filter (\<lambda>(k, ts). ts \<noteq> [])
       (map (\<lambda>k. (k, filter (\<lambda>t. has k t \<and> \<not> lacks k t) all_todos)) all_kinds)"

text \<open>
  The table of priorities and the table of handlers disagree on exactly these pairs.  The first
  list can be planned and then fails when it is executed: a volume listed as a service is planned to
  be started and has no handler for it.  The second list has handlers and cannot be planned without
  a priority set by hand: enabling or disabling a quadlet makes the whole plan fail.
\<close>

theorem priority_and_handler_tables_disagree:
  "table_gap plannable executable =
     [(ResourceTypeComponent, [ActionSetup, ActionCleanup]),
      (ResourceTypeContainer, [ActionCleanup, ActionDump]),
      (ResourceTypeVolume, [ActionStart, ActionStop, ActionRestart, ActionReload]),
      (ResourceTypePod, [ActionCleanup, ActionDump]),
      (ResourceTypeNetwork, [ActionReload, ActionDump]),
      (ResourceTypeKube, [ActionReload, ActionCleanup, ActionDump]),
      (ResourceTypeBuild, [ActionReload, ActionDump]),
      (ResourceTypeImage, [ActionReload, ActionDump]),
      (ResourceTypeFile, [ActionCleanup, ActionDump]),
      (ResourceTypeScript, [ActionDump]),
      (ResourceTypePodmanSecret, [ActionCleanup, ActionDump])] \<and>
   table_gap executable plannable =
     [(ResourceTypeContainer, [ActionEnable, ActionDisable, ActionEnsure, ActionExecute]),
      (ResourceTypePod, [ActionEnable, ActionDisable, ActionEnsure]),
      (ResourceTypeNetwork, [ActionEnable, ActionDisable]),
      (ResourceTypeKube, [ActionEnable, ActionDisable, ActionEnsure]),
      (ResourceTypeBuild, [ActionEnable, ActionDisable, ActionEnsure]),
      (ResourceTypeImage, [ActionEnable, ActionDisable, ActionEnsure]),
      (ResourceTypeCombined, [ActionInstall, ActionRemove, ActionUpdate]),
      (ResourceTypeScript, [ActionSetup])]"
  by code_simp

subsection \<open>What is in use stays\<close>

text \<open>
  Cleaning up never removes what a container still uses: with the containers the host lists for
  a volume or an image, or that are connected to a network, the handler succeeds and does nothing
  after asking; without any it removes exactly the object of the target.
\<close>

theorem cleanup_keeps_objects_in_use:
  "(case ho_ListContainers (ex_host e)
          (zero_ContainerListFilter\<lparr>cf_Volume := res_HostObject (act_Target v), cf_All := True\<rparr>) h of
      (Inl err, h') \<Rightarrow> cleanupVolume e v h = (Some (ErrWrapped ''can't cleanup volume'' err), h')
    | (Inr (c # cs), h') \<Rightarrow> cleanupVolume e v h = (None, h')
    | (Inr [], h') \<Rightarrow> cleanupVolume e v h =
        ho_RemoveVolume (ex_host e) (volume_named (res_HostObject (act_Target v)) []) h') \<and>
   (case ho_ListContainers (ex_host e)
          (zero_ContainerListFilter\<lparr>cf_Image := res_HostObject (act_Target v), cf_All := True\<rparr>) h of
      (Inl err, h') \<Rightarrow> cleanupBuildArtifact e v h = (Some (ErrWrapped ''can't cleanup image/build'' err), h')
    | (Inr (c # cs), h') \<Rightarrow> cleanupBuildArtifact e v h = (None, h')
    | (Inr [], h') \<Rightarrow> cleanupBuildArtifact e v h = ho_RemoveImage (ex_host e) (res_HostObject (act_Target v)) h') \<and>
   (case ho_GetNetwork (ex_host e) (res_HostObject (act_Target v)) h of
      (Inl err, h') \<Rightarrow> cleanupNetwork e v h = (Some (ErrWrapped ''can't cleanup network'' err), h')
    | (Inr n, h') \<Rightarrow> cleanupNetwork e v h =
        (if net_Containers n \<noteq> [] then (None, h')
         else ho_RemoveNetwork (ex_host e) \<lparr>net_Name = res_HostObject (act_Target v), net_Containers = []\<rparr> h'))"
  by (auto simp: cleanupVolume_def cleanupBuildArtifact_def cleanupNetwork_def
      split: prod.split sum.split list.split)

subsection \<open>Waiting for oneshots\<close>

text \<open>
  For the unit of a oneshot service the planner asks for the wildcard end state, which
  \<open>WaitUntilState\<close> accepts at once.  The executor converts the name of the state first, and
  the wildcard is not in the table: it waits for the state \<open>unknown\<close> instead, and counts on it
  in the final check as well.
\<close>

theorem oneshot_waits_for_unknown:
  assumes "src_Oneshot s" and "src_Service s \<noteq> []" and "comp_Name c \<noteq> []" and "IsServiceAction t"
  defines "unit \<equiv> zero_Resource\<lparr>res_Parent := comp_Name c, res_Path := src_Service s,
                                res_Kind := ResourceTypeService\<rparr>"
  shows "waitService sm (serviceActionWithMetadata c unit s t) timeout =
     unhealthy (src_Service s)
       (ho_WaitUntilState sm (src_Service s) StateUnknown_s
          (if src_Timeout s \<noteq> 0 then src_Timeout s else timeout)) \<and>
   es_expectedServices (note_step (serviceActionWithMetadata c unit s t) st) =
     AList.update (src_Service s) StateUnknown_s (es_expectedServices st)"
proof -
  have wild: "NewServiceState StateInternalWildcard_s = StateUnknown_s" by code_simp
  have valid: "Resource_Validate unit = None"
    using assms(2,3) by (simp add: unit_def Resource_Validate_def)
  have svc: "Resource_Service unit = src_Service s"
    by (simp add: unit_def Resource_Service_def Let_def)
  have target: "is_service_target unit" "res_Kind unit = ResourceTypeService" "\<not> IsFile unit \<or> t \<noteq> ActionUpdate"
    using assms(4) by (auto simp: unit_def is_service_target_def IsServiceAction_def service_action_types_def)
  have known: "t \<noteq> ActionUnknown" "t \<noteq> ActionUpdate"
    using assms(4) by (auto simp: IsServiceAction_def service_action_types_def)
  let ?a = "serviceActionWithMetadata c unit s t"
  have a: "act_Todo ?a = t" "act_Target ?a = unit" "act_Parent ?a = Some c"
    "until_state ?a = Some StateInternalWildcard_s"
    "command_timeout ?a timeout = (if src_Timeout s \<noteq> 0 then src_Timeout s else timeout)"
    using assms(1)
    by (simp_all add: serviceActionWithMetadata_def until_state_def command_timeout_def zero_ActionMetadata_def)
  have "Action_Validate ?a = None"
    using known valid by (simp add: Action_Validate_def a)
  then show ?thesis
    using valid target assms(4) by (simp add: waitService_def a svc wild note_step_def Let_def)
qed

definition demo_oneshot :: ServiceResourceConfig where
  "demo_oneshot = demo_config\<lparr>src_Service := ''backup.service'', src_Oneshot := True, src_Timeout := 5\<rparr>"

theorem oneshot_waits_for_unknown_witness:
  "waitService logging_host
     (serviceActionWithMetadata hello
        (zero_Resource\<lparr>res_Parent := ''hello'', res_Path := ''backup.service'', res_Kind := ResourceTypeService\<rparr>)
        demo_oneshot ActionStart) 30 =
   unhealthy ''backup.service'' (ho_WaitUntilState logging_host ''backup.service'' StateUnknown_s 5)"
proof -
  have *: "src_Oneshot demo_oneshot" "src_Service demo_oneshot = ''backup.service''" "comp_Name hello = ''hello''"
    "IsServiceAction ActionStart" "src_Timeout demo_oneshot = 5"
    by code_simp+
  show ?thesis
    using oneshot_waits_for_unknown [of demo_oneshot hello ActionStart logging_host 30] * by simp
qed

end
