(* ===== verification/Attributes.thy ===== *)
theory Attributes
  imports Manifests
begin

section \<open>Attributes (internal/attributes, internal/materia/attribute\_engine.go)\<close>

text \<open>
  The values templates and secrets are filled with.  A vault file has sections of globals,
  components, hosts and roles; \<open>ExtractVaultAttributes\<close> copies the sections that match the filter
  into one map, the later section over the earlier one.  \<open>MergeAttributes\<close> writes into the map it
  is given first, so the model returns the map it leaves; \<open>None\<close> is the nil map.  Reading and
  decrypting vault files is third-party, a vault engine is its \<open>Lookup\<close>.
\<close>

record AttributesFilter =
  af_Hostname :: string
  af_Roles :: "string list"
  af_Component :: string
  af_Instance :: string

record AttributeVault =
  av_Globals :: any_map
  av_Components :: "(string \<times> any_map) list"
  av_Hosts :: "(string \<times> any_map) list"
  av_Roles :: "(string \<times> any_map) list"

text \<open>Go visits the entries of \<open>lower\<close> in no fixed order; its keys are distinct, so none matters.\<close>

fun merge_missing :: "any_map \<Rightarrow> any_map \<Rightarrow> any_map" where
  "merge_missing higher [] = higher"
| "merge_missing higher ((k, v) # lower) =
     merge_missing (case map_of higher k of None \<Rightarrow> AList.update k v higher | Some w \<Rightarrow> higher) lower"

definition MergeAttributes :: "any_map option \<Rightarrow> any_map \<Rightarrow> any_map option result" where
  "MergeAttributes higher lower =
     (case higher of
        Some m \<Rightarrow> Inr (Some (merge_missing m lower))
      | None \<Rightarrow> (if lower = [] then Inr None else Inl (Panic ''assignment to entry in nil map'')))"

text \<open>\<open>if attrs, ok := section[key]; ok { maps.Copy(results, attrs) }\<close>\<close>

definition copy_section :: "(string \<times> any_map) list \<Rightarrow> string \<Rightarrow> any_map \<Rightarrow> any_map" where
  "copy_section section key results =
     (case map_of section key of None \<Rightarrow> results | Some attrs \<Rightarrow> map_update_all results attrs)"

definition ExtractVaultAttributes :: "any_map \<Rightarrow> AttributeVault \<Rightarrow> AttributesFilter \<Rightarrow> any_map" where
  "ExtractVaultAttributes results vault f =
     (let results = map_update_all results (av_Globals vault);
          results = fold (copy_section (av_Roles vault)) (af_Roles f) results;
          results =
            (if af_Component f \<noteq> [] then
               let results = copy_section (av_Components vault) (af_Component f) results
               in if af_Instance f \<noteq> []
                  then copy_section (av_Components vault) (af_Component f @ ''@'' @ af_Instance f) results
                  else results
             else results)
      in if af_Hostname f \<noteq> [] then copy_section (av_Hosts vault) (af_Hostname f) results else results)"

text \<open>
  The three lists \<open>SortedVaultFiles\<close> sorts the files into: host, role and general files.  A file is
  added to the role files once for every role its name contains.
\<close>

fun sort_vaults ::
    "AttributesFilter \<Rightarrow> string list \<Rightarrow> string list \<Rightarrow> string list \<times> string list \<times> string list" where
  "sort_vaults f generalVaults [] = ([], [], [])"
| "sort_vaults f generalVaults (v # vs) =
     (case sort_vaults f generalVaults vs of
        (hostFiles, roleFiles, generalFiles) \<Rightarrow>
          (if Contains v (af_Hostname f) then (v # hostFiles, roleFiles, generalFiles)
           else let hits = filter (Contains v) (af_Roles f) in
             if hits \<noteq> [] then (hostFiles, map (\<lambda>r. v) hits @ roleFiles, generalFiles)
             else if Base v \<in> set generalVaults then (hostFiles, roleFiles, v # generalFiles)
             else (hostFiles, roleFiles, generalFiles)))"

text \<open>\<open>cancelled v\<close> is the error of the context when the loop gets to the file \<open>v\<close>.\<close>

definition SortedVaultFiles ::
    "(string \<Rightarrow> go_error option) \<Rightarrow> AttributesFilter \<Rightarrow> string list \<Rightarrow> string list \<Rightarrow> string list result" where
  "SortedVaultFiles cancelled f vaultfiles generalVaults =
     (case List.find (\<lambda>v. cancelled v \<noteq> None) vaultfiles of
        Some v \<Rightarrow> Inl (the (cancelled v))
      | None \<Rightarrow>
          (case sort_vaults f generalVaults vaultfiles of
             (hostFiles, roleFiles, generalFiles) \<Rightarrow> Inr (generalFiles @ roleFiles @ hostFiles)))"

type_synonym engine = "AttributesFilter \<Rightarrow> any_map result"

definition NewMultiVaultEngine :: "engine list \<Rightarrow> engine list result" where
  "NewMultiVaultEngine vaults =
     (if vaults = [] then Inl (ErrMsg ''need vaults for multivault engine'') else Inr vaults)"

fun multi_lookup :: "engine list \<Rightarrow> AttributesFilter \<Rightarrow> any_map \<Rightarrow> any_map result" where
  "multi_lookup [] f results = Inr results"
| "multi_lookup (v # vs) f results =
     (case v f of Inl e \<Rightarrow> Inl e | Inr r \<Rightarrow> multi_lookup vs f (merge_missing results r))"

definition MultiVault_Lookup :: "engine list \<Rightarrow> engine" where
  "MultiVault_Lookup vaults f = multi_lookup vaults f []"

text \<open>
  The file engine.  Reading and decoding a file is the parameter \<open>decode\<close>: it decodes into the
  vault the files before it were decoded into.
\<close>

record FileStore =
  fst_vaultfiles :: "string list"
  fst_generalVaults :: "string list"
  fst_loadAllVaults :: bool

fun extract_files ::
    "(string \<Rightarrow> go_error option) \<Rightarrow> (string \<Rightarrow> AttributeVault \<Rightarrow> AttributeVault result) \<Rightarrow>
       AttributesFilter \<Rightarrow> string list \<Rightarrow> AttributeVault \<Rightarrow> any_map \<Rightarrow> any_map result" where
  "extract_files cancelled decode f [] attrs results = Inr results"
| "extract_files cancelled decode f (v # vs) attrs results =
     (case cancelled v of
        Some e \<Rightarrow> Inl e
      | None \<Rightarrow>
     (case decode v attrs of
        Inl e \<Rightarrow> Inl e
      | Inr attrs' \<Rightarrow>
          extract_files cancelled decode f vs attrs' (ExtractVaultAttributes results attrs' f)))"

definition empty_vault :: AttributeVault where
  "empty_vault = \<lparr>av_Globals = [], av_Components = [], av_Hosts = [], av_Roles = []\<rparr>"

definition FileStore_Lookup ::
    "(string \<Rightarrow> go_error option) \<Rightarrow> (string \<Rightarrow> AttributeVault \<Rightarrow> AttributeVault result) \<Rightarrow>
       FileStore \<Rightarrow> engine" where
  "FileStore_Lookup cancelled decode s f =
     (case (if fst_loadAllVaults s then Inr (fst_vaultfiles s)
            else wrap_error ''can't prepare vault file list''
                   (SortedVaultFiles cancelled f (fst_vaultfiles s) (fst_generalVaults s))) of
        Inl e \<Rightarrow> Inl e
      | Inr files \<Rightarrow> extract_files cancelled decode f files empty_vault [])"

subsection \<open>Which value wins\<close>

text \<open>A vault as a decoder builds it: no key twice in a section or a table of sections.\<close>

definition sections_ok :: "(string \<times> any_map) list \<Rightarrow> bool" where
  "sections_ok s \<longleftrightarrow> (\<forall>m\<in>set (map snd s). distinct (map fst m))"

definition vault_ok :: "AttributeVault \<Rightarrow> bool" where
  "vault_ok v \<longleftrightarrow> distinct (map fst (av_Globals v)) \<and> sections_ok (av_Components v) \<and>
     sections_ok (av_Hosts v) \<and> sections_ok (av_Roles v)"

definition section_of :: "(string \<times> any_map) list \<Rightarrow> string \<Rightarrow> string \<rightharpoonup> go_any" where
  "section_of s key = (case map_of s key of None \<Rightarrow> Map.empty | Some m \<Rightarrow> map_of m)"

text \<open>What a vault says for a filter: the last of these that has the key.\<close>

definition vault_view :: "AttributeVault \<Rightarrow> AttributesFilter \<Rightarrow> string \<rightharpoonup> go_any" where
  "vault_view v f =
     map_of (av_Globals v) ++
     foldl (\<lambda>m r. m ++ section_of (av_Roles v) r) Map.empty (af_Roles f) ++
     (if af_Component f = [] then Map.empty else section_of (av_Components v) (af_Component f)) ++
     (if af_Component f = [] \<or> af_Instance f = [] then Map.empty
      else section_of (av_Components v) (af_Component f @ ''@'' @ af_Instance f)) ++
     (if af_Hostname f = [] then Map.empty else section_of (av_Hosts v) (af_Hostname f))"

lemma map_of_merge_missing: "map_of (merge_missing higher lower) = map_of lower ++ map_of higher"
proof (induction higher lower rule: merge_missing.induct)
  case (1 higher)
  then show ?case by simp
next
  case (2 higher k v lower)
  show ?case
  proof (rule ext)
    fix x
    show "map_of (merge_missing higher ((k, v) # lower)) x = (map_of ((k, v) # lower) ++ map_of higher) x"
      using 2 by (cases "map_of higher k")
        (auto simp: map_add_def update_conv' split: option.split)
  qed
qed

lemma map_of_copy_section:
  assumes "sections_ok s"
  shows "map_of (copy_section s key results) = map_of results ++ section_of s key"
proof (cases "map_of s key")
  case None
  then show ?thesis by (simp add: copy_section_def section_of_def)
next
  case (Some m)
  then have "m \<in> set (map snd s)" by (force dest: map_of_SomeD)
  with assms have "distinct (map fst m)" unfolding sections_ok_def by blast
  with Some show ?thesis by (simp add: copy_section_def section_of_def map_of_map_update_all)
qed

lemma foldl_map_add: "foldl (\<lambda>m r. m ++ g r) (a ++ b) rs = a ++ foldl (\<lambda>m r. m ++ g r) b rs"
  by (induction rs arbitrary: b) (simp_all flip: map_add_assoc)

lemma map_of_copy_sections:
  "sections_ok s \<Longrightarrow> map_of (fold (copy_section s) keys results) =
     map_of results ++ foldl (\<lambda>m r. m ++ section_of s r) Map.empty keys"
proof (induction keys arbitrary: results)
  case Nil
  then show ?case by simp
next
  case (Cons k ks)
  then have "map_of (fold (copy_section s) (k # ks) results) =
      (map_of results ++ section_of s k) ++ foldl (\<lambda>m r. m ++ section_of s r) Map.empty ks"
    by (simp add: map_of_copy_section)
  also have "\<dots> = map_of results ++ foldl (\<lambda>m r. m ++ section_of s r) (section_of s k) ks"
    using foldl_map_add [of "section_of s" "section_of s k" Map.empty ks] by simp
  finally show ?case by simp
qed

text \<open>
  C18: The attributes of a vault for a host: its host section wins over the section of the instance,
  that over the component's, that over the roles' (the last role first), that over the globals; keys
  of the vault win over what was there before.
\<close>

theorem ExtractVaultAttributes_precedence:
  assumes "vault_ok v"
  shows "map_of (ExtractVaultAttributes results v f) = map_of results ++ vault_view v f"
  using assms
  by (simp add: ExtractVaultAttributes_def vault_view_def vault_ok_def Let_def map_of_copy_section
      map_of_copy_sections map_of_map_update_all)

definition demo_vault :: AttributeVault where
  "demo_vault =
     \<lparr>av_Globals = [(''tag'', AnyString ''1.0''), (''port'', AnyInt 80)],
      av_Components = [(''web'', [(''tag'', AnyString ''1.1'')]), (''web@a'', [(''tag'', AnyString ''1.2'')])],
      av_Hosts = [(''db1'', [(''port'', AnyInt 8080)])],
      av_Roles = [(''edge'', [(''port'', AnyInt 443), (''tag'', AnyString ''0.9'')])]\<rparr>"

definition demo_filter :: AttributesFilter where
  "demo_filter = \<lparr>af_Hostname = ''db1'', af_Roles = [''edge''], af_Component = ''web'', af_Instance = ''a''\<rparr>"

theorem ExtractVaultAttributes_precedence_witness:
  "map_of (ExtractVaultAttributes [(''old'', AnyBool True)] demo_vault demo_filter) =
     [''old'' \<mapsto> AnyBool True] ++ vault_view demo_vault demo_filter \<and>
   map (vault_view demo_vault demo_filter) [''tag'', ''port''] = [Some (AnyString ''1.2''), Some (AnyInt 8080)]"
proof
  have "vault_ok demo_vault" by code_simp
  then show "map_of (ExtractVaultAttributes [(''old'', AnyBool True)] demo_vault demo_filter) =
     [''old'' \<mapsto> AnyBool True] ++ vault_view demo_vault demo_filter"
    by (simp add: ExtractVaultAttributes_precedence)
  show "map (vault_view demo_vault demo_filter) [''tag'', ''port''] = [Some (AnyString ''1.2''), Some (AnyInt 8080)]"
    by code_simp
qed

lemma sort_vaults_eq:
  "sort_vaults f generalVaults vs =
     (filter (\<lambda>v. Contains v (af_Hostname f)) vs,
      concat (map (\<lambda>v. if Contains v (af_Hostname f) then [] else map (\<lambda>r. v) (filter (Contains v) (af_Roles f))) vs),
      filter (\<lambda>v. \<not> Contains v (af_Hostname f) \<and> filter (Contains v) (af_Roles f) = [] \<and>
                  Base v \<in> set generalVaults) vs)"
  by (induction vs) (auto simp: Let_def)

text \<open>
  An attribute has the value of the first engine that knows it, and the lookup of several engines
  fails only when one of them does.
\<close>

theorem MultiVault_Lookup_first:
  assumes "map (\<lambda>v. v f) vs = map Inr rs"
  shows "\<exists>m. MultiVault_Lookup vs f = Inr m \<and>
           map_of m = foldr (\<lambda>r acc. acc ++ map_of r) rs Map.empty"
proof -
  have "\<exists>m. multi_lookup vs f results = Inr m \<and>
          map_of m = foldr (\<lambda>r acc. acc ++ map_of r) rs Map.empty ++ map_of results" for results
    using assms
  proof (induction vs arbitrary: rs results)
    case Nil
    then show ?case by simp
  next
    case (Cons v vs)
    then obtain r rs' where "rs = r # rs'" "v f = Inr r" "map (\<lambda>v. v f) vs = map Inr rs'"
      by (cases rs) auto
    with Cons.IH [of rs' "merge_missing results r"] show ?case by (simp add: map_of_merge_missing)
  qed
  from this [of "[]"] show ?thesis by (simp add: MultiVault_Lookup_def)
qed

definition demo_engine :: "any_map \<Rightarrow> engine" where
  "demo_engine m f = Inr m"

theorem MultiVault_Lookup_first_witness:
  "\<exists>m. MultiVault_Lookup [demo_engine [(''tag'', AnyInt 1)], demo_engine [(''tag'', AnyInt 2), (''port'', AnyInt 3)]]
         demo_filter = Inr m \<and> map_of m ''tag'' = Some (AnyInt 1) \<and> map_of m ''port'' = Some (AnyInt 3)"
proof -
  let ?a = "[(''tag'', AnyInt 1)]" and ?b = "[(''tag'', AnyInt 2), (''port'', AnyInt 3)]"
  have "map (\<lambda>v. v demo_filter) [demo_engine ?a, demo_engine ?b] = map Inr [?a, ?b]"
    by (simp add: demo_engine_def)
  from MultiVault_Lookup_first [OF this] show ?thesis by auto
qed

end
