(* ===== verification/Loader.thy ===== *)
theory Loader
  imports Components Attributes
begin

section \<open>Loading components (pkg/loader)\<close>

text \<open>
  A component is loaded by a pipeline of stages, each of which fills in a part of it; the component
  repositories behind the stages are the record \<open>ComponentReader\<close>, the secrets of podman the
  record \<open>SecretsManager\<close>.  The stages that range over the resources take their list first and
  change the set while they walk it.  The map of attributes is one Go map that the template stage
  and the secret stage share (and that the vault may keep): the template stage writes the defaults
  of the component into it, so a stage takes the map and returns it.  Parsing unit files
  (\<open>up\<close>) and rendering a template (\<open>render\<close>, given the map) are library calls.  A run that
  fails returns its error; what it has written until then is dropped by all callers.
\<close>

record ComponentReader =
  cr_GetComponent :: "string \<Rightarrow> Component result"
  cr_GetManifest :: "Component \<Rightarrow> ComponentManifest result"
  cr_ReadResource :: "Resource \<Rightarrow> string result"

record SecretsManager =
  sm_ListSecrets :: "string list result"
  sm_GetSecret :: "string \<Rightarrow> string result"

type_synonym renderer = "any_map option \<Rightarrow> string \<Rightarrow> string result"

datatype ComponentLoadStage =
    ComponentInitStage ComponentReader
  | ManifestLoadStage ComponentReader "ComponentManifest list" "ComponentManifest list"
  | ResourceDiscoveryStage ComponentReader
  | TemplateProcessorStage
  | ComponentInstanceStage
  | SecretInjectorStage
  | SecretDiscoveryStage SecretsManager
  | QuadletExpanderStage
  | QuadletObjectExtractorStage
  | AppCompatibilityStage
  | StateInjectorStage ComponentLifecycle

text \<open>A method of a nil resource set panics.\<close>

definition on_resources :: "(ResourceSet \<Rightarrow> ResourceSet result) \<Rightarrow> Component \<Rightarrow> Component result" where
  "on_resources f c =
     (case comp_Resources c of
        None \<Rightarrow> Inl (Panic ''nil resource set'')
      | Some rs \<Rightarrow>
          (case f rs of Inl e \<Rightarrow> Inl e | Inr rs' \<Rightarrow> Inr (c\<lparr>comp_Resources := Some rs'\<rparr>)))"

definition change_resources :: "(Resource \<Rightarrow> Resource change result) \<Rightarrow> ResourceSet \<Rightarrow> ResourceSet result" where
  "change_resources f rs =
     change_each ResourceSet_Set ResourceSet_Delete res_Path f (ResourceSet_List rs) rs"

subsection \<open>The stages\<close>

definition init_stage :: "ComponentReader \<Rightarrow> Component \<Rightarrow> Component result" where
  "init_stage mgr c =
     (case wrap_error ''can't load component'' (cr_GetComponent mgr (InstanceName c)) of
        Inl e \<Rightarrow> Inl e
      | Inr newcomp \<Rightarrow>
          (let split = Split (comp_Name c) ''@'';
               c = (if Contains (comp_Name c) ''@''
                    then c\<lparr>comp_Name := split ! 0, comp_Instance := split ! 1\<rparr> else c)
           in Inr (c\<lparr>comp_Resources := comp_Resources newcomp, comp_Version := comp_Version newcomp\<rparr>)))"

definition merge_override :: "ComponentManifest \<Rightarrow> ComponentManifest \<Rightarrow> ComponentManifest result" where
  "merge_override override man =
     wrap_error ''can't load source component's overrides'' (MergeComponentManifests (Some man) (Some override))"

definition merge_extension :: "ComponentManifest \<Rightarrow> ComponentManifest \<Rightarrow> ComponentManifest result" where
  "merge_extension extension man =
     wrap_error ''can't load source component's overrides'' (ExtendComponentManifests (Some man) (Some extension))"

definition manifest_stage ::
    "ComponentReader \<Rightarrow> ComponentManifest list \<Rightarrow> ComponentManifest list \<Rightarrow> Component \<Rightarrow> Component result" where
  "manifest_stage mgr overrides extensions c =
     (if comp_Version c \<noteq> DefaultComponentVersion then Inr c
      else case wrap_error ''can't load source component manifest'' (cr_GetManifest mgr c) of
        Inl e \<Rightarrow> Inl e
      | Inr man \<Rightarrow>
     (case each merge_override overrides man of
        Inl e \<Rightarrow> Inl e
      | Inr man \<Rightarrow>
     (case each merge_extension extensions man of
        Inl e \<Rightarrow> Inl e
      | Inr man \<Rightarrow> wrap_error ''can't apply source component manifest'' (ApplyManifest c man))))"

definition unfilled :: string where
  "unfilled = ''<UNFILLED_SECRET>''"

definition discover :: "ComponentReader \<Rightarrow> Resource \<Rightarrow> Resource change result" where
  "discover mgr r =
     (if res_Kind r = ResourceTypePodmanSecret then Inr (Put (r\<lparr>res_Content := unfilled\<rparr>))
      else case wrap_error ''can't read resource'' (cr_ReadResource mgr r) of
        Inl e \<Rightarrow> Inl e
      | Inr bodyTemplate \<Rightarrow> Inr (Put (r\<lparr>res_Content := bodyTemplate\<rparr>)))"

definition fill_template :: "renderer \<Rightarrow> any_map option \<Rightarrow> Resource \<Rightarrow> Resource change result" where
  "fill_template render vars r =
     (if res_Template r then
        (case render vars (res_Content r) of
           Inl e \<Rightarrow> Inl e
         | Inr result \<Rightarrow> Inr (Put (r\<lparr>res_Content := result\<rparr>)))
      else Inr Keep)"

definition instance_resource :: "Component \<Rightarrow> Resource \<Rightarrow> ResourceSet \<Rightarrow> ResourceSet" where
  "instance_resource c r rs =
     (let rs = ResourceSet_Delete (res_Path r) rs in
      if res_Kind r = ResourceTypePodmanSecret
      then ResourceSet_Set (r\<lparr>res_Path := Instantiate c (res_Path r)\<rparr>) rs
      else ResourceSet_Set (InstantiateResource c r) rs)"

definition instance_stage :: "Component \<Rightarrow> Component result" where
  "instance_stage c =
     (if comp_Instance c = [] then Inr c
      else on_resources (\<lambda>rs. Inr (fold (instance_resource c) (ResourceSet_List rs) rs)) c)"

definition inject_secret :: "any_map option \<Rightarrow> Resource \<Rightarrow> Resource change result" where
  "inject_secret attrs r =
     (if res_Kind r = ResourceTypePodmanSecret then
        (case Option.bind attrs (\<lambda>m. map_of m (res_Path r)) of
           None \<Rightarrow> Inr Drop
         | Some (AnyString s) \<Rightarrow> Inr (Put (r\<lparr>res_Content := s\<rparr>))
         | Some _ \<Rightarrow> Inl (ErrMsg ''tried to load a non-string for secret''))
      else Inr Keep)"

text \<open>The first loop of \<open>SecretDiscoveryStage\<close> collects what the second one deletes.\<close>

definition discover_secret ::
    "SecretsManager \<Rightarrow> Resource \<Rightarrow> ResourceSet \<times> Resource list \<Rightarrow> (ResourceSet \<times> Resource list) result" where
  "discover_secret mgr r s =
     (case s of (rs, deleted) \<Rightarrow>
        if res_Kind r = ResourceTypePodmanSecret then
          (case sm_ListSecrets mgr of
             Inl e \<Rightarrow> Inl (ErrMsg ''error listing secrets during resource validation'')
           | Inr secretsList \<Rightarrow>
               (if res_Path r \<notin> set secretsList then Inr (rs, deleted @ [r])
                else case sm_GetSecret mgr (res_Path r) of
                  Inl e \<Rightarrow> Inl e
                | Inr curSecret \<Rightarrow> Inr (ResourceSet_Set (r\<lparr>res_Content := curSecret\<rparr>) rs, deleted)))
        else Inr (rs, deleted))"

definition secret_discovery :: "SecretsManager \<Rightarrow> ResourceSet \<Rightarrow> ResourceSet result" where
  "secret_discovery mgr rs =
     (case each (discover_secret mgr) (ResourceSet_List rs) (rs, []) of
        Inl e \<Rightarrow> Inl e
      | Inr (rs, deleted) \<Rightarrow> Inr (fold (\<lambda>r. ResourceSet_Delete (res_Path r)) deleted rs))"

definition expand_quadlet ::
    "'u unit_parser \<Rightarrow> Settings \<Rightarrow> Resource \<Rightarrow> ResourceSet \<Rightarrow> ResourceSet result" where
  "expand_quadlet up settings r rs =
     (if res_Kind r = ResourceTypeCombined \<and> \<not> set_NoExpansion settings then
        (case wrap_error ''can't expand combined resource''
                (GetResourcesFromQuadletsFile up (res_Parent r) (res_Content r)) of
           Inl e \<Rightarrow> Inl e
         | Inr expanded \<Rightarrow> Inr (ResourceSet_Delete (res_Path r) (fold ResourceSet_Set expanded rs)))
      else Inr rs)"

definition extract_object :: "'u unit_parser \<Rightarrow> Component \<Rightarrow> Resource \<Rightarrow> Resource change result" where
  "extract_object up c r =
     (if IsQuadlet r then
        (case GetHostObject up r (res_Content r) of
           Inl e \<Rightarrow> Inl e
         | Inr hostObject \<Rightarrow>
             Inr (Put (r\<lparr>res_HostObject :=
               (if IsInstanced c then ReplaceAll hostObject ''@'' ''_'' else hostObject)\<rparr>)))
      else Inr Keep)"

definition app_file :: "Component \<Rightarrow> Resource" where
  "app_file c =
     (let name = (if IsInstanced c then comp_Name c @ ''_'' @ comp_Instance c else comp_Name c)
      in zero_Resource\<lparr>res_Path := ''.'' @ name @ ''.app'', res_Parent := comp_Name c,
           res_Kind := ResourceTypeAppFile, res_Content := ToAppfile c\<rparr>)"

text \<open>A stage without templates leaves the attributes alone.\<close>

definition keep_attrs :: "any_map option \<Rightarrow> Component result \<Rightarrow> (any_map option \<times> Component) result" where
  "keep_attrs attrs r = (case r of Inl e \<Rightarrow> Inl e | Inr c \<Rightarrow> Inr (attrs, c))"

definition Process ::
    "'u unit_parser \<Rightarrow> renderer \<Rightarrow> ComponentLoadStage \<Rightarrow> any_map option \<times> Component \<Rightarrow>
       (any_map option \<times> Component) result" where
  "Process up render stage s = (case s of (attrs, c) \<Rightarrow>
     (case stage of
        ComponentInitStage mgr \<Rightarrow> keep_attrs attrs (init_stage mgr c)
      | ManifestLoadStage mgr overrides extensions \<Rightarrow>
          keep_attrs attrs (manifest_stage mgr overrides extensions c)
      | ResourceDiscoveryStage mgr \<Rightarrow>
          keep_attrs attrs (on_resources (change_resources (discover mgr)) c)
      | TemplateProcessorStage \<Rightarrow>
          (case MergeAttributes attrs (comp_Defaults c) of
             Inl e \<Rightarrow> Inl e
           | Inr vars \<Rightarrow>
               keep_attrs vars (on_resources (change_resources (fill_template render vars)) c))
      | ComponentInstanceStage \<Rightarrow> keep_attrs attrs (instance_stage c)
      | SecretInjectorStage \<Rightarrow>
          keep_attrs attrs (on_resources (change_resources (inject_secret attrs)) c)
      | SecretDiscoveryStage mgr \<Rightarrow> keep_attrs attrs (on_resources (secret_discovery mgr) c)
      | QuadletExpanderStage \<Rightarrow>
          keep_attrs attrs
            (on_resources (\<lambda>rs. each (expand_quadlet up (comp_Settings c)) (ResourceSet_List rs) rs) c)
      | QuadletObjectExtractorStage \<Rightarrow>
          keep_attrs attrs (on_resources (change_resources (extract_object up c)) c)
      | AppCompatibilityStage \<Rightarrow>
          keep_attrs attrs (on_resources (ResourceSet_Add (app_file c)) c)
      | StateInjectorStage state \<Rightarrow> Inr (attrs, c\<lparr>comp_State := state\<rparr>)))"

subsection \<open>The pipelines\<close>

definition NewHostComponentPipeline :: "ComponentReader \<Rightarrow> SecretsManager \<Rightarrow> ComponentLoadStage list" where
  "NewHostComponentPipeline mgr cont =
     [ComponentInitStage mgr, ManifestLoadStage mgr [] [], ResourceDiscoveryStage mgr,
      ComponentInstanceStage, QuadletObjectExtractorStage, SecretDiscoveryStage cont,
      StateInjectorStage StateStale]"

definition NewSourceComponentPipeline ::
    "ComponentReader \<Rightarrow> ComponentManifest list \<Rightarrow> ComponentManifest list \<Rightarrow> ComponentLoadStage list" where
  "NewSourceComponentPipeline mgr overrides extensions =
     [ComponentInitStage mgr, ManifestLoadStage mgr overrides extensions, ResourceDiscoveryStage mgr,
      TemplateProcessorStage, ComponentInstanceStage, SecretInjectorStage, QuadletExpanderStage,
      QuadletObjectExtractorStage, StateInjectorStage StateFresh]"

definition AddStage :: "ComponentLoadStage \<Rightarrow> ComponentLoadStage list \<Rightarrow> ComponentLoadStage list" where
  "AddStage stage stages = stages @ [stage]"

definition Load ::
    "'u unit_parser \<Rightarrow> renderer \<Rightarrow> ComponentLoadStage list \<Rightarrow> any_map option \<Rightarrow> Component \<Rightarrow>
       (any_map option \<times> Component) result" where
  "Load up render stages attrs c =
     (case each (Process up render) stages (attrs, c) of
        Inl e \<Rightarrow> Inl e
      | Inr (attrs, c) \<Rightarrow> (case Component_Validate c of Some e \<Rightarrow> Inl e | None \<Rightarrow> Inr (attrs, c)))"

end
