(* ===== verification/LoaderFacts.thy ===== *)
theory LoaderFacts
  imports Loader
begin

section \<open>What a load pipeline leaves\<close>

subsection \<open>Every stage keeps components well formed\<close>

lemma comp_inv_resources: "comp_inv c \<Longrightarrow> ResourceSet_inv rs \<Longrightarrow> comp_inv (c\<lparr>comp_Resources := Some rs\<rparr>)"
  by (simp add: comp_inv_def resources_of_def configs_of_def)

lemma comp_inv_version: "comp_inv c \<Longrightarrow> comp_inv (c\<lparr>comp_Version := v\<rparr>)"
  by (simp add: comp_inv_def resources_of_def configs_of_def)

lemma resources_of_update [simp]: "resources_of (c\<lparr>comp_Resources := Some rs\<rparr>) = rs"
  by (simp add: resources_of_def)

lemma on_resources_Inr:
  "on_resources f c = Inr c' \<longleftrightarrow>
     (\<exists>rs. comp_Resources c \<noteq> None \<and> f (resources_of c) = Inr rs \<and> c' = c\<lparr>comp_Resources := Some rs\<rparr>)"
  by (auto simp: on_resources_def resources_of_def split: option.splits sum.splits)

text \<open>A stage that only rewrites resources in place never changes a path.\<close>

definition keeps_paths :: "(Resource \<Rightarrow> Resource change result) \<Rightarrow> bool" where
  "keeps_paths f \<longleftrightarrow> (\<forall>r r'. f r = Inr (Put r') \<longrightarrow> res_Path r' = res_Path r)"

lemma change_resources_get:
  assumes "change_resources f rs = Inr rs'" and "ResourceSet_inv rs" and "keeps_paths f"
  shows "ResourceSet_inv rs' \<and> (\<forall>r\<in>set (ResourceSet_List rs). \<exists>c. f r = Inr c) \<and>
    lhm_get rs' = (\<lambda>p. Option.bind (lhm_get rs p) (changed_entry f))"
  using assms unfolding change_resources_def keeps_paths_def
  by (intro resource_set.change_each_entries) blast+

lemma keeps_paths_stages:
  "keeps_paths (discover mgr)" "keeps_paths (fill_template render vars)" "keeps_paths (inject_secret attrs)"
  "keeps_paths (extract_object up c)"
  by (auto simp: keeps_paths_def discover_def fill_template_def inject_secret_def extract_object_def
      split: if_splits sum.splits option.splits go_any.splits)

lemma fold_instance_inv: "ResourceSet_inv rs \<Longrightarrow> ResourceSet_inv (fold (instance_resource c) xs rs)"
  by (induction xs arbitrary: rs)
    (auto simp: instance_resource_def Let_def resource_set.inv_put resource_set.inv_delete)

lemma fold_delete_inv: "ResourceSet_inv rs \<Longrightarrow> ResourceSet_inv (fold (\<lambda>r. ResourceSet_Delete (res_Path r)) xs rs)"
  by (induction xs arbitrary: rs) (auto simp: resource_set.inv_delete)

lemma secret_discovery_inv:
  assumes "secret_discovery mgr rs = Inr rs'" and "ResourceSet_inv rs"
  shows "ResourceSet_inv rs'"
proof -
  from assms(1) obtain rs1 deleted where
    run: "each (discover_secret mgr) (ResourceSet_List rs) (rs, []) = Inr (rs1, deleted)" and
    rs': "rs' = fold (\<lambda>r. ResourceSet_Delete (res_Path r)) deleted rs1"
    by (auto simp: secret_discovery_def split: sum.splits prod.splits)
  have "ResourceSet_inv (fst (rs1, deleted))"
    by (rule each_invariant [OF run])
      (auto simp: assms(2) discover_secret_def resource_set.inv_put split: if_splits sum.splits)
  with rs' show ?thesis by (simp add: fold_delete_inv)
qed

lemma expand_quadlet_inv: "expand_quadlet up settings r rs = Inr rs' \<Longrightarrow> ResourceSet_inv rs \<Longrightarrow> ResourceSet_inv rs'"
  by (auto simp: expand_quadlet_def resource_set.inv_delete resource_set.inv_fold split: if_splits sum.splits)

lemma manifest_stage_inv:
  "manifest_stage mgr overrides extensions c = Inr c' \<Longrightarrow> comp_inv c \<Longrightarrow> comp_inv c'"
  by (auto simp: manifest_stage_def split: if_splits sum.splits intro: ApplyManifest_inv)

definition reader_ok :: "ComponentReader \<Rightarrow> bool" where
  "reader_ok mgr \<longleftrightarrow> (\<forall>n c. cr_GetComponent mgr n = Inr c \<longrightarrow> comp_inv c)"

fun stage_ok :: "ComponentLoadStage \<Rightarrow> bool" where
  "stage_ok (ComponentInitStage mgr) = reader_ok mgr"
| "stage_ok _ = True"

lemma init_stage_inv: "init_stage mgr c = Inr c' \<Longrightarrow> reader_ok mgr \<Longrightarrow> comp_inv c \<Longrightarrow> comp_inv c'"
  by (auto simp: init_stage_def Let_def reader_ok_def comp_inv_def resources_of_def configs_of_def
      split: sum.splits if_splits)

lemma keep_attrs_Inr [simp]: "keep_attrs attrs r = Inr x \<longleftrightarrow> (\<exists>c. r = Inr c \<and> x = (attrs, c))"
  by (auto simp: keep_attrs_def split: sum.splits)

lemma on_resources_inv:
  assumes "on_resources f c = Inr c'" and "comp_inv c"
    and "\<And>rs. f (resources_of c) = Inr rs \<Longrightarrow> ResourceSet_inv (resources_of c) \<Longrightarrow> ResourceSet_inv rs"
  shows "comp_inv c'"
  using assms by (auto simp: on_resources_Inr comp_inv_def configs_of_def)

lemma change_stage_inv:
  "on_resources (change_resources f) c = Inr c' \<Longrightarrow> comp_inv c \<Longrightarrow> keeps_paths f \<Longrightarrow> comp_inv c'"
  by (erule on_resources_inv) (auto dest: change_resources_get)

lemma expander_stage_inv:
  assumes "on_resources (\<lambda>rs. each (expand_quadlet up s) (ResourceSet_List rs) rs) c = Inr c'" and "comp_inv c"
  shows "comp_inv c'"
  using assms
proof (rule on_resources_inv)
  fix rs assume "each (expand_quadlet up s) (ResourceSet_List (resources_of c)) (resources_of c) = Inr rs"
    and "ResourceSet_inv (resources_of c)"
  then show "ResourceSet_inv rs" by (rule each_invariant) (rule expand_quadlet_inv)
qed

lemma add_stage_inv:
  "on_resources (ResourceSet_Add r) c = Inr c' \<Longrightarrow> comp_inv c \<Longrightarrow> comp_inv c'"
  by (erule on_resources_inv)
    (auto simp: ResourceSet_Add_def resource_set.inv_put [unfolded ResourceSet_Set_def] split: option.splits)

lemma instance_stage_inv: "instance_stage c = Inr c' \<Longrightarrow> comp_inv c \<Longrightarrow> comp_inv c'"
  by (auto simp: instance_stage_def fold_instance_inv split: if_splits elim!: on_resources_inv)

lemma discovery_stage_inv:
  "on_resources (secret_discovery mgr) c = Inr c' \<Longrightarrow> comp_inv c \<Longrightarrow> comp_inv c'"
  by (erule on_resources_inv) (auto intro: secret_discovery_inv)

lemma state_stage_inv: "comp_inv c \<Longrightarrow> comp_inv (c\<lparr>comp_State := s\<rparr>)"
  by (simp add: comp_inv_def resources_of_def configs_of_def)

lemmas stage_invs =
  init_stage_inv manifest_stage_inv change_stage_inv expander_stage_inv add_stage_inv instance_stage_inv
  discovery_stage_inv state_stage_inv

lemma Process_inv:
  assumes "Process up render stage (attrs, c) = Inr (attrs', c')" and "comp_inv c" and "stage_ok stage"
  shows "comp_inv c'"
  using assms
  by (cases stage) (auto simp: Process_def keeps_paths_stages split: sum.splits intro: stage_invs)

lemma each_append_Inr: "each f (xs @ ys) s = Inr t \<longleftrightarrow> (\<exists>u. each f xs s = Inr u \<and> each f ys u = Inr t)"
  by (simp add: each_append split: sum.split)

lemma Load_Inr:
  "Load up render stages attrs c = Inr (attrs', c') \<longleftrightarrow>
     each (Process up render) stages (attrs, c) = Inr (attrs', c') \<and> Component_Validate c' = None"
  by (auto simp: Load_def split: sum.splits option.splits)



subsection \<open>The resources a source component ends with\<close>

definition attribute_of :: "any_map option \<Rightarrow> string \<Rightarrow> go_any option" where
  "attribute_of attrs k = Option.bind attrs (\<lambda>m. map_of m k)"

text \<open>A secret that was found: its value is the attribute of that name.\<close>

definition secret_filled :: "any_map option \<Rightarrow> Resource \<Rightarrow> bool" where
  "secret_filled attrs r \<longleftrightarrow>
     (res_Kind r = ResourceTypePodmanSecret \<longrightarrow> attribute_of attrs (res_Path r) = Some (AnyString (res_Content r)))"

definition object_known :: "'u unit_parser \<Rightarrow> Component \<Rightarrow> Resource \<Rightarrow> bool" where
  "object_known up c r \<longleftrightarrow>
     (IsQuadlet r \<longrightarrow>
        (\<exists>n. GetHostObject up r (res_Content r) = Inr n \<and>
             res_HostObject r = (if IsInstanced c then ReplaceAll n ''@'' ''_'' else n)))"

definition expanded :: "Settings \<Rightarrow> Resource \<Rightarrow> bool" where
  "expanded settings r \<longleftrightarrow> (res_Kind r = ResourceTypeCombined \<longrightarrow> set_NoExpansion settings)"

definition all_resources :: "(Resource \<Rightarrow> bool) \<Rightarrow> ResourceSet \<Rightarrow> bool" where
  "all_resources P rs \<longleftrightarrow> list_all P (ResourceSet_List rs)"

lemma all_resources_iff: "ResourceSet_inv rs \<Longrightarrow> all_resources P rs \<longleftrightarrow> (\<forall>p r. lhm_get rs p = Some r \<longrightarrow> P r)"
  by (auto simp: all_resources_def list_all_iff resource_set.get_Some_iff)

lemma all_resources_change:
  assumes "change_resources f rs = Inr rs'" and "ResourceSet_inv rs" and "keeps_paths f"
    and "\<And>p r r'. lhm_get rs p = Some r \<Longrightarrow> changed_entry f r = Some r' \<Longrightarrow> P r'"
  shows "all_resources P rs'"
  using change_resources_get [OF assms(1-3)] assms(4) by (auto simp: all_resources_iff bind_eq_Some_conv)

lemma all_resources_put: "ResourceSet_inv rs \<Longrightarrow> all_resources P rs \<Longrightarrow> P r \<Longrightarrow> all_resources P (ResourceSet_Set r rs)"
  by (auto simp: all_resources_iff resource_set.inv_put resource_set.get_put split: if_splits)

lemma all_resources_delete:
  "ResourceSet_inv rs \<Longrightarrow> all_resources P rs \<Longrightarrow> all_resources P (ResourceSet_Delete p rs)"
  by (auto simp: all_resources_iff resource_set.inv_delete resource_set.get_delete split: if_splits)

lemma all_resources_puts:
  "ResourceSet_inv rs \<Longrightarrow> all_resources P rs \<Longrightarrow> list_all P xs \<Longrightarrow> all_resources P (fold ResourceSet_Set xs rs)"
  by (induction xs arbitrary: rs) (auto simp: resource_set.inv_put all_resources_put)

lemma inject_secrets_filled:
  assumes "change_resources (inject_secret attrs) rs = Inr rs'" and "ResourceSet_inv rs"
  shows "all_resources (secret_filled attrs) rs'"
  using assms
proof (rule all_resources_change)
  show "keeps_paths (inject_secret attrs)" by (rule keeps_paths_stages)
  fix r r' assume "changed_entry (inject_secret attrs) r = Some r'"
  then show "secret_filled attrs r'"
    by (auto simp: changed_entry_def inject_secret_def secret_filled_def attribute_of_def
        split: if_splits option.splits go_any.splits)
qed

lemma kind_of_unitfile_kinds:
  "kind_of_unitfile up u \<noteq> ResourceTypePodmanSecret \<and> kind_of_unitfile up u \<noteq> ResourceTypeCombined"
  by (simp add: kind_of_unitfile_def Let_def)

lemma expanded_kinds:
  assumes "GetResourcesFromQuadletsFile up parent data = Inr rs" and "r \<in> set rs"
  shows "res_Kind r \<noteq> ResourceTypePodmanSecret \<and> res_Kind r \<noteq> ResourceTypeCombined"
proof -
  from assms obtain q ys where "resource_of_chunk up parent q = Inr ys" and "r \<in> set ys"
    unfolding GetResourcesFromQuadletsFile_def by (blast dest: collect_memberD)
  then show ?thesis
    using kind_of_unitfile_kinds [of up]
    by (auto simp: resource_of_chunk_def Let_def split: sum.splits prod.splits if_splits)
qed

text \<open>
  While the combined files are expanded, what remains to be expanded is what the loop still has to
  visit.
\<close>

lemma expand_keeps:
  assumes "expand_quadlet up settings r rs = Inr rs'" and "ResourceSet_inv rs"
    and "all_resources P rs" and "\<And>r. res_Kind r \<noteq> ResourceTypePodmanSecret \<Longrightarrow> res_Kind r \<noteq> ResourceTypeCombined \<Longrightarrow> P r"
  shows "all_resources P rs'"
proof (cases "res_Kind r = ResourceTypeCombined \<and> \<not> set_NoExpansion settings")
  case True
  with assms(1) obtain new where new: "GetResourcesFromQuadletsFile up (res_Parent r) (res_Content r) = Inr new"
    and rs': "rs' = ResourceSet_Delete (res_Path r) (fold ResourceSet_Set new rs)"
    by (auto simp: expand_quadlet_def split: sum.splits)
  have "list_all P new" using expanded_kinds [OF new] assms(4) by (simp add: list_all_iff)
  then show ?thesis
    using assms(2,3) by (simp add: rs' all_resources_delete all_resources_puts resource_set.inv_fold)
next
  case False
  with assms(1,3) show ?thesis by (simp add: expand_quadlet_def split: if_splits)
qed

lemma expand_all:
  assumes "each (expand_quadlet up settings) xs rs = Inr rs'" and "ResourceSet_inv rs"
    and "all_resources (\<lambda>r. expanded settings r \<or> res_Path r \<in> res_Path ` set (filter (\<lambda>r. \<not> expanded settings r) xs)) rs"
  shows "all_resources (expanded settings) rs'"
  using assms
proof (induction xs arbitrary: rs)
  case Nil
  then show ?case by simp
next
  case (Cons x xs)
  from Cons.prems(1) obtain rs1 where step: "expand_quadlet up settings x rs = Inr rs1"
    and rest: "each (expand_quadlet up settings) xs rs1 = Inr rs'"
    by (auto split: sum.splits)
  have inv: "ResourceSet_inv rs1" using step Cons.prems(2) by (rule expand_quadlet_inv)
  let ?P = "\<lambda>zs r. expanded settings r \<or> res_Path r \<in> res_Path ` set (filter (\<lambda>r. \<not> expanded settings r) zs)"
  have old: "all_resources (?P (x # xs)) rs1"
    using step Cons.prems(2,3) by (rule expand_keeps) (simp add: expanded_def)
  have "all_resources (?P xs) rs1"
  proof (cases "expanded settings x")
    case True
    with old show ?thesis by simp
  next
    case False
    with step have "lhm_get rs1 (res_Path x) = None"
      by (auto simp: expanded_def expand_quadlet_def resource_set.get_delete resource_set.inv_fold
          Cons.prems(2) split: sum.splits)
    then have "res_Path r \<noteq> res_Path x" if "lhm_get rs1 p = Some r" for p r
      using that inv by (metis option.distinct(1) resource_set.get_key)
    with old inv False show ?thesis by (fastforce simp: all_resources_iff)
  qed
  from Cons.IH [OF rest inv this] show ?case .
qed

lemma expander_expands:
  assumes "each (expand_quadlet up settings) (ResourceSet_List rs) rs = Inr rs'" and "ResourceSet_inv rs"
  shows "all_resources (expanded settings) rs'"
  using assms by (rule expand_all) (force simp: all_resources_def list_all_iff)

lemma expander_keeps_secrets:
  assumes "each (expand_quadlet up settings) xs rs = Inr rs'" and "ResourceSet_inv rs"
    and "all_resources (secret_filled attrs) rs"
  shows "all_resources (secret_filled attrs) rs'"
proof -
  have "ResourceSet_inv rs' \<and> all_resources (secret_filled attrs) rs'"
  proof (rule each_invariant [OF assms(1)])
    show "ResourceSet_inv rs \<and> all_resources (secret_filled attrs) rs" using assms(2,3) by simp
    fix x s t
    assume "expand_quadlet up settings x s = Inr t" and "ResourceSet_inv s \<and> all_resources (secret_filled attrs) s"
    then show "ResourceSet_inv t \<and> all_resources (secret_filled attrs) t"
      by (auto intro: expand_quadlet_inv expand_keeps simp: secret_filled_def)
  qed
  then show ?thesis by simp
qed

lemma GetHostObject_update [simp]: "GetHostObject up (r\<lparr>res_HostObject := n\<rparr>) d = GetHostObject up r d"
proof -
  have "hostObjectFromUnitFile up (r\<lparr>res_HostObject := n\<rparr>) = hostObjectFromUnitFile up r"
    by (simp add: hostObjectFromUnitFile_def fun_eq_iff split: option.split)
  then show ?thesis by (simp add: GetHostObject_def IsQuadlet_def split: sum.split)
qed

lemma extract_objects:
  assumes "change_resources (extract_object up c) rs = Inr rs'" and "ResourceSet_inv rs"
    and "all_resources (secret_filled attrs) rs" and "all_resources (expanded settings) rs"
  shows "all_resources (\<lambda>r. object_known up c r \<and> secret_filled attrs r \<and> expanded settings r) rs'"
  using assms(1,2)
proof (rule all_resources_change)
  show "keeps_paths (extract_object up c)" by (rule keeps_paths_stages)
  fix p r r' assume r: "lhm_get rs p = Some r" and r': "changed_entry (extract_object up c) r = Some r'"
  have old: "secret_filled attrs r" "expanded settings r"
    using assms(2-4) r by (auto simp: all_resources_iff)
  show "object_known up c r' \<and> secret_filled attrs r' \<and> expanded settings r'"
  proof (cases "IsQuadlet r")
    case False
    with r' have "r' = r" by (simp add: changed_entry_def extract_object_def)
    with False old show ?thesis by (simp add: object_known_def)
  next
    case True
    with r' obtain n where "GetHostObject up r (res_Content r) = Inr n"
      and "r' = r\<lparr>res_HostObject := (if IsInstanced c then ReplaceAll n ''@'' ''_'' else n)\<rparr>"
      by (auto simp: changed_entry_def extract_object_def split: sum.splits)
    with True old show ?thesis
      by (auto simp: object_known_def secret_filled_def expanded_def)
  qed
qed


lemma on_resources_frame:
  "on_resources f c = Inr c' \<Longrightarrow>
     comp_Name c' = comp_Name c \<and> comp_Instance c' = comp_Instance c \<and> comp_Settings c' = comp_Settings c \<and>
     comp_ServiceConfigs c' = comp_ServiceConfigs c \<and> comp_Defaults c' = comp_Defaults c \<and>
     comp_Version c' = comp_Version c \<and> comp_State c' = comp_State c"
  by (auto simp: on_resources_Inr)

text \<open>The last four stages of the pipeline of a source component.\<close>

lemma source_tail:
  assumes "each (Process up render)
      [SecretInjectorStage, QuadletExpanderStage, QuadletObjectExtractorStage, StateInjectorStage StateFresh]
      (attrs, c) = Inr (attrs', c')" and "comp_inv c"
  shows "attrs' = attrs \<and> comp_State c' = StateFresh \<and>
     all_resources (\<lambda>r. object_known up c' r \<and> secret_filled attrs' r \<and> expanded (comp_Settings c') r) (resources_of c')"
proof -
  from assms(1) obtain c1 c2 c3 where
    c1: "on_resources (change_resources (inject_secret attrs)) c = Inr c1" and
    c2: "on_resources (\<lambda>rs. each (expand_quadlet up (comp_Settings c1)) (ResourceSet_List rs) rs) c1 = Inr c2" and
    c3: "on_resources (change_resources (extract_object up c2)) c2 = Inr c3" and
    res: "attrs' = attrs" "c' = c3\<lparr>comp_State := StateFresh\<rparr>"
    by (auto simp: Process_def split: sum.splits)
  have frame: "IsInstanced c' = IsInstanced c2" "comp_Settings c' = comp_Settings c1"
    using on_resources_frame [OF c2] on_resources_frame [OF c3] by (simp_all add: res IsInstanced_def)
  have inv1: "comp_inv c1" using c1 assms(2) keeps_paths_stages(3) by (rule change_stage_inv)
  have inv2: "comp_inv c2" using c2 inv1 by (rule expander_stage_inv)
  have f1: "all_resources (secret_filled attrs) (resources_of c1)"
    using c1 assms(2) by (auto simp: on_resources_Inr comp_inv_def intro: inject_secrets_filled)
  have f2: "all_resources (secret_filled attrs) (resources_of c2)" "all_resources (expanded (comp_Settings c1)) (resources_of c2)"
    using c2 inv1 f1 by (auto simp: on_resources_Inr comp_inv_def intro: expander_keeps_secrets expander_expands)
  have "all_resources (\<lambda>r. object_known up c2 r \<and> secret_filled attrs r \<and> expanded (comp_Settings c1) r) (resources_of c3)"
    using c3 inv2 f2 by (auto simp: on_resources_Inr comp_inv_def intro: extract_objects)
  moreover have "object_known up c' r = object_known up c2 r" for r
    by (simp add: object_known_def frame)
  ultimately show ?thesis
    by (simp add: res(1) frame) (simp add: res(2) resources_of_def)
qed

text \<open>
  C17: What a source component is after loading: fresh and valid; every quadlet knows the podman
  object its text stands for (with the separator of the instance replaced); every secret that is
  left has the value of the attribute of its name, so no placeholder reaches a plan; and no combined
  file is left unless the component asked not to expand them.
\<close>

theorem Load_source_complete:
  assumes "Load up render (NewSourceComponentPipeline mgr overrides extensions) attrs c = Inr (attrs', c')"
    and "comp_inv c" and "reader_ok mgr"
  shows "comp_inv c' \<and> Component_Validate c' = None \<and> comp_State c' = StateFresh \<and>
     all_resources (\<lambda>r. object_known up c' r \<and> secret_filled attrs' r \<and> expanded (comp_Settings c') r) (resources_of c')"
proof -
  let ?pre = "[ComponentInitStage mgr, ManifestLoadStage mgr overrides extensions, ResourceDiscoveryStage mgr,
      TemplateProcessorStage, ComponentInstanceStage]"
  let ?post = "[SecretInjectorStage, QuadletExpanderStage, QuadletObjectExtractorStage, StateInjectorStage StateFresh]"
  have split: "NewSourceComponentPipeline mgr overrides extensions = ?pre @ ?post"
    by (simp add: NewSourceComponentPipeline_def)
  from assms(1) have run: "each (Process up render) (?pre @ ?post) (attrs, c) = Inr (attrs', c')"
    and valid: "Component_Validate c' = None"
    unfolding Load_Inr split by blast+
  from each_append_Inr [THEN iffD1, OF run] obtain a0 c0 where
    s: "each (Process up render) ?pre (attrs, c) = Inr (a0, c0)" and
    tail: "each (Process up render) ?post (a0, c0) = Inr (attrs', c')"
    by (metis surj_pair)
  have step: "comp_inv (snd t)" if "Process up render st s = Inr t" and "comp_inv (snd s)" and "stage_ok st" for st s t
    using that Process_inv [of up render st "fst s" "snd s" "fst t" "snd t"] by simp
  have "comp_inv (snd (a0, c0))"
  proof (rule each_invariant [OF s, of "\<lambda>s. comp_inv (snd s)"])
    show "comp_inv (snd t)" if "x \<in> set ?pre" and "Process up render x u = Inr t" and "comp_inv (snd u)" for x u t
      using that(2,3) by (rule step) (use that(1) assms(3) in auto)
  qed (simp add: assms(2))
  then have c: "comp_inv c0" by simp
  from source_tail [OF tail c] have end_state:
    "comp_State c' = StateFresh \<and>
     all_resources (\<lambda>r. object_known up c' r \<and> secret_filled attrs' r \<and> expanded (comp_Settings c') r) (resources_of c')"
    by (rule conjunct2)
  have "comp_inv (snd (attrs', c'))"
  proof (rule each_invariant [OF tail, of "\<lambda>s. comp_inv (snd s)"])
    show "comp_inv (snd t)" if "x \<in> set ?post" and "Process up render x u = Inr t" and "comp_inv (snd u)" for x u t
      using that(2,3) by (rule step) (use that(1) in auto)
  qed (simp add: c)
  with valid end_state show ?thesis by simp
qed

definition demo_reader :: "ComponentManifest \<Rightarrow> Resource list \<Rightarrow> ComponentReader" where
  "demo_reader man rs =
     \<lparr>cr_GetComponent = (\<lambda>n. Inr ((NewComponent n)
        \<lparr>comp_Resources := Some (fold ResourceSet_Set rs NewResourceSet), comp_Version := 1\<rparr>)),
      cr_GetManifest = (\<lambda>c. Inr man), cr_ReadResource = (\<lambda>r. Inr (''text of '' @ res_Path r))\<rparr>"

lemma demo_reader_ok: "reader_ok (demo_reader man rs)"
  by (auto simp: reader_ok_def demo_reader_def resource_set.inv_fold resource_set.inv_empty
      intro: comp_inv_resources [of "NewComponent n" for n, THEN comp_inv_version] NewComponent_inv)

text \<open>A renderer that leaves texts alone and a parser for which they are units without keys.\<close>

definition plain_render :: renderer where
  "plain_render vars body = Inr body"

definition plain_parser :: "string unit_parser" where
  "plain_parser =
     \<lparr>up_Parse = Inr, up_Lookup = (\<lambda>u g k. None), up_HasGroup = (\<lambda>u g. g = ''Container''),
      up_HasKey = (\<lambda>u g k. False), up_LookupAll = (\<lambda>u g k. [])\<rparr>"

definition web_manifest :: ComponentManifest where
  "web_manifest = zero_ComponentManifest
     \<lparr>cm_Defaults := Some [(''token'', AnyString ''changeme'')], cm_Secrets := [''token'', ''extra'']\<rparr>"

definition web_files :: "Resource list" where
  "web_files =
     [zero_Resource\<lparr>res_Path := ''web@.container'', res_Parent := ''web'', res_Kind := ResourceTypeContainer\<rparr>,
      zero_Resource\<lparr>res_Path := ''site.conf'', res_Parent := ''web'', res_Kind := ResourceTypeFile\<rparr>]"

definition web_pipeline :: "ComponentLoadStage list" where
  "web_pipeline = NewSourceComponentPipeline (demo_reader web_manifest web_files) [] []"

definition web_loaded :: "any_map option \<times> Component" where
  "web_loaded = projr (Load plain_parser plain_render web_pipeline (Some []) (NewComponent ''web@blue''))"

lemma web_loads: "Load plain_parser plain_render web_pipeline (Some []) (NewComponent ''web@blue'') = Inr web_loaded"
  by code_simp

theorem Load_source_complete_witness:
  "comp_State (snd web_loaded) = StateFresh \<and>
   map (\<lambda>r. (res_Path r, res_HostObject r, res_Content r)) (ResourceSet_List (resources_of (snd web_loaded))) =
     [(''web@blue.container'', ''systemd-web_blue'', ''text of web@.container''),
      (''site.conf'', [], ''text of site.conf''), (''token'', [], ''changeme'')]"
proof
  obtain a c where w: "web_loaded = (a, c)" by (cases web_loaded)
  from Load_source_complete [OF web_loads [unfolded w web_pipeline_def] NewComponent_inv demo_reader_ok]
  show "comp_State (snd web_loaded) = StateFresh" by (simp add: w)
  show "map (\<lambda>r. (res_Path r, res_HostObject r, res_Content r)) (ResourceSet_List (resources_of (snd web_loaded))) =
     [(''web@blue.container'', ''systemd-web_blue'', ''text of web@.container''),
      (''site.conf'', [], ''text of site.conf''), (''token'', [], ''changeme'')]"
    by code_simp
qed


subsection \<open>Names of instances\<close>

lemma first_at:
  assumes "c \<in> set n"
  obtains u v where "n = u @ c # v" and "c \<notin> set u"
  using split_list_first [OF assms] that by blast

lemma Split_char: "c \<notin> set u \<Longrightarrow> Split (u @ c # v) [c] = u # Split v [c]"
  by (rule Split_at_sep) simp_all

text \<open>
  The name of an instance (\<open>name@instance\<close>) parses back to the name and the instance exactly
  when it has at most one separator and something after it; a second separator is cut off silently,
  so \<open>a@b@c\<close> names the component \<open>a@b\<close>.
\<close>

theorem InstanceName_roundtrip:
  "InstanceName (NewComponent n) = n \<longleftrightarrow>
     (case Split n ''@'' of [a] \<Rightarrow> True | [a, b] \<Rightarrow> b \<noteq> [] | _ \<Rightarrow> False)"
proof (cases "CHR ''@'' \<in> set n")
  case False
  then show ?thesis
    by (simp add: NewComponent_def InstanceName_def Contains_char Split_no_sep Let_def)
next
  case True
  then obtain u v where n: "n = u @ CHR ''@'' # v" and u: "CHR ''@'' \<notin> set u" by (rule first_at)
  have parts: "Split n ''@'' = u # Split v ''@''" using u by (simp add: n Split_char)
  show ?thesis
  proof (cases "CHR ''@'' \<in> set v")
    case False
    then have "Split v ''@'' = [v]" by (simp add: Split_no_sep Contains_char)
    with True show ?thesis
      by (simp add: NewComponent_def InstanceName_def Contains_char parts Let_def) (simp add: n)
  next
    case inner: True
    then obtain v1 v2 where v: "v = v1 @ CHR ''@'' # v2" and v1: "CHR ''@'' \<notin> set v1" by (rule first_at)
    have "Split v ''@'' = v1 # Split v2 ''@''" using v1 by (simp add: v Split_char)
    with True show ?thesis
      by (simp add: NewComponent_def InstanceName_def Contains_char parts Let_def neq_Nil_conv
          split: list.split) (auto simp: n v)
  qed
qed

subsection \<open>Defaults become attributes\<close>

lemma Process_attrs:
  "Process up render stage s = Inr t \<Longrightarrow> stage \<noteq> TemplateProcessorStage \<Longrightarrow> fst t = fst s"
  by (cases stage; cases s) (auto simp: Process_def)

fun reads_manifest :: "ComponentLoadStage \<Rightarrow> bool" where
  "reads_manifest (ManifestLoadStage mgr overrides extensions) = True"
| "reads_manifest _ = False"

lemma init_stage_defaults: "init_stage mgr c = Inr c' \<Longrightarrow> comp_Defaults c' = comp_Defaults c"
  by (auto simp: init_stage_def Let_def split: sum.splits if_splits)

lemma Process_defaults:
  assumes "Process up render stage s = Inr t" and "\<not> reads_manifest stage"
  shows "comp_Defaults (snd t) = comp_Defaults (snd s)"
  using assms
  by (cases stage; cases s)
    (auto simp: Process_def instance_stage_def split: sum.splits if_splits dest: on_resources_frame init_stage_defaults)

lemma run_keeps_attrs:
  assumes "each (Process up render) stages s = Inr t" and "TemplateProcessorStage \<notin> set stages"
  shows "fst t = fst s"
proof (rule each_invariant [OF assms(1), of "\<lambda>t. fst t = fst s"])
  show "fst v = fst s" if "x \<in> set stages" and "Process up render x u = Inr v" and "fst u = fst s" for x u v
    using that assms(2) Process_attrs [OF that(2)] by auto
qed simp

lemma run_keeps_defaults:
  assumes "each (Process up render) stages s = Inr t" and "list_all (\<lambda>st. \<not> reads_manifest st) stages"
  shows "comp_Defaults (snd t) = comp_Defaults (snd s)"
proof (rule each_invariant [OF assms(1), of "\<lambda>t. comp_Defaults (snd t) = comp_Defaults (snd s)"])
  show "comp_Defaults (snd v) = comp_Defaults (snd s)"
    if "x \<in> set stages" and "Process up render x u = Inr v" and "comp_Defaults (snd u) = comp_Defaults (snd s)" for x u v
    using that(1,3) assms(2) Process_defaults [OF that(2)] by (simp add: list_all_iff)
qed simp

text \<open>
  Loading a source component writes the defaults of its manifest into the map of attributes it was
  given, below the attributes that were there.  The map is the one the secrets are filled from and,
  with the in-memory engine, the engine's own: a default fills a secret of that name, and the next
  component that is loaded finds it too.
\<close>

theorem Load_adds_defaults:
  assumes "Load up render (NewSourceComponentPipeline mgr overrides extensions) (Some m) c = Inr (attrs', c')"
  shows "\<exists>m'. attrs' = Some m' \<and> map_of m' = map_of (comp_Defaults c') ++ map_of m"
proof -
  let ?pre = "[ComponentInitStage mgr, ManifestLoadStage mgr overrides extensions, ResourceDiscoveryStage mgr]"
  let ?post = "[ComponentInstanceStage, SecretInjectorStage, QuadletExpanderStage, QuadletObjectExtractorStage,
      StateInjectorStage StateFresh]"
  have split: "NewSourceComponentPipeline mgr overrides extensions = ?pre @ [TemplateProcessorStage] @ ?post"
    by (simp add: NewSourceComponentPipeline_def)
  from assms have run: "each (Process up render) (?pre @ [TemplateProcessorStage] @ ?post) (Some m, c) = Inr (attrs', c')"
    unfolding Load_Inr split by blast
  then obtain s1 s2 where
    pre: "each (Process up render) ?pre (Some m, c) = Inr s1" and
    tmpl: "each (Process up render) [TemplateProcessorStage] s1 = Inr s2" and
    post: "each (Process up render) ?post s2 = Inr (attrs', c')"
    unfolding each_append_Inr by blast
  have a1: "fst s1 = Some m" using run_keeps_attrs [OF pre] by simp
  obtain c1 where s1: "s1 = (Some m, c1)" using a1 by (cases s1) simp
  from tmpl [unfolded s1] obtain vars c2 where
    vars: "MergeAttributes (Some m) (comp_Defaults c1) = Inr vars" and
    c2: "on_resources (change_resources (fill_template render vars)) c1 = Inr c2" and s2: "s2 = (vars, c2)"
    by (auto simp: Process_def split: sum.splits)
  have "attrs' = vars" using run_keeps_attrs [OF post] by (simp add: s2)
  moreover have "comp_Defaults c' = comp_Defaults c1"
    using run_keeps_defaults [OF post] on_resources_frame [OF c2] by (simp add: s2)
  ultimately show ?thesis
    using vars by (auto simp: MergeAttributes_def map_of_merge_missing)
qed

theorem Load_adds_defaults_witness:
  "\<exists>m'. fst web_loaded = Some m' \<and> map_of m' = [''token'' \<mapsto> AnyString ''changeme'']"
proof -
  obtain a c where w: "web_loaded = (a, c)" by (cases web_loaded)
  have "comp_Defaults (snd web_loaded) = [(''token'', AnyString ''changeme'')]" by code_simp
  with Load_adds_defaults [OF web_loads [unfolded w web_pipeline_def]] show ?thesis by (simp add: w)
qed

subsection \<open>The secrets of an installed component\<close>

definition secret_live :: "SecretsManager \<Rightarrow> Resource \<Rightarrow> bool" where
  "secret_live mgr r \<longleftrightarrow>
     (res_Kind r = ResourceTypePodmanSecret \<longrightarrow>
        (case sm_ListSecrets mgr of Inl e \<Rightarrow> False | Inr names \<Rightarrow> res_Path r \<in> set names) \<and>
        sm_GetSecret mgr (res_Path r) = Inr (res_Content r))"

lemma discover_secrets_live:
  assumes "each (discover_secret mgr) xs (rs, deleted) = Inr (rs', deleted')" and "ResourceSet_inv rs"
    and "\<And>p r. lhm_get rs p = Some r \<Longrightarrow> secret_live mgr r \<or> p \<in> res_Path ` set xs \<or> p \<in> res_Path ` set deleted"
    and "\<And>r. r \<in> set xs \<Longrightarrow> lhm_get rs (res_Path r) = Some r"
    and "distinct (map res_Path xs)"
  shows "ResourceSet_inv rs' \<and> (\<forall>p r. lhm_get rs' p = Some r \<longrightarrow> secret_live mgr r \<or> p \<in> res_Path ` set deleted')"
  using assms
proof (induction xs arbitrary: rs deleted)
  case Nil
  then show ?case by auto
next
  case (Cons x xs)
  from Cons.prems(1) obtain rs1 deleted1 where
    step: "discover_secret mgr x (rs, deleted) = Inr (rs1, deleted1)" and
    rest: "each (discover_secret mgr) xs (rs1, deleted1) = Inr (rs', deleted')"
    by (auto split: sum.splits)
  have new: "res_Path x \<notin> res_Path ` set xs" using Cons.prems(5) by auto
  consider
      (kept) "rs1 = rs" "deleted1 = deleted" "res_Kind x \<noteq> ResourceTypePodmanSecret"
    | (gone) "rs1 = rs" "deleted1 = deleted @ [x]"
    | (found) v where "rs1 = ResourceSet_Set (x\<lparr>res_Content := v\<rparr>) rs" "deleted1 = deleted"
        "secret_live mgr (x\<lparr>res_Content := v\<rparr>)"
    using step by (auto simp: discover_secret_def secret_live_def split: if_splits sum.splits)
  then show ?case
  proof cases
    case kept
    have live: "secret_live mgr r \<or> p \<in> res_Path ` set xs \<or> p \<in> res_Path ` set deleted" if r: "lhm_get rs p = Some r" for p r
    proof (cases "p = res_Path x")
      case True
      with r Cons.prems(4) [of x] have "r = x" by simp
      with kept(3) show ?thesis by (simp add: secret_live_def)
    next
      case False
      with Cons.prems(3) [OF r] show ?thesis by auto
    qed
    show ?thesis
    proof (rule Cons.IH [OF rest [unfolded kept(1,2)] Cons.prems(2)])
      show "secret_live mgr r \<or> p \<in> res_Path ` set xs \<or> p \<in> res_Path ` set deleted" if "lhm_get rs p = Some r" for p r
        using that by (rule live)
    qed (use Cons.prems(4,5) in auto)
  next
    case gone
    show ?thesis
    proof (rule Cons.IH [OF rest [unfolded gone] Cons.prems(2)])
      show "secret_live mgr r \<or> p \<in> res_Path ` set xs \<or> p \<in> res_Path ` set (deleted @ [x])" if "lhm_get rs p = Some r" for p r
        using Cons.prems(3) [OF that] by auto
    qed (use Cons.prems(4,5) in auto)
  next
    case (found v)
    show ?thesis
    proof (rule Cons.IH [OF rest])
      show "ResourceSet_inv rs1" using Cons.prems(2) by (simp add: found(1) resource_set.inv_put)
      have get: "lhm_get rs1 = (lhm_get rs)(res_Path x \<mapsto> x\<lparr>res_Content := v\<rparr>)"
        using Cons.prems(2) by (simp add: found(1) resource_set.get_put)
      show "secret_live mgr r \<or> p \<in> res_Path ` set xs \<or> p \<in> res_Path ` set deleted1"
        if "lhm_get rs1 p = Some r" for p r
        using that Cons.prems(3) [of p r] found(2,3) by (auto simp: get split: if_splits)
      show "lhm_get rs1 (res_Path r) = Some r" if "r \<in> set xs" for r
        using that Cons.prems(4) [of r] new by (auto simp: get image_iff)
      show "distinct (map res_Path xs)" using Cons.prems(5) by simp
    qed
  qed
qed

lemma fold_delete_get:
  "ResourceSet_inv rs \<Longrightarrow>
   lhm_get (fold (\<lambda>r. ResourceSet_Delete (res_Path r)) xs rs) p =
     (if p \<in> res_Path ` set xs then None else lhm_get rs p)"
  by (induction xs arbitrary: rs) (auto simp: resource_set.inv_delete resource_set.get_delete)

lemma secret_discovery_live:
  assumes "secret_discovery mgr rs = Inr rs'" and "ResourceSet_inv rs"
  shows "all_resources (secret_live mgr) rs'"
proof -
  from assms(1) obtain rs1 deleted where
    run: "each (discover_secret mgr) (ResourceSet_List rs) (rs, []) = Inr (rs1, deleted)" and
    rs': "rs' = fold (\<lambda>r. ResourceSet_Delete (res_Path r)) deleted rs1"
    by (auto simp: secret_discovery_def split: sum.splits prod.splits)
  have "ResourceSet_inv rs1 \<and> (\<forall>p r. lhm_get rs1 p = Some r \<longrightarrow> secret_live mgr r \<or> p \<in> res_Path ` set deleted)"
    using run assms(2)
  proof (rule discover_secrets_live)
    show "secret_live mgr r \<or> p \<in> res_Path ` set (ResourceSet_List rs) \<or> p \<in> res_Path ` set []"
      if "lhm_get rs p = Some r" for p r
      using that assms(2) by (auto simp: resource_set.get_Some_iff)
    show "lhm_get rs (res_Path r) = Some r" if "r \<in> set (ResourceSet_List rs)" for r
      using that assms(2) by (simp add: resource_set.entries_iff)
  qed (rule resource_set.distinct_entries [OF assms(2)])
  then show ?thesis
    by (auto simp: rs' all_resources_iff fold_delete_inv fold_delete_get split: if_splits)
qed

text \<open>
  An installed component is loaded with exactly the secrets podman has: each secret that is left
  is listed by podman and has podman's value; a secret podman does not know is dropped, so the planner
  installs it again.
\<close>

theorem Load_host_secrets_live:
  assumes "Load up render (NewHostComponentPipeline mgr cont) attrs c = Inr (attrs', c')"
    and "comp_inv c" and "reader_ok mgr"
  shows "comp_State c' = StateStale \<and> all_resources (secret_live cont) (resources_of c')"
proof -
  let ?pre = "[ComponentInitStage mgr, ManifestLoadStage mgr [] [], ResourceDiscoveryStage mgr,
      ComponentInstanceStage, QuadletObjectExtractorStage]"
  let ?post = "[SecretDiscoveryStage cont, StateInjectorStage StateStale]"
  have split: "NewHostComponentPipeline mgr cont = ?pre @ ?post"
    by (simp add: NewHostComponentPipeline_def)
  from assms(1) have "each (Process up render) (?pre @ ?post) (attrs, c) = Inr (attrs', c')"
    unfolding Load_Inr split by blast
  then obtain a0 c0 where
    s: "each (Process up render) ?pre (attrs, c) = Inr (a0, c0)" and
    tail: "each (Process up render) ?post (a0, c0) = Inr (attrs', c')"
    unfolding each_append_Inr by (metis surj_pair)
  have "comp_inv (snd (a0, c0))"
  proof (rule each_invariant [OF s, of "\<lambda>s. comp_inv (snd s)"])
    show "comp_inv (snd t)" if "x \<in> set ?pre" and "Process up render x u = Inr t" and "comp_inv (snd u)" for x u t
      using that assms(3) Process_inv [of up render x "fst u" "snd u" "fst t" "snd t"] by auto
  qed (simp add: assms(2))
  then have inv: "ResourceSet_inv (resources_of c0)" by (simp add: comp_inv_def)
  from tail obtain c1 where "on_resources (secret_discovery cont) c0 = Inr c1" and c': "c' = c1\<lparr>comp_State := StateStale\<rparr>"
    by (auto simp: Process_def split: sum.splits)
  then have "all_resources (secret_live cont) (resources_of c1)"
    using inv by (auto simp: on_resources_Inr intro: secret_discovery_live)
  then show ?thesis by (simp add: c' resources_of_def)
qed

definition demo_secrets :: SecretsManager where
  "demo_secrets = \<lparr>sm_ListSecrets = Inr [''token''], sm_GetSecret = (\<lambda>n. Inr (''value of '' @ n))\<rparr>"

definition web_installed :: "any_map option \<times> Component" where
  "web_installed = projr (Load plain_parser plain_render
     (NewHostComponentPipeline (demo_reader web_manifest web_files) demo_secrets) None (NewComponent ''web''))"

theorem Load_host_secrets_live_witness:
  "comp_State (snd web_installed) = StateStale \<and> all_resources (secret_live demo_secrets) (resources_of (snd web_installed)) \<and>
   map res_Content (filter (\<lambda>r. res_Kind r = ResourceTypePodmanSecret) (ResourceSet_List (resources_of (snd web_installed)))) =
     [''value of token'']"
proof -
  obtain a c where w: "web_installed = (a, c)" by (cases web_installed)
  have loads: "Load plain_parser plain_render
      (NewHostComponentPipeline (demo_reader web_manifest web_files) demo_secrets) None (NewComponent ''web'') = Inr web_installed"
    by code_simp
  have "map res_Content (filter (\<lambda>r. res_Kind r = ResourceTypePodmanSecret) (ResourceSet_List (resources_of (snd web_installed)))) =
     [''value of token'']"
    by code_simp
  with Load_host_secrets_live [OF loads [unfolded w] NewComponent_inv demo_reader_ok] show ?thesis by (simp add: w)
qed

end
