(* ===== verification/Materia.thy ===== *)
theory Materia
  imports ExecutorFacts LoaderFacts
begin

section \<open>Materia (internal/materia, pkg/manifests/materia.go)\<close>

text \<open>
  The top level: which components a host is assigned, how they and the installed ones are loaded, planned
  and executed under the lock, and what is cleaned up afterwards.  The host is a state of any type with the
  queries of \<open>HostManager\<close> as functions of it and its changes as operations; the lock and the directory of
  the source, which is read through \<open>mt_Source\<close>, are part of it.
\<close>

subsection \<open>The manifest of a source\<close>

text \<open>The remotes of the manifest are the source manager's business and not part of this record.\<close>

record ManifestHost =
  mh_Components :: "string list"
  mh_Roles :: "string list"
  mh_Overrides :: "(string \<times> ComponentManifest) list"
  mh_Extensions :: "(string \<times> ComponentManifest) list"

record ManifestRole =
  mr_Components :: "string list"

record MateriaManifest =
  mm_Hosts :: "(string \<times> ManifestHost) list"
  mm_Snippets :: "SnippetConfig list"
  mm_Roles :: "(string \<times> ManifestRole) list"
  mm_RoleCommand :: string

definition ManifestHost_Validate :: "string \<times> ManifestHost \<Rightarrow> go_error option" where
  "ManifestHost_Validate e =
     (if fst e = [] then Some (ErrMsg ''materia manifest can't have empty host name'')
      else if [] \<in> set (mh_Components (snd e)) then Some (ErrMsg ''materia manifest can't have empty component name'')
      else if [] \<in> set (mh_Roles (snd e)) then Some (ErrMsg ''materia manifest can't have empty role name'')
      else None)"

text \<open>The first error of the hosts in the order they are visited.\<close>

fun first_error :: "('a \<Rightarrow> go_error option) \<Rightarrow> 'a list \<Rightarrow> go_error option" where
  "first_error f [] = None"
| "first_error f (x # xs) = (case f x of Some e \<Rightarrow> Some e | None \<Rightarrow> first_error f xs)"

definition MateriaManifest_Validate :: "MateriaManifest \<Rightarrow> go_error option" where
  "MateriaManifest_Validate m = first_error ManifestHost_Validate (mm_Hosts m)"

definition GetComponentOverride :: "MateriaManifest \<Rightarrow> string \<Rightarrow> string \<Rightarrow> ComponentManifest result" where
  "GetComponentOverride m hostname componentName =
     (case map_of (mm_Hosts m) hostname of
        None \<Rightarrow> Inl (ErrSentinel ErrHostNotInManifest)
      | Some hostConfig \<Rightarrow>
          (case map_of (mh_Overrides hostConfig) componentName of
             Some v \<Rightarrow> Inr v
           | None \<Rightarrow> Inl (ErrSentinel ErrComponentNotAssignedToHost)))"

definition GetComponentExtension :: "MateriaManifest \<Rightarrow> string \<Rightarrow> string \<Rightarrow> ComponentManifest result" where
  "GetComponentExtension m hostname componentName =
     (case map_of (mm_Hosts m) hostname of
        None \<Rightarrow> Inl (ErrSentinel ErrHostNotInManifest)
      | Some hostConfig \<Rightarrow>
          (case map_of (mh_Extensions hostConfig) componentName of
             Some v \<Rightarrow> Inr v
           | None \<Rightarrow> Inl (ErrSentinel ErrComponentNotAssignedToHost)))"

subsection \<open>Materia and its host\<close>

record 'h HostManager =
  hs_reader :: "'h \<Rightarrow> ComponentReader"
  hs_secrets :: "'h \<Rightarrow> SecretsManager"
  hs_state :: "'h \<Rightarrow> HostStateManager"
  hs_ListComponentNames :: "'h \<Rightarrow> string list result"
  hs_PurgeComponentByName :: "string \<Rightarrow> 'h operation"
  hs_Clean :: "'h operation"

record 'h Lock =
  lo_LockOrWait :: "'h operation"
  lo_Unlock :: "'h operation"

record ('h, 'u) Materia =
  mt_Host :: "'h HostManager"
  mt_Source :: "'h \<Rightarrow> ComponentReader"
  mt_Manifest :: MateriaManifest
  mt_Executor :: "'h Executor"
  mt_Planner :: PlannerConfig
  mt_Vault :: engine
  mt_Hostname :: string
  mt_Roles :: "string list"
  mt_Lock :: "'h Lock option"
  mt_Rollback :: bool
  mt_appMode :: bool
  mt_RemoveOutputDir :: "'h operation"
  mt_render :: renderer
  mt_units :: "'u unit_parser"
  mt_diff :: differ
  mt_order :: "(string \<times> ActionType) list \<Rightarrow> (string \<times> ActionType) list"
  mt_order' :: "(string \<times> string) list \<Rightarrow> (string \<times> string) list"

definition lock :: "('h, 'u) Materia \<Rightarrow> 'h operation" where
  "lock m h =
     (case mt_Lock m of
        None \<Rightarrow> (None, h)
      | Some l \<Rightarrow>
          (case lo_LockOrWait l h of
             (Some e, h') \<Rightarrow> (Some (ErrMsg ''unable to get materia dbus lock''), h')
           | (None, h') \<Rightarrow> (None, h')))"

definition unlock :: "('h, 'u) Materia \<Rightarrow> 'h \<Rightarrow> 'h" where
  "unlock m h = (case mt_Lock m of None \<Rightarrow> h | Some l \<Rightarrow> snd (lo_Unlock l h))"

subsection \<open>What is assigned\<close>

definition host_components :: "MateriaManifest \<Rightarrow> string \<Rightarrow> string list" where
  "host_components man hostname = (case map_of (mm_Hosts man) hostname of None \<Rightarrow> [] | Some e \<Rightarrow> mh_Components e)"

definition role_components :: "MateriaManifest \<Rightarrow> string \<Rightarrow> string list" where
  "role_components man r = (case map_of (mm_Roles man) r of None \<Rightarrow> [] | Some e \<Rightarrow> mr_Components e)"

definition GetAssignedComponents :: "('h, 'u) Materia \<Rightarrow> string list" where
  "GetAssignedComponents m =
     sort (host_components (mt_Manifest m) ''all'' @ host_components (mt_Manifest m) (mt_Hostname m) @
           concat (map (role_components (mt_Manifest m)) (mt_Roles m)))"

text \<open>\<open>run\<close> runs the command of the manifest and decodes its answer.\<close>

definition getRolesFromManifest ::
    "(string \<Rightarrow> string list result) \<Rightarrow> MateriaManifest \<Rightarrow> string \<Rightarrow> string list result" where
  "getRolesFromManifest run man hostname =
     (if mm_RoleCommand man \<noteq> [] then wrap_error ''unable to execute roles command'' (run (mm_RoleCommand man))
      else Inr (case map_of (mm_Hosts man) hostname of None \<Rightarrow> [] | Some e \<Rightarrow> mh_Roles e))"

subsection \<open>Loading\<close>

definition load_installed :: "('h, 'u) Materia \<Rightarrow> 'h \<Rightarrow> string \<Rightarrow> Component result" where
  "load_installed m h n =
     (case wrap_error ''can't load host component''
             (Load (mt_units m) (mt_render m)
               (NewHostComponentPipeline (hs_reader (mt_Host m) h) (hs_secrets (mt_Host m) h)) None (NewComponent n)) of
        Inl e \<Rightarrow> Inl e
      | Inr (attrs, c) \<Rightarrow> Inr c)"

text \<open>An override or extension that is not there is left out; another error is one of the plan.\<close>

definition if_assigned :: "string \<Rightarrow> ComponentManifest result \<Rightarrow> ComponentManifest list result" where
  "if_assigned msg r =
     (case r of
        Inr man \<Rightarrow> Inr [man]
      | Inl e \<Rightarrow> (if errors_is e ErrComponentNotAssignedToHost then Inr [] else Inl (ErrWrapped msg e)))"

definition load_source ::
    "('h, 'u) Materia \<Rightarrow> AttributesFilter \<Rightarrow> (ComponentLoadStage list \<Rightarrow> ComponentLoadStage list) \<Rightarrow> string \<Rightarrow>
       string \<Rightarrow> 'h \<Rightarrow> Component result" where
  "load_source m f adjust msg n h =
     (case wrap_error ''unable to lookup attributes'' (mt_Vault m f) of
        Inl e \<Rightarrow> Inl e
      | Inr attrs \<Rightarrow>
     (case if_assigned ''unable to get component overrides'' (GetComponentOverride (mt_Manifest m) (mt_Hostname m) n) of
        Inl e \<Rightarrow> Inl e
      | Inr overrides \<Rightarrow>
     (case if_assigned ''unable to get component extensions'' (GetComponentExtension (mt_Manifest m) (mt_Hostname m) n) of
        Inl e \<Rightarrow> Inl e
      | Inr extensions \<Rightarrow>
     (case wrap_error msg
             (Load (mt_units m) (mt_render m) (adjust (NewSourceComponentPipeline (mt_Source m h) overrides extensions))
               (Some attrs) (NewComponent n)) of
        Inl e \<Rightarrow> Inl e
      | Inr (attrs, c) \<Rightarrow> Inr c))))"

definition load_assigned :: "('h, 'u) Materia \<Rightarrow> 'h \<Rightarrow> string \<Rightarrow> Component result" where
  "load_assigned m h n =
     load_source m
       \<lparr>af_Hostname = mt_Hostname m, af_Roles = mt_Roles m, af_Component = comp_Name (NewComponent n),
        af_Instance = comp_Instance (NewComponent n)\<rparr>
       (if mt_appMode m then AddStage AppCompatibilityStage else (\<lambda>stages. stages))
       ''error loading source component'' n h"

text \<open>\<open>for _, n := range names { c, err := load(n); ...; cs = append(cs, c) }\<close>\<close>

definition load_all :: "(string \<Rightarrow> Component result) \<Rightarrow> string list \<Rightarrow> Component list result" where
  "load_all load = collect (\<lambda>n. case load n of Inl e \<Rightarrow> Inl e | Inr c \<Rightarrow> Inr [c])"

subsection \<open>Planning\<close>

definition planner_plan :: "('h, 'u) Materia \<Rightarrow> 'h \<Rightarrow> Component list \<Rightarrow> Component list \<Rightarrow> Plan result" where
  "planner_plan m h installed assigned =
     Planner_Plan (mt_units m) (mt_diff m) (mt_Planner m) (hs_state (mt_Host m) h) installed assigned"

text \<open>\<open>ListInstalledComponents\<close> of the host manager sorts the names.\<close>

definition ListInstalledComponents :: "'h HostManager \<Rightarrow> 'h \<Rightarrow> string list result" where
  "ListInstalledComponents hm h =
     (case wrap_error ''unable to list installed components'' (hs_ListComponentNames hm h) of
        Inl e \<Rightarrow> Inl e | Inr ns \<Rightarrow> Inr (sort ns))"

definition plan_locked :: "('h, 'u) Materia \<Rightarrow> 'h \<Rightarrow> Plan result" where
  "plan_locked m h =
     (case wrap_error ''unable to determine installed component names'' (ListInstalledComponents (mt_Host m) h) of
        Inl e \<Rightarrow> Inl e
      | Inr installedNames \<Rightarrow>
     (case load_all (load_installed m h) installedNames of
        Inl e \<Rightarrow> Inl e
      | Inr installedComponents \<Rightarrow>
     (case load_all (load_assigned m h) (GetAssignedComponents m) of
        Inl e \<Rightarrow> Inl e
      | Inr assignedComponents \<Rightarrow>
     (case wrap_error ''unable to generate plan'' (planner_plan m h installedComponents assignedComponents) of
        Inl e \<Rightarrow> Inl e
      | Inr actionPlan \<Rightarrow>
          (case Pipeline_Validate (NewDefaultValidationPipeline installedNames) actionPlan of
             Some e \<Rightarrow> Inl e
           | None \<Rightarrow> Inr actionPlan)))))"

definition Materia_Plan :: "('h, 'u) Materia \<Rightarrow> ('h, Plan) query" where
  "Materia_Plan m h =
     (case lock m h of
        (Some e, h') \<Rightarrow> (Inl (ErrMsg ''unable to get materia dbus lock''), h')
      | (None, h') \<Rightarrow> (plan_locked m h', unlock m h'))"

definition PlanComponent :: "('h, 'u) Materia \<Rightarrow> 'h \<Rightarrow> string \<Rightarrow> string list \<Rightarrow> Plan result" where
  "PlanComponent m h name roles =
     (if name = [] \<and> roles = [] then Inl (ErrMsg ''need component name or roles to plan'')
      else case load_source m
          \<lparr>af_Hostname = mt_Hostname m, af_Roles = roles, af_Component = name, af_Instance = []\<rparr> (\<lambda>stages. stages)
          ''can't load source component'' name h of
        Inl e \<Rightarrow> Inl e
      | Inr sourceComponent \<Rightarrow> planner_plan m h [] [sourceComponent])"

subsection \<open>Executing\<close>

record ExecutionReport =
  er_StepsCompleted :: int
  er_Rolledback :: bool
  er_Error :: "go_error option"

definition zero_ExecutionReport :: ExecutionReport where
  "zero_ExecutionReport = \<lparr>er_StepsCompleted = 0, er_Rolledback = False, er_Error = None\<rparr>"

text \<open>\<open>errors.AsType\<close> looks through wrapped errors.\<close>

fun as_unhealthy :: "go_error \<Rightarrow> go_error option" where
  "as_unhealthy (ErrWrapped m e) = as_unhealthy e"
| "as_unhealthy (ErrServiceUnhealthy n e) = Some (ErrServiceUnhealthy n e)"
| "as_unhealthy (ErrFinalStateUnhealthy x a) = Some (ErrFinalStateUnhealthy x a)"
| "as_unhealthy e = None"

definition execute_plan :: "('h, 'u) Materia \<Rightarrow> Plan \<Rightarrow> 'h \<Rightarrow> (int \<times> go_error option) \<times> 'h" where
  "execute_plan m p h = Execute (mt_order m) (mt_order' m) (mt_Executor m) p h"

definition report :: "('h, 'u) Materia \<Rightarrow> int \<Rightarrow> go_error option \<Rightarrow> ExecutionReport \<times> go_error option" where
  "report m steps err =
     (case err of
        None \<Rightarrow> (\<lparr>er_StepsCompleted = steps, er_Rolledback = False, er_Error = None\<rparr>, None)
      | Some e \<Rightarrow>
          (case (mt_Rollback m, as_unhealthy e) of
             (True, Some a) \<Rightarrow>
               (\<lparr>er_StepsCompleted = steps, er_Rolledback = True, er_Error = Some a\<rparr>, Some (ErrSentinel ErrNeedRollback))
           | _ \<Rightarrow> (zero_ExecutionReport, Some e)))"

definition ValidateComponents :: "'h HostManager \<Rightarrow> 'h \<Rightarrow> string list result" where
  "ValidateComponents hm h =
     (case wrap_error ''can't get components from prefix'' (hs_ListComponentNames hm h) of
        Inl e \<Rightarrow> Inl e
      | Inr dcomps \<Rightarrow>
          Inr (filter (\<lambda>n. case cr_GetComponent (hs_reader hm h) n of Inl e \<Rightarrow> True | Inr c \<Rightarrow> False) dcomps))"

text \<open>Errors of the clean-up are logged; a failed \<open>ValidateComponents\<close> returns no names.\<close>

definition validatePostExecute :: "'h HostManager \<Rightarrow> 'h \<Rightarrow> 'h" where
  "validatePostExecute hm h =
     (case ValidateComponents hm h of
        Inl e \<Rightarrow> h
      | Inr problems \<Rightarrow> fold (\<lambda>v h. snd (hs_PurgeComponentByName hm v h)) problems h)"

text \<open>
  The deferred calls run in the reverse order: first the unlock, then, without the lock, the clean-up,
  which also runs when the lock was not obtained.
\<close>

definition Materia_Execute :: "('h, 'u) Materia \<Rightarrow> Plan \<Rightarrow> 'h \<Rightarrow> (ExecutionReport \<times> go_error option) \<times> 'h" where
  "Materia_Execute m p h =
     (let (r, h') =
        (case lock m h of
           (Some e, h1) \<Rightarrow> ((zero_ExecutionReport, Some (ErrMsg ''unable to get materia dbus lock'')), h1)
         | (None, h1) \<Rightarrow> (case execute_plan m p h1 of ((steps, err), h2) \<Rightarrow> (report m steps err, unlock m h2)))
      in (r, if ec_CleanupComponents (ex_conf (mt_Executor m)) then validatePostExecute (mt_Host m) h' else h'))"

subsection \<open>Cleaning\<close>

definition remove_installed :: "('h, 'u) Materia \<Rightarrow> string list \<Rightarrow> 'h operation" where
  "remove_installed m names h =
     (case load_all (load_installed m h) names of
        Inl e \<Rightarrow> (Some e, h)
      | Inr comps \<Rightarrow>
          (case planner_plan m h comps [] of
             Inl e \<Rightarrow> (Some e, h)
           | Inr removalPlan \<Rightarrow> (case execute_plan m removalPlan h of ((steps, err), h') \<Rightarrow> (err, h'))))"

definition Materia_Clean :: "('h, 'u) Materia \<Rightarrow> bool \<Rightarrow> 'h operation" where
  "Materia_Clean m force =
     then_op
       (\<lambda>h. if force then (None, h)
            else case hs_ListComponentNames (mt_Host m) h of
              Inl e \<Rightarrow> (Some e, h)
            | Inr installedComps \<Rightarrow> remove_installed m installedComps h)
       (then_op (hs_Clean (mt_Host m)) (mt_RemoveOutputDir m))"

definition CleanComponent :: "('h, 'u) Materia \<Rightarrow> string \<Rightarrow> 'h operation" where
  "CleanComponent m name h =
     (case hs_ListComponentNames (mt_Host m) h of
        Inl e \<Rightarrow> (Some e, h)
      | Inr installedComps \<Rightarrow>
          (if name \<notin> set installedComps then (Some (ErrMsg ''component not installed''), h)
           else remove_installed m [name] h))"

end
