(* ===== verification/Hostman.thy ===== *)
theory Hostman
  imports Materia RepositoryTrips
begin

section \<open>The host manager (pkg/hostman)\<close>

text \<open>
  \<open>HostManager\<close> puts the host together from the repository of the installed components, the
  directories of scripts and units, and the managers of services and containers.  The state of a host is
  its files beside the state \<open>'c\<close> of those managers, whose operations are the parameter \<open>base\<close>; every
  operation of the executor's \<open>Host\<close> interface acts on one of the two.
\<close>

record 'c HostState =
  hst_files :: fs
  hst_rest :: 'c

definition on_files :: "fs operation \<Rightarrow> 'c HostState operation" where
  "on_files f h = (case f (hst_files h) of (e, fs) \<Rightarrow> (e, h\<lparr>hst_files := fs\<rparr>))"

definition on_rest :: "('c \<Rightarrow> 'b \<times> 'c) \<Rightarrow> 'c HostState \<Rightarrow> 'b \<times> 'c HostState" where
  "on_rest f h = (case f (hst_rest h) of (x, c) \<Rightarrow> (x, h\<lparr>hst_rest := c\<rparr>))"

record HostmanConfig =
  hmc_DataDir :: string
  hmc_QuadletDir :: string
  hmc_ScriptsDir :: string
  hmc_ServicesDir :: string

text \<open>The repositories \<open>NewHostManager\<close> makes; the managers of services and containers are there.\<close>

definition NewHostManager_files :: "HostmanConfig \<Rightarrow> fs \<Rightarrow> HostComponentRepository result \<times> fs" where
  "NewHostManager_files c fs =
     (case NewHostComponentRepository (hmc_QuadletDir c) (JoinPath [hmc_DataDir c, ''components'']) fs of
        (Inl e, fs') \<Rightarrow> (Inl (ErrWrapped ''failed to create host component repo'' e), fs')
      | (Inr r, fs') \<Rightarrow>
          (case then_op (wrap_op ''failed to create script repo'' (NewFileRepository (hmc_ScriptsDir c)))
                  (wrap_op ''failed to create service repo'' (NewFileRepository (hmc_ServicesDir c))) fs' of
             (Some e, fs'') \<Rightarrow> (Inl e, fs'')
           | (None, fs'') \<Rightarrow> (Inr r, fs'')))"

record 'c HostParts =
  hp_repo :: HostComponentRepository
  hp_scripts :: string
  hp_units :: string
  hp_version_text :: "Component \<Rightarrow> string"
  hp_base :: "'c Host"

definition HostManager_ops :: "'c HostParts \<Rightarrow> 'c HostState Host" where
  "HostManager_ops p =
     (let b = hp_base p; r = hp_repo p in
      \<lparr>ho_ApplyService = (\<lambda>n a t. on_rest (ho_ApplyService b n a t)),
       ho_GetService = (\<lambda>n. on_rest (ho_GetService b n)),
       ho_RunOneshotCommand = (\<lambda>t n c. on_rest (ho_RunOneshotCommand b t n c)),
       ho_WaitUntilState = (\<lambda>n s t. on_rest (ho_WaitUntilState b n s t)),
       ho_ListContainers = (\<lambda>f. on_rest (ho_ListContainers b f)),
       ho_ExecContainer = (\<lambda>n c. on_rest (ho_ExecContainer b n c)),
       ho_DumpVolume = (\<lambda>v d. on_rest (ho_DumpVolume b v d)),
       ho_ImportVolume = (\<lambda>v d. on_rest (ho_ImportVolume b v d)),
       ho_RemoveVolume = (\<lambda>v. on_rest (ho_RemoveVolume b v)),
       ho_GetNetwork = (\<lambda>n. on_rest (ho_GetNetwork b n)),
       ho_RemoveNetwork = (\<lambda>n. on_rest (ho_RemoveNetwork b n)),
       ho_WriteSecret = (\<lambda>n v. on_rest (ho_WriteSecret b n v)),
       ho_RemoveSecret = (\<lambda>n. on_rest (ho_RemoveSecret b n)),
       ho_RemoveImage = (\<lambda>n. on_rest (ho_RemoveImage b n)),
       ho_InstallComponent = (\<lambda>c. on_files (InstallComponent (hp_version_text p) r c)),
       ho_UpdateComponent = (\<lambda>c. on_files (UpdateComponent (hp_version_text p) r c)),
       ho_RemoveComponent = (\<lambda>c. on_files (RemoveComponent r c)),
       ho_InstallResource = (\<lambda>res d. on_files (InstallResource r res d)),
       ho_RemoveResource = (\<lambda>res. on_files (RemoveResource r res)),
       ho_InstallScript = (\<lambda>path d. on_files (File_Install (hp_scripts p) path d)),
       ho_RemoveScript = (\<lambda>path. on_files (File_Remove (hp_scripts p) path)),
       ho_InstallUnit = (\<lambda>path d. on_files (File_Install (hp_units p) path d)),
       ho_RemoveUnit = (\<lambda>path. on_files (File_Remove (hp_units p) path))\<rparr>)"

text \<open>The queries of the repository over the files.\<close>

definition repo_reader ::
    "'u unit_parser \<Rightarrow> (string \<Rightarrow> int result) \<Rightarrow> (string \<Rightarrow> ComponentManifest result) \<Rightarrow> HostComponentRepository \<Rightarrow>
       fs \<Rightarrow> ComponentReader" where
  "repo_reader up decode_version decode r fs =
     \<lparr>cr_GetComponent = Host_GetComponent up decode_version r fs, cr_GetManifest = Host_GetManifest decode r fs,
      cr_ReadResource = Host_ReadResource r fs\<rparr>"

definition HostManager_queries ::
    "'u unit_parser \<Rightarrow> (string \<Rightarrow> int result) \<Rightarrow> (string \<Rightarrow> ComponentManifest result) \<Rightarrow>
     ('c \<Rightarrow> SecretsManager) \<Rightarrow> ('c \<Rightarrow> HostStateManager) \<Rightarrow> 'c HostParts \<Rightarrow> 'c HostState HostManager" where
  "HostManager_queries up decode_version decode secrets state p =
     \<lparr>hs_reader = (\<lambda>h. repo_reader up decode_version decode (hp_repo p) (hst_files h)),
      hs_secrets = (\<lambda>h. secrets (hst_rest h)), hs_state = (\<lambda>h. state (hst_rest h)),
      hs_ListComponentNames = (\<lambda>h. Host_ListComponentNames (hp_repo p) (hst_files h)),
      hs_PurgeComponentByName = (\<lambda>n. on_files (PurgeComponentByName (hp_repo p) n)),
      hs_Clean = on_files (Host_Clean (hp_repo p))\<rparr>"

end
