(* ===== verification/UpdateExecution.thy ===== *)
theory UpdateExecution
  imports Hostman
begin

section \<open>Updates on a real host\<close>

text \<open>
  The planner's update (\<open>UpdatePlanning\<close>) and the executor meet on the host manager of \<open>Hostman\<close>.  What a
  host holds of one component is a view of its state, a map from resource paths to texts.  The locale
  \<open>component_view\<close> says what the executor relies on: which operations change the view and how.  Carrying
  out an action then changes the view as \<open>apply_change\<close> says, in whatever order the plan puts the
  actions, and a run of the planner's update ends with the source's files on the host.
\<close>

subsection \<open>Operations and the view\<close>

definition is_directory :: "Resource \<Rightarrow> bool" where
  "is_directory r \<longleftrightarrow> res_Kind r = ResourceTypeDirectory \<or> res_Kind r = ResourceTypeDropinDir"

text \<open>The resource changes of a plan; the update of the component itself only writes its version.\<close>

definition resource_change :: "Action \<Rightarrow> bool" where
  "resource_change a \<longleftrightarrow> is_crud a \<and> res_Kind (act_Target a) \<noteq> ResourceTypeComponent"

text \<open>Actions on a component itself leave it where it is and concern a component with a proper name.\<close>

definition keeps_component :: "(Component \<Rightarrow> bool) \<Rightarrow> Action \<Rightarrow> bool" where
  "keeps_component named a \<longleftrightarrow>
     (is_crud a \<and> res_Kind (act_Target a) = ResourceTypeComponent \<longrightarrow>
      act_Todo a \<noteq> ActionRemove \<and> (\<exists>c. act_Parent a = Some c \<and> named c))"

lemma keeps_unhealthy [keeps_intros]: "keeps P f \<Longrightarrow> keeps P (unhealthy n f)"
  by (auto simp: keeps_def unhealthy_def split: prod.splits option.splits)

lemma keeps_skip [keeps_intros]: "keeps P (\<lambda>h. (None, h))"
  by (simp add: keeps_def)

lemma keeps_sum [keeps_intros]:
  "(\<And>e. x = Inl e \<Longrightarrow> keeps P (f e)) \<Longrightarrow> (\<And>y. x = Inr y \<Longrightarrow> keeps P (g y)) \<Longrightarrow>
   keeps P (case x of Inl e \<Rightarrow> f e | Inr y \<Rightarrow> g y)"
  by (simp split: sum.split)

text \<open>A resource change the executor can carry out on the view.\<close>

definition fits :: "(Resource \<Rightarrow> bool) \<Rightarrow> (Diff list option \<Rightarrow> string) \<Rightarrow> Action \<Rightarrow> bool" where
  "fits good text2 v \<longleftrightarrow> good (act_Target v) \<and>
     (is_directory (act_Target v) \<longrightarrow> act_Todo v \<noteq> ActionRemove \<longrightarrow> written text2 v = [])"

lemma run_steps_run_ok: "run_steps e vs s h = ((None, s'), h') \<Longrightarrow> run_ok e vs h = Some h'"
  by (induction vs arbitrary: s h) (auto split: prod.splits option.splits)

locale component_view =
  fixes H :: "'h Host" and view :: "'h \<Rightarrow> string \<Rightarrow> string option" and good :: "Resource \<Rightarrow> bool"
    and named :: "Component \<Rightarrow> bool"
  assumes InstallResource: "good r \<Longrightarrow> res_Kind r \<noteq> ResourceTypePodmanSecret \<Longrightarrow>
      ho_InstallResource H r d h = (None, h') \<Longrightarrow> is_directory r \<longrightarrow> d = [] \<Longrightarrow> view h' = (view h)(res_Path r \<mapsto> d)"
    and RemoveResource: "good r \<Longrightarrow> res_Kind r \<noteq> ResourceTypePodmanSecret \<Longrightarrow>
      ho_RemoveResource H r h = (None, h') \<Longrightarrow> view h' = (view h)(res_Path r := None)"
    and WriteSecret: "good r \<Longrightarrow> res_Kind r = ResourceTypePodmanSecret \<Longrightarrow>
      ho_WriteSecret H (res_Path r) d h = (None, h') \<Longrightarrow> view h' = (view h)(res_Path r \<mapsto> d)"
    and RemoveSecret: "good r \<Longrightarrow> res_Kind r = ResourceTypePodmanSecret \<Longrightarrow>
      ho_RemoveSecret H (res_Path r) h = (None, h') \<Longrightarrow> view h' = (view h)(res_Path r := None)"
    and Scripts: "good r \<Longrightarrow> view (snd (ho_InstallScript H (res_Path r) d h)) = view h"
      "good r \<Longrightarrow> view (snd (ho_RemoveScript H (res_Path r) h)) = view h"
    and Units: "good r \<Longrightarrow> view (snd (ho_InstallUnit H (res_Path r) d h)) = view h"
      "good r \<Longrightarrow> view (snd (ho_RemoveUnit H (res_Path r) h)) = view h"
    and Components: "named c \<Longrightarrow> view (snd (ho_InstallComponent H (Some c) h)) = view h"
      "named c \<Longrightarrow> view (snd (ho_UpdateComponent H (Some c) h)) = view h"
    and Services: "view (snd (ho_ApplyService H n s t h)) = view h" "view (snd (ho_GetService H n h)) = view h"
      "view (snd (ho_RunOneshotCommand H t n cmd h)) = view h" "view (snd (ho_WaitUntilState H n st t h)) = view h"
    and Containers: "view (snd (ho_ListContainers H fl h)) = view h" "view (snd (ho_ExecContainer H n cmd h)) = view h"
      "view (snd (ho_DumpVolume H v d h)) = view h" "view (snd (ho_ImportVolume H v d h)) = view h"
      "view (snd (ho_RemoveVolume H v h)) = view h" "view (snd (ho_GetNetwork H n h)) = view h"
      "view (snd (ho_RemoveNetwork H net h)) = view h" "view (snd (ho_RemoveImage H n h)) = view h"
begin

lemmas other_views = Services Containers

lemma keeps_view [keeps_intros]:
  "keeps (\<lambda>h. view h = m) (ho_ApplyService H n s t)" "keeps (\<lambda>h. view h = m) (ho_RunOneshotCommand H t n cmd)"
  "keeps (\<lambda>h. view h = m) (ho_WaitUntilState H n st t)" "keeps (\<lambda>h. view h = m) (ho_ExecContainer H n cmd)"
  "keeps (\<lambda>h. view h = m) (ho_DumpVolume H v d)" "keeps (\<lambda>h. view h = m) (ho_ImportVolume H v d)"
  "keeps (\<lambda>h. view h = m) (ho_RemoveVolume H v)" "keeps (\<lambda>h. view h = m) (ho_RemoveNetwork H net)"
  "keeps (\<lambda>h. view h = m) (ho_RemoveImage H n)"
  by (simp_all add: keeps_def other_views)

lemma keeps_services [keeps_intros]:
  "keeps (\<lambda>h. view h = m) (modifyService H v t)" "keeps (\<lambda>h. view h = m) (waitService H v t)"
  unfolding modifyService_def waitService_def Let_def by (intro keeps_intros)+

lemma quiet_handlers:
  assumes "ex_host e = H"
    and "f \<in> {H_installComponent, H_updateComponent, H_ensureQuadlet, H_cleanupVolume, H_importVolume, H_dumpVolume,
      H_serviceAction, H_executeInContainer, H_cleanupNetwork, H_cleanupBuildArtifact, H_setupScript,
      H_cleanupScript, H_executeScript}"
    and "f = H_installComponent \<or> f = H_updateComponent \<longrightarrow> (\<exists>c. act_Parent v = Some c \<and> named c)"
  shows "keeps (\<lambda>h. view h = m) (run_handler f e v)"
proof -
  have stop: "keeps (\<lambda>h. view h = m) (stop_counterpart e n)" for n
  proof (rule keepsI)
    fix h assume "view h = m"
    moreover have "view h1 = view h" if "ho_GetService H n h = (x, h1)" for x h1
      using Services(2) [of n h] that by simp
    ultimately show "view (snd (stop_counterpart e n h)) = m"
      by (auto simp: stop_counterpart_def assms(1) Services split: prod.split sum.split)
  qed
  have cleanup: "keeps (\<lambda>h. view h = m) (cleanupVolume e v)" "keeps (\<lambda>h. view h = m) (cleanupBuildArtifact e v)"
      "keeps (\<lambda>h. view h = m) (cleanupNetwork e v)"
  proof -
    have "view h1 = view h" if "ho_ListContainers H fl h = (x, h1)" for fl h x h1
      using Containers(1) [of fl h] that by simp
    then show "keeps (\<lambda>h. view h = m) (cleanupVolume e v)" "keeps (\<lambda>h. view h = m) (cleanupBuildArtifact e v)"
      by (auto simp: keeps_def cleanupVolume_def cleanupBuildArtifact_def assms(1) Containers split: prod.split sum.split)
    have "view h1 = view h" if "ho_GetNetwork H n h = (x, h1)" for n h x h1
      using Containers(6) [of n h] that by simp
    then show "keeps (\<lambda>h. view h = m) (cleanupNetwork e v)"
      by (auto simp: keeps_def cleanupNetwork_def assms(1) Containers split: prod.split sum.split)
  qed
  have comps: "keeps (\<lambda>h. view h = m) (run_handler f e v)" if "f = H_installComponent \<or> f = H_updateComponent"
    using that assms(3) Components
    by (auto simp: run_handler_def installComponent_def updateComponent_def assms(1) keeps_def)
  have "keeps (\<lambda>h. view h = m) (run_handler H_ensureQuadlet e v)" "keeps (\<lambda>h. view h = m) (run_handler H_importVolume e v)"
    "keeps (\<lambda>h. view h = m) (run_handler H_dumpVolume e v)" "keeps (\<lambda>h. view h = m) (run_handler H_serviceAction e v)"
    "keeps (\<lambda>h. view h = m) (run_handler H_executeInContainer e v)"
    "keeps (\<lambda>h. view h = m) (run_handler H_setupScript e v)" "keeps (\<lambda>h. view h = m) (run_handler H_cleanupScript e v)"
    "keeps (\<lambda>h. view h = m) (run_handler H_executeScript e v)"
    unfolding run_handler_def handler.case ensureQuadlet_def importVolume_def
      dumpVolume_def serviceAction_def executeInContainer_def setupScript_def cleanupScript_def executeScript_def
      Let_def assms(1)
    by (intro keeps_intros stop)+
  with cleanup comps assms(2) show ?thesis by (auto simp: run_handler_def)
qed

text \<open>Every other action the table knows is run by one of these.\<close>

lemma quiet_action:
  assumes "ex_host e = H" and "\<not> resource_change v" and "keeps_component named v"
  shows "view (snd (executeAction e v h)) = view h"
proof (cases "find_handler v")
  case (Inl err)
  then show ?thesis by (simp add: executeAction_def fail_op_def)
next
  case (Inr f)
  then have "f \<in> {H_installComponent, H_updateComponent, H_ensureQuadlet, H_cleanupVolume, H_importVolume, H_dumpVolume,
      H_serviceAction, H_executeInContainer, H_cleanupNetwork, H_cleanupBuildArtifact, H_setupScript,
      H_cleanupScript, H_executeScript} \<and>
      (f = H_installComponent \<or> f = H_updateComponent \<longrightarrow> (\<exists>c. act_Parent v = Some c \<and> named c))"
    using assms(2,3)
    by (auto simp: find_handler_def handlerList_def file_handlers_def unit_handlers_def dir_handlers_def
        resource_change_def keeps_component_def is_crud_def IsResourceAction_def
        split: option.splits if_splits ResourceType.splits)
  then show ?thesis
    using quiet_handlers [OF assms(1), of f v "view h"] Inr
    by (simp add: executeAction_def keeps_def)
qed

lemma change_action:
  assumes "ex_host e = H" and "resource_change v" and fit: "fits good (ex_text2 e) v"
    and "executeAction e v h = (None, h')"
  shows "view h' = apply_change (ex_text2 e) v (view h)"
proof -
  let ?r = "act_Target v" and ?d = "ex_text2 e (act_DiffContent v)"
  note good = fit [unfolded fits_def, THEN conjunct1]
  from assms(4) obtain f where f: "find_handler v = Inr f" and run: "run_handler f e v h = (None, h')"
    by (auto simp: executeAction_def fail_op_def split: sum.splits)
  have crud: "act_Todo v = ActionInstall \<or> act_Todo v = ActionUpdate \<or> act_Todo v = ActionRemove"
    using assms(2) by (auto simp: resource_change_def is_crud_def IsResourceAction_def)
  then have data: "resource_data e v = Inr ?d" by (auto simp: resource_data_def GetContentAsDiffs_def)
  have kinds: "f \<in> {H_installOrUpdateFile, H_installOrUpdateUnit, H_installOrUpdateScript, H_installDir, H_installOrUpdateSecret}
      \<and> act_Todo v \<noteq> ActionRemove \<or> f \<in> {H_removeFile, H_removeUnit, H_removeScript, H_removeDir, H_removeSecret} \<and> act_Todo v = ActionRemove"
    and secret: "res_Kind ?r = ResourceTypePodmanSecret \<longleftrightarrow> f \<in> {H_installOrUpdateSecret, H_removeSecret}"
    and dir: "f \<in> {H_installOrUpdateFile, H_installOrUpdateUnit, H_installOrUpdateScript} \<longrightarrow> \<not> is_directory ?r"
    and dir': "f = H_installDir \<longrightarrow> is_directory ?r"
    using f assms(2) crud
    by (auto simp: find_handler_def handlerList_def file_handlers_def unit_handlers_def dir_handlers_def is_directory_def
        resource_change_def split: option.splits if_splits ResourceType.splits)
  show ?thesis
    using kinds
  proof (elim disjE conjE)
    assume "f \<in> {H_installOrUpdateFile, H_installOrUpdateUnit, H_installOrUpdateScript, H_installDir, H_installOrUpdateSecret}"
      and todo: "act_Todo v \<noteq> ActionRemove"
    then consider "f = H_installOrUpdateSecret" | "f = H_installDir"
      | "f \<in> {H_installOrUpdateFile, H_installOrUpdateUnit, H_installOrUpdateScript}" by auto
    then show ?thesis
    proof cases
      case 1
      with run have "ho_WriteSecret H (res_Path ?r) (res_Content ?r) h = (None, h')"
        by (simp add: run_handler_def installOrUpdateSecret_def assms(1))
      from WriteSecret [OF good _ this] 1 secret crud todo show ?thesis
        by (auto simp: apply_change_def written_def)
    next
      case 2
      with run have "ho_InstallResource H ?r [] h = (None, h')"
        by (simp add: run_handler_def installDir_def assms(1))
      moreover from fit todo dir' 2 have "written (ex_text2 e) v = []" by (simp add: fits_def)
      ultimately show ?thesis
        using InstallResource [OF good, of "[]" h h'] 2 secret crud todo by (auto simp: apply_change_def)
    next
      case 3
      then obtain h1 where h1: "ho_InstallResource H ?r ?d h = (None, h1)" and "view h' = view h1"
        using run data Scripts(1) [OF good, of ?d] Units(1) [OF good, of ?d]
        by (auto simp: run_handler_def installOrUpdateFile_def installOrUpdateUnit_def installOrUpdateScript_def
            then_op_None assms(1)) (metis snd_conv)+
      with InstallResource [OF good _ h1] 3 secret dir crud todo show ?thesis
        by (auto simp: apply_change_def written_def)
    qed
  next
    assume "f \<in> {H_removeFile, H_removeUnit, H_removeScript, H_removeDir, H_removeSecret}" and todo: "act_Todo v = ActionRemove"
    then consider "f = H_removeSecret" | "f \<in> {H_removeFile, H_removeUnit, H_removeScript, H_removeDir}" by auto
    then show ?thesis
    proof cases
      case 1
      with run have "ho_RemoveSecret H (res_Path ?r) h = (None, h')"
        by (simp add: run_handler_def removeSecret_def assms(1))
      from RemoveSecret [OF good _ this] 1 secret todo show ?thesis by (simp add: apply_change_def)
    next
      case 2
      then obtain h1 where h1: "ho_RemoveResource H ?r h = (None, h1)" and "view h' = view h1"
        using run Scripts(2) [OF good] Units(2) [OF good]
        by (auto simp: run_handler_def removeFile_def removeUnit_def removeScript_def removeDir_def
            then_op_None assms(1)) (metis snd_conv)+
      with RemoveResource [OF good _ h1] 2 secret todo show ?thesis by (auto simp: apply_change_def)
    qed
  qed
qed

text \<open>A run that succeeds has the effect of its resource changes.\<close>

lemma run_view:
  assumes "ex_host e = H" and "run_ok e vs h = Some h'"
    and "\<And>v. v \<in> set vs \<Longrightarrow> keeps_component named v \<and> (resource_change v \<longrightarrow> fits good (ex_text2 e) v)"
  shows "view h' = fold (apply_change (ex_text2 e)) (filter resource_change vs) (view h)"
  using assms(2,3)
proof (induction vs arbitrary: h)
  case Nil
  then show ?case by simp
next
  case (Cons v vs)
  then obtain h1 where h1: "executeAction e v h = (None, h1)" and rest: "run_ok e vs h1 = Some h'"
    by (auto split: prod.splits option.splits)
  have v: "keeps_component named v" "resource_change v \<Longrightarrow> fits good (ex_text2 e) v" using Cons.prems(2) [of v] by auto
  have "view h1 = (if resource_change v then apply_change (ex_text2 e) v (view h) else view h)"
    using change_action [OF assms(1) _ v(2) h1] quiet_action [OF assms(1) _ v(1), of h] h1 by auto
  moreover have "view h' = fold (apply_change (ex_text2 e)) (filter resource_change vs) (view h1)"
    using rest Cons.prems(2) by (intro Cons.IH) auto
  ultimately show ?case by simp
qed

lemma expect_last_view:
  assumes "ex_host e = H"
  shows "view (snd (expect_last e ks expected h)) = view h"
  using assms
proof (induction ks arbitrary: expected h)
  case Nil
  then show ?case by simp
next
  case (Cons kv ks)
  obtain k v where kv: "kv = (k, v)" by (cases kv)
  obtain x h1 where q: "ho_GetService H k h = (x, h1)" by (cases "ho_GetService H k h")
  then have "view h1 = view h" using Services(2) [of k h] by simp
  with Cons kv q show ?case by (cases x) simp_all
qed

lemma final_checks_view:
  assumes "ex_host e = H"
  shows "view (snd (final_checks e ks final bad h)) = view h"
  using assms
proof (induction ks arbitrary: final bad h)
  case Nil
  then show ?case by simp
next
  case (Cons kv ks)
  obtain k v where kv: "kv = (k, v)" by (cases kv)
  have "view (snd (final_check e k v h)) = view h"
  proof -
    obtain x h1 where w: "ho_WaitUntilState H k v (ex_defaultTimeout e) h = (x, h1)" by (metis surj_pair)
    obtain y h2 where g: "ho_GetService H k h1 = (y, h2)" by (metis surj_pair)
    have "view h1 = view h" "view h2 = view h1"
      using Services(4) [of k v "ex_defaultTimeout e" h] Services(2) [of k h1] w g by simp_all
    with w g Cons.prems show ?thesis by (auto simp: final_check_def split: option.split sum.split)
  qed
  then obtain b st h1 where "final_check e k v h = ((b, st), h1)" and "view h1 = view h" by (metis prod.collapse)
  with Cons kv show ?case by (cases st) simp_all
qed

lemma Execute_view:
  assumes "ex_host e = H" and "Execute order order' e p h = ((n, None), h')"
  shows "if Plan_Empty p then h' = h else \<exists>h1. run_ok e (Steps p) h = Some h1 \<and> view h' = view h1"
proof (cases "Plan_Empty p")
  case True
  with assms(2) show ?thesis by (simp add: Execute_def)
next
  case False
  with assms(2) obtain s h1 where run: "run_steps e (Steps p) zero_exec_state h = ((None, s), h1)"
    by (auto simp: Execute_def split: prod.splits option.splits)
  with assms(2) False obtain expected h2 where
    l: "expect_last e (order (es_lastAction s)) (es_expectedServices s) h1 = (Inr expected, h2)" and
    f: "snd (final_checks e (order' expected) [] False h2) = h'"
    by (auto simp: Execute_def split: prod.splits sum.splits)
  from expect_last_view [OF assms(1)] l have "view h2 = view h1" by (metis snd_conv)
  moreover from final_checks_view [OF assms(1)] f have "view h' = view h2" by metis
  ultimately show ?thesis using run_steps_run_ok [OF run] False by auto
qed

lemma Execute_changes:
  assumes "ex_host e = H" and "Execute order order' e p h = ((n, None), h')"
    and "\<And>v. v \<in> set (Steps p) \<Longrightarrow> keeps_component named v \<and> (resource_change v \<longrightarrow> fits good (ex_text2 e) v)"
    and "Plan_Empty p \<Longrightarrow> filter resource_change (Steps p) = []"
  shows "view h' = fold (apply_change (ex_text2 e)) (filter resource_change (Steps p)) (view h)"
  using Execute_view [OF assms(1,2)] run_view [OF assms(1) _ assms(3)] assms(4) by (auto split: if_splits)

end

subsection \<open>The resource changes of a plan\<close>

lemma change_not_service: "resource_change a \<Longrightarrow> to_resources a \<and> \<not> to_services a \<and> \<not> is_reload a"
  by (auto simp: resource_change_def is_crud_def to_resources_def to_services_def is_reload_def IsResourceAction_def
      IsServiceAction_def service_action_types_def)

lemma resource_change_prioritized [simp]: "resource_change (prioritized a) = resource_change a"
  by (simp add: resource_change_def is_crud_def)

lemma service_steps_no_change:
  assumes "holds p as" and "s \<in> set (service_steps p)"
  shows "\<not> is_crud s"
proof (cases "s = zero_Action")
  case True
  then show ?thesis by (simp add: is_crud_def IsResourceAction_def zero_Action_def)
next
  case False
  with assms(2) obtain n where "s \<in> set (getServiceChanges p n)"
    using set_coalesceServices by (fastforce simp: service_steps_def)
  with assms(1) obtain a where "to_services a" and "s = prioritized a" by (auto simp: holds_def)
  then show ?thesis
    by (auto simp: is_crud_def to_services_def IsResourceAction_def IsServiceAction_def service_action_types_def)
qed

lemma Steps_changes:
  assumes "holds p as"
  shows "mset (filter resource_change (Steps p)) =
    image_mset prioritized (filter_mset (\<lambda>a. resource_change a \<and> parent_name a \<noteq> ''root'') (mset as))"
proof -
  have none: "filter resource_change (service_steps p) = []"
    using service_steps_no_change [OF assms] by (auto simp: filter_empty_conv resource_change_def)
  have not_reload: "\<not> resource_change reload_action"
    by (simp add: resource_change_def is_crud_def IsResourceAction_def)
  have "mset (filter resource_change (Steps p)) = filter_mset resource_change (mset (resource_steps p)) + mset (filter resource_change (service_steps p))"
    using not_reload by (simp add: Steps_def Let_def mset_mergeSteps)
  also have "\<dots> = image_mset prioritized
      (filter_mset (\<lambda>a. resource_change a \<and> to_resources a \<and> parent_name a \<noteq> ''root'') (mset as))"
    by (simp add: none resource_steps_mset [OF assms] filter_mset_image_mset filter_filter_mset conj_ac)
  also have "(\<lambda>a. resource_change a \<and> to_resources a \<and> parent_name a \<noteq> ''root'') =
      (\<lambda>a. resource_change a \<and> parent_name a \<noteq> ''root'')"
    using change_not_service by auto
  finally show ?thesis .
qed

lemma Steps_keep_component:
  assumes "holds p as" and "v \<in> set (Steps p)" and "\<And>a. a \<in> set as \<Longrightarrow> keeps_component named a"
  shows "keeps_component named v"
proof -
  from assms(2) have "v \<in># mset (Steps p)" by simp
  then have "v \<in> set (resource_steps p) \<or> v = reload_action \<or> v \<in> set (service_steps p)"
    by (auto simp: Steps_def Let_def mset_mergeSteps split: if_splits)
  then show ?thesis
  proof (elim disjE)
    assume "v \<in> set (resource_steps p)"
    from resource_change_cases [OF assms(1) this] assms(3) show ?thesis by (auto simp: keeps_component_def is_crud_def)
  next
    assume "v \<in> set (service_steps p)"
    from service_steps_no_change [OF assms(1) this] show ?thesis
      by (auto simp: keeps_component_def is_crud_def IsResourceAction_def)
  qed (simp add: keeps_component_def is_crud_def IsResourceAction_def)
qed

text \<open>Changes of different paths can be made in any order.\<close>

lemma apply_change_prioritized [simp]: "apply_change text2 (prioritized a) = apply_change text2 a"
  by (simp add: apply_change_def written_def fun_eq_iff)

lemma apply_change_commute:
  "res_Path (act_Target a) \<noteq> res_Path (act_Target b) \<Longrightarrow>
   apply_change text2 a \<circ> apply_change text2 b = apply_change text2 b \<circ> apply_change text2 a"
  by (auto simp: apply_change_def fun_eq_iff)

lemma fold_changes_mset:
  assumes "mset vs = image_mset prioritized (mset ws)" and "distinct (map (\<lambda>a. res_Path (act_Target a)) ws)"
  shows "fold (apply_change text2) vs = fold (apply_change text2) ws"
proof -
  have "fold (apply_change text2) vs = fold (apply_change text2) (map prioritized ws)"
  proof (rule fold_multiset_equiv)
    fix a b assume ab: "a \<in> set vs" "b \<in> set vs"
    from assms(1) have "set vs = prioritized ` set ws" by (metis set_image_mset set_mset_mset)
    with ab obtain x y where x: "x \<in> set ws" "a = prioritized x" and y: "y \<in> set ws" "b = prioritized y" by auto
    show "apply_change text2 a \<circ> apply_change text2 b = apply_change text2 b \<circ> apply_change text2 a"
    proof (cases "x = y")
      case False
      with x(1) y(1) assms(2) have "res_Path (act_Target x) \<noteq> res_Path (act_Target y)"
        by (auto simp: distinct_map inj_on_def)
      with x y show ?thesis by (simp add: apply_change_commute)
    qed (simp add: x y)
  qed (simp add: assms(1))
  also have "\<dots> = fold (apply_change text2) ws" by (simp add: fold_map comp_def)
  finally show ?thesis .
qed

end
