(* ===== verification/HostUpdates.thy ===== *)
theory HostUpdates
  imports UpdateExecution
begin

section \<open>Updates of the host manager\<close>

text \<open>
  The view of one component on the host manager of \<open>Hostman\<close>: its files below the two prefixes and its
  podman secrets.  The kind of a resource decides where it is; \<open>kinds\<close> gives the kind of every path of the
  component, in the source and on the host alike.  The managers of services and containers are parameters;
  \<open>rest_laws\<close> is what is asked of them: podman keeps what was written, and no other call changes secrets.
\<close>

subsection \<open>What a host holds of a component\<close>

definition place :: "HostComponentRepository \<Rightarrow> (string \<Rightarrow> ResourceType) \<Rightarrow> string \<Rightarrow> string \<Rightarrow> path" where
  "place r kinds n path =
     elems (if kinds path \<in> set quadlet_kinds then hr_QuadletPrefix r else hr_DataPrefix r) @ n # Split path ''/''"

definition own_file :: "string \<Rightarrow> bool" where
  "own_file path \<longleftrightarrow> path = version_file \<or> path = managed_file"

definition node_text :: "node option \<Rightarrow> string option" where
  "node_text x = (case x of None \<Rightarrow> None | Some Directory \<Rightarrow> Some [] | Some (PlainFile d) \<Rightarrow> Some d)"

definition file_view ::
    "HostComponentRepository \<Rightarrow> (string \<Rightarrow> ResourceType) \<Rightarrow> string \<Rightarrow> fs \<Rightarrow> string \<Rightarrow> string option" where
  "file_view r kinds n fs path =
     (if own_file path \<or> kinds path = ResourceTypePodmanSecret then None
      else node_text (node_at fs (place r kinds n path)))"

definition host_view ::
    "'c HostParts \<Rightarrow> ('c \<Rightarrow> string \<Rightarrow> string option) \<Rightarrow> (string \<Rightarrow> ResourceType) \<Rightarrow> string \<Rightarrow>
       'c HostState \<Rightarrow> string \<Rightarrow> string option" where
  "host_view p secret kinds n h path =
     (if \<not> own_file path \<and> kinds path = ResourceTypePodmanSecret then secret (hst_rest h) path
      else file_view (hp_repo p) kinds n (hst_files h) path)"

definition placed :: "(string \<Rightarrow> ResourceType) \<Rightarrow> string \<Rightarrow> Resource \<Rightarrow> bool" where
  "placed kinds n r \<longleftrightarrow>
     res_Parent r = n \<and> good_path (res_Path r) \<and> res_Kind r = kinds (res_Path r) \<and>
     res_Kind r \<noteq> ResourceTypeComponent \<and> \<not> own_file (res_Path r) \<and> (is_directory r \<longrightarrow> res_Content r = [])"

definition rest_laws :: "'c Host \<Rightarrow> ('c \<Rightarrow> string \<Rightarrow> string option) \<Rightarrow> bool" where
  "rest_laws b secret \<longleftrightarrow>
     (\<forall>n v c c'. ho_WriteSecret b n v c = (None, c') \<longrightarrow> secret c' = (secret c)(n \<mapsto> v)) \<and>
     (\<forall>n c c'. ho_RemoveSecret b n c = (None, c') \<longrightarrow> secret c' = (secret c)(n := None)) \<and>
     (\<forall>n s t c. secret (snd (ho_ApplyService b n s t c)) = secret c) \<and>
     (\<forall>n c. secret (snd (ho_GetService b n c)) = secret c) \<and>
     (\<forall>t n cmd c. secret (snd (ho_RunOneshotCommand b t n cmd c)) = secret c) \<and>
     (\<forall>n st t c. secret (snd (ho_WaitUntilState b n st t c)) = secret c) \<and>
     (\<forall>fl c. secret (snd (ho_ListContainers b fl c)) = secret c) \<and>
     (\<forall>n cmd c. secret (snd (ho_ExecContainer b n cmd c)) = secret c) \<and>
     (\<forall>v d c. secret (snd (ho_DumpVolume b v d c)) = secret c) \<and>
     (\<forall>v d c. secret (snd (ho_ImportVolume b v d c)) = secret c) \<and>
     (\<forall>v c. secret (snd (ho_RemoveVolume b v c)) = secret c) \<and>
     (\<forall>n c. secret (snd (ho_GetNetwork b n c)) = secret c) \<and>
     (\<forall>n c. secret (snd (ho_RemoveNetwork b n c)) = secret c) \<and>
     (\<forall>n c. secret (snd (ho_RemoveImage b n c)) = secret c)"

text \<open>The directories of scripts and units lie apart from the two prefixes.\<close>

definition apart :: "HostComponentRepository \<Rightarrow> string \<Rightarrow> bool" where
  "apart r d \<longleftrightarrow> prefix ''/'' d \<and>
     \<not> prefix (elems (hr_DataPrefix r)) (elems d) \<and> \<not> prefix (elems d) (elems (hr_DataPrefix r)) \<and>
     \<not> prefix (elems (hr_QuadletPrefix r)) (elems d) \<and> \<not> prefix (elems d) (elems (hr_QuadletPrefix r))"

definition parts_ok :: "'c HostParts \<Rightarrow> ('c \<Rightarrow> string \<Rightarrow> string option) \<Rightarrow> bool" where
  "parts_ok p secret \<longleftrightarrow>
     repo_ok (hp_repo p) \<and> apart (hp_repo p) (hp_scripts p) \<and> apart (hp_repo p) (hp_units p) \<and>
     rest_laws (hp_base p) secret"

subsection \<open>Places\<close>

lemma apart_paths: "\<not> prefix a b \<Longrightarrow> \<not> prefix b a \<Longrightarrow> a @ x \<noteq> b @ y"
  by (metis append_eq_append_conv2 prefixI)

lemma Split_inject: "Split a ''/'' = Split b ''/'' \<Longrightarrow> a = b"
  by (metis Join_Split list.distinct(1))

lemma place_inject:
  assumes "repo_ok r" and "place r kinds n a = place r kinds n b"
  shows "a = b"
proof -
  have apart: "elems (hr_DataPrefix r) @ n # x \<noteq> elems (hr_QuadletPrefix r) @ n # y"
    "elems (hr_QuadletPrefix r) @ n # x \<noteq> elems (hr_DataPrefix r) @ n # y" for x y
    using assms(1) by (simp_all add: repo_ok_def apart_paths)
  from assms(2) apart have "Split a ''/'' = Split b ''/''" by (auto simp: place_def split: if_splits)
  then show ?thesis by (rule Split_inject)
qed

lemma place_resource: "placed kinds n r \<Longrightarrow> resource_path repo r = place repo kinds n (res_Path r)"
  by (simp add: resource_path_def place_def placed_def IsQuadlet_def)

lemma placed_good: "placed kinds n r \<Longrightarrow> good_elem n \<Longrightarrow> good_resource r"
  by (simp add: placed_def good_resource_def)

text \<open>A path that is the place of no resource.\<close>

definition elsewhere :: "HostComponentRepository \<Rightarrow> (string \<Rightarrow> ResourceType) \<Rightarrow> string \<Rightarrow> path \<Rightarrow> bool" where
  "elsewhere r kinds n k \<longleftrightarrow> (\<forall>path. \<not> own_file path \<longrightarrow> k \<noteq> place r kinds n path)"

lemma elsewhere_apart:
  assumes "apart r d" and "good_path path"
  shows "elsewhere r kinds n (elems (JoinPath [d, path]))"
proof -
  have e: "elems (JoinPath [d, path]) = elems d @ Split path ''/''"
    using assms by (simp add: apart_def elems_JoinPath2)
  show ?thesis
    using assms(1) by (auto simp: elsewhere_def place_def e apart_def apart_paths)
qed

lemma elsewhere_own:
  assumes "repo_ok r" and "good_elem m"
  shows "elsewhere r kinds n (elems (JoinPath [hr_DataPrefix r, m]))" (is ?data)
    and "elsewhere r kinds n (elems (JoinPath [hr_QuadletPrefix r, m]))" (is ?quadlet)
    and "elsewhere r kinds n (elems (JoinPath [hr_DataPrefix r, m, version_file]))" (is ?version)
    and "elsewhere r kinds n (elems (JoinPath [hr_QuadletPrefix r, m] @ ''/.materia_managed''))" (is ?managed)
proof -
  let ?D = "elems (hr_DataPrefix r)" and ?Q = "elems (hr_QuadletPrefix r)"
  have D: "?D @ x \<noteq> ?Q @ y" "?Q @ y \<noteq> ?D @ x" for x y
    using assms(1) by (simp_all add: repo_ok_def apart_paths)
  have same: "path = f" if "Split path ''/'' = [f]" and "Split f ''/'' = [f]" for path f
    using that Split_inject by metis
  have e: "elems (JoinPath [hr_DataPrefix r, m]) = ?D @ [m]" "elems (JoinPath [hr_QuadletPrefix r, m]) = ?Q @ [m]"
    "elems (JoinPath [hr_DataPrefix r, m, version_file]) = ?D @ [m, version_file]"
    using assms by (simp_all add: repo_ok_def elems_JoinPath2 elems_JoinPath3 good_elem_path Split_good)
  have m: "elems (JoinPath [hr_QuadletPrefix r, m] @ ''/.materia_managed'') = ?Q @ [m, managed_file]"
    using elems_append [of managed_file "JoinPath [hr_QuadletPrefix r, m]"] e(2)
    by (simp add: managed_file_def [symmetric])
  show ?data ?quadlet unfolding elsewhere_def place_def e by (auto simp: D Split_nonempty [THEN not_sym])
  show ?version unfolding elsewhere_def place_def e by (auto simp: D own_file_def dest!: same [OF sym])
  show ?managed unfolding elsewhere_def place_def m by (auto simp: D own_file_def dest!: same [OF sym])
qed

subsection \<open>Changes of files and the view\<close>

lemma file_view_elsewhere:
  assumes "elsewhere r kinds n k" and "node_at fs' = (node_at fs)(k := x)"
  shows "file_view r kinds n fs' = file_view r kinds n fs"
proof
  fix path
  from assms(1) have "\<not> own_file path \<longrightarrow> k \<noteq> place r kinds n path" by (simp add: elsewhere_def)
  then show "file_view r kinds n fs' path = file_view r kinds n fs path"
    by (auto simp: file_view_def assms(2))
qed

lemma file_view_place:
  assumes "repo_ok r" and "placed kinds n res" and "res_Kind res \<noteq> ResourceTypePodmanSecret"
    and "node_at fs' = (node_at fs)(resource_path r res := x)"
  shows "file_view r kinds n fs' = (file_view r kinds n fs)(res_Path res := node_text x)"
proof
  fix path
  have "place r kinds n path \<noteq> resource_path r res" if "path \<noteq> res_Path res"
    using that place_inject [OF assms(1)] by (auto simp: place_resource [OF assms(2)])
  then show "file_view r kinds n fs' path = ((file_view r kinds n fs)(res_Path res := node_text x)) path"
    using assms(2,3) by (auto simp: file_view_def assms(4) placed_def place_resource [OF assms(2)])
qed

lemma CreateFile_nodes:
  "CreateFile q fs = (None, fs') \<Longrightarrow> fs' = fs \<or> node_at fs' = (node_at fs)(elems q \<mapsto> PlainFile [])"
  by (cases "elems q = []")
    (auto simp: CreateFile_def parent_missing_def node_at_update node_at_def [of _ "[]"]
      split: option.splits node.splits if_splits)

lemma keeps_file_view:
  assumes "elsewhere r kinds n (elems q)"
  shows "keeps (\<lambda>fs. file_view r kinds n fs = m) (WriteFile q d)" "keeps (\<lambda>fs. file_view r kinds n fs = m) (Mkdir q)"
    "keeps (\<lambda>fs. file_view r kinds n fs = m) (CreateFile q)" "keeps (\<lambda>fs. file_view r kinds n fs = m) (Remove q)"
proof -
  have step: "keeps (\<lambda>fs. file_view r kinds n fs = m) f"
    if ok: "\<And>fs fs'. f fs = (None, fs') \<Longrightarrow> fs' = fs \<or> (\<exists>x. node_at fs' = (node_at fs)(elems q := x))"
      and failed: "\<And>fs fs' e. f fs = (Some e, fs') \<Longrightarrow> fs' = fs" for f
  proof (rule keepsI)
    fix fs assume m: "file_view r kinds n fs = m"
    obtain x fs' where f: "f fs = (x, fs')" by (metis surj_pair)
    then consider "fs' = fs" | y where "node_at fs' = (node_at fs)(elems q := y)"
      using ok failed by (cases x) blast+
    then show "file_view r kinds n (snd (f fs)) = m"
      using file_view_elsewhere [OF assms] m f by cases auto
  qed
  show "keeps (\<lambda>fs. file_view r kinds n fs = m) (WriteFile q d)" "keeps (\<lambda>fs. file_view r kinds n fs = m) (Mkdir q)"
    "keeps (\<lambda>fs. file_view r kinds n fs = m) (CreateFile q)" "keeps (\<lambda>fs. file_view r kinds n fs = m) (Remove q)"
    by (rule step; blast dest: WriteFile_node Mkdir_node CreateFile_nodes Remove_node failed_keeps)+
qed

lemma host_view_files:
  "file_view (hp_repo p) kinds n fs' = file_view (hp_repo p) kinds n (hst_files h) \<Longrightarrow>
   host_view p secret kinds n (h\<lparr>hst_files := fs'\<rparr>) = host_view p secret kinds n h"
  by (simp add: host_view_def fun_eq_iff)

lemma on_files_view:
  assumes "\<And>m. keeps (\<lambda>fs. file_view (hp_repo p) kinds n fs = m) f"
  shows "host_view p secret kinds n (snd (on_files f h)) = host_view p secret kinds n h"
proof -
  obtain x fs' where f: "f (hst_files h) = (x, fs')" by (metis surj_pair)
  have "file_view (hp_repo p) kinds n fs' = file_view (hp_repo p) kinds n (hst_files h)"
    using keepsD [OF assms refl, of "hst_files h"] f by simp
  then show ?thesis by (simp add: on_files_def f host_view_files)
qed

lemma on_rest_view:
  assumes "\<And>c. secret (snd (f c)) = secret c"
  shows "host_view p secret kinds n (snd (on_rest f h)) = host_view p secret kinds n h"
proof -
  obtain x c' where f: "f (hst_rest h) = (x, c')" by (metis surj_pair)
  with assms [of "hst_rest h"] show ?thesis by (simp add: on_rest_def host_view_def fun_eq_iff)
qed

lemma on_rest_secret:
  assumes "on_rest f h = (None, h')" and "\<And>c c'. f c = (None, c') \<Longrightarrow> secret c' = (secret c)(res_Path r := v)"
    and "placed kinds n r" and "res_Kind r = ResourceTypePodmanSecret"
  shows "host_view p secret kinds n h' = (host_view p secret kinds n h)(res_Path r := v)"
proof -
  obtain c' where f: "f (hst_rest h) = (None, c')" and h': "h' = h\<lparr>hst_rest := c'\<rparr>"
    using assms(1) by (auto simp: on_rest_def split: prod.splits)
  from assms(3,4) have "\<not> own_file (res_Path r)" "kinds (res_Path r) = ResourceTypePodmanSecret"
    by (simp_all add: placed_def)
  then show ?thesis by (auto simp: h' host_view_def fun_eq_iff assms(2) [OF f])
qed

lemma host_view_place:
  assumes "repo_ok (hp_repo p)" and "placed kinds n r" and "res_Kind r \<noteq> ResourceTypePodmanSecret"
    and "node_at fs' = (node_at (hst_files h))(resource_path (hp_repo p) r := x)"
  shows "host_view p secret kinds n (h\<lparr>hst_files := fs'\<rparr>) = (host_view p secret kinds n h)(res_Path r := node_text x)"
proof -
  from assms(2,3) have "kinds (res_Path r) \<noteq> ResourceTypePodmanSecret" by (simp add: placed_def)
  then show ?thesis by (auto simp: host_view_def fun_eq_iff file_view_place [OF assms])
qed

subsection \<open>The host manager provides the view\<close>

locale host_parts =
  fixes p :: "'c HostParts" and secret :: "'c \<Rightarrow> string \<Rightarrow> string option"
    and kinds :: "string \<Rightarrow> ResourceType" and n :: string
  assumes parts: "parts_ok p secret" and name: "good_elem n"
begin

lemma repo: "repo_ok (hp_repo p)" and scripts: "apart (hp_repo p) (hp_scripts p)"
  and units: "apart (hp_repo p) (hp_units p)" and rest: "rest_laws (hp_base p) secret"
  using parts by (simp_all add: parts_ok_def)

lemma InstallResource_node:
  assumes "InstallResource (hp_repo p) r d fs = (None, fs')" and "placed kinds n r" and "is_directory r \<longrightarrow> d = []"
  shows "\<exists>x. node_text x = Some d \<and> node_at fs' = (node_at fs)(resource_path (hp_repo p) r := x)"
proof -
  note e = elems_resource [OF repo placed_good [OF assms(2) name]]
  have plain: "node_text (Some (PlainFile d)) = Some d" by (simp add: node_text_def)
  consider "IsQuadlet r" | "\<not> IsQuadlet r" "res_Kind r = ResourceTypeDirectory" | "\<not> IsQuadlet r" "res_Kind r \<noteq> ResourceTypeDirectory"
    by blast
  then show ?thesis
  proof cases
    case 1
    with assms(1) have "WriteFile (JoinPath [hr_QuadletPrefix (hp_repo p), res_Parent r, res_Path r]) d fs = (None, fs')"
      by (auto simp: InstallResource_def fail_op_def split: option.splits)
    from WriteFile_node [OF this] e(1) 1 plain show ?thesis by auto
  next
    case 2
    with assms(1) have "Mkdir (JoinPath [JoinPath [hr_DataPrefix (hp_repo p), res_Parent r], res_Path r]) fs = (None, fs')"
      by (auto simp: InstallResource_def fail_op_def split: option.splits)
    moreover have "node_text (Some Directory) = Some d" using 2 assms(3) by (simp add: node_text_def is_directory_def)
    ultimately show ?thesis using Mkdir_node e(2) [OF 2(1)] by metis
  next
    case 3
    with assms(1) have "WriteFile (JoinPath [JoinPath [hr_DataPrefix (hp_repo p), res_Parent r], res_Path r]) d fs = (None, fs')"
      by (auto simp: InstallResource_def fail_op_def split: option.splits)
    with plain show ?thesis using WriteFile_node e(2) [OF 3(1)] by metis
  qed
qed

lemma RemoveResource_node:
  assumes "RemoveResource (hp_repo p) r fs = (None, fs')" and "placed kinds n r"
  shows "node_at fs' = (node_at fs)(resource_path (hp_repo p) r := None)"
  using Remove_node [OF assms(1) [unfolded RemoveResource_def]] elems_resource(1) [OF repo placed_good [OF assms(2) name]] by simp

lemma component_keeps:
  assumes "good_elem (InstanceName c)"
  shows "keeps (\<lambda>fs. file_view (hp_repo p) kinds n fs = m) (InstallComponent vt (hp_repo p) (Some c))"
    "keeps (\<lambda>fs. file_view (hp_repo p) kinds n fs = m) (UpdateComponent vt (hp_repo p) (Some c))"
  unfolding InstallComponent_def UpdateComponent_def option.case Let_def
  by (intro keeps_intros keeps_file_view elsewhere_own [OF repo assms])+

lemma resource_views:
  assumes "placed kinds n r"
  shows "res_Kind r \<noteq> ResourceTypePodmanSecret \<Longrightarrow> on_files (InstallResource (hp_repo p) r d) h = (None, h') \<Longrightarrow>
      is_directory r \<longrightarrow> d = [] \<Longrightarrow> host_view p secret kinds n h' = (host_view p secret kinds n h)(res_Path r \<mapsto> d)"
    and "res_Kind r \<noteq> ResourceTypePodmanSecret \<Longrightarrow> on_files (RemoveResource (hp_repo p) r) h = (None, h') \<Longrightarrow>
      host_view p secret kinds n h' = (host_view p secret kinds n h)(res_Path r := None)"
    and "res_Kind r = ResourceTypePodmanSecret \<Longrightarrow> on_rest (ho_WriteSecret (hp_base p) (res_Path r) d) h = (None, h') \<Longrightarrow>
      host_view p secret kinds n h' = (host_view p secret kinds n h)(res_Path r \<mapsto> d)"
    and "res_Kind r = ResourceTypePodmanSecret \<Longrightarrow> on_rest (ho_RemoveSecret (hp_base p) (res_Path r)) h = (None, h') \<Longrightarrow>
      host_view p secret kinds n h' = (host_view p secret kinds n h)(res_Path r := None)"
proof -
  assume k: "res_Kind r \<noteq> ResourceTypePodmanSecret" and run: "on_files (InstallResource (hp_repo p) r d) h = (None, h')"
    and d: "is_directory r \<longrightarrow> d = []"
  from run obtain fs' where f: "InstallResource (hp_repo p) r d (hst_files h) = (None, fs')" and h': "h' = h\<lparr>hst_files := fs'\<rparr>"
    by (auto simp: on_files_def split: prod.splits)
  from InstallResource_node [OF f assms d] obtain x where
    x: "node_text x = Some d" "node_at fs' = (node_at (hst_files h))(resource_path (hp_repo p) r := x)" by blast
  with host_view_place [OF repo assms k x(2)] show "host_view p secret kinds n h' = (host_view p secret kinds n h)(res_Path r \<mapsto> d)"
    by (simp add: h')
next
  assume k: "res_Kind r \<noteq> ResourceTypePodmanSecret" and run: "on_files (RemoveResource (hp_repo p) r) h = (None, h')"
  from run obtain fs' where f: "RemoveResource (hp_repo p) r (hst_files h) = (None, fs')" and h': "h' = h\<lparr>hst_files := fs'\<rparr>"
    by (auto simp: on_files_def split: prod.splits)
  from host_view_place [OF repo assms k RemoveResource_node [OF f assms]]
  show "host_view p secret kinds n h' = (host_view p secret kinds n h)(res_Path r := None)" by (simp add: h' node_text_def)
next
  assume "res_Kind r = ResourceTypePodmanSecret" "on_rest (ho_WriteSecret (hp_base p) (res_Path r) d) h = (None, h')"
  with rest show "host_view p secret kinds n h' = (host_view p secret kinds n h)(res_Path r \<mapsto> d)"
    by (intro on_rest_secret [OF _ _ assms]) (auto simp: rest_laws_def)
next
  assume "res_Kind r = ResourceTypePodmanSecret" "on_rest (ho_RemoveSecret (hp_base p) (res_Path r)) h = (None, h')"
  with rest show "host_view p secret kinds n h' = (host_view p secret kinds n h)(res_Path r := None)"
    by (intro on_rest_secret [OF _ _ assms]) (auto simp: rest_laws_def)
qed

lemma path_views:
  assumes "placed kinds n r"
  shows "host_view p secret kinds n (snd (on_files (File_Install (hp_scripts p) (res_Path r) d) h)) = host_view p secret kinds n h"
    "host_view p secret kinds n (snd (on_files (File_Remove (hp_scripts p) (res_Path r)) h)) = host_view p secret kinds n h"
    "host_view p secret kinds n (snd (on_files (File_Install (hp_units p) (res_Path r) d) h)) = host_view p secret kinds n h"
    "host_view p secret kinds n (snd (on_files (File_Remove (hp_units p) (res_Path r)) h)) = host_view p secret kinds n h"
proof -
  have g: "good_path (res_Path r)" using assms by (simp add: placed_def)
  note places = keeps_file_view [OF elsewhere_apart [OF scripts g]] keeps_file_view [OF elsewhere_apart [OF units g]]
  show "host_view p secret kinds n (snd (on_files (File_Install (hp_scripts p) (res_Path r) d) h)) = host_view p secret kinds n h"
    "host_view p secret kinds n (snd (on_files (File_Remove (hp_scripts p) (res_Path r)) h)) = host_view p secret kinds n h"
    "host_view p secret kinds n (snd (on_files (File_Install (hp_units p) (res_Path r) d) h)) = host_view p secret kinds n h"
    "host_view p secret kinds n (snd (on_files (File_Remove (hp_units p) (res_Path r)) h)) = host_view p secret kinds n h"
    unfolding File_Install_def File_Remove_def by (rule on_files_view, rule places)+
qed

lemma rest_views:
  "secret (snd (ho_ApplyService (hp_base p) m s t c)) = secret c" "secret (snd (ho_GetService (hp_base p) m c)) = secret c"
  "secret (snd (ho_RunOneshotCommand (hp_base p) t m cmd c)) = secret c"
  "secret (snd (ho_WaitUntilState (hp_base p) m st t c)) = secret c"
  "secret (snd (ho_ListContainers (hp_base p) fl c)) = secret c" "secret (snd (ho_ExecContainer (hp_base p) m cmd c)) = secret c"
  "secret (snd (ho_DumpVolume (hp_base p) v d c)) = secret c" "secret (snd (ho_ImportVolume (hp_base p) v d c)) = secret c"
  "secret (snd (ho_RemoveVolume (hp_base p) v c)) = secret c" "secret (snd (ho_GetNetwork (hp_base p) m c)) = secret c"
  "secret (snd (ho_RemoveNetwork (hp_base p) net c)) = secret c" "secret (snd (ho_RemoveImage (hp_base p) m c)) = secret c"
  using rest by (simp_all add: rest_laws_def)

lemma host_manager_view:
  "component_view (HostManager_ops p) (host_view p secret kinds n) (placed kinds n) (\<lambda>c. good_elem (InstanceName c))"
  by unfold_locales
    (simp_all add: HostManager_ops_def Let_def resource_views path_views on_rest_view rest_views on_files_view component_keeps)

end

sublocale host_parts \<subseteq> component_view "HostManager_ops p" "host_view p secret kinds n" "placed kinds n"
  "\<lambda>c. good_elem (InstanceName c)"
  by (rule host_manager_view)

end
