(* ===== verification/UpdateRun.thy ===== *)
theory UpdateRun
  imports HostUpdates
begin

section \<open>An update carried out\<close>

text \<open>
  The actions \<open>PlanUpdatedComponent\<close> returns, put into a plan and executed on the host manager: when the
  run ends without an error, the host holds the source's resources.
\<close>

subsection \<open>The actions of an update\<close>

definition restarts :: "triggers \<Rightarrow> bool" where
  "restarts ts \<longleftrightarrow> (\<forall>k as. map_of ts k = Some as \<longrightarrow> (\<forall>a\<in>set as. act_Todo a = ActionRestart \<or> act_Todo a = ActionReload))"

lemma restarts_add:
  "restarts ts \<Longrightarrow> act_Todo a = ActionRestart \<or> act_Todo a = ActionReload \<Longrightarrow> restarts (add_trigger k a ts)"
  by (cases "map_of ts k") (auto simp: restarts_def add_trigger_def update_conv')

lemma add_config_triggers_restarts:
  "add_config_triggers up c src t ks ts = Inr ts' \<Longrightarrow> restarts ts \<Longrightarrow> t = ActionRestart \<or> t = ActionReload \<Longrightarrow> restarts ts'"
  by (induction ks arbitrary: ts) (auto split: sum.splits dest: getServiceAction_Inr intro: restarts_add)

lemma service_triggers_restarts:
  "service_triggers up c srcs ts = Inr ts' \<Longrightarrow> restarts ts \<Longrightarrow> restarts ts'"
  by (induction srcs arbitrary: ts) (auto split: sum.splits dest!: add_config_triggers_restarts)

lemma resource_triggers_restarts:
  "resource_triggers up c rs ts = Inr ts' \<Longrightarrow> restarts ts \<Longrightarrow> restarts ts'"
  by (induction rs arbitrary: ts)
    (auto split: sum.splits if_splits dest: resourceActionWithMetadata_Inr intro: restarts_add)

lemma triggered_restarts:
  assumes "generateComponentServiceTriggers up c = Inr ts" and "processTriggeredUpdates mgr ts ras = Inr as" and "a \<in> set as"
  shows "act_Todo a = ActionRestart \<or> act_Todo a = ActionReload"
proof -
  have "restarts []" by (simp add: restarts_def)
  with assms(1) have "restarts ts"
    by (auto simp: generateComponentServiceTriggers_def split: sum.splits if_splits
        dest: service_triggers_restarts resource_triggers_restarts)
  moreover have "set running \<subseteq> set vs" if "collect (live_trigger mgr) vs = Inr running" for vs running
    using collect_memberD [OF that] by (fastforce simp: live_trigger_def split: sum.splits if_splits)
  ultimately show ?thesis
    using collect_memberD [OF assms(2) [unfolded processTriggeredUpdates_def] assms(3)]
    by (fastforce simp: restarts_def split: option.splits sum.splits)
qed

text \<open>The resource changes of an update are those of its resource actions; the rest acts on services.\<close>

lemma script_action_Inr: "script_action msg c s act = Inr as \<Longrightarrow> set as \<subseteq> range act"
  by (auto simp: script_action_def split: if_splits sum.splits)

lemma pre_scripts_no_crud:
  "(if b then script_action msg c s (update_script_action d n sfx) else Inr []) = Inr as \<Longrightarrow> a \<in> set as \<Longrightarrow> \<not> is_crud a"
  by (auto simp: is_crud_def IsResourceAction_def update_script_action_def split: if_splits dest!: script_action_Inr)

lemma update_services_no_crud:
  assumes "update_services up mgr host source ras = Inr (triggered, services)" and "a \<in> set (triggered @ services)"
  shows "\<not> is_crud a"
proof -
  from assms(1) obtain ts where
    "generateComponentServiceTriggers up source = Inr ts" "processTriggeredUpdates mgr ts ras = Inr triggered"
    "GenerateServiceActions up mgr (Some source) (Some host) = Inr services"
    by (auto simp: update_services_def split: sum.splits)
  with assms(2) triggered_restarts [of up source ts mgr ras triggered a] GenerateServiceActions_set [of up mgr "Some source" "Some host" services a]
  show ?thesis by (auto simp: is_crud_def IsResourceAction_def)
qed

lemma update_actions:
  assumes "PlanUpdatedComponent up dm opts mgr tree = Inr (as, tree')"
    and "ct_Host tree = Some host" and "ct_Source tree = Some source"
  obtains ras where "generateUpdatedComponentResources up dm mgr opts host source = Inr ras"
    and "filter resource_change as = filter resource_change ras"
    and "\<And>a. a \<in> set as \<Longrightarrow> is_crud a \<Longrightarrow> a \<in> set ras \<or> a = version_update (upgraded_host host) source"
proof -
  from assms obtain ras where ras: "generateUpdatedComponentResources up dm mgr opts host source = Inr ras"
    by (auto simp: PlanUpdatedComponent_def split: sum.splits)
  let ?v = "version_update (upgraded_host host) source"
  from assms ras obtain pre post where as: "as = pre @ ras @ post"
    and pre: "\<forall>a\<in>set pre. \<not> is_crud a" and post: "\<forall>a\<in>set post. is_crud a \<longrightarrow> a = ?v"
  proof -
    let ?host = "upgraded_host host" and ?new = "comp_Version host \<noteq> DefaultComponentVersion"
    let ?ras = "if ?new then ras @ [?v] else ras"
    from assms ras obtain pre where
      pre: "(if ras \<noteq> [] \<and> \<not> pc_OnlyResources opts
        then script_action ''pre-update resource not found'' source (set_PreScript (comp_Settings source))
          (update_script_action source 1 ''-materia-pre-update.service'')
        else Inr []) = Inr pre"
      by (auto simp: PlanUpdatedComponent_def Let_def split: sum.splits)
    note scripts = pre_scripts_no_crud [OF pre]
    show thesis
    proof (cases "pc_OnlyResources opts")
      case True
      with assms ras pre have "as = pre @ ?ras" by (auto simp: PlanUpdatedComponent_def Let_def)
      then show thesis using scripts by (intro that [of pre "if ?new then [?v] else []"]) auto
    next
      case False
      from assms ras pre False obtain ens post triggered services h'' where
        ens: "generateQuadletEnsurements mgr ?host source = Inr ens" and
        post: "(if ?ras \<noteq> []
          then script_action ''post-update resource not found'' source (set_PostScript (comp_Settings source))
            (update_script_action source 4 ''-materia-post-update.service'')
          else Inr []) = Inr post" and
        serv: "update_services up mgr h'' source ?ras = Inr (triggered, services)" and
        as: "as = (pre @ ?ras) @ ens @ (if ?ras \<noteq> [] then [reload_action] else []) @ post @ triggered @ services"
        unfolding PlanUpdatedComponent_def Let_def
        by (auto split: sum.splits prod.splits)
      have "\<not> is_crud a" if "a \<in> set ens" for a
        using generateQuadletEnsurements_set [OF ens that] by (simp add: is_crud_def IsResourceAction_def)
      then show thesis
        using scripts pre_scripts_no_crud [OF post] update_services_no_crud [OF serv]
        by (intro that [of pre "(if ?new then [?v] else []) @ ens @ (if ?ras \<noteq> [] then [reload_action] else []) @ post @ triggered @ services"])
          (auto simp: as is_crud_def [of reload_action] IsResourceAction_def)
    qed
  qed
  have v: "\<not> resource_change ?v" by (simp add: resource_change_def version_update_def component_resource_def)
  show ?thesis
  proof (rule that [OF ras])
    have "filter resource_change pre = []" using pre by (auto simp: filter_empty_conv resource_change_def)
    moreover have "filter resource_change post = []" using post v by (auto simp: filter_empty_conv resource_change_def)
    ultimately show "filter resource_change as = filter resource_change ras" by (simp add: as)
    show "a \<in> set ras \<or> a = ?v" if "a \<in> set as" "is_crud a" for a using that pre post by (auto simp: as)
  qed
qed

subsection \<open>The changes of an update\<close>

text \<open>The conditions on the two components: every resource has its place below the component's directories.\<close>

definition components_placed :: "(string \<Rightarrow> ResourceType) \<Rightarrow> Component \<Rightarrow> Component \<Rightarrow> bool" where
  "components_placed kinds host source \<longleftrightarrow>
     comp_inv host \<and> comp_inv source \<and> good_elem (InstanceName host) \<and>
     comp_Name host \<noteq> ''root'' \<and> comp_Name source \<noteq> ''root'' \<and>
     list_all (placed kinds (InstanceName host)) (ResourceSet_List (resources_of host) @ ResourceSet_List (resources_of source))"

lemma changes_placed:
  assumes "generateUpdatedComponentResources up dm mgr opts host source = Inr ras" and "components_placed kinds host source"
    and "diff_laws dm text2" and "a \<in> set ras" and "is_crud a"
  shows "resource_change a" and "parent_name a \<noteq> ''root''" and "fits (placed kinds (InstanceName host)) text2 a"
proof -
  let ?n = "InstanceName host" and ?H = "resources_of host" and ?S = "resources_of source"
  from assms(2) have inv: "comp_inv host" "comp_inv source" and invS: "ResourceSet_inv ?S"
    and root: "comp_Name host \<noteq> ''root''" "comp_Name source \<noteq> ''root''"
    and pl: "\<And>r. r \<in> set (ResourceSet_List ?H) \<or> r \<in> set (ResourceSet_List ?S) \<Longrightarrow> placed kinds ?n r"
    by (auto simp: components_placed_def comp_inv_def list_all_iff)
  have "a \<in> set (filter is_crud ras)" using assms(4,5) by simp
  then consider (rem) r where "a = removal host r" "r \<in> set (ResourceSet_List ?H)"
    | (ins) r where "a = install_action dm source r" "r \<in> set (ResourceSet_List ?S)"
    | (upd) r where "a = update_action dm source r (source_content source r)" "r \<in> set (ResourceSet_List ?H)"
        "lhm_get ?S (res_Path r) \<noteq> None"
    unfolding update_crud_actions [OF assms(1) inv] by auto
  then have "resource_change a \<and> parent_name a \<noteq> ''root'' \<and> fits (placed kinds ?n) text2 a"
  proof cases
    case rem
    with pl [of r] root show ?thesis
      by (auto simp: resource_change_def removal_def is_crud_def IsResourceAction_def parent_name_def fits_def placed_def)
  next
    case ins
    then have t: "act_Target a = r" "act_Parent a = Some source" by (simp_all add: install_action_def)
    with ins pl [of r] root written_install [OF assms(3)] show ?thesis
      by (auto simp: resource_change_def parent_name_def fits_def placed_def)
  next
    case upd
    then have t: "act_Target a = r" "act_Parent a = Some source" "act_Todo a = ActionUpdate" by (simp_all add: update_action_def)
    from upd(3) obtain s where s: "lhm_get ?S (res_Path r) = Some s" by auto
    then have "s \<in> set (ResourceSet_List ?S)" "res_Path s = res_Path r"
      using invS by (auto simp: resource_set.get_Some_iff)
    then have "is_directory r \<longrightarrow> source_content source r = []"
      using pl [of s] pl [of r] upd(2) s by (auto simp: source_content_def placed_def is_directory_def)
    with t upd pl [of r] root written_update [OF assms(3)] show ?thesis
      by (auto simp: resource_change_def parent_name_def fits_def placed_def is_crud_def IsResourceAction_def)
  qed
  then show "resource_change a" "parent_name a \<noteq> ''root''" "fits (placed kinds ?n) text2 a" by auto
qed

lemma distinct_three:
  assumes "distinct xs" and "distinct ys" and "distinct zs" and "\<And>q. q \<in> set xs \<Longrightarrow> A q \<and> \<not> B q"
    and "\<And>q. q \<in> set ys \<Longrightarrow> \<not> A q" and "\<And>q. q \<in> set zs \<Longrightarrow> A q \<and> B q"
  shows "distinct (xs @ ys @ zs)"
  using assms by (simp add: disjoint_iff) blast

lemma changes_distinct:
  assumes "generateUpdatedComponentResources up dm mgr opts host source = Inr ras" and "comp_inv host" and "comp_inv source"
  shows "distinct (map (\<lambda>a. res_Path (act_Target a)) (filter is_crud ras))"
proof -
  from assms have inv: "ResourceSet_inv (resources_of host)" "ResourceSet_inv (resources_of source)" by (simp_all add: comp_inv_def)
  let ?H = "resources_of host" and ?S = "resources_of source"
  let ?gone = "filter (\<lambda>r. \<not> is_dropin r) (filter (\<lambda>r. lhm_get ?S (res_Path r) = None) (ResourceSet_List ?H))"
  let ?new = "filter (\<lambda>r. lhm_get ?H (res_Path r) = None) (ResourceSet_List ?S)"
  let ?upd = "filter (\<lambda>r. changed dm (res_Content r) (source_content source r))
      (filter (\<lambda>r. lhm_get ?S (res_Path r) \<noteq> None) (ResourceSet_List ?H))"
  have entry: "lhm_get ?H (res_Path r) = Some r" if "r \<in> set (ResourceSet_List ?H)" for r
    using that inv(1) by (simp add: resource_set.entries_iff)
  have eq: "map (\<lambda>a. res_Path (act_Target a)) (filter is_crud ras) = map res_Path ?gone @ map res_Path ?new @ map res_Path ?upd"
    unfolding update_crud_actions [OF assms] by (simp add: removal_def install_action_def update_action_def)
  show ?thesis
    unfolding eq
  proof (rule distinct_three [where A = "\<lambda>q. lhm_get ?H q \<noteq> None" and B = "\<lambda>q. lhm_get ?S q \<noteq> None"])
    show "distinct (map res_Path ?gone)" "distinct (map res_Path ?new)" "distinct (map res_Path ?upd)"
      by (intro distinct_map_filter resource_set.distinct_entries inv)+
  qed (use entry in auto)
qed

lemma fold_changes_pointwise:
  "m q = m' q \<Longrightarrow> fold (apply_change text2) as m q = fold (apply_change text2) as m' q"
proof (induction as arbitrary: m m')
  case (Cons a as)
  have "apply_change text2 a m q = apply_change text2 a m' q" using Cons.prems by (simp add: apply_change_def)
  from Cons.IH [where m = "apply_change text2 a m" and m' = "apply_change text2 a m'", OF this] show ?case by simp
qed simp

subsection \<open>The run\<close>

text \<open>The steps of the plan change the view as the planner's resource actions do, in whatever order.\<close>

lemma Steps_change_view:
  assumes "generateUpdatedComponentResources up dm mgr opts host source = Inr ras" and "components_placed kinds host source"
    and "diff_laws dm text2" and "holds p as" and "filter resource_change as = filter resource_change ras"
  shows "fold (apply_change text2) (filter resource_change (Steps p)) = fold (apply_change text2) ras"
proof -
  have inv: "comp_inv host" "comp_inv source" using assms(2) by (simp_all add: components_placed_def)
  note placed = changes_placed [OF assms(1-3)]
  have crud: "filter resource_change ras = filter is_crud ras"
    using placed(1) by (intro filter_cong) (auto simp: resource_change_def)
  have "filter (\<lambda>a. resource_change a \<and> parent_name a \<noteq> ''root'') as = filter (\<lambda>a. parent_name a \<noteq> ''root'') (filter resource_change as)"
    by (simp add: conj_commute)
  also have "\<dots> = filter is_crud ras"
    unfolding assms(5) crud filter_filter using placed(2) by (intro filter_cong) auto
  finally have "mset (filter resource_change (Steps p)) = image_mset prioritized (mset (filter is_crud ras))"
    using Steps_changes [OF assms(4)] by (simp flip: mset_filter)
  from fold_changes_mset [OF this changes_distinct [OF assms(1) inv]] show ?thesis
    by (simp add: fun_eq_iff fold_apply_crud [of text2 ras])
qed

lemma version_update_keeps:
  assumes "good_elem (InstanceName host)"
  shows "keeps_component (\<lambda>c. good_elem (InstanceName c)) (version_update (upgraded_host host) source)"
proof -
  have "InstanceName (upgraded_host host) = InstanceName host" by (simp add: upgraded_host_def InstanceName_def)
  with assms show ?thesis by (simp add: keeps_component_def version_update_def del: InstanceName_def)
qed

text \<open>
  C2: Planning an update of a component, putting its actions into a plan and executing the plan on the host
  manager ends, when no error is returned, with the source's contents on the host: a path that held
  the text the loaded host component has holds what \<open>reached\<close> says, be it a file, a quadlet, a directory
  or a podman secret.  The priorities, the order of the steps and the service changes between them do not
  matter.
\<close>

theorem update_run_reaches_source:
  assumes "PlanUpdatedComponent up dm opts mgr tree = Inr (as, tree')"
    and "ct_Host tree = Some host" and "ct_Source tree = Some source" and "components_placed kinds host source"
    and "Plan_Append NewPlan as = Inr p" and "Execute order order' e p h = ((steps, None), h')"
    and "ex_host e = HostManager_ops parts" and "parts_ok parts secret" and "diff_laws dm (ex_text2 e)"
    and "host_view parts secret kinds (InstanceName host) h path = contents host path"
  shows "host_view parts secret kinds (InstanceName host) h' path = reached host source path"
proof -
  let ?view = "host_view parts secret kinds (InstanceName host)" and ?change = "apply_change (ex_text2 e)"
  obtain ras where ras: "generateUpdatedComponentResources up dm mgr opts host source = Inr ras"
    and eq: "filter resource_change as = filter resource_change ras"
    and crud: "\<And>a. a \<in> set as \<Longrightarrow> is_crud a \<Longrightarrow> a \<in> set ras \<or> a = version_update (upgraded_host host) source"
    using update_actions [OF assms(1-3)] by blast
  have inv: "comp_inv host" "comp_inv source" and name: "good_elem (InstanceName host)"
    using assms(4) by (simp_all add: components_placed_def)
  have h: "holds p as" using Append_holds [OF assms(5)] by simp
  have parts: "host_parts parts secret (InstanceName host)" by (rule host_parts.intro [OF assms(8) name])
  have same: "fold ?change (filter resource_change (Steps p)) = fold ?change ras"
    by (rule Steps_change_view [OF ras assms(4,9) h eq])
  have fit: "keeps_component (\<lambda>c. good_elem (InstanceName c)) v \<and>
      (resource_change v \<longrightarrow> fits (placed kinds (InstanceName host)) (ex_text2 e) v)" if "v \<in> set (Steps p)" for v
  proof -
    have keeps: "keeps_component (\<lambda>c. good_elem (InstanceName c)) a" if "a \<in> set as" for a
    proof (cases "a \<in> set ras")
      case True
      with changes_placed(1) [OF ras assms(4,9), of a] show ?thesis by (auto simp: keeps_component_def resource_change_def)
    next
      case False
      with crud [OF that] version_update_keeps [OF name, of source] show ?thesis by (auto simp: keeps_component_def)
    qed
    have "fits (placed kinds (InstanceName host)) (ex_text2 e) v" if r: "resource_change v"
    proof -
      have "v \<in> set (filter resource_change (Steps p))" using \<open>v \<in> set (Steps p)\<close> r by simp
      then obtain a where a: "a \<in> set (filter resource_change as)" "v = prioritized a"
        using arg_cong [OF Steps_changes [OF h], of set_mset] by auto
      with changes_placed(3) [OF ras assms(4,9), of a] show ?thesis
        by (auto simp: eq fits_def written_def resource_change_def)
    qed
    with Steps_keep_component [OF h that keeps] show ?thesis by blast
  qed
  have empty: "filter resource_change (Steps p) = []" if "Plan_Empty p"
  proof -
    have "as = []" using h that by (simp add: holds_def Plan_Empty_def)
    then have "mset (filter resource_change (Steps p)) = {#}" using Steps_changes [OF h] by simp
    then show ?thesis by simp
  qed
  have "?view h' = fold ?change (filter resource_change (Steps p)) (?view h)"
    by (rule component_view.Execute_changes [OF host_parts.host_manager_view [OF parts] assms(7,6) fit empty])
  then have "?view h' path = fold ?change ras (?view h) path" by (simp add: same)
  also have "\<dots> = fold ?change ras (contents host) path" by (rule fold_changes_pointwise) (rule assms(10))
  also have "\<dots> = reached host source path" by (rule update_reaches [OF ras inv assms(9)])
  finally show ?thesis .
qed

subsection \<open>A sample run\<close>

definition demo_rest :: "(string \<times> string) list Host" where
  "demo_rest =
     \<lparr>ho_ApplyService = (\<lambda>n a t c. (None, c)), ho_GetService = (\<lambda>n c. (Inr (zero_Service\<lparr>svc_Name := n\<rparr>), c)),
      ho_RunOneshotCommand = (\<lambda>t n cmd c. (None, c)), ho_WaitUntilState = (\<lambda>n s t c. (None, c)),
      ho_ListContainers = (\<lambda>fl c. (Inr [], c)), ho_ExecContainer = (\<lambda>n cmd c. (None, c)),
      ho_DumpVolume = (\<lambda>v d c. (None, c)), ho_ImportVolume = (\<lambda>v d c. (None, c)), ho_RemoveVolume = (\<lambda>v c. (None, c)),
      ho_GetNetwork = (\<lambda>n c. (Inl (ErrSentinel ErrPodmanObjectNotFound), c)), ho_RemoveNetwork = (\<lambda>n c. (None, c)),
      ho_WriteSecret = (\<lambda>n v c. (None, AList.update n v c)), ho_RemoveSecret = (\<lambda>n c. (None, AList.delete n c)),
      ho_RemoveImage = (\<lambda>n c. (None, c)), ho_InstallComponent = (\<lambda>cp c. (None, c)), ho_UpdateComponent = (\<lambda>cp c. (None, c)),
      ho_RemoveComponent = (\<lambda>cp c. (None, c)), ho_InstallResource = (\<lambda>r d c. (None, c)), ho_RemoveResource = (\<lambda>r c. (None, c)),
      ho_InstallScript = (\<lambda>q d c. (None, c)), ho_RemoveScript = (\<lambda>q c. (None, c)), ho_InstallUnit = (\<lambda>q d c. (None, c)),
      ho_RemoveUnit = (\<lambda>q c. (None, c))\<rparr>"

definition demo_parts :: "(string \<times> string) list HostParts" where
  "demo_parts = \<lparr>hp_repo = demo_repo, hp_scripts = ''/scripts'', hp_units = ''/units'', hp_version_text = (\<lambda>c. []), hp_base = demo_rest\<rparr>"

lemma demo_parts_ok: "parts_ok demo_parts map_of"
proof -
  have "rest_laws demo_rest map_of" by (simp add: rest_laws_def demo_rest_def update_conv' delete_conv')
  moreover have "apart demo_repo ''/scripts''" "apart demo_repo ''/units''" by code_simp+
  ultimately show ?thesis by (simp add: parts_ok_def demo_parts_def demo_repo_ok)
qed

interpretation demo_web: host_parts demo_parts map_of kinds "''web''" for kinds
  by unfold_locales (rule demo_parts_ok, code_simp)

definition demo_kinds :: "string \<Rightarrow> ResourceType" where
  "demo_kinds q =
     (if q = ''token'' then ResourceTypePodmanSecret else if q = ''web.container'' then ResourceTypeContainer
      else if q = ''data.volume'' then ResourceTypeVolume else if q = ''MANIFEST.toml'' then ResourceTypeManifest
      else ResourceTypeFile)"

definition demo_state :: "(string \<times> string) list HostState" where
  "demo_state =
     \<lparr>hst_files = ([''quadlets'', ''web'', ''web.container''], PlainFile ''httpd'') #
        ([''data'', ''web'', ''MANIFEST.toml''], PlainFile ''[Settings]'') # demo_installed,
      hst_rest = [(''token'', ''old'')]\<rparr>"

definition demo_executor :: "(string \<times> string) list HostState Executor" where
  "demo_executor =
     \<lparr>ex_conf = ex_conf logging_executor, ex_host = HostManager_ops demo_parts, ex_defaultTimeout = 30, ex_text2 = demo_text2\<rparr>"

definition demo_update_tree :: ComponentTree where
  "demo_update_tree = demo_tree\<lparr>ct_Host := Some demo_old, ct_Source := Some demo_new\<rparr>"

definition demo_actions :: "Action list \<times> ComponentTree" where
  "demo_actions = projr (PlanUpdatedComponent demo_parser demo_diff DefaultPlannerConfig demo_host demo_update_tree)"

definition demo_update_plan :: Plan where
  "demo_update_plan = projr (Plan_Append NewPlan (fst demo_actions))"

definition demo_run :: "(int \<times> go_error option) \<times> (string \<times> string) list HostState" where
  "demo_run = Execute (\<lambda>x. x) (\<lambda>x. x) demo_executor demo_update_plan demo_state"

lemma demo_run_made:
  "PlanUpdatedComponent demo_parser demo_diff DefaultPlannerConfig demo_host demo_update_tree = Inr demo_actions"
  "Plan_Append NewPlan (fst demo_actions) = Inr demo_update_plan" "snd (fst demo_run) = None"
  "components_placed demo_kinds demo_old demo_new"
  "host_view demo_parts map_of demo_kinds ''web'' demo_state ''web.container'' = contents demo_old ''web.container''"
  "host_view demo_parts map_of demo_kinds ''web'' demo_state ''token'' = contents demo_old ''token''"
  by code_simp+

theorem update_run_reaches_source_witness:
  "host_view demo_parts map_of demo_kinds ''web'' (snd demo_run) ''web.container'' = Some ''nginx'' \<and>
   host_view demo_parts map_of demo_kinds ''web'' (snd demo_run) ''token'' = Some ''old''"
proof -
  have name: "InstanceName demo_old = ''web''" by code_simp
  have run: "Execute (\<lambda>x. x) (\<lambda>x. x) demo_executor demo_update_plan demo_state = ((fst (fst demo_run), None), snd demo_run)"
    using demo_run_made(3) by (simp add: demo_run_def prod_eq_iff)
  have "host_view demo_parts map_of demo_kinds (InstanceName demo_old) (snd demo_run) path = reached demo_old demo_new path"
    if "host_view demo_parts map_of demo_kinds ''web'' demo_state path = contents demo_old path" for path
  proof (rule update_run_reaches_source)
    show "PlanUpdatedComponent demo_parser demo_diff DefaultPlannerConfig demo_host demo_update_tree =
        Inr (fst demo_actions, snd demo_actions)"
      using demo_run_made(1) by simp
    show "ct_Host demo_update_tree = Some demo_old" "ct_Source demo_update_tree = Some demo_new"
      by (simp_all add: demo_update_tree_def)
    show "host_view demo_parts map_of demo_kinds (InstanceName demo_old) demo_state path = contents demo_old path"
      using that name by simp
  qed (fact demo_run_made run demo_parts_ok | simp add: demo_executor_def demo_diff_laws)+
  from this [OF demo_run_made(5)] this [OF demo_run_made(6)] show ?thesis
    using demo_reached by (simp add: name)
qed

end
