(* ===== verification/Sources.thy ===== *)
theory Sources
  imports Hostman
begin

section \<open>Sources (pkg/source, internal/source)\<close>

text \<open>
  Where the components come from: a directory of the host (\<open>file.go\<close>), an image of a registry
  (\<open>oci.go\<close>) or a git repository (\<open>git.go\<close>).  A source changes the host's files; what it leaves beside
  them (the state of the repositories) is the rest of the state.  The libraries behind it are records of
  operations: \<open>git_api\<close> for the calls of go-git, the list of archive entries for the registry.
\<close>

subsection \<open>The interface\<close>

record SyncOpts =
  so_Revision :: string
  so_Subpath :: string

record SyncReport =
  sr_OldRevision :: string
  sr_NewRevision :: string

definition zero_SyncOpts :: SyncOpts where
  "zero_SyncOpts = \<lparr>so_Revision = [], so_Subpath = []\<rparr>"

definition zero_SyncReport :: SyncReport where
  "zero_SyncReport = \<lparr>sr_OldRevision = [], sr_NewRevision = []\<rparr>"

definition CanRollback :: "SyncReport \<Rightarrow> bool" where
  "CanRollback r \<longleftrightarrow> sr_OldRevision r \<noteq> []"

record SourceConfig =
  sc_URL :: string
  sc_Kind :: string

definition SourceConfig_Validate :: "SourceConfig \<Rightarrow> go_error option" where
  "SourceConfig_Validate c = (if sc_URL c = [] then Some (ErrMsg ''need source URL'') else None)"

text \<open>\<open>SupportsRollback\<close> is all \<open>Inspect\<close> says.\<close>

record 'h Source =
  sy_Sync :: "SyncOpts \<Rightarrow> ('h, SyncReport) query"
  sy_SupportsRollback :: bool
  sy_Clean :: "'h operation"

text \<open>An operation whose result is thrown away for an answer; its error ends the query.\<close>

definition and_return :: "'h operation \<Rightarrow> 'a \<Rightarrow> ('h, 'a) query" where
  "and_return f x h = (case f h of (Some e, h') \<Rightarrow> (Inl e, h') | (None, h') \<Rightarrow> (Inr x, h'))"

definition then_query :: "('h, 'a) query \<Rightarrow> ('a \<Rightarrow> ('h, 'b) query) \<Rightarrow> ('h, 'b) query" where
  "then_query q f h = (case q h of (Inl e, h') \<Rightarrow> (Inl e, h') | (Inr x, h') \<Rightarrow> f x h')"

definition wrap_query :: "string \<Rightarrow> ('h, 'a) query \<Rightarrow> ('h, 'a) query" where
  "wrap_query msg q h = (case q h of (r, h') \<Rightarrow> (wrap_error msg r, h'))"

definition return_query :: "'a \<Rightarrow> ('h, 'a) query" where
  "return_query x h = (Inr x, h)"

definition fail_query :: "go_error \<Rightarrow> ('h, 'a) query" where
  "fail_query e h = (Inl e, h)"

text \<open>A query whose answer is only looked at.\<close>

definition use_query :: "('h, 'a) query \<Rightarrow> ('a \<Rightarrow> 'h operation) \<Rightarrow> 'h operation" where
  "use_query q f h = (case q h of (Inl e, h') \<Rightarrow> (Some e, h') | (Inr x, h') \<Rightarrow> f x h')"

lemma query_Inr:
  "and_return f x h = (Inr y, h') \<longleftrightarrow> f h = (None, h') \<and> y = x"
  "then_query q k h = (Inr z, h'') \<longleftrightarrow> (\<exists>x h'. q h = (Inr x, h') \<and> k x h' = (Inr z, h''))"
  "wrap_query m q h = (Inr x, h') \<longleftrightarrow> q h = (Inr x, h')"
  "return_query x h = (Inr x', h') \<longleftrightarrow> x' = x \<and> h' = h"
  "fail_query e h = (Inr x, h') \<longleftrightarrow> False"
  "use_query q g h = (None, h'') \<longleftrightarrow> (\<exists>x h'. q h = (Inr x, h') \<and> g x h' = (None, h''))"
  by (auto simp: and_return_def then_query_def wrap_query_def return_query_def fail_query_def use_query_def
      split: prod.splits option.splits sum.splits)

lemma keeps_step: "q h = (x, h') \<Longrightarrow> keeps P q \<Longrightarrow> P h \<Longrightarrow> P h'"
  by (metis keepsD snd_conv)

lemma keeps_queries [keeps_intros]:
  shows "keeps P f \<Longrightarrow> keeps P (and_return f y)"
    and "keeps P q \<Longrightarrow> (\<And>x. keeps P (k x)) \<Longrightarrow> keeps P (then_query q k)"
    and "keeps P q \<Longrightarrow> keeps P (wrap_query m q)"
    and "keeps P (return_query y)"
    and "keeps P (fail_query e)"
    and "keeps P q \<Longrightarrow> (\<And>x. keeps P (g x)) \<Longrightarrow> keeps P (use_query q g)"
  by (auto intro!: keepsI simp: and_return_def then_query_def wrap_query_def return_query_def fail_query_def use_query_def
      split: prod.split option.split sum.split) (blast intro: keepsD keeps_step)+

subsection \<open>More of the file system\<close>

text \<open>\<open>os.MkdirAll\<close> makes the missing directories of a path, from the top.\<close>

definition make_missing :: "path \<Rightarrow> fs operation" where
  "make_missing k fs =
     (case node_at fs k of
        Some Directory \<Rightarrow> (None, fs)
      | Some (PlainFile d) \<Rightarrow> (Some (ErrMsg ''not a directory''), fs)
      | None \<Rightarrow> (None, AList.update k Directory fs))"

definition MkdirAll :: "path \<Rightarrow> fs operation" where
  "MkdirAll k = each_op (\<lambda>n. make_missing (take n k)) [1..<Suc (length k)]"

text \<open>\<open>OpenFile\<close> with \<open>O_EXCL\<close>: the file must be new.\<close>

definition create_new :: "path \<Rightarrow> string \<Rightarrow> fs operation" where
  "create_new k d fs =
     (case parent_missing fs k of
        Some e \<Rightarrow> (Some e, fs)
      | None \<Rightarrow>
          (if node_at fs k \<noteq> None then (Some (ErrMsg ''file exists''), fs)
           else (None, AList.update k (PlainFile d) fs)))"

text \<open>
  \<open>os.CopyFS(dest, os.DirFS(src))\<close> walks the source and makes every entry anew below the destination.  The
  walk is taken before the first entry is made: the two directories lie apart.
\<close>

definition copy_entry :: "path \<Rightarrow> path \<Rightarrow> path \<times> node \<Rightarrow> fs operation" where
  "copy_entry dest base entry =
     (case snd entry of
        Directory \<Rightarrow> MkdirAll (dest @ drop (length base) (fst entry))
      | PlainFile d \<Rightarrow> create_new (dest @ drop (length base) (fst entry)) d)"

definition CopyFS :: "string \<Rightarrow> string \<Rightarrow> fs operation" where
  "CopyFS dest src fs =
     (case WalkDir fs src of
        Inl e \<Rightarrow> (Some e, fs)
      | Inr entries \<Rightarrow>
          (if list_ex (\<lambda>(k, n). k = elems src \<and> n \<noteq> Directory) entries then (Some (ErrMsg ''not a directory''), fs)
           else each_op (copy_entry (elems dest) (elems src)) entries fs))"

text \<open>Two directories of which neither lies in the other.\<close>

definition apart_paths :: "string \<Rightarrow> string \<Rightarrow> bool" where
  "apart_paths l l' \<longleftrightarrow> \<not> prefix (elems l) (elems l') \<and> \<not> prefix (elems l') (elems l)"

subsection \<open>A directory of the host (file.go)\<close>

record FileSource =
  ff_RemoteRepository :: string
  ff_Destination :: string

record FileConfig =
  fc_SourcePath :: string
  fc_Destination :: string

definition NewFileConfig :: "string \<Rightarrow> string \<Rightarrow> FileConfig result" where
  "NewFileConfig destination path =
     (if path = [] then Inl (ErrMsg ''need file source path'')
      else Inr \<lparr>fc_SourcePath = path, fc_Destination = destination\<rparr>)"

definition NewFileSource :: "fs \<Rightarrow> FileConfig \<Rightarrow> FileSource result" where
  "NewFileSource fs c =
     (let source = TrimPrefix (fc_SourcePath c) ''file://'' in
      case Stat fs source of
        Inl e \<Rightarrow> Inl e
      | Inr n \<Rightarrow> Inr \<lparr>ff_RemoteRepository = source, ff_Destination = fc_Destination c\<rparr>)"

definition clear_entry :: "FileSource \<Rightarrow> string \<times> node \<Rightarrow> fs operation" where
  "clear_entry f e =
     wrap_op ''error syncing filesystem: can't clear path'' (RemoveAll (JoinPath [ff_Destination f, fst e]))"

definition FileSource_Sync :: "FileSource \<Rightarrow> SyncOpts \<Rightarrow> (fs, SyncReport) query" where
  "FileSource_Sync f opts fs =
     (if is_not_exist (Stat fs (ff_Destination f)) then (Inl (ErrMsg ''source destination path does not exist''), fs)
      else if so_Subpath opts \<noteq> [] \<and> is_not_exist (Stat fs (JoinPath [ff_RemoteRepository f, so_Subpath opts]))
      then (Inl (ErrMsg ''source subpath does not exist''), fs)
      else case ReadDir fs (ff_Destination f) of
        Inl e \<Rightarrow> (Inl e, fs)
      | Inr entries \<Rightarrow>
          and_return
            (then_op (each_op (clear_entry f) entries)
              (wrap_op ''error syncing filesystem: can't copy fs''
                (CopyFS (ff_Destination f) (JoinPath [ff_RemoteRepository f, so_Subpath opts]))))
            zero_SyncReport fs)"

definition FileSource_Clean :: "FileSource \<Rightarrow> fs operation" where
  "FileSource_Clean f = RemoveAll (ff_Destination f)"

definition on_files_query :: "(fs, 'a) query \<Rightarrow> ('c HostState, 'a) query" where
  "on_files_query q h = (case q (hst_files h) of (r, fs) \<Rightarrow> (r, h\<lparr>hst_files := fs\<rparr>))"

definition file_source :: "FileSource \<Rightarrow> 'c HostState Source" where
  "file_source f =
     \<lparr>sy_Sync = (\<lambda>opts. on_files_query (FileSource_Sync f opts)), sy_SupportsRollback = False,
      sy_Clean = on_files (FileSource_Clean f)\<rparr>"

subsection \<open>An image of a registry (oci.go, config.go)\<close>

record OciConfig =
  oc_URL :: string
  oc_Tag :: string
  oc_Username :: string
  oc_Password :: string
  oc_Insecure :: bool
  oc_LocalRepository :: string
  oc_Registry :: string
  oc_Repository :: string

text \<open>\<open>strings.SplitN(s, sep, 2)\<close> for a separator of one character.\<close>

definition split2 :: "string \<Rightarrow> char \<Rightarrow> (string \<times> string) option" where
  "split2 s c =
     (if c \<in> set s then Some (takeWhile (\<lambda>x. x \<noteq> c) s, tl (dropWhile (\<lambda>x. x \<noteq> c) s)) else None)"

definition parseURL :: "OciConfig \<Rightarrow> OciConfig result" where
  "parseURL c =
     (case split2 (TrimPrefix (oc_URL c) ''oci://'') (CHR ''/'') of
        None \<Rightarrow> Inl (ErrMsg ''invalid OCI URL format'')
      | Some (registry, repoAndTag) \<Rightarrow>
          (let c = c\<lparr>oc_Registry := registry\<rparr> in
           Inr (case split2 repoAndTag (CHR ''@'') of
                  Some (repository, digest) \<Rightarrow> c\<lparr>oc_Repository := repository, oc_Tag := digest\<rparr>
                | None \<Rightarrow>
                    (case split2 repoAndTag (CHR '':'') of
                       Some (repository, tag) \<Rightarrow>
                         c\<lparr>oc_Repository := repository, oc_Tag := (if oc_Tag c = [] then tag else oc_Tag c)\<rparr>
                     | None \<Rightarrow>
                         c\<lparr>oc_Repository := repoAndTag,
                           oc_Tag := (if oc_Tag c = [] then ''latest'' else oc_Tag c)\<rparr>))))"

record OCISource =
  os_registry :: string
  os_repository :: string
  os_tag :: string
  os_localRepository :: string
  os_auth :: "(string \<times> string) option"
  os_insecure :: bool

definition NewOCISource :: "OciConfig option \<Rightarrow> OCISource result" where
  "NewOCISource cp =
     (case cp of
        None \<Rightarrow> Inl (ErrMsg ''need OCI config'')
      | Some c \<Rightarrow>
     (case wrap_error ''unable to parse OCI url'' (parseURL c) of
        Inl e \<Rightarrow> Inl e
      | Inr c \<Rightarrow>
          Inr \<lparr>os_registry = oc_Registry c, os_repository = oc_Repository c, os_tag = oc_Tag c,
               os_localRepository = oc_LocalRepository c,
               os_auth = (if oc_Username c \<noteq> [] \<and> oc_Password c \<noteq> [] then Some (oc_Username c, oc_Password c) else None),
               os_insecure = oc_Insecure c\<rparr>))"

text \<open>An entry of the image's archive: its name, and what it is.\<close>

datatype tar_entry = TarDir string | TarReg string string | TarOther string

definition tar_path :: "OCISource \<Rightarrow> string \<Rightarrow> path" where
  "tar_path img name = elems (JoinPath [os_localRepository img, name])"

definition extract_entry :: "OCISource \<Rightarrow> tar_entry \<Rightarrow> fs operation" where
  "extract_entry img e =
     (case e of
        TarDir name \<Rightarrow> wrap_op ''failed to create directory'' (MkdirAll (tar_path img name))
      | TarReg name d \<Rightarrow>
          then_op (wrap_op ''failed to create parent directory'' (MkdirAll (butlast (tar_path img name))))
            (wrap_op ''failed to create file'' (WriteFile (JoinPath [os_localRepository img, name]) d))
      | TarOther name \<Rightarrow> (\<lambda>fs. (None, fs)))"

text \<open>
  \<open>pull\<close> is the registry: it parses the reference of an image, pulls it and returns the entries of its
  archive and the error the reader ends with, if any.
\<close>

type_synonym registry = "string \<Rightarrow> (string \<times> string) option \<Rightarrow> bool \<Rightarrow> (tar_entry list \<times> go_error option) result"

definition image_ref :: "OCISource \<Rightarrow> string \<Rightarrow> string" where
  "image_ref img revision = os_registry img @ ''/'' @ os_repository img @ '':'' @ revision"

definition OCISource_Sync :: "registry \<Rightarrow> OCISource \<Rightarrow> SyncOpts \<Rightarrow> (fs, SyncReport) query" where
  "OCISource_Sync pull img opts fs =
     (let revision = (if so_Revision opts \<noteq> [] then so_Revision opts else os_tag img) in
      case pull (image_ref img revision) (os_auth img) (os_insecure img) of
        Inl e \<Rightarrow> (Inl e, fs)
      | Inr (entries, eof) \<Rightarrow>
          and_return
            (then_op (wrap_op ''failed to create local repository'' (MkdirAll (elems (os_localRepository img))))
              (then_op (each_op (extract_entry img) entries)
                (\<lambda>fs. (map_option (ErrWrapped ''failed to read tar header'') eof, fs))))
            zero_SyncReport fs)"

definition OCISource_Clean :: "OCISource \<Rightarrow> fs operation" where
  "OCISource_Clean img = RemoveAll (os_localRepository img)"

definition oci_source :: "registry \<Rightarrow> OCISource \<Rightarrow> 'c HostState Source" where
  "oci_source pull img =
     \<lparr>sy_Sync = (\<lambda>opts. on_files_query (OCISource_Sync pull img opts)), sy_SupportsRollback = False,
      sy_Clean = on_files (OCISource_Clean img)\<rparr>"

end
