(* ===== verification/GitSource.thy ===== *)
theory GitSource
  imports Sources
begin

section \<open>Git sources (internal/source/git/git.go)\<close>

text \<open>
  The calls of go-git are the operations of \<open>git_api\<close>, each on the repository at a local path.  Cloning
  and reading keys depend on libraries and the home directory, the record \<open>git_env\<close>.  An error of go-git
  that the code asks for is a sentinel.
\<close>

subsection \<open>Settings\<close>

record GitConfig =
  gc_URL :: string
  gc_Branch :: string
  gc_PrivateKey :: string
  gc_Username :: string
  gc_Password :: string
  gc_KnownHosts :: string
  gc_Insecure :: bool
  gc_LocalRepository :: string
  gc_Careful :: bool
  gc_Default :: string

text \<open>How the host's key is checked: as the library does without a callback, not at all, or by a file.\<close>

datatype host_check = LibraryHosts | InsecureIgnoreHostKey | KnownHosts string

datatype git_auth = NoAuth | PublicKeys string host_check | BasicAuth string string

record GitSource =
  gs_activeBranch :: string
  gs_defaultBranch :: string
  gs_localRepository :: string
  gs_remoteRepository :: string
  gs_auth :: git_auth
  gs_resetIfNeeded :: bool

record git_env =
  ge_NewEndpoint :: "string \<Rightarrow> string result"
  ge_UserHomeDir :: "string result"
  ge_Stat :: "string \<Rightarrow> go_error option"
  ge_NewPublicKeys :: "string \<Rightarrow> go_error option"
  ge_KnownHosts :: "string \<Rightarrow> go_error option"

text \<open>The key of the configuration: its file of known hosts replaces whatever \<open>Insecure\<close> has set.\<close>

definition key_auth :: "git_env \<Rightarrow> GitConfig \<Rightarrow> git_auth result" where
  "key_auth env c =
     (case ge_UserHomeDir env of
        Inl e \<Rightarrow> Inl e
      | Inr home \<Rightarrow>
     (let hostsfile = (if gc_KnownHosts c = [] then home @ ''/.ssh/known_hosts'' else gc_KnownHosts c) in
      case (if gc_KnownHosts c = [] then ge_Stat env hostsfile else None) of
        Some e \<Rightarrow> Inl e
      | None \<Rightarrow>
     (case ge_Stat env (gc_PrivateKey c) of
        Some e \<Rightarrow> Inl e
      | None \<Rightarrow>
     (case ge_NewPublicKeys env (gc_PrivateKey c) of
        Some e \<Rightarrow> Inl e
      | None \<Rightarrow>
          (let check = (if gc_Insecure c then InsecureIgnoreHostKey else LibraryHosts) in
           if hostsfile \<noteq> [] then
             (case ge_KnownHosts env hostsfile of
                Some e \<Rightarrow> Inl (ErrWrapped ''can't use knownhosts'' e)
              | None \<Rightarrow> Inr (PublicKeys (gc_PrivateKey c) (KnownHosts hostsfile)))
           else Inr (PublicKeys (gc_PrivateKey c) check))))))"

definition default_key_auth :: "git_env \<Rightarrow> GitConfig \<Rightarrow> git_auth result" where
  "default_key_auth env c =
     (case ge_UserHomeDir env of
        Inl e \<Rightarrow> Inl e
      | Inr home \<Rightarrow>
          (let privkey = JoinPath [home, ''.ssh'', ''id_rsa''] in
           case ge_Stat env privkey of
             Some e \<Rightarrow> (if errors_is e ErrNotExist then Inr NoAuth else Inl e)
           | None \<Rightarrow>
               (case ge_NewPublicKeys env privkey of
                  Some e \<Rightarrow> Inl e
                | None \<Rightarrow> Inr (PublicKeys privkey (if gc_Insecure c then InsecureIgnoreHostKey else LibraryHosts)))))"

definition NewGitSource :: "git_env \<Rightarrow> GitConfig option \<Rightarrow> GitSource result" where
  "NewGitSource env cp =
     (case cp of
        None \<Rightarrow> Inl (ErrMsg ''need git config'')
      | Some c \<Rightarrow>
     (case ge_NewEndpoint env (gc_URL c) of
        Inl e \<Rightarrow> Inl (ErrMsg ''failed to parse endpoint'')
      | Inr proto \<Rightarrow>
     (case (if gc_PrivateKey c \<noteq> [] then key_auth env c
            else if gc_Username c \<noteq> [] then Inr (BasicAuth (gc_Username c) (gc_Password c))
            else if proto = ''ssh'' then default_key_auth env c else Inr NoAuth) of
        Inl e \<Rightarrow> Inl e
      | Inr auth \<Rightarrow>
          Inr \<lparr>gs_activeBranch = gc_Branch c, gs_defaultBranch = gc_Default c,
               gs_localRepository = gc_LocalRepository c, gs_remoteRepository = gc_URL c, gs_auth = auth,
               gs_resetIfNeeded = \<not> gc_Careful c\<rparr>)))"

lemma insecure_without_effect:
  assumes "NewGitSource env (Some c) = Inr g" and "gc_PrivateKey c \<noteq> []"
  shows "\<exists>hosts. gs_auth g = PublicKeys (gc_PrivateKey c) (KnownHosts hosts)"
  using assms by (auto simp: NewGitSource_def key_auth_def Let_def split: sum.splits option.splits if_splits)

subsection \<open>The library\<close>

record CheckoutOptions =
  co_Hash :: string
  co_Branch :: string
  co_Force :: bool
  co_Sparse :: "string list"

record 'h git_api =
  ga_PlainClone :: "string \<Rightarrow> string \<Rightarrow> git_auth \<Rightarrow> 'h operation"
  ga_PlainOpen :: "string \<Rightarrow> 'h operation"
  ga_Remote :: "string \<Rightarrow> ('h, string list) query"
  ga_List :: "string \<Rightarrow> 'h \<Rightarrow> (string \<times> string option) list \<times> 'h"
  ga_Head :: "string \<Rightarrow> ('h, string) query"
  ga_Branches :: "string \<Rightarrow> ('h, (string \<times> string) list) query"
  ga_Worktree :: "string \<Rightarrow> 'h operation"
  ga_Checkout :: "string \<Rightarrow> CheckoutOptions \<Rightarrow> 'h operation"
  ga_Fetch :: "string \<Rightarrow> string list \<Rightarrow> git_auth \<Rightarrow> 'h operation"
  ga_Pull :: "string \<Rightarrow> git_auth \<Rightarrow> bool \<Rightarrow> 'h operation"
  ga_HardReset :: "string \<Rightarrow> string \<Rightarrow> 'h operation"
  ga_ResolveRevision :: "string \<Rightarrow> string \<Rightarrow> ('h, string) query"
  ga_RemoveAll :: "string \<Rightarrow> 'h operation"

subsection \<open>Operations\<close>

definition GitSource_Clean :: "'h git_api \<Rightarrow> GitSource \<Rightarrow> 'h operation" where
  "GitSource_Clean A g = ga_RemoveAll A (gs_localRepository g)"

definition HardReset :: "'h git_api \<Rightarrow> GitSource \<Rightarrow> 'h operation" where
  "HardReset A g =
     then_op (wrap_op ''failed to get worktree'' (ga_Worktree A (gs_localRepository g)))
       (use_query (wrap_query ''failed to get HEAD for reset'' (ga_Head A (gs_localRepository g)))
         (ga_HardReset A (gs_localRepository g)))"

text \<open>The error of listing the remote's references is dropped.\<close>

definition remote_default :: "(string \<times> string option) list \<Rightarrow> string" where
  "remote_default refs =
     (case find (\<lambda>(name, target). name = ''HEAD'' \<and> target \<noteq> None) refs of
        Some (name, Some target) \<Rightarrow> target
      | _ \<Rightarrow> ''master'')"

definition GetDefaultBranchFromRepository :: "'h git_api \<Rightarrow> GitSource \<Rightarrow> ('h, string) query" where
  "GetDefaultBranchFromRepository A g =
     (if gs_defaultBranch g \<noteq> [] then return_query (gs_defaultBranch g)
      else then_query (ga_Remote A (gs_localRepository g))
        (\<lambda>urls h. case ga_List A (gs_localRepository g) h of (refs, h') \<Rightarrow> (Inr (remote_default refs), h')))"

text \<open>Of the branches at the head's commit the last one is taken for the current one.\<close>

definition last_branch :: "string \<Rightarrow> (string \<times> string) list \<Rightarrow> string" where
  "last_branch head refs = fold (\<lambda>(name, hash) current. if hash = head then name else current) refs []"

definition GetCurrentBranchFromRepository :: "'h git_api \<Rightarrow> string \<Rightarrow> ('h, string) query" where
  "GetCurrentBranchFromRepository A l =
     then_query (ga_Branches A l) (\<lambda>refs. then_query (ga_Head A l) (\<lambda>head. return_query (last_branch head refs)))"

definition fetchOrigin :: "'h git_api \<Rightarrow> GitSource \<Rightarrow> string \<Rightarrow> 'h operation" where
  "fetchOrigin A g refSpecStr =
     use_query (ga_Remote A (gs_localRepository g))
       (\<lambda>urls h. case ga_Fetch A (gs_localRepository g) (if refSpecStr \<noteq> [] then [refSpecStr] else []) (gs_auth g) h of
          (Some e, h') \<Rightarrow>
            (if e = ErrSentinel NoErrAlreadyUpToDate then (None, h') else (Some (ErrMsg ''fetch origin failed''), h'))
        | (None, h') \<Rightarrow> (None, h'))"

definition clone :: "'h git_api \<Rightarrow> GitSource \<Rightarrow> 'h operation" where
  "clone A g = ga_PlainClone A (gs_localRepository g) (gs_remoteRepository g) (gs_auth g)"

text \<open>The repository that is there: its head when it is a clone of the remote, otherwise it is replaced.\<close>

definition open_repo :: "'h git_api \<Rightarrow> GitSource \<Rightarrow> ('h, string) query" where
  "open_repo A g =
     then_query (and_return (wrap_op ''failed to open repository'' (ga_PlainOpen A (gs_localRepository g))) ()) (\<lambda>u.
     then_query (wrap_query ''failed to get remote'' (ga_Remote A (gs_localRepository g))) (\<lambda>urls.
       if gs_remoteRepository g \<in> set urls
       then wrap_query ''failed to get HEAD'' (ga_Head A (gs_localRepository g))
       else if \<not> gs_resetIfNeeded g then fail_query (ErrMsg ''local repo has different remote and reset is disabled'')
       else and_return
         (then_op (wrap_op ''error cleaning repo'' (GitSource_Clean A g))
           (wrap_op ''failed to clone after resetting'' (clone A g))) []))"

definition createOrOpenRepo :: "'h git_api \<Rightarrow> GitSource \<Rightarrow> ('h, string) query" where
  "createOrOpenRepo A g h =
     (case clone A g h of
        (None, h') \<Rightarrow> (Inr [], h')
      | (Some e, h') \<Rightarrow>
          (if \<not> errors_is e ErrRepositoryAlreadyExists then (Inl (ErrWrapped ''failed to clone repository'' e), h')
           else open_repo A g h'))"

definition pull :: "'h git_api \<Rightarrow> GitSource \<Rightarrow> 'h operation" where
  "pull A g =
     then_op (wrap_op ''failed to get worktree'' (ga_Worktree A (gs_localRepository g)))
       (\<lambda>h. case ga_Pull A (gs_localRepository g) (gs_auth g) (gs_resetIfNeeded g) h of
          (None, h') \<Rightarrow> (None, h')
        | (Some e, h') \<Rightarrow>
            (if errors_is e NoErrAlreadyUpToDate then (None, h')
             else if \<not> errors_is e ErrFastForwardMergeNotPossible \<or> \<not> gs_resetIfNeeded g then (Some e, h')
             else then_op (wrap_op ''failed to hard reset'' (HardReset A g))
                 (wrap_op ''failed to pull after hard reset'' (ga_Pull A (gs_localRepository g) (gs_auth g) True)) h'))"

definition branch_options :: "string \<Rightarrow> string \<Rightarrow> CheckoutOptions" where
  "branch_options branch subpath =
     \<lparr>co_Hash = [], co_Branch = ''refs/heads/'' @ branch, co_Force = True,
      co_Sparse = (if subpath \<noteq> [] then [subpath] else [])\<rparr>"

definition checkoutBranch :: "'h git_api \<Rightarrow> GitSource \<Rightarrow> string \<Rightarrow> string \<Rightarrow> 'h operation" where
  "checkoutBranch A g branch subpath =
     (let checkout = ga_Checkout A (gs_localRepository g) (branch_options branch subpath) in
      then_op (ga_Worktree A (gs_localRepository g))
        (\<lambda>h. case checkout h of
           (None, h') \<Rightarrow> (None, h')
         | (Some e, h') \<Rightarrow>
             then_op (fetchOrigin A g (''refs/heads/'' @ branch @ '':refs/heads/'' @ branch)) checkout h'))"

definition target_branch :: "'h git_api \<Rightarrow> GitSource \<Rightarrow> ('h, string) query" where
  "target_branch A g =
     (if gs_activeBranch g \<noteq> [] then return_query (gs_activeBranch g)
      else wrap_query ''error fetching default branch'' (GetDefaultBranchFromRepository A g))"

text \<open>\<open>ensureBranch\<close>; \<open>Sync\<close> repeats it with a wrapped error.\<close>

definition switch_branch :: "(string \<Rightarrow> 'h operation) \<Rightarrow> 'h git_api \<Rightarrow> GitSource \<Rightarrow> 'h operation" where
  "switch_branch checkout A g =
     use_query (target_branch A g) (\<lambda>target.
     use_query (wrap_query ''error getting current branch'' (GetCurrentBranchFromRepository A (gs_localRepository g)))
       (\<lambda>current. if current = ''refs/heads/'' @ target then (\<lambda>h. (None, h)) else checkout target))"

definition ensureBranch :: "'h git_api \<Rightarrow> GitSource \<Rightarrow> string \<Rightarrow> 'h operation" where
  "ensureBranch A g subpath = switch_branch (\<lambda>target. checkoutBranch A g target subpath) A g"

definition checkoutRevision :: "'h git_api \<Rightarrow> GitSource \<Rightarrow> string \<Rightarrow> 'h operation" where
  "checkoutRevision A g revision =
     then_op (wrap_op ''failed to get worktree'' (ga_Worktree A (gs_localRepository g)))
       (use_query (wrap_query ''failed to resolve revision'' (ga_ResolveRevision A (gs_localRepository g) revision))
         (\<lambda>hash. ga_Checkout A (gs_localRepository g)
            \<lparr>co_Hash = hash, co_Branch = [], co_Force = gs_resetIfNeeded g, co_Sparse = []\<rparr>))"

definition GitSource_Sync :: "'h git_api \<Rightarrow> GitSource \<Rightarrow> SyncOpts \<Rightarrow> ('h, SyncReport) query" where
  "GitSource_Sync A g opts =
     then_query (wrap_query ''failed to open repository'' (createOrOpenRepo A g)) (\<lambda>old.
     then_query
       (and_return
         (if so_Revision opts = [] then
            then_op (ensureBranch A g (so_Subpath opts))
           (then_op
              (switch_branch (\<lambda>target. wrap_op ''failed to checkout branch'' (checkoutBranch A g target (so_Subpath opts))) A g)
              (pull A g))
          else wrap_op ''failed to checkout revision'' (checkoutRevision A g (so_Revision opts))) ()) (\<lambda>u.
     then_query (wrap_query ''failed to get HEAD after sync'' (ga_Head A (gs_localRepository g))) (\<lambda>newHead.
       return_query \<lparr>sr_OldRevision = old, sr_NewRevision = newHead\<rparr>)))"

definition git_source :: "'h git_api \<Rightarrow> GitSource \<Rightarrow> 'h Source" where
  "git_source A g =
     \<lparr>sy_Sync = GitSource_Sync A g, sy_SupportsRollback = True, sy_Clean = GitSource_Clean A g\<rparr>"

end
