(* ===== verification/SourceManager.thy ===== *)
theory SourceManager
  imports GitSource
begin

section \<open>The source manager (pkg/sourceman)\<close>

text \<open>
  The source manager keeps the source with the manifest and the remote components it names, syncs them
  and rolls them back to what they were before the last sync.  Its components are read through a
  \<open>SourceComponentRepository\<close> of the two directories.  A report is kept beside each source.
\<close>

record 'h sourcePlan =
  sp_Source :: "'h Source"
  sp_Primary :: bool
  sp_Opts :: "SyncOpts option"
  sp_Report :: "SyncReport option"

record 'h SourceManager =
  sn_repo :: SourceComponentRepository
  sn_sourceDir :: string
  sn_remoteDir :: string
  sn_sources :: "'h sourcePlan list"

definition NewSourceManager :: "fs \<Rightarrow> string \<Rightarrow> string \<Rightarrow> 'h SourceManager result" where
  "NewSourceManager fs sourceDir remoteDir =
     (case wrap_error ''failed to create source component repo'' (NewSourceComponentRepository fs [sourceDir, remoteDir]) of
        Inl e \<Rightarrow> Inl e
      | Inr r \<Rightarrow> Inr \<lparr>sn_repo = r, sn_sourceDir = sourceDir, sn_remoteDir = remoteDir, sn_sources = []\<rparr>)"

subsection \<open>Syncing and rolling back\<close>

text \<open>A loop that replaces the entries of the slice as it goes; it returns the slice it leaves.\<close>

fun update_sources ::
    "('h sourcePlan \<Rightarrow> ('h, 'h sourcePlan) query) \<Rightarrow> 'h sourcePlan list \<Rightarrow> 'h \<Rightarrow>
       (go_error option \<times> 'h sourcePlan list) \<times> 'h" where
  "update_sources f [] h = ((None, []), h)"
| "update_sources f (p # ps) h =
     (case f p h of
        (Inl e, h') \<Rightarrow> ((Some e, p # ps), h')
      | (Inr p', h') \<Rightarrow> (case update_sources f ps h' of ((e, ps'), h'') \<Rightarrow> ((e, p' # ps'), h'')))"

definition sync_options :: "SyncOpts option \<Rightarrow> 'h sourcePlan \<Rightarrow> SyncOpts" where
  "sync_options opts src =
     (case opts of
        Some o' \<Rightarrow> o'
      | None \<Rightarrow> (case sp_Opts src of Some o' \<Rightarrow> o' | None \<Rightarrow> zero_SyncOpts))"

definition sync_source :: "SyncOpts option \<Rightarrow> 'h sourcePlan \<Rightarrow> ('h, 'h sourcePlan) query" where
  "sync_source opts src =
     then_query (wrap_query ''error syncing source'' (sy_Sync (sp_Source src) (sync_options opts src)))
       (\<lambda>rep. return_query (src\<lparr>sp_Report := Some rep\<rparr>))"

definition SourceManager_Sync ::
    "SyncOpts option \<Rightarrow> 'h SourceManager \<Rightarrow> 'h \<Rightarrow> (go_error option \<times> 'h SourceManager) \<times> 'h" where
  "SourceManager_Sync opts s h =
     (case update_sources (sync_source opts) (sn_sources s) h of
        ((e, srcs), h') \<Rightarrow> ((e, s\<lparr>sn_sources := srcs\<rparr>), h'))"

text \<open>A source that had no revision before is removed; its entry stays.\<close>

definition rollback_source :: "'h sourcePlan \<Rightarrow> ('h, 'h sourcePlan) query" where
  "rollback_source src =
     (case sp_Report src of
        None \<Rightarrow> fail_query (ErrMsg ''unable to rollback: no plan'')
      | Some r \<Rightarrow>
          (if sr_OldRevision r = [] \<and> sp_Primary src
           then fail_query (ErrMsg ''unable to rollback primary repository to nothing'')
           else if sr_OldRevision r = [] then and_return (sy_Clean (sp_Source src)) src
           else
             then_query
               (wrap_query ''unable to rollback''
                 (sy_Sync (sp_Source src)
                   \<lparr>so_Revision = sr_OldRevision r,
                    so_Subpath = (case sp_Opts src of None \<Rightarrow> [] | Some o' \<Rightarrow> so_Subpath o')\<rparr>))
               (\<lambda>rep. return_query (src\<lparr>sp_Report := Some rep\<rparr>))))"

definition SourceManager_Rollback ::
    "'h SourceManager \<Rightarrow> 'h \<Rightarrow> (go_error option \<times> 'h SourceManager) \<times> 'h" where
  "SourceManager_Rollback s h =
     (if list_ex (\<lambda>src. \<not> sy_SupportsRollback (sp_Source src)) (sn_sources s)
      then ((Some (ErrMsg ''unable to rollback: unsupported source type''), s), h)
      else case update_sources rollback_source (sn_sources s) h of
        ((e, srcs), h') \<Rightarrow> ((e, s\<lparr>sn_sources := srcs\<rparr>), h'))"

definition AddSource ::
    "'h Source \<Rightarrow> SyncOpts option \<Rightarrow> SyncReport option \<Rightarrow> bool \<Rightarrow> 'h SourceManager \<Rightarrow> 'h SourceManager" where
  "AddSource newSource opts rep primary s =
     s\<lparr>sn_sources := sn_sources s @
        [\<lparr>sp_Source = newSource, sp_Primary = primary, sp_Opts = opts, sp_Report = rep\<rparr>]\<rparr>"

subsection \<open>Remote components\<close>

record RemoteComponentConfig =
  rc_GitSource :: "GitConfig option"
  rc_OciSource :: "OciConfig option"
  rc_FileSource :: "FileConfig option"
  rc_Subpath :: string

text \<open>\<open>decode\<close> is the TOML library: the manifest and its remotes.\<close>

type_synonym manifest_decoder = "string \<Rightarrow> (MateriaManifest \<times> (string \<times> RemoteComponentConfig) list) result"

definition LoadMateriaManifest ::
    "manifest_decoder \<Rightarrow> fs \<Rightarrow> string \<Rightarrow> (MateriaManifest \<times> (string \<times> RemoteComponentConfig) list) result" where
  "LoadMateriaManifest decode fs path = (case ReadFile fs path of Inl e \<Rightarrow> Inl e | Inr d \<Rightarrow> decode d)"

definition LoadManifest :: "manifest_decoder \<Rightarrow> fs \<Rightarrow> 'h SourceManager \<Rightarrow> MateriaManifest result" where
  "LoadManifest decode fs s =
     (case wrap_error ''error loading manifest''
             (LoadMateriaManifest decode fs (JoinPath [sn_sourceDir s, ''MANIFEST.toml''])) of
        Inl e \<Rightarrow> Inl e
      | Inr (man, remotes) \<Rightarrow> Inr man)"

record 'c source_kit =
  sk_env :: git_env
  sk_git :: "'c HostState git_api"
  sk_registry :: registry
  sk_decode :: manifest_decoder

text \<open>Of several kinds of source the last one wins; each is created, with its errors, before.\<close>

definition git_remote :: "'c source_kit \<Rightarrow> string \<Rightarrow> GitConfig \<Rightarrow> 'c HostState Source result" where
  "git_remote kit localpath c =
     (case wrap_error ''invalid git source'' (NewGitSource (sk_env kit) (Some (c\<lparr>gc_LocalRepository := localpath\<rparr>))) of
        Inl e \<Rightarrow> Inl e | Inr g \<Rightarrow> Inr (git_source (sk_git kit) g))"

definition file_remote :: "fs \<Rightarrow> string \<Rightarrow> FileConfig \<Rightarrow> 'c HostState Source result" where
  "file_remote fs localpath c =
     (case wrap_error ''invalid file source'' (NewFileSource fs (c\<lparr>fc_Destination := localpath\<rparr>)) of
        Inl e \<Rightarrow> Inl e | Inr f \<Rightarrow> Inr (file_source f))"

definition oci_remote :: "'c source_kit \<Rightarrow> string \<Rightarrow> OciConfig \<Rightarrow> 'c HostState Source result" where
  "oci_remote kit localpath c =
     (case wrap_error ''invalid oci source'' (NewOCISource (Some (c\<lparr>oc_LocalRepository := localpath\<rparr>))) of
        Inl e \<Rightarrow> Inl e | Inr s \<Rightarrow> Inr (oci_source (sk_registry kit) s))"

definition or_keep :: "('b \<Rightarrow> 'a result) \<Rightarrow> 'b option \<Rightarrow> 'a option \<Rightarrow> 'a option result" where
  "or_keep f c old = (case c of None \<Rightarrow> Inr old | Some x \<Rightarrow> (case f x of Inl e \<Rightarrow> Inl e | Inr y \<Rightarrow> Inr (Some y)))"

definition remote_source ::
    "'c source_kit \<Rightarrow> fs \<Rightarrow> string \<Rightarrow> RemoteComponentConfig \<Rightarrow> 'c HostState Source result" where
  "remote_source kit fs localpath r =
     (case or_keep (git_remote kit localpath) (rc_GitSource r) None of
        Inl e \<Rightarrow> Inl e
      | Inr s \<Rightarrow>
     (case or_keep (file_remote fs localpath) (rc_FileSource r) s of
        Inl e \<Rightarrow> Inl e
      | Inr s \<Rightarrow>
     (case or_keep (oci_remote kit localpath) (rc_OciSource r) s of
        Inl e \<Rightarrow> Inl e
      | Inr None \<Rightarrow> Inl (ErrMsg ''remote has no valid source config'')
      | Inr (Some s) \<Rightarrow> Inr s)))"

definition remote_path :: "'h SourceManager \<Rightarrow> string \<Rightarrow> string" where
  "remote_path s name = JoinPath [sn_remoteDir s, ''components'', name]"

definition load_remote ::
    "'c source_kit \<Rightarrow> string \<times> RemoteComponentConfig \<Rightarrow> 'c HostState SourceManager \<Rightarrow>
       ('c HostState, 'c HostState SourceManager) query" where
  "load_remote kit remote s h =
     (case remote of (name, r) \<Rightarrow>
      let localpath = remote_path s name in
      case remote_source kit (hst_files h) localpath r of
        Inl e \<Rightarrow> (Inl e, h)
      | Inr src \<Rightarrow>
     (case sy_Sync src \<lparr>so_Revision = [], so_Subpath = rc_Subpath r\<rparr> h of
        (Inl e, h') \<Rightarrow> (Inl e, h')
      | (Inr rep, h') \<Rightarrow>
          (let localpath = (if rc_Subpath r \<noteq> [] then JoinPath [localpath, rc_Subpath r] else localpath) in
           case Stat (hst_files h') (JoinPath [localpath, ComponentManifestFile]) of
             Inl e \<Rightarrow>
               (if errors_is e ErrNotExist then (Inl (ErrMsg ''invalid remote component''), h')
                else (Inl (ErrWrapped ''cannot determine remote component validity'' e), h'))
           | Inr n \<Rightarrow>
               (Inr (AddSource src (Some \<lparr>so_Revision = [], so_Subpath = rc_Subpath r\<rparr>) (Some rep) False s), h'))))"

fun load_remotes ::
    "'c source_kit \<Rightarrow> (string \<times> RemoteComponentConfig) list \<Rightarrow> 'c HostState SourceManager \<Rightarrow> 'c HostState \<Rightarrow>
       (go_error option \<times> 'c HostState SourceManager) \<times> 'c HostState" where
  "load_remotes kit [] s h = ((None, s), h)"
| "load_remotes kit (r # rs) s h =
     (case load_remote kit r s h of
        (Inl e, h') \<Rightarrow> ((Some e, s), h')
      | (Inr s', h') \<Rightarrow> load_remotes kit rs s' h')"

definition drop_old_remote :: "'h SourceManager \<Rightarrow> (string \<times> RemoteComponentConfig) list \<Rightarrow> string \<times> node \<Rightarrow> fs operation" where
  "drop_old_remote s remotes v =
     (if snd v = Directory \<and> map_of remotes (fst v) = None then RemoveAll (remote_path s (fst v)) else (\<lambda>fs. (None, fs)))"

definition drop_old_remotes :: "'h SourceManager \<Rightarrow> (string \<times> RemoteComponentConfig) list \<Rightarrow> fs operation" where
  "drop_old_remotes s remotes fs =
     (case ReadDir fs (JoinPath [sn_remoteDir s, ''components'']) of
        Inl e \<Rightarrow> (Some e, fs)
      | Inr entries \<Rightarrow> each_op (drop_old_remote s remotes) entries fs)"

text \<open>The remotes of a Go map are visited in any order; the model takes the order of the list.\<close>

definition LoadRemotes ::
    "'c source_kit \<Rightarrow> 'c HostState SourceManager \<Rightarrow> 'c HostState \<Rightarrow>
       (go_error option \<times> 'c HostState SourceManager) \<times> 'c HostState" where
  "LoadRemotes kit s h =
     (case LoadMateriaManifest (sk_decode kit) (hst_files h) (JoinPath [sn_sourceDir s, ''MANIFEST.toml'']) of
        Inl e \<Rightarrow> ((Some e, s), h)
      | Inr (man, remotes) \<Rightarrow>
     (case load_remotes kit remotes s h of
        ((Some e, s'), h') \<Rightarrow> ((Some e, s'), h')
      | ((None, s'), h') \<Rightarrow>
          (case on_files (drop_old_remotes s' remotes) h' of (e, h'') \<Rightarrow> ((e, s'), h''))))"

definition SourceManager_Clean :: "'h operation" where
  "SourceManager_Clean h = (None, h)"

end
