(* ===== verification/FileSourceFacts.thy ===== *)
theory FileSourceFacts
  imports SourceManager RepositoryTrips
begin

section \<open>What file sources and images leave on the host\<close>

text \<open>
  A sync from a directory makes the destination a mirror of it; unpacking an image writes below the local
  repository only, as long as the names in its archive do not step out of it.
\<close>

subsection \<open>Making directories\<close>

lemma MkdirAll_snoc:
  "MkdirAll (k @ [e]) = then_op (MkdirAll k) (make_missing (k @ [e]))"
proof -
  have split: "each_op f (xs @ ys) = then_op (each_op f xs) (each_op f ys)" for f :: "'a \<Rightarrow> 'h operation" and xs ys
    by (rule ext, induction xs) (auto simp: then_op_def split: prod.split option.split)
  have same: "each_op f xs h = each_op g xs h" if "\<And>x. x \<in> set xs \<Longrightarrow> f x = g x" for f g :: "'a \<Rightarrow> 'h operation" and xs h
    using that by (induction xs arbitrary: h) (auto split: prod.split option.split)
  show ?thesis
  proof (rule ext)
    fix fs
    have "each_op (\<lambda>n. make_missing (take n (k @ [e]))) [1..<Suc (length k)] fs = MkdirAll k fs" for fs
      unfolding MkdirAll_def by (rule same) auto
    moreover have "make_missing (k @ [e]) fs = each_op (\<lambda>n. make_missing (take n (k @ [e]))) [Suc (length k)] fs" for fs
      by (auto split: prod.split option.split)
    ultimately show "MkdirAll (k @ [e]) fs = then_op (MkdirAll k) (make_missing (k @ [e])) fs"
      by (simp add: MkdirAll_def split then_op_def split: prod.split option.split)
  qed
qed

lemma MkdirAll_Nil: "MkdirAll [] fs = (None, fs)"
  by (simp add: MkdirAll_def)

text \<open>Where every directory above is there, at most the last one is made.\<close>

lemma MkdirAll_there:
  assumes "\<And>n. n \<le> length k \<Longrightarrow> node_at fs (take n k) = Some Directory"
  shows "MkdirAll k fs = (None, fs)"
  using assms
proof (induction k rule: rev_induct)
  case Nil
  then show ?case by (simp add: MkdirAll_Nil)
next
  case (snoc e k)
  have "MkdirAll k fs = (None, fs)"
    using snoc.prems by (intro snoc.IH) (metis (no_types) le_Suc_eq length_append_singleton take_append diff_is_0_eq take0 append_Nil2 le_SucI)
  moreover have "node_at fs (k @ [e]) = Some Directory" using snoc.prems [of "length (k @ [e])"] by simp
  ultimately show ?case by (simp add: MkdirAll_snoc then_op_def make_missing_def)
qed

lemma MkdirAll_last:
  assumes "\<And>n. n < length (k @ [e]) \<Longrightarrow> node_at fs (take n (k @ [e])) = Some Directory" and "node_at fs (k @ [e]) = None"
  shows "MkdirAll (k @ [e]) fs = (None, AList.update (k @ [e]) Directory fs)"
proof -
  have "MkdirAll k fs = (None, fs)"
  proof (rule MkdirAll_there)
    fix n assume "n \<le> length k"
    then show "node_at fs (take n k) = Some Directory" using assms(1) [of n] by simp
  qed
  then show ?thesis by (simp add: MkdirAll_snoc then_op_def make_missing_def assms(2))
qed

lemma unblocked_by_dirs:
  assumes "\<And>n. n < length k \<Longrightarrow> node_at fs (take n k) = Some Directory"
  shows "\<not> blocked fs k"
  using assms by (auto simp: blocked_def list_ex_iff)

lemma create_new_there:
  assumes "\<And>n. n < length (k @ [e]) \<Longrightarrow> node_at fs (take n (k @ [e])) = Some Directory" and "node_at fs (k @ [e]) = None"
  shows "create_new (k @ [e]) d fs = (None, AList.update (k @ [e]) (PlainFile d) fs)"
  using unblocked_by_dirs [OF assms(1)] assms(1) [of "length k"] assms(2)
  by (simp add: create_new_def parent_missing_def)

subsection \<open>Clearing the destination\<close>

lemma clear_entries:
  assumes "fs_ok fs" and "prefix ''/'' (ff_Destination f)" and "node_at fs (elems (ff_Destination f)) = Some Directory"
    and "list_all (\<lambda>e. good_elem (fst e)) es"
  shows "\<exists>fs'. each_op (clear_entry f) es fs = (None, fs') \<and> fs_ok fs' \<and>
    (\<forall>p. node_at fs' p = (if list_ex (\<lambda>e. prefix (elems (ff_Destination f) @ [fst e]) p) es then None else node_at fs p))"
  using assms
proof (induction es arbitrary: fs)
  case Nil
  then show ?case by simp
next
  case (Cons e es)
  let ?dest = "elems (ff_Destination f)" and ?p = "JoinPath [ff_Destination f, fst e]"
  have p: "elems ?p = ?dest @ [fst e]"
    using Cons.prems(2,4) by (simp add: elems_JoinPath2 good_elem_path Split_good)
  have "node_at fs (take n ?dest) = Some Directory" if "n \<le> length ?dest" for n
  proof (cases "n = length ?dest")
    case False
    with that show ?thesis
      using fs_ok_above [OF Cons.prems(1), of "take n ?dest" "drop n ?dest"] Cons.prems(3) by simp
  qed (use Cons.prems(3) in simp)
  then have "\<not> blocked fs (?dest @ [fst e])" by (intro unblocked_by_dirs) simp
  then obtain fs1 where run: "RemoveAll ?p fs = (None, fs1)" by (auto simp: RemoveAll_def p)
  have nodes: "node_at fs1 q = (if prefix (?dest @ [fst e]) q then None else node_at fs q)" for q
    using RemoveAll_node [OF run, of q] by (simp add: p)
  have "fs_ok fs1" using fs_ok_ops(5) [OF Cons.prems(1), of ?p] run by simp
  moreover have "node_at fs1 ?dest = Some Directory" using nodes Cons.prems(3) by (auto dest: prefix_length_le)
  ultimately obtain fs2 where "each_op (clear_entry f) es fs1 = (None, fs2)" "fs_ok fs2"
      "\<forall>q. node_at fs2 q = (if list_ex (\<lambda>e. prefix (?dest @ [fst e]) q) es then None else node_at fs1 q)"
    using Cons.IH [of fs1] Cons.prems by auto
  moreover have "clear_entry f e fs = (None, fs1)" by (simp add: clear_entry_def run)
  ultimately show ?case by (intro exI [of _ fs2]) (simp add: nodes)
qed

text \<open>Everything below the destination lies below one of its entries.\<close>

lemma clear_destination:
  assumes ok: "fs_ok fs" and rooted: "prefix ''/'' (ff_Destination f)"
    and dest: "node_at fs (elems (ff_Destination f)) = Some Directory"
  obtains es fs1 where "ReadDir fs (ff_Destination f) = Inr es" and "each_op (clear_entry f) es fs = (None, fs1)"
    and "fs_ok fs1" and "\<And>p. node_at fs1 p = (if strict_prefix (elems (ff_Destination f)) p then None else node_at fs p)"
proof -
  let ?dest = "elems (ff_Destination f)"
  let ?ks = "sort (children fs ?dest)"
  let ?es = "map (\<lambda>k. (last k, the (node_at fs k))) ?ks"
  have child: "k \<noteq> [] \<and> ?dest @ [last k] = k \<and> good_elem (last k)" if "k \<in> set (children fs ?dest)" for k
  proof -
    from that have k: "k \<noteq> []" "butlast k = ?dest" "k \<in> set (map fst fs)" by (auto simp: children_def)
    moreover from k(3) ok have "list_all good_elem k" by (simp only: fs_ok_def list_all_iff) blast
    ultimately show ?thesis by (metis append_butlast_last_id last_in_set list_all_iff)
  qed
  have read: "ReadDir fs (ff_Destination f) = Inr ?es"
    using Stat_node [OF _ dest] fs_ok_unblocked [OF ok] dest by (simp add: ReadDir_def)
  have "list_all (\<lambda>e. good_elem (fst e)) ?es" using child by (simp add: list_all_iff)
  from clear_entries [OF ok rooted dest this] obtain fs1 where run: "each_op (clear_entry f) ?es fs = (None, fs1)" "fs_ok fs1"
    and nodes: "\<And>p. node_at fs1 p = (if list_ex (\<lambda>e. prefix (?dest @ [fst e]) p) ?es then None else node_at fs p)" by blast
  have "node_at fs1 p = (if strict_prefix ?dest p then None else node_at fs p)" for p
  proof (cases "strict_prefix ?dest p \<and> node_at fs p \<noteq> None")
    case True
    then obtain c r where p: "p = ?dest @ c # r" by (auto elim!: strict_prefixE')
    have there: "node_at fs (?dest @ [c]) \<noteq> None"
      using fs_ok_above [OF ok, of "?dest @ [c]" r] True p by (cases "r = []") auto
    then have "?dest @ [c] \<in> set (children fs ?dest)"
      by (auto simp: children_def node_at_def map_of_eq_None_iff split: if_splits)
    then have "list_ex (\<lambda>e. prefix (?dest @ [fst e]) p) ?es" using p by (force simp: list_ex_iff)
    with nodes [of p] True show ?thesis by simp
  next
    case False
    have "strict_prefix ?dest p" if "list_ex (\<lambda>e. prefix (?dest @ [fst e]) p) ?es"
      using that by (auto simp: list_ex_iff strict_prefix_def prefix_def)
    with False nodes [of p] show ?thesis by auto
  qed
  with read run that show ?thesis by blast
qed

subsection \<open>Copying the source\<close>

text \<open>What has been copied so far is below the destination, with nothing else, and the rest is as before.\<close>

definition mirrored :: "path \<Rightarrow> path \<Rightarrow> fs \<Rightarrow> path set \<Rightarrow> fs \<Rightarrow> bool" where
  "mirrored dest src fs K fs' \<longleftrightarrow>
     (\<forall>r. r \<noteq> [] \<longrightarrow> node_at fs' (dest @ r) = (if src @ r \<in> K then node_at fs (src @ r) else None)) \<and>
     (\<forall>p. \<not> strict_prefix dest p \<longrightarrow> node_at fs' p = node_at fs p)"

lemma copied_entry:
  assumes ok: "fs_ok fs" and dest: "node_at fs dest = Some Directory" and m: "mirrored dest src fs K fs'"
    and r: "r \<noteq> []" "node_at fs (src @ r) = Some n" "src @ r \<notin> K"
    and above: "\<And>m. 0 < m \<Longrightarrow> m < length r \<Longrightarrow> src @ take m r \<in> K"
  shows "\<exists>fs''. copy_entry dest src (src @ r, n) fs' = (None, fs'') \<and> mirrored dest src fs (insert (src @ r) K) fs''"
proof -
  have dirs: "node_at fs' (take i (dest @ r)) = Some Directory" if i: "i < length (dest @ r)" for i
  proof (cases "i \<le> length dest")
    case True
    then have "\<not> strict_prefix dest (take i dest)" by (auto simp: strict_prefix_def prefix_def dest!: arg_cong [where f = length])
    moreover have "node_at fs (take i dest) = Some Directory"
      using fs_ok_above [OF ok, of "take i dest" "drop i dest"] dest True by (cases "i = length dest") auto
    ultimately show ?thesis using m True by (simp add: mirrored_def)
  next
    case False
    let ?m = "i - length dest"
    from False i have "0 < ?m" "?m < length r" by auto
    then have "src @ take ?m r \<in> K" "take ?m r \<noteq> []" "drop ?m r \<noteq> []" using above r(1) by auto
    moreover have "node_at fs (src @ take ?m r) = Some Directory"
      using fs_ok_above [OF ok, of "src @ take ?m r" "drop ?m r"] r(2) \<open>drop ?m r \<noteq> []\<close> by simp
    ultimately show ?thesis using m False by (simp add: mirrored_def)
  qed
  have new: "node_at fs' (dest @ r) = None" using m r by (simp add: mirrored_def)
  obtain r' e where e: "r = r' @ [e]" using r(1) by (cases r rule: rev_cases) auto
  have "copy_entry dest src (src @ r, n) fs' = (None, AList.update (dest @ r) n fs')"
    using MkdirAll_last [of "dest @ r'" e fs'] create_new_there [of "dest @ r'" e fs'] dirs new
    by (cases n) (simp_all add: copy_entry_def e)
  moreover have "mirrored dest src fs (insert (src @ r) K) (AList.update (dest @ r) n fs')"
    using m r by (auto simp: mirrored_def node_at_update strict_prefix_def)
  ultimately show ?thesis by blast
qed

text \<open>The walk visits what is below the source, above before below, as the order of lists of names has it.\<close>

lemma above_less: "ks \<noteq> [] \<Longrightarrow> (k :: path) < k @ ks"
  by (simp add: list_less_def lexord_append_rightI neq_Nil_conv)

lemma copied_entries:
  assumes ok: "fs_ok fs" and dest: "node_at fs dest = Some Directory"
    and walk: "sorted (as @ ks)" "distinct (as @ ks)" "set (as @ ks) = {k. strict_prefix src k \<and> node_at fs k \<noteq> None}"
    and m: "mirrored dest src fs (set as) fs'"
  shows "\<exists>fs''. each_op (copy_entry dest src) (map (\<lambda>k. (k, the (node_at fs k))) ks) fs' = (None, fs'') \<and>
    mirrored dest src fs (set (as @ ks)) fs''"
  using walk m
proof (induction ks arbitrary: as fs')
  case Nil
  then show ?case by simp
next
  case (Cons k ks)
  have "k \<in> {k. strict_prefix src k \<and> node_at fs k \<noteq> None}" using Cons.prems(3) by auto
  then obtain r n where r: "k = src @ r" "r \<noteq> []" "node_at fs (src @ r) = Some n" by (auto elim!: strict_prefixE')
  have "src @ take i r \<in> set as" if i: "0 < i" "i < length r" for i
  proof -
    have "node_at fs (src @ take i r) = Some Directory"
      using fs_ok_above [OF ok, of "src @ take i r" "drop i r"] r(3) i by simp
    then have "src @ take i r \<in> set (as @ k # ks)" using i unfolding Cons.prems(3) by (auto simp: strict_prefix_def)
    moreover have "src @ take i r < k"
      using above_less [of "drop i r" "src @ take i r"] i by (simp add: r(1))
    ultimately show ?thesis using Cons.prems(1) by (auto simp: sorted_append)
  qed
  with copied_entry [OF ok dest Cons.prems(4) r(2,3)] Cons.prems(2) obtain fs1 where
      run: "copy_entry dest src (k, n) fs' = (None, fs1)" and m: "mirrored dest src fs (set (as @ [k])) fs1"
    by (auto simp: r(1))
  from Cons.IH [OF _ _ _ m] Cons.prems(1-3) obtain fs2 where
      "each_op (copy_entry dest src) (map (\<lambda>k. (k, the (node_at fs k))) ks) fs1 = (None, fs2)"
      "mirrored dest src fs (set ((as @ [k]) @ ks)) fs2" by auto
  with run show ?case by (intro exI [of _ fs2]) (simp add: r(1,3))
qed

lemma CopyFS_mirrors:
  assumes ok: "fs_ok fs" and src: "node_at fs (elems src) = Some Directory" and dest: "node_at fs (elems dest) = Some Directory"
    and empty: "empty_below fs (elems dest)" and apart: "apart_paths dest src"
  shows "\<exists>fs'. CopyFS dest src fs = (None, fs') \<and>
    (\<forall>p. node_at fs' p = (if strict_prefix (elems dest) p then node_at fs (elems src @ drop (length (elems dest)) p) else node_at fs p))"
proof -
  let ?ks = "sort (filter (strict_prefix (elems src)) (map fst fs))"
  have ks: "set ?ks = {k. strict_prefix (elems src) k \<and> node_at fs k \<noteq> None}"
  proof (rule set_eqI)
    fix k
    have "k \<in> set (map fst fs) \<longleftrightarrow> map_of fs k \<noteq> None" by (simp add: map_of_eq_None_iff)
    moreover have "k \<noteq> []" if "strict_prefix (elems src) k" using that by auto
    ultimately show "k \<in> set ?ks \<longleftrightarrow> k \<in> {k. strict_prefix (elems src) k \<and> node_at fs k \<noteq> None}"
      by (auto simp: node_at_def)
  qed
  have "mirrored (elems dest) (elems src) fs {} fs"
    using empty by (auto simp: mirrored_def empty_below_def strict_prefix_def)
  with ok dest ks obtain fs' where run: "each_op (copy_entry (elems dest) (elems src)) (map (\<lambda>k. (k, the (node_at fs k))) ?ks) fs = (None, fs')"
    and m: "mirrored (elems dest) (elems src) fs (set ?ks) fs'"
    using copied_entries [of fs "elems dest" "[]" ?ks "elems src" fs] by (auto simp: fs_ok_def)
  have "MkdirAll (elems dest) fs = (None, fs)"
  proof (rule MkdirAll_there)
    fix n assume "n \<le> length (elems dest)"
    then show "node_at fs (take n (elems dest)) = Some Directory"
      using fs_ok_above [OF ok, of "take n (elems dest)" "drop n (elems dest)"] dest by (cases "n = length (elems dest)") auto
  qed
  then have "copy_entry (elems dest) (elems src) (elems src, Directory) fs = (None, fs)" by (simp add: copy_entry_def)
  moreover have "WalkDir fs src = Inr ((elems src, Directory) # map (\<lambda>k. (k, the (node_at fs k))) ?ks)"
    using src by (simp add: WalkDir_def Stat_node fs_ok_unblocked [OF ok])
  ultimately have "CopyFS dest src fs = (None, fs')"
    using run by (auto simp: CopyFS_def list_ex_iff strict_prefix_def)
  moreover have "node_at fs' p = (if strict_prefix (elems dest) p then node_at fs (elems src @ drop (length (elems dest)) p) else node_at fs p)" for p
  proof (cases "strict_prefix (elems dest) p")
    case True
    then obtain r where r: "p = elems dest @ r" "r \<noteq> []" by (auto elim!: strict_prefixE')
    have "elems src @ r \<in> set ?ks \<longleftrightarrow> node_at fs (elems src @ r) \<noteq> None" unfolding ks using r(2) by (auto simp: strict_prefix_def)
    moreover have "node_at fs' p = (if elems src @ r \<in> set ?ks then node_at fs (elems src @ r) else None)"
      using m r unfolding mirrored_def by blast
    ultimately show ?thesis using True r(1) by (auto split: if_splits)
  next
    case False
    with m show ?thesis unfolding mirrored_def by simp
  qed
  ultimately show ?thesis by blast
qed

text \<open>
  C29: a sync from a directory of the host, onto a destination that is a directory apart from it, succeeds
  and makes the destination a mirror of the source: what was there is gone, what the source holds is there
  with the same contents, and nothing else on the host changes.
\<close>

theorem FileSource_Sync_mirrors:
  assumes "fs_ok fs" and "prefix ''/'' (ff_Destination f)"
    and "apart_paths (ff_Destination f) (JoinPath [ff_RemoteRepository f, so_Subpath opts])"
    and "node_at fs (elems (ff_Destination f)) = Some Directory"
    and "node_at fs (elems (JoinPath [ff_RemoteRepository f, so_Subpath opts])) = Some Directory"
  shows "\<exists>fs'. FileSource_Sync f opts fs = (Inr zero_SyncReport, fs') \<and>
    (\<forall>p. node_at fs' p =
       (if strict_prefix (elems (ff_Destination f)) p
        then node_at fs (elems (JoinPath [ff_RemoteRepository f, so_Subpath opts]) @ drop (length (elems (ff_Destination f))) p)
        else node_at fs p))"
proof -
  let ?dest = "ff_Destination f" and ?src = "JoinPath [ff_RemoteRepository f, so_Subpath opts]"
  obtain es fs1 where read: "ReadDir fs ?dest = Inr es" and clear: "each_op (clear_entry f) es fs = (None, fs1)" "fs_ok fs1"
    and nodes: "\<And>p. node_at fs1 p = (if strict_prefix (elems ?dest) p then None else node_at fs p)"
    using clear_destination [OF assms(1,2,4)] by metis
  have below: "\<not> strict_prefix (elems ?dest) (elems ?src @ r)" for r
    using assms(3) by (auto simp: apart_paths_def strict_prefix_def dest: prefix_same_cases [OF _ prefixI [OF refl]])
  obtain fs' where "CopyFS ?dest ?src fs1 = (None, fs')"
    and final: "\<And>p. node_at fs' p =
      (if strict_prefix (elems ?dest) p then node_at fs1 (elems ?src @ drop (length (elems ?dest)) p) else node_at fs1 p)"
    using CopyFS_mirrors [OF clear(2), of ?src ?dest] assms(3-5) nodes below [of "[]"]
    by (auto simp: empty_below_def apart_paths_def)
  moreover have "\<not> is_not_exist (Stat fs ?dest)" "\<not> is_not_exist (Stat fs ?src)"
    using assms(1,4,5) by (simp_all add: is_not_exist_def Stat_node fs_ok_unblocked)
  ultimately have "FileSource_Sync f opts fs = (Inr zero_SyncReport, fs')"
    by (simp add: FileSource_Sync_def read and_return_def then_op_def clear(1) wrap_op_def)
  then show ?thesis using final nodes below by (intro exI [of _ fs']) auto
qed

definition demo_local :: FileSource where
  "demo_local = \<lparr>ff_RemoteRepository = ''/home/repo'', ff_Destination = ''/source''\<rparr>"

definition demo_tree :: fs where
  "demo_tree = [([''source''], Directory), ([''source'', ''stale''], PlainFile ''x''),
     ([''home''], Directory), ([''home'', ''repo''], Directory), ([''home'', ''repo'', ''web''], Directory),
     ([''home'', ''repo'', ''web'', ''MANIFEST.toml''], PlainFile ''m'')]"

theorem FileSource_Sync_mirrors_witness:
  "node_at (snd (FileSource_Sync demo_local zero_SyncOpts demo_tree)) [''source'', ''web'', ''MANIFEST.toml''] = Some (PlainFile ''m'') \<and>
   node_at (snd (FileSource_Sync demo_local zero_SyncOpts demo_tree)) [''source'', ''stale''] = None"
proof -
  have "fs_ok demo_tree" "prefix ''/'' (ff_Destination demo_local)"
    "apart_paths (ff_Destination demo_local) (JoinPath [ff_RemoteRepository demo_local, so_Subpath zero_SyncOpts])"
    "node_at demo_tree (elems (ff_Destination demo_local)) = Some Directory"
    "node_at demo_tree (elems (JoinPath [ff_RemoteRepository demo_local, so_Subpath zero_SyncOpts])) = Some Directory"
    by code_simp+
  then obtain fs' where run: "FileSource_Sync demo_local zero_SyncOpts demo_tree = (Inr zero_SyncReport, fs')"
    and nodes: "\<And>p. node_at fs' p = (if strict_prefix (elems (ff_Destination demo_local)) p
      then node_at demo_tree (elems (JoinPath [ff_RemoteRepository demo_local, so_Subpath zero_SyncOpts]) @
             drop (length (elems (ff_Destination demo_local))) p)
      else node_at demo_tree p)"
    using FileSource_Sync_mirrors [of demo_tree demo_local zero_SyncOpts] by blast
  have "elems (ff_Destination demo_local) = [''source'']"
    "elems (JoinPath [ff_RemoteRepository demo_local, so_Subpath zero_SyncOpts]) = [''home'', ''repo'']" by code_simp+
  then show ?thesis by (simp add: run nodes) (simp add: demo_tree_def node_at_def)
qed

subsection \<open>Unpacking an image\<close>

fun entry_inside :: "tar_entry \<Rightarrow> bool" where
  "entry_inside (TarDir n) = good_path n"
| "entry_inside (TarReg n d) = good_path n"
| "entry_inside (TarOther n) = True"

text \<open>An operation that changes nothing outside a directory that is there.\<close>

definition outside_kept :: "path \<Rightarrow> fs \<Rightarrow> fs \<Rightarrow> bool" where
  "outside_kept dir fs fs' \<longleftrightarrow> (\<forall>k. \<not> strict_prefix dir k \<longrightarrow> node_at fs' k = node_at fs k)"

lemma keeps_MkdirAll:
  assumes "node_at fs dir = Some Directory" and "fs_ok fs"
  shows "keeps (outside_kept dir fs) (MkdirAll (dir @ ks))"
  unfolding MkdirAll_def
proof (intro keeps_each keepsI)
  fix n fs' assume kept: "outside_kept dir fs fs'"
  let ?k = "take n (dir @ ks)"
  show "outside_kept dir fs (snd (make_missing ?k fs'))"
  proof (cases "n \<le> length dir")
    case True
    then have "node_at fs ?k = Some Directory"
      using fs_ok_above [OF assms(2), of "take n dir" "drop n dir"] assms(1) by (cases "n = length dir") auto
    moreover have "\<not> strict_prefix dir ?k" using True by (auto simp: strict_prefix_def prefix_def dest!: arg_cong [where f = length])
    ultimately show ?thesis using kept by (simp add: make_missing_def outside_kept_def)
  next
    case False
    show ?thesis
    proof (cases "ks = []")
      case True
      with False have "?k = dir" by simp
      then show ?thesis using assms(1) kept by (auto simp: make_missing_def outside_kept_def)
    next
      case ne: False
      with False have "strict_prefix dir ?k" by (auto simp: strict_prefix_def)
      moreover from this have "?k \<noteq> []" by (metis strict_prefix_simps(1))
      ultimately show ?thesis using kept
        by (auto simp: make_missing_def outside_kept_def node_at_update split: option.split node.split)
    qed
  qed
qed

lemma tar_path_inside:
  assumes "prefix ''/'' (os_localRepository img)" and "good_path n"
  shows "tar_path img n = elems (os_localRepository img) @ Split n ''/''"
  using assms by (simp add: tar_path_def elems_JoinPath2)

lemma keeps_extract:
  assumes ok: "fs_ok fs" and dir: "node_at fs (elems (os_localRepository img)) = Some Directory"
    and rooted: "prefix ''/'' (os_localRepository img)" and e: "entry_inside e"
  shows "keeps (outside_kept (elems (os_localRepository img)) fs) (extract_entry img e)"
proof (cases e)
  case (TarDir n)
  with e rooted have "tar_path img n = elems (os_localRepository img) @ Split n ''/''" by (simp add: tar_path_inside)
  with TarDir show ?thesis by (simp add: extract_entry_def keeps_wrap keeps_MkdirAll [OF dir ok])
next
  case (TarReg n d)
  with e rooted have p: "tar_path img n = elems (os_localRepository img) @ Split n ''/''" by (simp add: tar_path_inside)
  have "keeps (outside_kept (elems (os_localRepository img)) fs) (WriteFile (JoinPath [os_localRepository img, n]) d)"
  proof (rule keepsI)
    fix fs' assume kept: "outside_kept (elems (os_localRepository img)) fs fs'"
    obtain er fs'' where run: "WriteFile (JoinPath [os_localRepository img, n]) d fs' = (er, fs'')"
      by (cases "WriteFile (JoinPath [os_localRepository img, n]) d fs'")
    have "strict_prefix (elems (os_localRepository img)) (elems (JoinPath [os_localRepository img, n]))"
      using p by (simp add: tar_path_def strict_prefix_def)
    with kept run show "outside_kept (elems (os_localRepository img)) fs (snd (WriteFile (JoinPath [os_localRepository img, n]) d fs'))"
      by (cases er) (auto simp: outside_kept_def dest: WriteFile_node failed_keeps)
  qed
  moreover have "keeps (outside_kept (elems (os_localRepository img)) fs) (MkdirAll (butlast (tar_path img n)))"
    using keeps_MkdirAll [OF dir ok] by (simp add: p butlast_append)
  ultimately show ?thesis by (simp add: TarReg extract_entry_def keeps_then keeps_wrap)
next
  case (TarOther n)
  then show ?thesis by (simp add: extract_entry_def keeps_def)
qed

text \<open>
  C30: syncing an image whose archive has only names that stay below their directory changes nothing outside
  the local repository, whatever the registry answers and whether the sync succeeds or fails half way.
\<close>

theorem OCISource_Sync_stays_inside:
  assumes "fs_ok fs" and "prefix ''/'' (os_localRepository img)"
    and "node_at fs (elems (os_localRepository img)) = Some Directory"
    and "\<And>ref auth ins entries eof. reg ref auth ins = Inr (entries, eof) \<Longrightarrow> list_all entry_inside entries"
    and "\<not> strict_prefix (elems (os_localRepository img)) k"
  shows "node_at (snd (OCISource_Sync reg img opts fs)) k = node_at fs k"
proof -
  let ?K = "outside_kept (elems (os_localRepository img)) fs"
  have "?K (snd (OCISource_Sync reg img opts fs))"
  proof (cases "reg (image_ref img (if so_Revision opts \<noteq> [] then so_Revision opts else os_tag img)) (os_auth img) (os_insecure img)")
    case (Inl e)
    then show ?thesis by (simp add: OCISource_Sync_def outside_kept_def)
  next
    case (Inr r)
    obtain entries eof where r: "r = (entries, eof)" by (cases r)
    with Inr assms(4) have inside: "list_all entry_inside entries" by blast
    have "keeps ?K (and_return
            (then_op (wrap_op ''failed to create local repository'' (MkdirAll (elems (os_localRepository img))))
              (then_op (each_op (extract_entry img) entries)
                (\<lambda>fs. (map_option (ErrWrapped ''failed to read tar header'') eof, fs)))) zero_SyncReport)"
      using keeps_MkdirAll [OF assms(3,1), of "[]"] inside
      by (intro keeps_intros keeps_each keeps_extract [OF assms(1,3,2)]) (auto simp: list_all_iff keeps_def)
    then show ?thesis using Inr r by (auto simp: OCISource_Sync_def keeps_def outside_kept_def)
  qed
  with assms(5) show ?thesis by (simp add: outside_kept_def)
qed

definition demo_image :: OCISource where
  "demo_image = \<lparr>os_registry = ''ghcr.io'', os_repository = ''me/repo'', os_tag = ''latest'',
     os_localRepository = ''/source'', os_auth = None, os_insecure = False\<rparr>"

definition demo_registry :: "tar_entry list \<Rightarrow> registry" where
  "demo_registry entries = (\<lambda>ref auth ins. Inr (entries, None))"

theorem OCISource_Sync_stays_inside_witness:
  "node_at (snd (OCISource_Sync (demo_registry [TarDir ''web'', TarReg ''web/MANIFEST.toml'' ''m'']) demo_image zero_SyncOpts demo_tree))
     [''home''] = node_at demo_tree [''home'']"
proof -
  have "fs_ok demo_tree" "prefix ''/'' (os_localRepository demo_image)"
    "node_at demo_tree (elems (os_localRepository demo_image)) = Some Directory"
    "\<not> strict_prefix (elems (os_localRepository demo_image)) [''home'']"
    "list_all entry_inside [TarDir ''web'', TarReg ''web/MANIFEST.toml'' ''m'']" by code_simp+
  then show ?thesis
    by (intro OCISource_Sync_stays_inside) (auto simp: demo_registry_def)
qed

text \<open>A name with \<open>..\<close> leaves the directory, and what an earlier image has left stays.\<close>

lemma image_escapes:
  "node_at (snd (OCISource_Sync (demo_registry [TarReg ''../home/evil'' ''x'']) demo_image zero_SyncOpts demo_tree))
     [''home'', ''evil''] = Some (PlainFile ''x'')"
  by code_simp

lemma image_leaves_stale_files:
  "node_at (snd (OCISource_Sync (demo_registry []) demo_image zero_SyncOpts demo_tree)) [''source'', ''stale''] = Some (PlainFile ''x'')"
  by code_simp

end
