(* ===== verification/Vaults.thy ===== *)
theory Vaults
  imports Attributes FileSystem
begin

section \<open>Attribute stores (internal/attributes/age, file, sops, mem)\<close>

text \<open>
  A store is made once from the vault files below the source's directory, and looks values up in them with
  \<open>extract_files\<close>.  Opening, decrypting and decoding a file are libraries and parameters.
\<close>

record FileStoreConfig =
  vf_BaseDir :: string
  vf_GeneralVaults :: "string list"
  vf_LoadAllVaults :: bool

record AgeConfig =
  va_IdentPath :: string
  va_BaseDir :: string
  va_GeneralVaults :: "string list"
  va_LoadAllVaults :: bool

record SopsConfig =
  vs_BaseDir :: string
  vs_Suffix :: string
  vs_GeneralVaults :: "string list"
  vs_LoadAllVaults :: bool

definition FileStoreConfig_Validate :: "FileStoreConfig \<Rightarrow> go_error option" where
  "FileStoreConfig_Validate c =
     (if vf_BaseDir c = [] then Some (ErrMsg ''need base directory for file attributes'') else None)"

definition AgeConfig_Validate :: "AgeConfig \<Rightarrow> go_error option" where
  "AgeConfig_Validate c =
     (if va_BaseDir c = [] then Some (ErrMsg ''empty base path for age'')
      else if va_IdentPath c = [] then Some (ErrMsg ''empty identities location for age'')
      else None)"

definition SopsConfig_Validate :: "SopsConfig \<Rightarrow> go_error option" where
  "SopsConfig_Validate c = (if vs_BaseDir c = [] then Some (ErrMsg ''empty base path for sops'') else None)"

text \<open>The entries of a walk that are vault files: directories are not left out.\<close>

definition walk_vaults :: "(string \<Rightarrow> bool) \<Rightarrow> fs \<Rightarrow> string \<Rightarrow> string list \<Rightarrow> string list result" where
  "walk_vaults vault fs dir skip =
     (case WalkDir fs dir of
        Inl e \<Rightarrow> Inl e
      | Inr entries \<Rightarrow>
          Inr (map path_string (filter (\<lambda>k. entry_name k \<notin> set skip \<and> vault (path_string k)) (map fst entries))))"

definition NewFileStore :: "FileStoreConfig \<Rightarrow> fs \<Rightarrow> string \<Rightarrow> FileStore result" where
  "NewFileStore c fs sourceDir =
     (case FileStoreConfig_Validate c of
        Some e \<Rightarrow> Inl e
      | None \<Rightarrow>
     (case walk_vaults (\<lambda>p. Ext p = ''.toml'') fs (JoinPath [sourceDir, vf_BaseDir c]) [''.git'', ''MANIFEST.toml''] of
        Inl e \<Rightarrow> Inl e
      | Inr files \<Rightarrow>
          Inr \<lparr>fst_vaultfiles = files,
               fst_generalVaults = (if vf_GeneralVaults c = [] then [''vault.toml'', ''attributes.toml''] else vf_GeneralVaults c),
               fst_loadAllVaults = vf_LoadAllVaults c\<rparr>))"

text \<open>An age store has the identities that \<open>parse\<close> finds in the key file beside its files.\<close>

record 'i AgeStore =
  vg_identities :: "'i list"
  vg_files :: FileStore

definition NewAgeStore :: "(string \<Rightarrow> 'i list result) \<Rightarrow> AgeConfig \<Rightarrow> fs \<Rightarrow> string \<Rightarrow> 'i AgeStore result" where
  "NewAgeStore parse c fs sourceDir =
     (case AgeConfig_Validate c of
        Some e \<Rightarrow> Inl e
      | None \<Rightarrow>
     (case ReadFile fs (va_IdentPath c) of
        Inl e \<Rightarrow> Inl e
      | Inr keys \<Rightarrow>
     (case parse keys of
        Inl e \<Rightarrow> Inl e
      | Inr idents \<Rightarrow>
     (if idents = [] then Inl (ErrMsg ''need at least one identity'')
      else case walk_vaults (\<lambda>p. Ext p = ''.age'') fs (JoinPath [sourceDir, va_BaseDir c]) [''.git''] of
        Inl e \<Rightarrow> Inl e
      | Inr files \<Rightarrow>
          Inr \<lparr>vg_identities = idents,
               vg_files = \<lparr>fst_vaultfiles = files,
                 fst_generalVaults = (if va_GeneralVaults c = [] then [''vault.age'', ''attributes.age''] else va_GeneralVaults c),
                 fst_loadAllVaults = False\<rparr>\<rparr>))))"

definition NewSopsStore :: "(string \<Rightarrow> bool) \<Rightarrow> SopsConfig \<Rightarrow> fs \<Rightarrow> string \<Rightarrow> FileStore result" where
  "NewSopsStore supported c fs sourceDir =
     (case SopsConfig_Validate c of
        Some e \<Rightarrow> Inl e
      | None \<Rightarrow>
     (case walk_vaults (\<lambda>p. supported p \<and> (vs_Suffix c \<noteq> [] \<longrightarrow> Contains p (vs_Suffix c))) fs
             (JoinPath [sourceDir, vs_BaseDir c]) [''.git''] of
        Inl e \<Rightarrow> Inl e
      | Inr files \<Rightarrow>
          Inr \<lparr>fst_vaultfiles = files, fst_generalVaults = vs_GeneralVaults c, fst_loadAllVaults = vs_LoadAllVaults c\<rparr>))"

text \<open>Reading a file with \<open>open\<close>, decrypting it with the identities and decoding it into the vault.\<close>

definition age_decode ::
    "(string \<Rightarrow> string result) \<Rightarrow> ('i list \<Rightarrow> string \<Rightarrow> string result) \<Rightarrow>
       (string \<Rightarrow> AttributeVault \<Rightarrow> AttributeVault result) \<Rightarrow> 'i list \<Rightarrow> string \<Rightarrow> AttributeVault \<Rightarrow> AttributeVault result" where
  "age_decode open_file decrypt unmarshal idents v attrs =
     (case open_file v of
        Inl e \<Rightarrow> Inl e
      | Inr d \<Rightarrow>
     (case wrap_error ''unable to decrypt age file'' (decrypt idents d) of
        Inl e \<Rightarrow> Inl e
      | Inr d' \<Rightarrow> unmarshal d' attrs))"

definition AgeStore_Lookup ::
    "(string \<Rightarrow> go_error option) \<Rightarrow> (string \<Rightarrow> string result) \<Rightarrow> ('i list \<Rightarrow> string \<Rightarrow> string result) \<Rightarrow>
       (string \<Rightarrow> AttributeVault \<Rightarrow> AttributeVault result) \<Rightarrow> 'i AgeStore \<Rightarrow> engine" where
  "AgeStore_Lookup cancelled open_file decrypt unmarshal s =
     FileStore_Lookup cancelled (age_decode open_file decrypt unmarshal (vg_identities s)) (vg_files s)"

text \<open>The format of a SOPS file is that of its name; each has its own decoder.\<close>

datatype sops_format = SopsYaml | SopsJson | SopsIni

definition sops_decode ::
    "(string \<Rightarrow> sops_format option) \<Rightarrow> (string \<Rightarrow> string result) \<Rightarrow>
       (sops_format \<Rightarrow> string \<Rightarrow> AttributeVault \<Rightarrow> AttributeVault result) \<Rightarrow> string \<Rightarrow> AttributeVault \<Rightarrow> AttributeVault result" where
  "sops_decode format decrypt unmarshal v attrs =
     (case decrypt v of
        Inl e \<Rightarrow> Inl (ErrMsg ''error decrypting SOPS file'')
      | Inr d \<Rightarrow>
     (case format v of
        None \<Rightarrow> Inl (ErrMsg ''invalid sops file'')
      | Some SopsYaml \<Rightarrow> (case unmarshal SopsYaml d attrs of Inl e \<Rightarrow> Inl (ErrMsg ''error unmarshaling SOPS YAML'') | Inr a \<Rightarrow> Inr a)
      | Some SopsJson \<Rightarrow> (case unmarshal SopsJson d attrs of Inl e \<Rightarrow> Inl (ErrMsg ''error unmarshaling SOPS JSON'') | Inr a \<Rightarrow> Inr a)
      | Some SopsIni \<Rightarrow> (case unmarshal SopsIni d attrs of Inl e \<Rightarrow> Inl (ErrMsg ''error mapping SOPS INI'') | Inr a \<Rightarrow> Inr a)))"

definition SopsStore_Lookup ::
    "(string \<Rightarrow> go_error option) \<Rightarrow> (string \<Rightarrow> sops_format option) \<Rightarrow> (string \<Rightarrow> string result) \<Rightarrow>
       (sops_format \<Rightarrow> string \<Rightarrow> AttributeVault \<Rightarrow> AttributeVault result) \<Rightarrow> FileStore \<Rightarrow> engine" where
  "SopsStore_Lookup cancelled format decrypt unmarshal = FileStore_Lookup cancelled (sops_decode format decrypt unmarshal)"

text \<open>The engine in memory, with the values that were added to it.\<close>

definition MemoryEngine_Lookup :: "any_map \<Rightarrow> engine" where
  "MemoryEngine_Lookup secrets f = Inr secrets"

definition MemoryEngine_Add :: "string \<Rightarrow> go_any \<Rightarrow> any_map \<Rightarrow> any_map" where
  "MemoryEngine_Add k v secrets = AList.update k v secrets"

lemma age_vaults_never_all:
  "NewAgeStore parse (c\<lparr>va_LoadAllVaults := b\<rparr>) fs dir = NewAgeStore parse c fs dir"
  by (simp add: NewAgeStore_def AgeConfig_Validate_def split: sum.split)

end
