(* ===== verification/Config.thy ===== *)
theory Config
  imports SourceManager Vaults
begin

section \<open>Configuration (internal/config, materia\_config.go, the NewConfig functions)\<close>

text \<open>
  The settings come from a file, the environment and the flags of the command line, the later over the
  earlier.  koanf keeps them under keys joined with dots: a configuration is a list of keys with values in
  which the first entry of a key counts.  What a value is read as is koanf's business (the fields of
  \<open>koanf\<close>), and so is how a section is unmarshalled into a struct with defaults.
\<close>

type_synonym 'v conf = "(string \<times> 'v) list"

record ServicesConfig =
  sf_Timeout :: int
  sf_DryrunQuadlets :: bool
  sf_DbusSocket :: string

record ContainersConfig =
  ctc_Remote :: bool
  ctc_SecretsPrefix :: string
  ctc_Compression :: string

record RollbackConfig =
  rb_Kind :: string

record NotifyConfig =
  nf_Triggers :: "(string \<times> string) list"

record ServerConfig =
  sv_PlanInterval :: int
  sv_UpdateInterval :: int
  sv_Hostname :: string
  sv_NotifyWebhook :: string
  sv_UpdateWebhook :: bool
  sv_UpdateUrl :: string
  sv_UpdateSecret :: string
  sv_Socket :: string

record 'v koanf =
  kf_env :: "string \<Rightarrow> 'v"
  kf_String :: "'v \<Rightarrow> string"
  kf_Bool :: "'v \<Rightarrow> bool"
  kf_Strings :: "'v \<Rightarrow> string list"
  kf_services :: "'v conf \<Rightarrow> ServicesConfig \<Rightarrow> ServicesConfig result"
  kf_planner :: "'v conf \<Rightarrow> PlannerConfig \<Rightarrow> PlannerConfig result"
  kf_containers :: "'v conf \<Rightarrow> ContainersConfig \<Rightarrow> ContainersConfig result"
  kf_executor :: "'v conf \<Rightarrow> ExecutorConfig \<Rightarrow> ExecutorConfig result"
  kf_server :: "'v conf \<Rightarrow> ServerConfig \<Rightarrow> ServerConfig result"

definition k_String :: "'v koanf \<Rightarrow> 'v conf \<Rightarrow> string \<Rightarrow> string" where
  "k_String K c k = (case map_of c k of None \<Rightarrow> [] | Some v \<Rightarrow> kf_String K v)"

definition k_Bool :: "'v koanf \<Rightarrow> 'v conf \<Rightarrow> string \<Rightarrow> bool" where
  "k_Bool K c k = (case map_of c k of None \<Rightarrow> False | Some v \<Rightarrow> kf_Bool K v)"

definition k_Strings :: "'v koanf \<Rightarrow> 'v conf \<Rightarrow> string \<Rightarrow> string list" where
  "k_Strings K c k = (case map_of c k of None \<Rightarrow> [] | Some v \<Rightarrow> kf_Strings K v)"

text \<open>The settings of a section, under their keys within it.\<close>

definition Cut :: "'v conf \<Rightarrow> string \<Rightarrow> 'v conf" where
  "Cut c k = map (\<lambda>(n, v). (drop (length k + 1) n, v)) (filter (\<lambda>(n, v). prefix (k @ ''.'') n) c)"

definition k_Exists :: "'v conf \<Rightarrow> string \<Rightarrow> bool" where
  "k_Exists c k \<longleftrightarrow> map_of c k \<noteq> None \<or> Cut c k \<noteq> []"

definition k_StringMap :: "'v koanf \<Rightarrow> 'v conf \<Rightarrow> string \<Rightarrow> (string \<times> string) list" where
  "k_StringMap K c k = map (\<lambda>(n, v). (n, kf_String K v)) (Cut c k)"

subsection \<open>Where settings come from (loader.go)\<close>

definition to_lower :: "char \<Rightarrow> char" where
  "to_lower c = (if (65 :: nat) \<le> of_char c \<and> of_char c \<le> (90 :: nat) then char_of (of_char c + (32 :: nat)) else c)"

definition ToLower :: "string \<Rightarrow> string" where
  "ToLower = map to_lower"

text \<open>The key of a variable of the environment: \<open>MATERIA_NOTIFY__TRIGGERS__UPDATE\<close> is \<open>notify.triggers.update\<close>.\<close>

definition env_key :: "string \<Rightarrow> string" where
  "env_key s = ReplaceAll (ToLower (TrimPrefix s ''MATERIA_'')) ''__'' ''.''"

definition env_conf :: "'v koanf \<Rightarrow> (string \<times> string) list \<Rightarrow> 'v conf" where
  "env_conf K env = map (\<lambda>(n, v). (env_key n, kf_env K v)) (filter (\<lambda>(n, v). prefix ''MATERIA'' n) env)"

definition LoadConfigs ::
    "'v koanf \<Rightarrow> (string \<Rightarrow> 'v conf result) \<Rightarrow> (string \<times> string) list \<Rightarrow> string \<Rightarrow> 'v conf \<Rightarrow> 'v conf result" where
  "LoadConfigs K read_toml env configFile cliflags =
     (case (if configFile = [] then Inr [] else wrap_error ''error loading config file'' (read_toml configFile)) of
        Inl e \<Rightarrow> Inl e
      | Inr fileConf \<Rightarrow> Inr (cliflags @ env_conf K env @ fileConf))"

subsection \<open>The parts\<close>

definition NewAgeConfig :: "'v koanf \<Rightarrow> 'v conf \<Rightarrow> AgeConfig" where
  "NewAgeConfig K k =
     \<lparr>va_IdentPath = (if k_String K k ''age.keyfile'' = [] then ''/etc/materia/key.txt'' else k_String K k ''age.keyfile''),
      va_BaseDir = (if k_String K k ''age.base_dir'' = [] then ''secrets'' else k_String K k ''age.base_dir''),
      va_GeneralVaults = (if k_Strings K k ''age.vaults'' = [] then [''vault.age'', ''attributes.age''] else k_Strings K k ''age.vaults''),
      va_LoadAllVaults = k_Bool K k ''age.load_all_vaults''\<rparr>"

definition NewFileStoreConfig :: "'v koanf \<Rightarrow> 'v conf \<Rightarrow> FileStoreConfig" where
  "NewFileStoreConfig K k =
     \<lparr>vf_BaseDir = (if k_String K k ''file.base_dir'' = [] then ''secrets'' else k_String K k ''file.base_dir''),
      vf_GeneralVaults = (if k_Strings K k ''file.vaults'' = [] then [''vault.toml''] else k_Strings K k ''file.vaults''),
      vf_LoadAllVaults = k_Bool K k ''file.load_all_vaults''\<rparr>"

definition NewSopsConfig :: "'v koanf \<Rightarrow> 'v conf \<Rightarrow> SopsConfig" where
  "NewSopsConfig K k =
     (let sfx = k_String K k ''sops.suffix'' in
      \<lparr>vs_BaseDir = (if k_String K k ''sops.base_dir'' = [] then ''secrets'' else k_String K k ''sops.base_dir''),
       vs_Suffix = sfx,
       vs_GeneralVaults =
         (if k_Strings K k ''sops.vaults'' = []
          then [''vault.yml'', ''attributes.yml''] @
            (if sfx \<noteq> [] then [''vault.'' @ sfx @ ''.yml'', ''attributes.'' @ sfx @ ''.yml''] else [])
          else k_Strings K k ''sops.vaults''),
       vs_LoadAllVaults = k_Bool K k ''sops.load_all_vaults''\<rparr>)"

definition DefaultServicesConfig :: ServicesConfig where
  "DefaultServicesConfig = \<lparr>sf_Timeout = 90, sf_DryrunQuadlets = False, sf_DbusSocket = []\<rparr>"

definition NewServicesConfig :: "'v koanf \<Rightarrow> 'v conf \<Rightarrow> ServicesConfig result" where
  "NewServicesConfig K k =
     wrap_error ''unable to create services config'' (kf_services K (Cut k ''services'') DefaultServicesConfig)"

definition NewPlannerConfig :: "'v koanf \<Rightarrow> 'v conf \<Rightarrow> PlannerConfig result" where
  "NewPlannerConfig K k =
     wrap_error ''unable to create planner config'' (kf_planner K (Cut k ''planner'') DefaultPlannerConfig)"

definition DefaultContainersConfig :: "string \<Rightarrow> ContainersConfig" where
  "DefaultContainersConfig container =
     \<lparr>ctc_Remote = (container = ''podman''), ctc_SecretsPrefix = ''materia-'', ctc_Compression = []\<rparr>"

definition NewContainersConfig :: "'v koanf \<Rightarrow> string \<Rightarrow> 'v conf \<Rightarrow> ContainersConfig result" where
  "NewContainersConfig K container k =
     wrap_error ''unable to create containers config'' (kf_containers K (Cut k ''containers'') (DefaultContainersConfig container))"

definition ContainersConfig_Validate :: "ContainersConfig \<Rightarrow> go_error option" where
  "ContainersConfig_Validate c =
     (if ctc_Compression c \<notin> {[], ''zstd'', ''gz'', ''gzip''} then Some (ErrMsg ''invalid compression type'') else None)"

definition zero_ExecutorConfig :: ExecutorConfig where
  "zero_ExecutorConfig = \<lparr>ec_CleanupComponents = False, ec_MateriaDir = [], ec_QuadletDir = [], ec_ScriptsDir = [],
     ec_ServiceDir = [], ec_OutputDir = []\<rparr>"

definition NewExecutorConfig :: "'v koanf \<Rightarrow> 'v conf \<Rightarrow> ExecutorConfig result" where
  "NewExecutorConfig K k = kf_executor K (Cut k ''executor'') zero_ExecutorConfig"

definition NewNotifyConfig :: "'v koanf \<Rightarrow> 'v conf \<Rightarrow> NotifyConfig" where
  "NewNotifyConfig K k = \<lparr>nf_Triggers = k_StringMap K k ''notify.triggers''\<rparr>"

definition NewRollbackConfig :: "'v koanf \<Rightarrow> 'v conf \<Rightarrow> RollbackConfig option" where
  "NewRollbackConfig K k =
     (if k_String K k ''rollback.kind'' = [] then None else Some \<lparr>rb_Kind = k_String K k ''rollback.kind''\<rparr>)"

definition RollbackConfig_Validate :: "RollbackConfig \<Rightarrow> go_error option" where
  "RollbackConfig_Validate c = (if rb_Kind c \<noteq> ''service'' then Some (ErrMsg ''invalid rollback type'') else None)"

definition zero_ServerConfig :: ServerConfig where
  "zero_ServerConfig = \<lparr>sv_PlanInterval = 0, sv_UpdateInterval = 0, sv_Hostname = [], sv_NotifyWebhook = [],
     sv_UpdateWebhook = False, sv_UpdateUrl = [], sv_UpdateSecret = [], sv_Socket = []\<rparr>"

definition NewServerConfig :: "'v koanf \<Rightarrow> 'v conf \<Rightarrow> ServerConfig result" where
  "NewServerConfig K k = kf_server K (Cut k ''server'') zero_ServerConfig"

definition NewGitConfig :: "'v koanf \<Rightarrow> 'v conf \<Rightarrow> string \<Rightarrow> string \<Rightarrow> GitConfig" where
  "NewGitConfig K k localDir remoteURL =
     \<lparr>gc_URL = remoteURL, gc_Branch = k_String K k ''git.branch'', gc_PrivateKey = k_String K k ''git.private_key'',
      gc_Username = k_String K k ''git.username'', gc_Password = k_String K k ''git.password'',
      gc_KnownHosts = k_String K k ''git.knownhosts'', gc_Insecure = k_Bool K k ''git.insecure'',
      gc_LocalRepository = localDir, gc_Careful = k_Bool K k ''git.careful'', gc_Default = k_String K k ''git.default''\<rparr>"

definition NewOciConfig :: "'v koanf \<Rightarrow> 'v conf \<Rightarrow> string \<Rightarrow> string \<Rightarrow> OciConfig" where
  "NewOciConfig K k localDir remoteURL =
     \<lparr>oc_URL = remoteURL, oc_Tag = k_String K k ''oci.tag'', oc_Username = k_String K k ''oci.username'',
      oc_Password = k_String K k ''oci.password'', oc_Insecure = k_Bool K k ''oci.insecure'',
      oc_LocalRepository = localDir, oc_Registry = [], oc_Repository = []\<rparr>"

subsection \<open>The whole\<close>

record MateriaConfig =
  cfg_Debug :: bool
  cfg_UseStdout :: bool
  cfg_Hostname :: string
  cfg_Roles :: "string list"
  cfg_MateriaDir :: string
  cfg_QuadletDir :: string
  cfg_ServiceDir :: string
  cfg_ScriptsDir :: string
  cfg_SourceDir :: string
  cfg_OutputDir :: string
  cfg_RemoteDir :: string
  cfg_NoSync :: bool
  cfg_Lock :: string
  cfg_AppMode :: bool
  cfg_Rootless :: bool
  cfg_Attributes :: string
  cfg_CommandPodman :: bool
  cfg_AgeConfig :: "AgeConfig option"
  cfg_FileConfig :: "FileStoreConfig option"
  cfg_SopsConfig :: "SopsConfig option"
  cfg_PlannerConfig :: "PlannerConfig option"
  cfg_ExecutorConfig :: "ExecutorConfig option"
  cfg_ServicesConfig :: "ServicesConfig option"
  cfg_ContainersConfig :: "ContainersConfig option"
  cfg_NotifyConfig :: "NotifyConfig option"
  cfg_RollbackConfig :: "RollbackConfig option"
  cfg_Username :: string

text \<open>The user the program runs as, and the variables of its environment the defaults depend on.\<close>

record host_user =
  hu_Username :: string
  hu_HomeDir :: string
  hu_XDG_CONFIG_HOME :: "string option"
  hu_XDG_DATA_HOME :: "string option"
  hu_container :: string

record default_dirs =
  dd_data :: string
  dd_quadlet :: string
  dd_service :: string
  dd_scripts :: string
  dd_source :: string
  dd_output :: string
  dd_remote :: string

definition DefaultDataDir :: string where
  "DefaultDataDir = ''/var/lib/materia''"

definition root_dirs :: default_dirs where
  "root_dirs = \<lparr>dd_data = DefaultDataDir, dd_quadlet = ''/etc/containers/systemd'', dd_service = ''/etc/systemd/system'',
     dd_scripts = ''/usr/local/bin'', dd_source = JoinPath [DefaultDataDir, ''source''],
     dd_output = JoinPath [DefaultDataDir, ''output''], dd_remote = JoinPath [DefaultDataDir, ''remote'']\<rparr>"

definition user_dirs :: "host_user \<Rightarrow> default_dirs" where
  "user_dirs u =
     (let home = hu_HomeDir u;
          dataPath = JoinPath [case hu_XDG_DATA_HOME u of None \<Rightarrow> JoinPath [home, ''.local'', ''share''] | Some d \<Rightarrow> d, ''materia'']
      in \<lparr>dd_data = dataPath,
          dd_quadlet = (case hu_XDG_CONFIG_HOME u of
              None \<Rightarrow> JoinPath [home, ''.config'', ''containers'', ''systemd''] | Some d \<Rightarrow> JoinPath [d, ''containers'', ''systemd'']),
          dd_service = (case hu_XDG_DATA_HOME u of
              None \<Rightarrow> JoinPath [home, ''.local'', ''share'', ''systemd'', ''user''] | Some d \<Rightarrow> JoinPath [d, ''systemd'', ''user'']),
          dd_scripts = JoinPath [home, ''.local'', ''bin''], dd_source = JoinPath [dataPath, ''source''],
          dd_output = JoinPath [dataPath, ''output''], dd_remote = JoinPath [dataPath, ''remote'']\<rparr>)"

definition config_dirs :: "host_user \<Rightarrow> default_dirs" where
  "config_dirs u = (if hu_Username u \<noteq> ''root'' then user_dirs u else root_dirs)"

definition or_default :: "string \<Rightarrow> string \<Rightarrow> string" where
  "or_default s d = (if s = [] then d else s)"

definition config_of ::
    "'v koanf \<Rightarrow> 'v conf \<Rightarrow> host_user \<Rightarrow> ServicesConfig \<Rightarrow> PlannerConfig \<Rightarrow> ContainersConfig \<Rightarrow> ExecutorConfig \<Rightarrow> MateriaConfig" where
  "config_of K k u services pln containers exec =
     (let attrs = k_String K k ''attributes'';
          configured = (\<lambda>name. k_Exists k name \<or> attrs = name);
          d = config_dirs u;
          dir = (\<lambda>key default. or_default (k_String K k key) (default d)) in
      \<lparr>cfg_Debug = k_Bool K k ''debug'', cfg_UseStdout = k_Bool K k ''use_stdout'',
       cfg_Hostname = k_String K k ''hostname'', cfg_Roles = k_Strings K k ''roles'',
       cfg_MateriaDir = dir ''materia_dir'' dd_data, cfg_QuadletDir = dir ''quadlet_dir'' dd_quadlet,
       cfg_ServiceDir = dir ''service_dir'' dd_service, cfg_ScriptsDir = dir ''scripts_dir'' dd_scripts,
       cfg_SourceDir = dir ''source_dir'' dd_source, cfg_OutputDir = dir ''output_dir'' dd_output,
       cfg_RemoteDir = dir ''remote_dir'' dd_remote, cfg_NoSync = k_Bool K k ''nosync'', cfg_Lock = k_String K k ''lock'',
       cfg_AppMode = k_Bool K k ''appmode'', cfg_Rootless = k_Bool K k ''rootless'', cfg_Attributes = attrs,
       cfg_CommandPodman = k_Bool K k ''podman_command'',
       cfg_AgeConfig = (if configured ''age'' then Some (NewAgeConfig K k) else None),
       cfg_FileConfig = (if configured ''file'' then Some (NewFileStoreConfig K k) else None),
       cfg_SopsConfig = (if configured ''sops'' then Some (NewSopsConfig K k) else None),
       cfg_PlannerConfig = Some pln,
       cfg_ExecutorConfig = Some (exec\<lparr>ec_MateriaDir := dir ''materia_dir'' dd_data, ec_QuadletDir := dir ''quadlet_dir'' dd_quadlet,
         ec_ScriptsDir := dir ''scripts_dir'' dd_scripts, ec_ServiceDir := dir ''service_dir'' dd_service,
         ec_OutputDir := dir ''output_dir'' dd_output\<rparr>),
       cfg_ServicesConfig = Some services, cfg_ContainersConfig = Some containers,
       cfg_NotifyConfig = Some (NewNotifyConfig K k), cfg_RollbackConfig = NewRollbackConfig K k,
       cfg_Username = hu_Username u\<rparr>)"

definition NewConfig :: "'v koanf \<Rightarrow> host_user result \<Rightarrow> string \<Rightarrow> 'v conf \<Rightarrow> MateriaConfig result" where
  "NewConfig K current container k =
     (case NewServicesConfig K k of
        Inl e \<Rightarrow> Inl e
      | Inr services \<Rightarrow>
     (case NewPlannerConfig K k of
        Inl e \<Rightarrow> Inl e
      | Inr pln \<Rightarrow>
     (case NewContainersConfig K container k of
        Inl e \<Rightarrow> Inl e
      | Inr containers \<Rightarrow>
     (case NewExecutorConfig K k of
        Inl e \<Rightarrow> Inl e
      | Inr exec \<Rightarrow>
     (case current of
        Inl e \<Rightarrow> Inl e
      | Inr u \<Rightarrow> Inr (config_of K k u services pln containers exec))))))"

definition validate_part :: "string \<Rightarrow> ('a \<Rightarrow> go_error option) \<Rightarrow> 'a option \<Rightarrow> go_error option" where
  "validate_part msg f x = (case x of None \<Rightarrow> None | Some y \<Rightarrow> map_option (ErrWrapped msg) (f y))"

definition PlannerConfig_Validate :: "PlannerConfig \<Rightarrow> go_error option" where
  "PlannerConfig_Validate p = None"

definition MateriaConfig_Validate :: "MateriaConfig \<Rightarrow> go_error option" where
  "MateriaConfig_Validate c =
     (if cfg_QuadletDir c = [] then Some (ErrMsg ''need quadlet directory'')
      else if cfg_ServiceDir c = [] then Some (ErrMsg ''need services directory'')
      else if cfg_ScriptsDir c = [] then Some (ErrMsg ''need scripts directory'')
      else if cfg_SourceDir c = [] then Some (ErrMsg ''need source directory'')
      else first_error (\<lambda>e. e)
        [validate_part ''invalid planner config'' PlannerConfig_Validate (cfg_PlannerConfig c),
         validate_part ''invalid executor config'' ExecutorConfig_Validate (cfg_ExecutorConfig c),
         validate_part ''invalid rollback config'' RollbackConfig_Validate (cfg_RollbackConfig c)])"

subsection \<open>What is made is valid\<close>

lemma clean_elems_nonempty: "list_all (\<lambda>e. e \<noteq> []) acc \<Longrightarrow> list_all (\<lambda>e. e \<noteq> []) (clean_elems r acc es)"
proof (induction r acc es rule: clean_elems.induct)
  case (1 r acc)
  then show ?case by simp
next
  case (2 r acc e es)
  then show ?case by (cases acc) (auto split: if_splits)
qed

lemma Join_nonempty: "es \<noteq> [] \<Longrightarrow> list_all (\<lambda>e. e \<noteq> []) es \<Longrightarrow> Join es sep \<noteq> []"
  by (induction es sep rule: Join.induct) auto

lemma JoinPath_nonempty: "p \<in> set ps \<Longrightarrow> p \<noteq> [] \<Longrightarrow> JoinPath ps \<noteq> []"
proof -
  assume "p \<in> set ps" "p \<noteq> []"
  then have "filter (\<lambda>p. p \<noteq> []) ps \<noteq> []" by (auto simp: filter_empty_conv)
  moreover have "Clean q \<noteq> []" for q
    using Join_nonempty [OF _ clean_elems_nonempty [of "[]" False "Split q ''/''"], of "''/''"]
    by (simp add: Clean_def Let_def)
  ultimately show ?thesis by (simp add: JoinPath_def)
qed

lemma JoinPath_last:
  "q \<noteq> [] \<Longrightarrow> JoinPath [a, q] \<noteq> []" "q \<noteq> [] \<Longrightarrow> JoinPath [a, b, q] \<noteq> []"
  "q \<noteq> [] \<Longrightarrow> JoinPath [a, b, c, q] \<noteq> []" "q \<noteq> [] \<Longrightarrow> JoinPath [a, b, c, d, q] \<noteq> []"
  by (rule JoinPath_nonempty [of q]; simp)+

lemma config_dirs_nonempty:
  "dd_data (config_dirs u) \<noteq> []" "dd_quadlet (config_dirs u) \<noteq> []" "dd_service (config_dirs u) \<noteq> []"
  "dd_scripts (config_dirs u) \<noteq> []" "dd_source (config_dirs u) \<noteq> []" "dd_output (config_dirs u) \<noteq> []"
  by (simp_all add: config_dirs_def root_dirs_def user_dirs_def DefaultDataDir_def Let_def JoinPath_last split: option.split)

lemma or_default_nonempty: "d \<noteq> [] \<Longrightarrow> or_default s d \<noteq> []"
  by (simp add: or_default_def)

text \<open>
  A configuration that \<open>NewConfig\<close> has made is valid unless its rollback kind is neither empty nor
  \<open>service\<close>: the defaults fill every directory that \<open>Validate\<close> asks for, for root and for other users.
\<close>

theorem NewConfig_valid_iff:
  assumes "NewConfig K current container k = Inr c"
  shows "MateriaConfig_Validate c = None \<longleftrightarrow> k_String K k ''rollback.kind'' \<in> {[], ''service''}"
proof -
  from assms obtain u services pln containers exec where c: "c = config_of K k u services pln containers exec"
    by (auto simp: NewConfig_def split: sum.splits)
  have dirs: "cfg_QuadletDir c \<noteq> []" "cfg_ServiceDir c \<noteq> []" "cfg_ScriptsDir c \<noteq> []" "cfg_SourceDir c \<noteq> []"
    by (simp_all add: c config_of_def Let_def or_default_nonempty config_dirs_nonempty)
  have "validate_part ''invalid executor config'' ExecutorConfig_Validate (cfg_ExecutorConfig c) = None"
    by (simp add: c config_of_def Let_def or_default_nonempty config_dirs_nonempty validate_part_def ExecutorConfig_Validate_def)
  moreover have "validate_part ''invalid planner config'' PlannerConfig_Validate (cfg_PlannerConfig c) = None"
    by (simp add: validate_part_def PlannerConfig_Validate_def split: option.split)
  moreover have "cfg_RollbackConfig c = NewRollbackConfig K k" by (simp add: c config_of_def Let_def)
  ultimately show ?thesis
    by (simp add: MateriaConfig_Validate_def dirs) (simp add: validate_part_def NewRollbackConfig_def RollbackConfig_Validate_def)
qed

definition string_koanf :: "string koanf" where
  "string_koanf = \<lparr>kf_env = (\<lambda>s. s), kf_String = (\<lambda>s. s), kf_Bool = (\<lambda>s. s = ''true''), kf_Strings = (\<lambda>s. [s]),
     kf_services = (\<lambda>k c. Inr c), kf_planner = (\<lambda>k c. Inr (c\<lparr>pc_OnlyResources := map_of k ''only_resources'' = Some ''true''\<rparr>)),
     kf_containers = (\<lambda>k c. Inr c), kf_executor = (\<lambda>k c. Inr c), kf_server = (\<lambda>k c. Inr c)\<rparr>"

definition demo_user :: host_user where
  "demo_user = \<lparr>hu_Username = ''me'', hu_HomeDir = ''/home/me'', hu_XDG_CONFIG_HOME = None, hu_XDG_DATA_HOME = None, hu_container = []\<rparr>"

definition demo_config :: "string conf \<Rightarrow> MateriaConfig result" where
  "demo_config = NewConfig string_koanf (Inr demo_user) []"

theorem NewConfig_valid_iff_witness:
  "\<exists>c. demo_config [(''rollback.kind'', ''health'')] = Inr c \<and> MateriaConfig_Validate c \<noteq> None"
proof -
  obtain c where c: "NewConfig string_koanf (Inr demo_user) [] [(''rollback.kind'', ''health'')] = Inr c"
    by (simp add: NewConfig_def Let_def string_koanf_def NewServicesConfig_def NewPlannerConfig_def NewContainersConfig_def
        NewExecutorConfig_def)
  have "k_String string_koanf [(''rollback.kind'', ''health'')] ''rollback.kind'' = ''health''"
    by (simp add: k_String_def string_koanf_def)
  with NewConfig_valid_iff [OF c] have "MateriaConfig_Validate c \<noteq> None" by simp
  with c show ?thesis by (auto simp: demo_config_def)
qed

subsection \<open>A flag without effect\<close>

text \<open>
  The flags \<open>--resource-only\<close> and \<open>--quiet\<close> of the plan and update commands set the keys \<open>onlyresource\<close> and
  \<open>quiet\<close>, which nothing reads: with them the configuration is the same as without.
\<close>

definition unread_keys :: "string set" where
  "unread_keys = {''onlyresource'', ''quiet''}"

lemma unread_keys_ne: "key \<in> unread_keys \<Longrightarrow> x \<notin> {''onlyresource'', ''quiet''} \<Longrightarrow> x \<noteq> key"
  by (auto simp: unread_keys_def)

lemma unread_keys_prefix: "key \<in> unread_keys \<Longrightarrow> CHR ''.'' \<notin> set key"
  by (auto simp: unread_keys_def)

lemma unread_values:
  assumes "key \<in> unread_keys" and "x \<notin> {''onlyresource'', ''quiet''}"
  shows "k_String K ((key, v) # k) x = k_String K k x" "k_Bool K ((key, v) # k) x = k_Bool K k x"
    "k_Strings K ((key, v) # k) x = k_Strings K k x"
  using unread_keys_ne [OF assms] by (simp_all add: k_String_def k_Bool_def k_Strings_def)

lemma unread_sections:
  assumes "key \<in> unread_keys"
  shows "Cut ((key, v) # k) x = Cut k x"
proof -
  have "\<not> prefix (x @ ''.'') key" using unread_keys_prefix [OF assms] by (auto simp: prefix_def)
  then show ?thesis by (simp add: Cut_def)
qed

lemma unread_exists: "key \<in> unread_keys \<Longrightarrow> x \<notin> {''onlyresource'', ''quiet''} \<Longrightarrow> k_Exists ((key, v) # k) x = k_Exists k x"
  using unread_keys_ne [of key x] by (simp add: k_Exists_def unread_sections)

lemmas unread = unread_values unread_sections unread_exists

lemma unread_configs:
  assumes "key \<in> unread_keys"
  shows "NewAgeConfig K ((key, v) # k) = NewAgeConfig K k" "NewFileStoreConfig K ((key, v) # k) = NewFileStoreConfig K k"
    "NewSopsConfig K ((key, v) # k) = NewSopsConfig K k" "NewNotifyConfig K ((key, v) # k) = NewNotifyConfig K k"
    "NewRollbackConfig K ((key, v) # k) = NewRollbackConfig K k" "NewServicesConfig K ((key, v) # k) = NewServicesConfig K k"
    "NewPlannerConfig K ((key, v) # k) = NewPlannerConfig K k"
    "NewContainersConfig K container ((key, v) # k) = NewContainersConfig K container k"
    "NewExecutorConfig K ((key, v) # k) = NewExecutorConfig K k" "NewGitConfig K ((key, v) # k) dir url = NewGitConfig K k dir url"
    "NewOciConfig K ((key, v) # k) dir url = NewOciConfig K k dir url"
  by (simp_all add: NewAgeConfig_def NewFileStoreConfig_def NewSopsConfig_def NewNotifyConfig_def k_StringMap_def
      NewRollbackConfig_def NewServicesConfig_def NewPlannerConfig_def NewContainersConfig_def NewExecutorConfig_def
      NewGitConfig_def NewOciConfig_def Let_def unread [OF assms])

lemma unread_setting:
  assumes "key \<in> unread_keys"
  shows "NewConfig K current container ((key, v) # k) = NewConfig K current container k"
proof -
  have "config_of K ((key, v) # k) u services pln containers exec = config_of K k u services pln containers exec"
    for u services pln containers exec
    by (simp add: config_of_def Let_def unread_configs [OF assms] unread [OF assms])
  then show ?thesis by (simp add: NewConfig_def unread_configs [OF assms] split: sum.split)
qed

text \<open>The setting itself is \<open>planner.only_resources\<close>.\<close>

lemma only_resources_setting:
  "map_sum (\<lambda>e. e) (\<lambda>c. map_option pc_OnlyResources (cfg_PlannerConfig c)) (demo_config [(''planner.only_resources'', ''true'')]) =
     Inr (Some True)"
  "map_sum (\<lambda>e. e) (\<lambda>c. map_option pc_OnlyResources (cfg_PlannerConfig c)) (demo_config [(''onlyresource'', ''true'')]) =
     Inr (Some False)"
  by code_simp+

end
