(* ===== verification/Notify.thy ===== *)
theory Notify
  imports Config
begin

section \<open>Notifications (pkg/notify)\<close>

text \<open>
  A notifier sends a message to the destination its configuration has for the event, or to the default
  one.  The client that posts it is a library, an operation on the state that \<open>http\<close> stands for.
\<close>

definition NotifyUnknown :: string where "NotifyUnknown = ''unknown''"
definition NotifyDefault :: string where "NotifyDefault = ''default''"
definition NotifyUpdate :: string where "NotifyUpdate = ''update''"
definition NotifyRollback :: string where "NotifyRollback = ''rollback''"

definition notifyTypeMap :: "string list" where
  "notifyTypeMap = [NotifyUnknown, NotifyDefault, NotifyUpdate, NotifyRollback]"

definition NewNotifyType :: "string \<Rightarrow> string" where
  "NewNotifyType name = (if name \<in> set notifyTypeMap then name else NotifyUnknown)"

definition NotifyConfig_Validate :: "NotifyConfig \<Rightarrow> go_error option" where
  "NotifyConfig_Validate c =
     (if list_all (\<lambda>(k, v). k \<in> set notifyTypeMap) (nf_Triggers c) then None
      else Some (ErrMsg ''unknown notify trigger type''))"

definition NewNotifier :: "NotifyConfig \<Rightarrow> NotifyConfig result" where
  "NewNotifier c = (case NotifyConfig_Validate c of Some e \<Rightarrow> Inl e | None \<Rightarrow> Inr c)"

definition sendMessage :: "(string \<Rightarrow> string \<Rightarrow> 'h operation) \<Rightarrow> string \<Rightarrow> string \<Rightarrow> 'h operation" where
  "sendMessage http dest msg h =
     (case http dest msg h of
        (Some e, h') \<Rightarrow> (Some (ErrMsg ''failed to send HTTP request''), h')
      | (None, h') \<Rightarrow> (None, h'))"

definition trigger_dest :: "NotifyConfig \<Rightarrow> string \<Rightarrow> string" where
  "trigger_dest c t = (case map_of (nf_Triggers c) t of None \<Rightarrow> [] | Some d \<Rightarrow> d)"

definition Notifier_Notify ::
    "(string \<Rightarrow> string \<Rightarrow> 'h operation) \<Rightarrow> NotifyConfig \<Rightarrow> string \<Rightarrow> string \<Rightarrow> 'h operation" where
  "Notifier_Notify http n event msg h =
     (if nf_Triggers n = [] then (None, h)
      else let trigger = NewNotifyType event in
      if trigger = NotifyUnknown then (Some (ErrMsg ''unknown notification trigger''), h)
      else if trigger_dest n trigger \<noteq> [] then sendMessage http (trigger_dest n trigger) msg h
      else case map_of (nf_Triggers n) NotifyDefault of
        None \<Rightarrow> (None, h)
      | Some d \<Rightarrow> sendMessage http d msg h)"

text \<open>
  A message of a known event goes to the event's own destination, else to the default one, else
  nowhere; of an unknown event it is refused, except that a notifier without triggers takes any event.
\<close>

lemma Notify_destination:
  "Notifier_Notify http n event msg h =
     (if nf_Triggers n = [] then (None, h)
      else if event \<notin> {''default'', ''update'', ''rollback''} then (Some (ErrMsg ''unknown notification trigger''), h)
      else case (if trigger_dest n event \<noteq> [] then Some (trigger_dest n event) else map_of (nf_Triggers n) ''default'') of
        None \<Rightarrow> (None, h)
      | Some d \<Rightarrow> sendMessage http d msg h)"
  by (auto simp: Notifier_Notify_def NewNotifyType_def notifyTypeMap_def NotifyUnknown_def NotifyDefault_def
      NotifyUpdate_def NotifyRollback_def Let_def)

end
