(* ===== verification/HostFacts.thy ===== *)
theory HostFacts
  imports Hostman LoaderFacts RepositoryFacts
begin

section \<open>Facts and macros (internal/facts, internal/materia/snippet.go)\<close>

text \<open>
  What a template can ask of the host: its name, its network interfaces, and the macros the program puts
  into the template language.  A template is executed by a library, which turns a panic of a macro into an
  error; the macros are functions here.
\<close>

subsection \<open>Facts\<close>

record NetworkInterfaces =
  ni_Name :: string
  ni_Ip4 :: "string list"
  ni_Ip6 :: "string list"

record HostFactsManager =
  fm_Hostname :: string
  fm_Interfaces :: "(string \<times> NetworkInterfaces) list"

definition zero_NetworkInterfaces :: NetworkInterfaces where
  "zero_NetworkInterfaces = \<lparr>ni_Name = [], ni_Ip4 = [], ni_Ip6 = []\<rparr>"

text \<open>
  The addresses of an interface: \<open>parse\<close> is \<open>net.ParseCIDR\<close>, with whether the address is an IPv4 one.
  The conversion to \<open>sort.StringSlice\<close> does not sort, and no name is set.
\<close>

fun add_addresses :: "(string \<Rightarrow> (string \<times> bool) result) \<Rightarrow> string list \<Rightarrow> NetworkInterfaces \<Rightarrow> NetworkInterfaces result" where
  "add_addresses parse [] n = Inr n"
| "add_addresses parse (a # as) n =
     (case wrap_error ''invalid CIDR format'' (parse a) of
        Inl e \<Rightarrow> Inl e
      | Inr (ip, v4) \<Rightarrow>
          add_addresses parse as
            (if v4 then n\<lparr>ni_Ip4 := ni_Ip4 n @ [ip]\<rparr> else n\<lparr>ni_Ip6 := ni_Ip6 n @ [ip]\<rparr>))"

fun GetInterfaceIPs ::
    "(string \<Rightarrow> (string \<times> bool) result) \<Rightarrow> (string \<times> string list result) list \<Rightarrow>
       (string \<times> NetworkInterfaces) list \<Rightarrow> (string \<times> NetworkInterfaces) list result" where
  "GetInterfaceIPs parse [] results = Inr results"
| "GetInterfaceIPs parse ((name, addrs) # is) results =
     (case addrs of
        Inl e \<Rightarrow> Inl e
      | Inr as \<Rightarrow>
     (case add_addresses parse as zero_NetworkInterfaces of
        Inl e \<Rightarrow> Inl e
      | Inr n \<Rightarrow> GetInterfaceIPs parse is (AList.update name n results)))"

definition NewHostFacts ::
    "string result \<Rightarrow> (string \<Rightarrow> (string \<times> bool) result) \<Rightarrow> (string \<times> string list result) list result \<Rightarrow> HostFactsManager result" where
  "NewHostFacts hostname parse interfaces =
     (case wrap_error ''error getting hostname'' hostname of
        Inl e \<Rightarrow> Inl e
      | Inr h \<Rightarrow>
     (case wrap_error ''error getting network interfaces''
             (case interfaces of Inl e \<Rightarrow> Inl e | Inr is \<Rightarrow> GetInterfaceIPs parse is []) of
        Inl e \<Rightarrow> Inl e
      | Inr networks \<Rightarrow> Inr \<lparr>fm_Hostname = h, fm_Interfaces = networks\<rparr>))"

datatype fact =
    FactString string
  | FactInterfaces "(string \<times> NetworkInterfaces) list"
  | FactInterface NetworkInterfaces
  | FactAddresses "string list"

definition is_digit :: "char \<Rightarrow> bool" where
  "is_digit c \<longleftrightarrow> of_char c \<ge> (48 :: nat) \<and> of_char c \<le> (57 :: nat)"

definition decimal_value :: "string \<Rightarrow> int" where
  "decimal_value s = foldl (\<lambda>n c. 10 * n + (of_char c - 48)) 0 s"

text \<open>\<open>strconv.Atoi\<close>: an optional sign, digits, and a value an \<open>int\<close> can hold.\<close>

definition Atoi :: "string \<Rightarrow> int option" where
  "Atoi s =
     (let neg = prefix ''-'' s; ds = (if neg \<or> prefix ''+'' s then tl s else s);
          n = (if neg then - decimal_value ds else decimal_value ds)
      in if ds = [] \<or> \<not> list_all is_digit ds \<or> int64 n \<noteq> n then None else Some n)"

text \<open>A slice at an index: out of range is a panic.\<close>

definition slice_at :: "string list \<Rightarrow> int \<Rightarrow> string result" where
  "slice_at xs i =
     (if 0 \<le> i \<and> i < int (length xs) then Inr (xs ! nat i) else Inl (Panic ''index out of range''))"

definition interface_of :: "HostFactsManager \<Rightarrow> string \<Rightarrow> NetworkInterfaces" where
  "interface_of f name =
     (case map_of (fm_Interfaces f) name of None \<Rightarrow> zero_NetworkInterfaces | Some n \<Rightarrow> n)"

definition Facts_Lookup :: "HostFactsManager \<Rightarrow> string \<Rightarrow> fact result" where
  "Facts_Lookup f arg =
     (let input = Split arg ''.'' in
      if hd input = ''hostname'' then Inr (FactString (fm_Hostname f))
      else if hd input = ''interface'' then
        (case tl input of
           [] \<Rightarrow> Inr (FactInterfaces (fm_Interfaces f))
         | [name] \<Rightarrow> Inr (FactInterface (interface_of f name))
         | [name, ip] \<Rightarrow>
             (if ip = ''ip4'' then Inr (FactAddresses (ni_Ip4 (interface_of f name)))
              else if ip = ''ip6'' then Inr (FactAddresses (ni_Ip6 (interface_of f name)))
              else Inl (ErrMsg ''invalid ip type''))
         | [name, ip, n] \<Rightarrow>
             (case Atoi n of
                None \<Rightarrow> Inl (ErrMsg ''invalid interface index'')
              | Some i \<Rightarrow>
                  (if ip = ''ip4'' then map_sum (\<lambda>e. e) FactString (slice_at (ni_Ip4 (interface_of f name)) i)
                   else if ip = ''ip6'' then map_sum (\<lambda>e. e) FactString (slice_at (ni_Ip6 (interface_of f name)) i)
                   else Inl (ErrMsg ''invalid fact lookup'')))
         | _ \<Rightarrow> Inl (ErrMsg ''invalid fact lookup''))
      else Inl (ErrMsg ''invalid fact lookup''))"

definition GetInterfaces :: "HostFactsManager \<Rightarrow> string list" where
  "GetInterfaces f = map fst (fm_Interfaces f)"

subsection \<open>Macros\<close>

definition m_dataDir :: "ExecutorConfig \<Rightarrow> string \<Rightarrow> string" where
  "m_dataDir c arg = JoinPath [JoinPath [ec_MateriaDir c, ''components''], arg]"

definition m_quadletDir :: "ExecutorConfig \<Rightarrow> string \<Rightarrow> string" where
  "m_quadletDir c arg = JoinPath [JoinPath [ec_QuadletDir c, ''components''], arg]"

definition m_outputDir :: "ExecutorConfig \<Rightarrow> string \<Rightarrow> string" where
  "m_outputDir c arg = ec_OutputDir c"

definition m_scriptsDir :: "ExecutorConfig \<Rightarrow> string \<Rightarrow> string" where
  "m_scriptsDir c arg = ec_ScriptsDir c"

definition m_serviceDir :: "ExecutorConfig \<Rightarrow> string \<Rightarrow> string" where
  "m_serviceDir c arg = ec_ServiceDir c"

text \<open>\<open>val.(string)\<close> panics for an attribute that is no string.\<close>

definition m_default :: "any_map \<Rightarrow> string \<Rightarrow> string \<Rightarrow> string result" where
  "m_default vars arg def =
     (case map_of vars arg of
        None \<Rightarrow> Inr def
      | Some (AnyString s) \<Rightarrow> Inr s
      | Some v \<Rightarrow> Inl (Panic ''interface conversion''))"

definition m_exists :: "any_map \<Rightarrow> string \<Rightarrow> bool" where
  "m_exists vars arg \<longleftrightarrow> map_of vars arg \<noteq> None"

definition m_isRoot :: "string \<Rightarrow> bool \<Rightarrow> bool" where
  "m_isRoot username rootless \<longleftrightarrow> username = ''root'' \<or> \<not> rootless"

text \<open>\<open>secretEnv\<close> and \<open>secretMount\<close> differ in the type they write.\<close>

definition secret_option :: "string \<Rightarrow> (string \<Rightarrow> string) \<Rightarrow> string list \<Rightarrow> string" where
  "secret_option kind SecretName args =
     (case args of
        [] \<Rightarrow> []
      | [a] \<Rightarrow> ''Secret='' @ SecretName a @ '',type='' @ kind @ '',target='' @ a
      | a # b # as \<Rightarrow> ''Secret='' @ SecretName a @ '',type='' @ kind @ '',target='' @ b)"

definition m_secretEnv :: "(string \<Rightarrow> string) \<Rightarrow> string list \<Rightarrow> string" where
  "m_secretEnv = secret_option ''env''"

definition m_secretMount :: "(string \<Rightarrow> string) \<Rightarrow> string list \<Rightarrow> string" where
  "m_secretMount = secret_option ''mount''"

text \<open>\<open>snippet\<close> gives every parameter its argument; too few panic, and what is left over is ignored.\<close>

record 't Snippet =
  si_Name :: string
  si_Parameters :: "string list"
  si_Body :: 't

definition configToSnippet :: "(string \<Rightarrow> string \<Rightarrow> 't result) \<Rightarrow> SnippetConfig \<Rightarrow> 't Snippet result" where
  "configToSnippet parse c =
     (case parse (sn_Name c) (sn_Body c) of
        Inl e \<Rightarrow> Inl e
      | Inr t \<Rightarrow> Inr \<lparr>si_Name = sn_Name c, si_Parameters = sn_Parameters c, si_Body = t\<rparr>)"

definition snippet_vars :: "string list \<Rightarrow> string list \<Rightarrow> (string \<times> string) list result" where
  "snippet_vars params args =
     (if length args < length params then Inl (Panic ''index out of range'')
      else Inr (fold (\<lambda>(p, a). AList.update p a) (zip params args) []))"

definition m_snippet ::
    "('t \<Rightarrow> (string \<times> string) list \<Rightarrow> string result) \<Rightarrow> (string \<times> 't Snippet) list \<Rightarrow> string \<Rightarrow> string list \<Rightarrow> string result" where
  "m_snippet execute snippets name args =
     (case map_of snippets name of
        None \<Rightarrow> Inl (ErrMsg ''snippet not found'')
      | Some s \<Rightarrow>
     (case snippet_vars (si_Parameters s) args of
        Inl e \<Rightarrow> Inl e
      | Inr vars \<Rightarrow> execute (si_Body s) vars))"

text \<open>The snippets of the manifest go over the default ones; a body that does not parse is an error.\<close>

definition default_snippets :: "(string \<Rightarrow> 't) \<Rightarrow> (string \<times> 't Snippet) list" where
  "default_snippets must =
     [(''onBoot'', \<lparr>si_Name = ''onBoot'', si_Parameters = [],
         si_Body = must (''[Install]'' @ [CHR 0x0A] @ ''WantedBy=default.target'')\<rparr>),
      (''harden'', \<lparr>si_Name = ''harden'', si_Parameters = [],
         si_Body = must (''DropCapability=ALL'' @ [CHR 0x0A] @ ''ReadOnly=true'' @ [CHR 0x0A, CHR 0x0A] @ ''NoNewPrivileges=true'')\<rparr>)]"

fun add_snippets ::
    "(string \<Rightarrow> string \<Rightarrow> 't result) \<Rightarrow> SnippetConfig list \<Rightarrow> (string \<times> 't Snippet) list \<Rightarrow> (string \<times> 't Snippet) list result" where
  "add_snippets parse [] snips = Inr snips"
| "add_snippets parse (c # cs) snips =
     (case wrap_error ''can't generate snippet from config'' (configToSnippet parse c) of
        Inl e \<Rightarrow> Inl e
      | Inr s \<Rightarrow> add_snippets parse cs (AList.update (si_Name s) s snips))"

subsection \<open>Looking up an address\<close>

lemma Split_ends: "c \<notin> set u \<Longrightarrow> Split u [c] = [u]"
  by (rule Split_no_sep) simp_all

lemma Split_interface:
  assumes "CHR ''.'' \<notin> set name" and "CHR ''.'' \<notin> set ip" and "CHR ''.'' \<notin> set n"
  shows "Split (''interface.'' @ name @ ''.'' @ ip @ ''.'' @ n) ''.'' = [''interface'', name, ip, n]"
  using Split_char [of "CHR ''.''" "''interface''" "name @ ''.'' @ ip @ ''.'' @ n"]
    Split_char [of "CHR ''.''" name "ip @ ''.'' @ n"] Split_char [of "CHR ''.''" ip n] assms
  by (simp add: Split_ends)

lemma Atoi_no_dot: "Atoi s = Some i \<Longrightarrow> CHR ''.'' \<notin> set s"
proof
  assume i: "Atoi s = Some i" and dot: "CHR ''.'' \<in> set s"
  let ?ds = "if prefix ''-'' s \<or> prefix ''+'' s then tl s else s"
  from i have "list_all is_digit ?ds" unfolding Atoi_def Let_def by (metis option.distinct(1))
  moreover have "CHR ''.'' \<in> set ?ds" using dot by (cases s) auto
  ultimately have "is_digit (CHR ''.'')" by (auto simp: list_all_iff split: if_splits)
  then show False by (simp add: is_digit_def)
qed



subsection \<open>The directories the macros name\<close>

text \<open>
  \<open>m_dataDir\<close> of a component is the directory its files are installed into, and \<open>m_quadletDir\<close> is not
  the one its quadlets are installed into: it has a \<open>components\<close> between the two.
\<close>

theorem macro_directories:
  assumes made: "NewHostManager_files c fs = (Inr r, fs')"
    and dirs: "ec_MateriaDir ec = hmc_DataDir c" "ec_QuadletDir ec = hmc_QuadletDir c"
    and rooted: "prefix ''/'' (hmc_DataDir c)" "prefix ''/'' (hmc_QuadletDir c)" and name: "good_elem name"
  shows "elems (m_dataDir ec name) = elems (JoinPath [hr_DataPrefix r, name]) \<and>
    elems (m_quadletDir ec name) = elems (hr_QuadletPrefix r) @ [''components'', name] \<and>
    elems (JoinPath [hr_QuadletPrefix r, name]) = elems (hr_QuadletPrefix r) @ [name]"
proof -
  have r: "hr_DataPrefix r = JoinPath [hmc_DataDir c, ''components'']" "hr_QuadletPrefix r = hmc_QuadletDir c"
    using made by (auto simp: NewHostManager_files_def NewHostComponentRepository_def split: prod.splits sum.splits option.splits)
  have good: "good_elem ''components''" by (simp add: good_elem_def)
  show ?thesis using rooted name good
    by (simp add: m_dataDir_def m_quadletDir_def dirs r elems_JoinPath2 JoinPath_rooted good_elem_path Split_good)
qed

definition demo_host_dirs :: HostmanConfig where
  "demo_host_dirs = \<lparr>hmc_DataDir = ''/data'', hmc_QuadletDir = ''/quadlets'', hmc_ScriptsDir = ''/scripts'', hmc_ServicesDir = ''/units''\<rparr>"

definition demo_exec_dirs :: ExecutorConfig where
  "demo_exec_dirs = \<lparr>ec_CleanupComponents = False, ec_MateriaDir = ''/data'', ec_QuadletDir = ''/quadlets'',
     ec_ScriptsDir = ''/scripts'', ec_ServiceDir = ''/units'', ec_OutputDir = ''/out''\<rparr>"

theorem macro_directories_witness:
  "elems (m_quadletDir demo_exec_dirs ''web'') = [''quadlets'', ''components'', ''web''] \<and>
   elems (JoinPath [''/quadlets'', ''web'']) = [''quadlets'', ''web'']"
proof -
  let ?fs = "[([''data''], Directory)]"
  let ?made = "NewHostManager_files demo_host_dirs ?fs"
  let ?r = "\<lparr>hr_DataPrefix = JoinPath [''/data'', ''components''], hr_QuadletPrefix = ''/quadlets''\<rparr>"
  have "fst ?made = Inr ?r" by code_simp
  then have "?made = (Inr ?r, snd ?made)" by (metis prod.collapse)
  from macro_directories [OF this, of demo_exec_dirs "''web''"] show ?thesis
    by (simp add: demo_exec_dirs_def demo_host_dirs_def good_elem_def elems_def)
qed

end
