(* ===== verification/MateriaFacts.thy ===== *)
theory MateriaFacts
  imports Materia RepositoryTrips
begin

section \<open>What materia does as a whole\<close>

text \<open>
  What a plan of materia is known to have, who cannot get one, and what an execution reports.  The
  witnesses run on a host that only logs what is done to it.
\<close>

subsection \<open>A sample\<close>

definition demo_lock :: "string list Lock" where
  "demo_lock = \<lparr>lo_LockOrWait = (\<lambda>h. (None, h @ [''lock''])), lo_Unlock = (\<lambda>h. (None, h @ [''unlock'']))\<rparr>"

definition demo_host_manager :: "string list HostManager" where
  "demo_host_manager =
     \<lparr>hs_reader = (\<lambda>h. demo_reader web_manifest web_files), hs_secrets = (\<lambda>h. demo_secrets), hs_state = (\<lambda>h. demo_host),
      hs_ListComponentNames = (\<lambda>h. Inr []), hs_PurgeComponentByName = (\<lambda>n h. (None, h @ [''purge '' @ n])),
      hs_Clean = (\<lambda>h. (None, h @ [''clean'']))\<rparr>"

definition demo_materia :: "string \<Rightarrow> (string list, string) Materia" where
  "demo_materia hostname =
     \<lparr>mt_Host = demo_host_manager, mt_Source = (\<lambda>h. demo_reader web_manifest web_files),
      mt_Manifest = \<lparr>mm_Hosts = [(''all'', \<lparr>mh_Components = [''web''], mh_Roles = [], mh_Overrides = [], mh_Extensions = []\<rparr>),
         (''alpha'', \<lparr>mh_Components = [], mh_Roles = [], mh_Overrides = [], mh_Extensions = []\<rparr>)],
        mm_Snippets = [], mm_Roles = [], mm_RoleCommand = []\<rparr>,
      mt_Executor = logging_executor, mt_Planner = DefaultPlannerConfig, mt_Vault = demo_engine [],
      mt_Hostname = hostname, mt_Roles = [], mt_Lock = Some demo_lock, mt_Rollback = True, mt_appMode = False,
      mt_RemoveOutputDir = (\<lambda>h. (None, h)), mt_render = plain_render, mt_units = plain_parser, mt_diff = demo_diff,
      mt_order = (\<lambda>x. x), mt_order' = (\<lambda>x. x)\<rparr>"

subsection \<open>Plans\<close>

lemma load_all_Inr: "load_all f ns = Inr cs \<longleftrightarrow> map f ns = map Inr cs"
proof (induction ns arbitrary: cs)
  case Nil
  then show ?case by (auto simp: load_all_def)
next
  case (Cons n ns)
  have "load_all f (n # ns) = (case f n of Inl e \<Rightarrow> Inl e | Inr c \<Rightarrow>
      (case load_all f ns of Inl e \<Rightarrow> Inl e | Inr cs \<Rightarrow> Inr (c # cs)))"
    by (simp add: load_all_def split: sum.split)
  with Cons show ?case by (cases cs) (auto split: sum.splits)
qed

lemma plan_locked_Inr:
  "plan_locked m h = Inr p \<longleftrightarrow>
     (\<exists>names installed assigned. ListInstalledComponents (mt_Host m) h = Inr names \<and>
        map (load_installed m h) names = map Inr installed \<and>
        map (load_assigned m h) (GetAssignedComponents m) = map Inr assigned \<and>
        planner_plan m h installed assigned = Inr p \<and>
        Pipeline_Validate (NewDefaultValidationPipeline names) p = None)"
  by (auto simp: plan_locked_def load_all_Inr wrap_error_Inl split: sum.splits option.splits) (metis load_all_Inr sum.distinct(1))+

lemma Materia_Plan_Inr:
  "Materia_Plan m h = (Inr p, h') \<longleftrightarrow> (\<exists>h1. lock m h = (None, h1) \<and> h' = unlock m h1 \<and> plan_locked m h1 = Inr p)"
  by (auto simp: Materia_Plan_def split: prod.splits option.splits)

text \<open>
  C23: A plan that is returned was made under the lock, which is released, and satisfies the validators'
  conditions for the installed components.
\<close>

theorem Materia_Plan_sound:
  assumes "Materia_Plan m h = (Inr p, h')"
  shows "\<exists>h1 names. lock m h = (None, h1) \<and> h' = unlock m h1 \<and>
    ListInstalledComponents (mt_Host m) h1 = Inr names \<and> sound_steps names (Steps p)"
proof -
  from assms obtain h1 where l: "lock m h = (None, h1)" "h' = unlock m h1" "plan_locked m h1 = Inr p"
    by (auto simp: Materia_Plan_Inr)
  then obtain names where "ListInstalledComponents (mt_Host m) h1 = Inr names"
    "Pipeline_Validate (NewDefaultValidationPipeline names) p = None" by (auto simp: plan_locked_Inr)
  with l show ?thesis by (auto simp: Pipeline_Validate_def default_pipeline_iff)
qed

lemma demo_materia_plans:
  "Materia_Plan (demo_materia ''alpha'') [] = (Inr (projr (fst (Materia_Plan (demo_materia ''alpha'') []))), [''lock'', ''unlock''])"
  by code_simp

theorem Materia_Plan_sound_witness:
  "\<exists>names. sound_steps names (Steps (projr (fst (Materia_Plan (demo_materia ''alpha'') []))))"
  using Materia_Plan_sound [OF demo_materia_plans] by blast

text \<open>
  A host that the manifest does not list cannot be planned as soon as it is assigned a component, be it
  through its roles or the entry \<open>all\<close>: looking for overrides fails with an error other than the one that
  is let pass.
\<close>

theorem unlisted_host_cannot_plan:
  assumes "map_of (mm_Hosts (mt_Manifest m)) (mt_Hostname m) = None" and "GetAssignedComponents m \<noteq> []"
  shows "\<exists>e h'. Materia_Plan m h = (Inl e, h')"
proof -
  obtain n where n: "n \<in> set (GetAssignedComponents m)" using assms(2) by (cases "GetAssignedComponents m") auto
  have "\<exists>e. load_assigned m h1 n = Inl e" for h1
    using assms(1) by (auto simp: load_assigned_def load_source_def GetComponentOverride_def if_assigned_def split: sum.split)
  then have "\<nexists>cs. map (load_assigned m h1) (GetAssignedComponents m) = map Inr cs" for h1
    using n by (metis (no_types, lifting) in_set_conv_nth length_map nth_map sum.distinct(1))
  then have "\<exists>e. plan_locked m h1 = Inl e" for h1
    by (cases "plan_locked m h1") (auto simp: plan_locked_Inr)
  then show ?thesis
    by (cases "lock m h"; cases "fst (lock m h)") (auto simp: Materia_Plan_def)
qed

theorem unlisted_host_cannot_plan_witness: "\<exists>e h'. Materia_Plan (demo_materia ''beta'') [] = (Inl e, h')"
  by (rule unlisted_host_cannot_plan; code_simp)

subsection \<open>Reports\<close>

text \<open>
  A run is reported as one to roll back exactly when it had the lock, roll-backs are configured and the
  executor ended with unhealthy services; the report then has the steps it completed.
\<close>

theorem rollback_reported_iff:
  assumes "Materia_Execute m p h = ((rep, err), h')"
  shows "er_Rolledback rep \<longleftrightarrow>
    (\<exists>h1 steps e a h2. lock m h = (None, h1) \<and> execute_plan m p h1 = ((steps, Some e), h2) \<and>
       mt_Rollback m \<and> as_unhealthy e = Some a \<and> rep = \<lparr>er_StepsCompleted = steps, er_Rolledback = True, er_Error = Some a\<rparr> \<and>
       err = Some (ErrSentinel ErrNeedRollback))"
  using assms
  by (auto simp: Materia_Execute_def report_def zero_ExecutionReport_def Let_def
      split: prod.splits option.splits bool.splits)

lemma demo_materia_executes:
  "Materia_Execute (demo_materia ''alpha'') hello_plan [] =
     ((\<lparr>er_StepsCompleted = 3, er_Rolledback = True,
        er_Error = Some (ErrServiceUnhealthy ''hello.service'' (ErrSentinel ErrStateChangeFailed))\<rparr>,
       Some (ErrSentinel ErrNeedRollback)),
      [''lock'', ''service old.service'', ''install hello.container'', ''service '', ''unlock''])"
  by code_simp

theorem rollback_reported_iff_witness:
  "\<exists>h1 steps e a h2. lock (demo_materia ''alpha'') [] = (None, h1) \<and>
     execute_plan (demo_materia ''alpha'') hello_plan h1 = ((steps, Some e), h2) \<and> as_unhealthy e = Some a \<and> steps = 3"
proof -
  from rollback_reported_iff [OF demo_materia_executes] show ?thesis by auto
qed

end
