(* ===== verification/Commands.thy ===== *)
theory Commands
  imports Notify HostFacts MateriaFacts
begin

section \<open>The command line (cmd/materia/main.go, setup.go, internal/materia/materia.go)\<close>

text \<open>
  The actions of the commands as operations on the host and on the source manager, which keeps the reports
  of the syncs.  Parsing the command line and printing are not modelled; what a command prints is a value
  where it is more than a message.
\<close>

subsection \<open>Setting up\<close>

definition make_dir :: "string \<Rightarrow> string \<Rightarrow> fs operation" where
  "make_dir msg p fs =
     (case Mkdir p fs of
        (Some e, fs') \<Rightarrow> (if e = ErrMsg ''file exists'' then (None, fs') else (Some (ErrWrapped msg e), fs'))
      | (None, fs') \<Rightarrow> (None, fs'))"

definition setupDirectories :: "MateriaConfig \<Rightarrow> fs operation" where
  "setupDirectories c =
     then_op (make_dir ''error creating prefix'' (JoinPath [cfg_MateriaDir c]))
    (then_op (make_dir ''error creating output dir'' (cfg_OutputDir c))
    (then_op (make_dir ''error creating source repo'' (cfg_SourceDir c))
    (then_op (wrap_op ''error creating source repo'' (MkdirAll (elems (JoinPath [cfg_RemoteDir c, ''components'']))))
      (make_dir ''error creating components in prefix'' (JoinPath [cfg_MateriaDir c, ''components''])))))"

definition getLocalRepo ::
    "'v koanf \<Rightarrow> 'c source_kit \<Rightarrow> 'v conf \<Rightarrow> fs \<Rightarrow> string \<Rightarrow> 'c HostState Source result" where
  "getLocalRepo K kit k fs sourceDir =
     (let raw = Cut k ''source''; url = k_String K raw ''url''; kind = k_String K raw ''kind'' in
      case SourceConfig_Validate \<lparr>sc_URL = url, sc_Kind = kind\<rparr> of
        Some e \<Rightarrow> Inl e
      | None \<Rightarrow>
          (if kind = ''git'' then
             (case wrap_error ''invalid git source'' (NewGitSource (sk_env kit) (Some (NewGitConfig K k sourceDir url))) of
                Inl e \<Rightarrow> Inl e | Inr g \<Rightarrow> Inr (git_source (sk_git kit) g))
           else if kind = ''file'' then
             (case wrap_error ''error creating file config'' (NewFileConfig sourceDir url) of
                Inl e \<Rightarrow> Inl e
              | Inr c \<Rightarrow>
                  (case wrap_error ''invalid file source'' (NewFileSource fs c) of
                     Inl e \<Rightarrow> Inl e | Inr f \<Rightarrow> Inr (file_source f)))
           else if kind = ''oci'' then
             (case wrap_error ''invalid OCI source'' (NewOCISource (Some (NewOciConfig K k sourceDir url))) of
                Inl e \<Rightarrow> Inl e | Inr img \<Rightarrow> Inr (oci_source (sk_registry kit) img))
           else Inl (ErrMsg ''invalid source URL'')))"

text \<open>
  What \<open>setup\<close> does with a configuration up to the host manager; \<open>serverMateria\<close> does the same, always
  syncs and has another message (\<open>remotes_error\<close>) for the remotes.
\<close>

definition setup_sources ::
    "'v koanf \<Rightarrow> 'c source_kit \<Rightarrow> 'v conf \<Rightarrow> bool \<Rightarrow> string \<Rightarrow> MateriaConfig \<Rightarrow>
       ('c HostState, 'c HostState SourceManager) query" where
  "setup_sources K kit k sync remotes_error c h =
     (case MateriaConfig_Validate c of
        Some e \<Rightarrow> (Inl (ErrWrapped ''error validating config'' e), h)
      | None \<Rightarrow>
     (case on_files (wrap_op ''error creating base directories'' (setupDirectories c)) h of
        (Some e, h1) \<Rightarrow> (Inl e, h1)
      | (None, h1) \<Rightarrow>
     (case getLocalRepo K kit k (hst_files h1) (cfg_SourceDir c) of
        Inl e \<Rightarrow> (Inl e, h1)
      | Inr mainRepo \<Rightarrow>
     (case NewSourceManager (hst_files h1) (cfg_SourceDir c) (cfg_RemoteDir c) of
        Inl e \<Rightarrow> (Inl e, h1)
      | Inr sm0 \<Rightarrow>
          (let sm = AddSource mainRepo None None True sm0 in
           if \<not> sync then (Inr sm, h1)
           else case SourceManager_Sync None sm h1 of
             ((Some e, sm'), h2) \<Rightarrow> (Inl (ErrWrapped ''error with initial repo sync'' e), h2)
           | ((None, sm'), h2) \<Rightarrow>
               (case LoadRemotes kit sm' h2 of
                  ((Some e, sm''), h3) \<Rightarrow> (Inl (ErrWrapped remotes_error e), h3)
                | ((None, sm''), h3) \<Rightarrow> (Inr sm'', h3)))))))"

text \<open>The engines of \<open>setupVault\<close> are made in this order; naming one leaves out the others.\<close>

fun pick_vaults :: "string \<Rightarrow> (string \<times> engine result option) list \<Rightarrow> engine list \<Rightarrow> (engine + engine list) result" where
  "pick_vaults attrs [] vaults = Inr (Inr vaults)"
| "pick_vaults attrs ((name, None) # rest) vaults = pick_vaults attrs rest vaults"
| "pick_vaults attrs ((name, Some (Inl e)) # rest) vaults = Inl (ErrWrapped (''error creating '' @ name @ '' store'') e)"
| "pick_vaults attrs ((name, Some (Inr v)) # rest) vaults =
     (if attrs = name then Inr (Inl v) else pick_vaults attrs rest (vaults @ [v]))"

definition setupVault ::
    "(AgeConfig \<Rightarrow> engine result) \<Rightarrow> (FileStoreConfig \<Rightarrow> engine result) \<Rightarrow> (SopsConfig \<Rightarrow> engine result) \<Rightarrow>
       MateriaConfig \<Rightarrow> engine result" where
  "setupVault age file sops c =
     (case pick_vaults (cfg_Attributes c)
             [(''age'', map_option age (cfg_AgeConfig c)), (''file'', map_option file (cfg_FileConfig c)),
              (''sops'', map_option sops (cfg_SopsConfig c))] [] of
        Inl e \<Rightarrow> Inl e
      | Inr (Inl v) \<Rightarrow> Inr v
      | Inr (Inr vs) \<Rightarrow>
          (if vs = [] then Inr (MemoryEngine_Lookup []) else map_sum (\<lambda>e. e) MultiVault_Lookup (NewMultiVaultEngine vs)))"

text \<open>
  \<open>NewMateria\<close> fills in what the configuration and the manifest say; \<open>base\<close> has the host, the source and
  the libraries.  The locks are made by \<open>dbus\<close> and \<open>lockfile\<close>; \<open>run\<close> runs the command of the roles.
\<close>

definition NewMateria_lock ::
    "(string \<Rightarrow> 'h Lock result) \<Rightarrow> (string \<Rightarrow> 'h Lock result) \<Rightarrow> MateriaConfig \<Rightarrow> 'h Lock option result" where
  "NewMateria_lock dbus lockfile c =
     (if cfg_Lock c = ''dbus'' then
        map_sum (\<lambda>e. e) Some (wrap_error ''unable to create dbus locker''
          (dbus (case cfg_ServicesConfig c of None \<Rightarrow> [] | Some sc \<Rightarrow> sf_DbusSocket sc)))
      else if cfg_Lock c = ''file'' then
        map_sum (\<lambda>e. e) Some (wrap_error ''unable to create file locker'' (lockfile (JoinPath [cfg_MateriaDir c, ''lockfile''])))
      else Inr None)"

definition NewMateria ::
    "(string \<Rightarrow> 'h Lock result) \<Rightarrow> (string \<Rightarrow> 'h Lock result) \<Rightarrow> (string \<Rightarrow> string list result) \<Rightarrow>
       (string \<Rightarrow> string \<Rightarrow> 't result) \<Rightarrow> MateriaConfig \<Rightarrow> string \<Rightarrow> MateriaManifest result \<Rightarrow> engine \<Rightarrow>
       ('h, 'u) Materia \<Rightarrow> ('h, 'u) Materia result" where
  "NewMateria dbus lockfile run parse c hostname manifest vault base =
     (case MateriaConfig_Validate c of
        Some e \<Rightarrow> Inl (ErrWrapped ''invalid materia config'' e)
      | None \<Rightarrow>
     (case wrap_error ''error loading manifest'' manifest of
        Inl e \<Rightarrow> Inl e
      | Inr man \<Rightarrow>
     (case MateriaManifest_Validate man of
        Some e \<Rightarrow> Inl (ErrWrapped ''invalid materia manifest'' e)
      | None \<Rightarrow>
     (case add_snippets parse (mm_Snippets man) [] of
        Inl e \<Rightarrow> Inl e
      | Inr snips \<Rightarrow>
     (let name = (if cfg_Hostname c = [] then hostname else cfg_Hostname c) in
      case (if cfg_Roles c = [] then wrap_error ''unable to load roles form manifest'' (getRolesFromManifest run man name)
            else Inr (cfg_Roles c)) of
        Inl e \<Rightarrow> Inl e
      | Inr roles \<Rightarrow>
     (case NewMateria_lock dbus lockfile c of
        Inl e \<Rightarrow> Inl e
      | Inr l \<Rightarrow>
     (case NewNotifier (case cfg_NotifyConfig c of None \<Rightarrow> \<lparr>nf_Triggers = []\<rparr> | Some nc \<Rightarrow> nc) of
        Inl e \<Rightarrow> Inl e
      | Inr nc \<Rightarrow>
          Inr (base\<lparr>mt_Manifest := man, mt_Vault := vault, mt_Hostname := name, mt_Roles := roles, mt_Lock := l,
            mt_appMode := cfg_AppMode c,
            mt_Planner := (case cfg_PlannerConfig c of None \<Rightarrow> DefaultPlannerConfig | Some pc \<Rightarrow> pc),
            mt_Executor := (mt_Executor base)
              \<lparr>ex_conf := (case cfg_ExecutorConfig c of None \<Rightarrow> zero_ExecutorConfig | Some ec \<Rightarrow> ec),
               ex_defaultTimeout := (case cfg_ServicesConfig c of None \<Rightarrow> 0 | Some sc \<Rightarrow> sf_Timeout sc)\<rparr>,
            mt_Rollback := (case cfg_RollbackConfig c of None \<Rightarrow> False | Some rc \<Rightarrow> rb_Kind rc \<noteq> [])\<rparr>))))))))"

subsection \<open>Saving a plan\<close>

text \<open>What the file of a plan holds; the lines are the plan's pretty ones.\<close>

record change =
  ch_ResourceName :: string
  ch_Before :: string
  ch_After :: string

record planOutput =
  po_Plan :: Plan
  po_ChangedResources :: "change list"

record 'h console =
  cl_http :: "string \<Rightarrow> string \<Rightarrow> 'h operation"
  cl_notify :: NotifyConfig
  cl_OutputDir :: string
  cl_create :: "string \<Rightarrow> 'h operation"
  cl_encode :: "string \<Rightarrow> planOutput \<Rightarrow> 'h operation"
  cl_text1 :: "Diff list option \<Rightarrow> string"
  cl_text2 :: "Diff list option \<Rightarrow> string"
  cl_ToJson :: "Plan \<Rightarrow> string result"

definition plan_output :: "'h console \<Rightarrow> Plan \<Rightarrow> planOutput" where
  "plan_output C p =
     \<lparr>po_Plan = p,
      po_ChangedResources =
        map (\<lambda>a. \<lparr>ch_ResourceName = res_Path (act_Target a), ch_Before = cl_text1 C (act_DiffContent a),
                  ch_After = cl_text2 C (act_DiffContent a)\<rparr>)
          (filter (\<lambda>a. act_Todo a = ActionUpdate) (Steps p))\<rparr>"

definition SavePlan :: "'h console \<Rightarrow> Plan \<Rightarrow> string \<Rightarrow> 'h operation" where
  "SavePlan C p outputfile =
     (let path = JoinPath [cl_OutputDir C, outputfile] in
      then_op (wrap_op ''unable to create file'' (cl_create C path))
        (wrap_op ''failed to encode plan to TOML'' (cl_encode C path (plan_output C p))))"

subsection \<open>The commands\<close>

datatype printed = NothingPrinted | NoChangesMade | PrettyPlan Plan | JsonPlan string

definition plan_command :: "'h console \<Rightarrow> ('h, 'u) Materia \<Rightarrow> bool \<Rightarrow> string \<Rightarrow> 'h \<Rightarrow> (go_error option \<times> printed) \<times> 'h" where
  "plan_command C m quiet format h =
     (case Materia_Plan m h of
        (Inl e, h') \<Rightarrow> ((Some (ErrWrapped ''error planning actions'' e), NothingPrinted), h')
      | (Inr p, h') \<Rightarrow>
          (let save = (\<lambda>out. case wrap_op ''error writing plan'' (SavePlan C p ''plan.toml'') h' of (e, h'') \<Rightarrow> ((e, out), h'')) in
           if quiet then save NothingPrinted
           else if format = ''text'' then
             (if Plan_Empty p then ((None, NoChangesMade), h') else save (PrettyPlan p))
           else if format = ''json'' then
             (case wrap_error ''error converting to json'' (cl_ToJson C p) of
                Inl e \<Rightarrow> ((Some e, NothingPrinted), h')
              | Inr j \<Rightarrow> save (JsonPlan j))
           else ((Some (ErrMsg ''unsupported output format''), NothingPrinted), h')))"

text \<open>The inner plan of the rollback is another variable: the outer one is what is saved.\<close>

definition rollback_update ::
    "'h console \<Rightarrow> ('h, 'u) Materia \<Rightarrow> 'h SourceManager \<Rightarrow> 'h \<Rightarrow> (go_error option \<times> 'h SourceManager) \<times> 'h" where
  "rollback_update C m s h =
     (case Notifier_Notify (cl_http C) (cl_notify C) NotifyRollback ''Rollback initiated'' h of
        (Some e, h1) \<Rightarrow> ((Some (ErrWrapped ''needed rollback but failed to send rollback notification'' e), s), h1)
      | (None, h1) \<Rightarrow>
     (case SourceManager_Rollback s h1 of
        ((Some e, s'), h2) \<Rightarrow> ((Some e, s'), h2)
      | ((None, s'), h2) \<Rightarrow>
     (case Materia_Plan m h2 of
        (Inl e, h3) \<Rightarrow> ((Some e, s'), h3)
      | (Inr p, h3) \<Rightarrow> (case Materia_Execute m p h3 of ((rep, err), h4) \<Rightarrow> ((err, s'), h4)))))"

definition update_command ::
    "'h console \<Rightarrow> ('h, 'u) Materia \<Rightarrow> 'h SourceManager \<Rightarrow> 'h \<Rightarrow> (go_error option \<times> 'h SourceManager) \<times> 'h" where
  "update_command C m s h =
     (case Materia_Plan m h of
        (Inl e, h1) \<Rightarrow> ((Some e, s), h1)
      | (Inr p, h1) \<Rightarrow>
     (case Materia_Execute m p h1 of
        ((rep, err), h2) \<Rightarrow>
     (case (case err of
              None \<Rightarrow> ((None, s), h2)
            | Some e \<Rightarrow> (if errors_is e ErrNeedRollback then rollback_update C m s h2 else ((Some e, s), h2))) of
        ((Some e, s'), h3) \<Rightarrow> ((Some e, s'), h3)
      | ((None, s'), h3) \<Rightarrow>
          (case wrap_op ''error writing plan'' (SavePlan C p ''lastrun.toml'') h3 of (e, h4) \<Rightarrow> ((e, s'), h4)))))"

definition remove_command :: "('h, 'u) Materia \<Rightarrow> string \<Rightarrow> 'h operation" where
  "remove_command m name h =
     (if name = [] then (Some (ErrMsg ''specify a component to remove''), h)
      else case CleanComponent m name h of
        (None, h') \<Rightarrow> (None, h')
      | (Some e, h') \<Rightarrow>
          (Some (if errors_is e ErrCorruptComponent then ErrMsg ''Component is corrupted, try `materia doctor` instead''
                 else ErrMsg ''error removing component''), h'))"

text \<open>The validate command reads the given directory as a file source and plans one component.\<close>

definition validate_flags :: "(string \<Rightarrow> 'v) \<Rightarrow> string \<Rightarrow> string \<Rightarrow> 'v conf" where
  "validate_flags value hostname source =
     (''source.url'', value (''file://'' @ (if source = [] then ''./'' else source))) #
     (if hostname \<noteq> [] then [(''hostname'', value hostname)] else [])"

definition validate_command ::
    "('h, 'u) Materia \<Rightarrow> 'h \<Rightarrow> string \<Rightarrow> string \<Rightarrow> string list option \<Rightarrow> go_error option" where
  "validate_command m h comp_name hostname roles =
     (if hostname = [] \<and> roles = None
      then Some (ErrMsg ''validate needs at least one of hostname or roles specified'')
      else case PlanComponent m h comp_name (case roles of None \<Rightarrow> [] | Some rs \<Rightarrow> rs) of
        Inl e \<Rightarrow> Some e
      | Inr p \<Rightarrow> None)"

definition doctor_command :: "'h HostManager \<Rightarrow> bool \<Rightarrow> 'h \<Rightarrow> (go_error option \<times> string list) \<times> 'h" where
  "doctor_command hm remove h =
     (case ValidateComponents hm h of
        Inl e \<Rightarrow> ((Some e, []), h)
      | Inr corrupted \<Rightarrow>
          (if remove then case each_op (hs_PurgeComponentByName hm) corrupted h of (e, h') \<Rightarrow> ((e, corrupted), h')
           else ((None, corrupted), h)))"

definition clean_command :: "('h, 'u) Materia \<Rightarrow> bool \<Rightarrow> 'h operation" where
  "clean_command m force = Materia_Clean m force"

end
