(* ===== verification/SourceFacts.thy ===== *)
theory SourceFacts
  imports SourceManager
begin

section \<open>Syncing and rolling back sources\<close>

text \<open>
  What a source with a revision promises the manager, that the git source keeps the promise over any
  library that behaves like go-git, and what a rollback of the manager leaves behind.
\<close>

subsection \<open>A source with revisions\<close>

text \<open>\<open>revision\<close> is the revision a state holds of the source, \<open>named\<close> which strings name one.\<close>

definition revision_name :: "string option \<Rightarrow> string" where
  "revision_name r = (case r of None \<Rightarrow> [] | Some v \<Rightarrow> v)"

locale revisioned =
  fixes S :: "'h Source"
    and revision :: "'h \<Rightarrow> string option"
    and named :: "string \<Rightarrow> bool"
  assumes revision_named: "revision h = Some v \<Longrightarrow> named v"
    and named_not_empty: "named v \<Longrightarrow> v \<noteq> []"
    and Sync_old: "sy_Sync S opts h = (Inr rep, h') \<Longrightarrow> sr_OldRevision rep = revision_name (revision h)"
    and Sync_to: "sy_Sync S opts h = (Inr rep, h') \<Longrightarrow> named (so_Revision opts) \<Longrightarrow> revision h' = Some (so_Revision opts)"
    and Clean_none: "sy_Clean S h = (None, h') \<Longrightarrow> revision h' = None"
begin

lemma rollback_back:
  assumes S: "sp_Source p = S" and rep: "sp_Report p = Some rep"
    and old: "sr_OldRevision rep = revision_name (revision h0)"
    and run: "rollback_source p h = (Inr p', h')"
  shows "revision h' = revision h0"
proof (cases "revision h0")
  case None
  with assms have "sy_Clean S h = (None, h')"
    by (auto simp: rollback_source_def revision_name_def query_Inr split: if_splits)
  with None show ?thesis by (simp add: Clean_none)
next
  case (Some v)
  then have v: "named v" "v \<noteq> []" using revision_named named_not_empty by blast+
  with assms Some obtain opts rep' where "sy_Sync S opts h = (Inr rep', h')" "so_Revision opts = v"
    by (auto simp: rollback_source_def revision_name_def query_Inr split: if_splits)
  with v Some show ?thesis by (auto dest: Sync_to)
qed

lemma sync_old:
  assumes "sp_Source p = S" and "sync_source opts p h = (Inr p', h')"
  shows "sp_Source p' = S" and "\<exists>rep. sp_Report p' = Some rep \<and> sr_OldRevision rep = revision_name (revision h)"
  using assms by (auto simp: sync_source_def query_Inr intro: Sync_old)

end

subsection \<open>The library\<close>

text \<open>
  \<open>clones h l\<close> is the repository at a path: the URLs of its remote and the commit of its head, if there is one.  A clone
  succeeds only where there is none, a checkout of a commit moves the head there, and a repository apart
  from the one at hand stays as it is.
\<close>

definition source_revision :: "('h \<Rightarrow> string \<Rightarrow> (string list \<times> string option) option) \<Rightarrow> GitSource \<Rightarrow> 'h \<Rightarrow> string option" where
  "source_revision clones g h =
     (case clones h (gs_localRepository g) of
        Some (urls, v) \<Rightarrow> (if gs_remoteRepository g \<in> set urls then v else None)
      | None \<Rightarrow> None)"

locale git_library =
  fixes A :: "'h git_api"
    and clones :: "'h \<Rightarrow> string \<Rightarrow> (string list \<times> string option) option"
    and named :: "string \<Rightarrow> bool"
  assumes head_named: "clones h l = Some (urls, Some v) \<Longrightarrow> named v"
    and named_not_empty: "named v \<Longrightarrow> v \<noteq> []"
    and Clone: "ga_PlainClone A l url auth h = (None, h') \<Longrightarrow>
        clones h l = None \<and> (\<exists>urls first. clones h' l = Some (urls, first) \<and> url \<in> set urls)"
    and Clone_exists: "ga_PlainClone A l url auth h = (Some e, h') \<Longrightarrow> errors_is e ErrRepositoryAlreadyExists \<Longrightarrow> h' = h"
    and Remote: "ga_Remote A l h = (Inr urls, h') \<Longrightarrow> \<exists>old. clones h l = Some (urls, old)"
    and Head: "ga_Head A l h = (Inr v, h') \<Longrightarrow> \<exists>urls. clones h l = Some (urls, Some v)"
    and Resolve: "ga_ResolveRevision A l v h = (Inr v', h') \<Longrightarrow> named v \<Longrightarrow> v' = v"
    and Checkout_hash: "ga_Checkout A l co h = (None, h') \<Longrightarrow> named (co_Hash co) \<Longrightarrow>
        clones h l = Some (urls, old) \<Longrightarrow> clones h' l = Some (urls, Some (co_Hash co))"
    and reads: "snd (ga_PlainOpen A l h) = h" "snd (ga_Remote A l h) = h" "snd (ga_Head A l h) = h"
      "snd (ga_Worktree A l h) = h" "snd (ga_ResolveRevision A l v h) = h" "snd (ga_Branches A l h) = h"
      "snd (ga_List A l h) = h"
    and Remove: "ga_RemoveAll A l h = (None, h') \<Longrightarrow> clones h' l = None"
    and frame: "apart_paths l l' \<Longrightarrow> clones (snd (ga_PlainClone A l url auth h)) l' = clones h l'"
      "apart_paths l l' \<Longrightarrow> clones (snd (ga_Checkout A l co h)) l' = clones h l'"
      "apart_paths l l' \<Longrightarrow> clones (snd (ga_Fetch A l specs auth h)) l' = clones h l'"
      "apart_paths l l' \<Longrightarrow> clones (snd (ga_Pull A l auth force h)) l' = clones h l'"
      "apart_paths l l' \<Longrightarrow> clones (snd (ga_HardReset A l v h)) l' = clones h l'"
      "apart_paths l l' \<Longrightarrow> clones (snd (ga_RemoveAll A l h)) l' = clones h l'"
begin

abbreviation is_at :: "string \<Rightarrow> (string list \<times> string option) option \<Rightarrow> 'h \<Rightarrow> bool" where
  "is_at l r h \<equiv> clones h l = r"

lemma keeps_apart [keeps_intros]:
  assumes "apart_paths l l'"
  shows "keeps (is_at l' r) (ga_PlainClone A l url auth)" "keeps (is_at l' r) (ga_Checkout A l co)"
    "keeps (is_at l' r) (ga_Fetch A l specs auth)" "keeps (is_at l' r) (ga_Pull A l auth force)"
    "keeps (is_at l' r) (ga_HardReset A l v)" "keeps (is_at l' r) (ga_RemoveAll A l)"
  using assms by (simp_all add: keeps_def frame)

lemma keeps_reads [keeps_intros]:
  "keeps P (ga_PlainOpen A l)" "keeps P (ga_Remote A l)" "keeps P (ga_Head A l)" "keeps P (ga_Worktree A l)"
  "keeps P (ga_ResolveRevision A l v)" "keeps P (ga_Branches A l)" "keeps P (ga_List A l)"
  by (simp_all add: keeps_def reads)

text \<open>What a library call answers to is followed by a branch on its error.\<close>

lemma keeps_case [keeps_intros]:
  assumes "keeps P f" and "keeps P g" and "\<And>e. keeps P (k e)"
  shows "keeps P (\<lambda>h. case f h of (None, h') \<Rightarrow> g h' | (Some e, h') \<Rightarrow> k e h')"
proof (rule keepsI)
  fix h assume "P h"
  moreover obtain e h' where f: "f h = (e, h')" by (cases "f h")
  ultimately have "P h'" using assms(1) by (metis keepsD snd_conv)
  then show "P (snd (case f h of (None, h') \<Rightarrow> g h' | (Some e, h') \<Rightarrow> k e h'))"
    using assms(2,3) f by (cases e) (auto intro: keepsD)
qed

lemma keeps_if_state [keeps_intros]: "keeps P f \<Longrightarrow> keeps P g \<Longrightarrow> keeps P (\<lambda>h. if c then f h else g h)"
  by (cases c) simp_all

lemma keeps_pair [keeps_intros]: "keeps P (\<lambda>h. (x, h))"
  by (simp add: keeps_def)

lemma keeps_answer [keeps_intros]: "keeps P f \<Longrightarrow> keeps P (\<lambda>h. case f h of (x, h') \<Rightarrow> (y x, h'))"
  by (simp add: keeps_def split: prod.split) (metis snd_conv)

lemma clone_apart:
  assumes sep: "apart_paths (gs_localRepository g) l'"
  shows "keeps (is_at l' r) (clone A g)" "keeps (is_at l' r) (GitSource_Clean A g)"
  using sep by (simp_all add: clone_def [abs_def] GitSource_Clean_def [abs_def] keeps_apart)

lemma library_apart [keeps_intros]:
  assumes sep: "apart_paths (gs_localRepository g) l'"
  shows "keeps (is_at l' r) (open_repo A g)" "keeps (is_at l' r) (fetchOrigin A g spec)"
    "keeps (is_at l' r) (HardReset A g)" "keeps (is_at l' r) (checkoutBranch A g branch subpath)"
    "keeps (is_at l' r) (checkoutRevision A g v)"
  unfolding open_repo_def fetchOrigin_def HardReset_def checkoutBranch_def Let_def checkoutRevision_def
  by (intro keeps_intros clone_apart sep)+

lemma keeps_branches [keeps_intros]:
  "keeps P (target_branch A g)" "keeps P (GetCurrentBranchFromRepository A l)"
  unfolding target_branch_def GetDefaultBranchFromRepository_def GetCurrentBranchFromRepository_def
  by (intro keeps_intros)+

lemma steps_apart [keeps_intros]:
  assumes sep: "apart_paths (gs_localRepository g) l'"
  shows "(\<And>b. keeps (is_at l' r) (checkout b)) \<Longrightarrow> keeps (is_at l' r) (switch_branch checkout A g)"
    and "keeps (is_at l' r) (createOrOpenRepo A g)" and "keeps (is_at l' r) (pull A g)"
  unfolding switch_branch_def createOrOpenRepo_def [abs_def] pull_def
  by (intro keeps_intros clone_apart sep; blast)+

lemma Sync_apart:
  assumes sep: "apart_paths (gs_localRepository g) l'"
  shows "keeps (is_at l' r) (GitSource_Sync A g opts)"
  unfolding GitSource_Sync_def ensureBranch_def
  by (intro keeps_intros sep)

subsection \<open>The git source keeps the promise\<close>

definition ours :: "GitSource \<Rightarrow> 'h \<Rightarrow> bool" where
  "ours g h \<longleftrightarrow> (\<exists>urls v. clones h (gs_localRepository g) = Some (urls, v) \<and> gs_remoteRepository g \<in> set urls)"

lemma read_answers:
  "ga_PlainOpen A l h = (x, h') \<Longrightarrow> h' = h"
  "ga_Remote A l h = (Inr urls, h') \<Longrightarrow> h' = h \<and> (\<exists>old. clones h l = Some (urls, old))"
  "ga_Head A l h = (Inr v, h') \<Longrightarrow> h' = h \<and> (\<exists>urls. clones h l = Some (urls, Some v))"
  "ga_Worktree A l h = (x, h') \<Longrightarrow> h' = h"
  "ga_ResolveRevision A l v h = (Inr v', h') \<Longrightarrow> h' = h \<and> (named v \<longrightarrow> v' = v)"
  using Remote Head Resolve by (metis reads snd_conv)+

lemma clone_ours:
  assumes "clone A g h = (None, h')"
  shows "source_revision clones g h = None" and "ours g h'"
  using Clone [OF assms [unfolded clone_def]] by (auto simp: source_revision_def ours_def)

lemma open_old:
  assumes "open_repo A g h = (Inr old, h')"
  shows "old = revision_name (source_revision clones g h) \<and> ours g h'"
  using assms
  by (auto simp: open_repo_def query_Inr then_op_None revision_name_def source_revision_def
      dest!: read_answers split: if_splits intro: clone_ours) (auto simp: ours_def)

lemma create_old:
  assumes "createOrOpenRepo A g h = (Inr old, h')"
  shows "old = revision_name (source_revision clones g h) \<and> ours g h'"
proof (cases "clone A g h")
  case (Pair e h1)
  show ?thesis
  proof (cases e)
    case None
    with Pair assms clone_ours show ?thesis
      by (auto simp: createOrOpenRepo_def revision_name_def)
  next
    case (Some e')
    with Pair assms have "errors_is e' ErrRepositoryAlreadyExists" "open_repo A g h1 = (Inr old, h')"
      by (auto simp: createOrOpenRepo_def split: if_splits)
    moreover from this Pair Some have "h1 = h" by (auto simp: clone_def intro: Clone_exists)
    ultimately show ?thesis by (simp add: open_old)
  qed
qed

lemma revision_checked_out:
  assumes "checkoutRevision A g v h = (None, h')" and "named v" and "ours g h"
  shows "source_revision clones g h' = Some v"
  using assms
  by (auto simp: checkoutRevision_def query_Inr then_op_None ours_def source_revision_def
      dest!: read_answers dest: Checkout_hash split: option.split)

lemma git_revisioned: "revisioned (git_source A g) (source_revision clones g) named"
proof
  show "named v" if "source_revision clones g h = Some v" for h v
    using that by (auto simp: source_revision_def split: option.splits if_splits dest: head_named)
  show "v \<noteq> []" if "named v" for v using that by (rule named_not_empty)
  show "sr_OldRevision rep = revision_name (source_revision clones g h)"
    if "sy_Sync (git_source A g) opts h = (Inr rep, h')" for opts h rep h'
    using that by (auto simp: git_source_def GitSource_Sync_def query_Inr dest!: create_old)
  show "source_revision clones g h' = Some (so_Revision opts)"
    if "sy_Sync (git_source A g) opts h = (Inr rep, h')" and v: "named (so_Revision opts)" for opts h rep h'
    using that(1) named_not_empty [OF v]
    by (auto simp: git_source_def GitSource_Sync_def query_Inr dest!: create_old read_answers intro: revision_checked_out [OF _ v])
  show "source_revision clones g h' = None" if "sy_Clean (git_source A g) h = (None, h')" for h h'
    using that by (auto simp: git_source_def GitSource_Clean_def source_revision_def dest: Remove)
qed

end

sublocale git_library < git: revisioned "git_source A g" "source_revision clones g" named for g
  by (rule git_revisioned)

subsection \<open>The manager\<close>

text \<open>The entries of a manager that are git sources, each in a directory apart from the others.\<close>

definition git_plans :: "'h git_api \<Rightarrow> GitSource list \<Rightarrow> 'h sourcePlan list \<Rightarrow> bool" where
  "git_plans A gs ps \<longleftrightarrow> list_all2 (\<lambda>g p. sp_Source p = git_source A g) gs ps \<and>
     sorted_wrt (\<lambda>g g'. apart_paths (gs_localRepository g) (gs_localRepository g')) gs"

lemma git_plans_Cons: "git_plans A (g # gs) ps \<longleftrightarrow>
  (\<exists>p ps'. ps = p # ps' \<and> sp_Source p = git_source A g \<and> git_plans A gs ps' \<and>
     (\<forall>g' \<in> set gs. apart_paths (gs_localRepository g) (gs_localRepository g')))"
  by (auto simp: git_plans_def list_all2_Cons1)

lemma update_sources_Cons: "update_sources f (p # ps) h = ((None, qs), h'') \<longleftrightarrow>
  (\<exists>p' h' ps'. f p h = (Inr p', h') \<and> update_sources f ps h' = ((None, ps'), h'') \<and> qs = p' # ps')"
  by (auto split: prod.splits sum.splits)

context git_library
begin

lemma source_apart:
  assumes "sp_Source p = git_source A g" and sep: "apart_paths (gs_localRepository g) l'"
  shows "keeps (is_at l' r) (sync_source opts p)" and "keeps (is_at l' r) (rollback_source p)"
proof -
  note [keeps_intros] = Sync_apart [OF sep] clone_apart [OF sep]
  show "keeps (is_at l' r) (sync_source opts p)"
    using assms(1) unfolding sync_source_def by (simp add: git_source_def) (intro keeps_intros)
  show "keeps (is_at l' r) (rollback_source p)"
    using assms(1) unfolding rollback_source_def
    by (auto simp: git_source_def split: option.split intro!: keeps_intros)
qed

lemma apart_revision:
  assumes "apart_paths l (gs_localRepository g)" and "\<And>r. keeps (is_at (gs_localRepository g) r) f" and "f h = (x, h')"
  shows "source_revision clones g h' = source_revision clones g h"
  using assms(2) [of "clones h (gs_localRepository g)"] assms(3)
  by (simp add: source_revision_def keeps_def) (metis snd_conv)

lemma sync_all:
  assumes "git_plans A gs ps" and "update_sources (sync_source opts) ps h = ((None, ps'), h')"
  shows "git_plans A gs ps' \<and>
    list_all2 (\<lambda>g p. \<exists>rep. sp_Report p = Some rep \<and> sr_OldRevision rep = revision_name (source_revision clones g h)) gs ps'"
  using assms
proof (induction gs arbitrary: ps h ps')
  case Nil
  then show ?case by (simp add: git_plans_def)
next
  case (Cons g gs)
  from Cons.prems obtain p qs q h1 qs' where p: "ps = p # qs" "sp_Source p = git_source A g" "git_plans A gs qs"
      and sep: "\<And>g'. g' \<in> set gs \<Longrightarrow> apart_paths (gs_localRepository g) (gs_localRepository g')"
      and run: "sync_source opts p h = (Inr q, h1)" "update_sources (sync_source opts) qs h1 = ((None, qs'), h')" "ps' = q # qs'"
    by (auto simp del: update_sources.simps simp: git_plans_Cons update_sources_Cons)
  have same: "source_revision clones g' h1 = source_revision clones g' h" if "g' \<in> set gs" for g'
    using sep [OF that] source_apart(1) [OF p(2) sep [OF that]] run(1) by (rule apart_revision)
  have "list_all2 (\<lambda>g p. \<exists>rep. sp_Report p = Some rep \<and> sr_OldRevision rep = revision_name (source_revision clones g h)) gs qs'"
    using Cons.IH [OF p(3) run(2)] by (auto elim!: list.rel_mono_strong simp: same)
  with Cons.IH [OF p(3) run(2)] git.sync_old [OF p(2) run(1)] sep run(3) show ?case
    by (simp add: git_plans_Cons)
qed

lemma rest_apart:
  assumes f: "\<And>p g' r. sp_Source p = git_source A g' \<Longrightarrow> apart_paths (gs_localRepository g') (gs_localRepository g) \<Longrightarrow>
      keeps (is_at (gs_localRepository g) r) (f p)"
    and "git_plans A gs ps" and "\<And>g'. g' \<in> set gs \<Longrightarrow> apart_paths (gs_localRepository g') (gs_localRepository g)"
    and "update_sources f ps h = ((None, ps'), h')"
  shows "source_revision clones g h' = source_revision clones g h"
  using assms(2-)
proof (induction gs arbitrary: ps h ps')
  case Nil
  then show ?case by (simp add: git_plans_def)
next
  case (Cons g' gs)
  from Cons.prems obtain p qs q h1 qs' where p: "sp_Source p = git_source A g'" "git_plans A gs qs"
      and run: "f p h = (Inr q, h1)" "update_sources f qs h1 = ((None, qs'), h')"
    by (auto simp del: update_sources.simps simp: git_plans_Cons update_sources_Cons)
  have "source_revision clones g h1 = source_revision clones g h"
    using Cons.prems(2) [of g'] f [OF p(1)] run(1)
    by (intro apart_revision [of "gs_localRepository g'" g "f p"]) auto
  with Cons.IH [OF p(2) Cons.prems(2) run(2)] show ?case by simp
qed

lemma sync_all_to:
  assumes "git_plans A gs ps" and "update_sources (sync_source (Some opts)) ps h = ((None, ps'), h')" and v: "named (so_Revision opts)"
  shows "\<forall>g \<in> set gs. source_revision clones g h' = Some (so_Revision opts)"
  using assms(1,2)
proof (induction gs arbitrary: ps h ps')
  case Nil
  then show ?case by simp
next
  case (Cons g gs)
  from Cons.prems obtain p qs q h1 qs' where p: "sp_Source p = git_source A g" "git_plans A gs qs"
      and sep: "\<And>g'. g' \<in> set gs \<Longrightarrow> apart_paths (gs_localRepository g') (gs_localRepository g)"
      and run: "sync_source (Some opts) p h = (Inr q, h1)" "update_sources (sync_source (Some opts)) qs h1 = ((None, qs'), h')"
    by (auto simp del: update_sources.simps simp: git_plans_Cons update_sources_Cons apart_paths_def)
  have "source_revision clones g h1 = Some (so_Revision opts)"
    using run(1) p(1) v by (auto simp: sync_source_def sync_options_def query_Inr intro: git.Sync_to)
  moreover have "source_revision clones g h' = source_revision clones g h1"
    using source_apart(1) p(2) sep run(2) by (rule rest_apart)
  ultimately show ?case using Cons.IH [OF p(2) run(2)] by simp
qed

lemma rollback_all:
  assumes "git_plans A gs ps"
    and "list_all2 (\<lambda>g p. \<exists>rep. sp_Report p = Some rep \<and> sr_OldRevision rep = revision_name (source_revision clones g h0)) gs ps"
    and "update_sources rollback_source ps h = ((None, ps'), h')"
  shows "\<forall>g \<in> set gs. source_revision clones g h' = source_revision clones g h0"
  using assms
proof (induction gs arbitrary: ps h ps')
  case Nil
  then show ?case by simp
next
  case (Cons g gs)
  from Cons.prems obtain p qs q h1 qs' rep where p: "ps = p # qs" "sp_Source p = git_source A g" "git_plans A gs qs"
      and sep: "\<And>g'. g' \<in> set gs \<Longrightarrow> apart_paths (gs_localRepository g') (gs_localRepository g)"
      and run: "rollback_source p h = (Inr q, h1)" "update_sources rollback_source qs h1 = ((None, qs'), h')"
      and rep: "sp_Report p = Some rep" "sr_OldRevision rep = revision_name (source_revision clones g h0)"
      and rest: "list_all2 (\<lambda>g p. \<exists>rep. sp_Report p = Some rep \<and> sr_OldRevision rep = revision_name (source_revision clones g h0)) gs qs"
    by (auto simp del: update_sources.simps simp: git_plans_Cons update_sources_Cons apart_paths_def)
  have "source_revision clones g h1 = source_revision clones g h0"
    using p(2) rep run(1) by (rule git.rollback_back)
  moreover have "source_revision clones g h' = source_revision clones g h1"
    using source_apart(2) p(3) sep run(2) by (rule rest_apart)
  ultimately show ?case using Cons.IH [OF p(3) rest run(2)] by simp
qed

end

lemma rollback_restores:
  assumes lib: "git_library A clones named" and plans: "git_plans A gs (sn_sources s)"
    and sync: "SourceManager_Sync opts s h = ((None, s1), h1)"
    and rollback: "SourceManager_Rollback s1 h2 = ((None, s2), h3)"
  shows "list_all (\<lambda>g. source_revision clones g h3 = source_revision clones g h) gs \<and> git_plans A gs (sn_sources s1)"
proof -
  from sync have "update_sources (sync_source opts) (sn_sources s) h = ((None, sn_sources s1), h1)"
    by (auto simp: SourceManager_Sync_def split: prod.splits)
  from git_library.sync_all [OF lib plans this]
  have "git_plans A gs (sn_sources s1)"
    and "list_all2 (\<lambda>g p. \<exists>rep. sp_Report p = Some rep \<and> sr_OldRevision rep = revision_name (source_revision clones g h)) gs (sn_sources s1)"
    by blast+
  moreover from rollback have "update_sources rollback_source (sn_sources s1) h2 = ((None, sn_sources s2), h3)"
    by (auto simp: SourceManager_Rollback_def split: prod.splits if_splits)
  ultimately show ?thesis using git_library.rollback_all [OF lib] by (auto simp: list_all_iff)
qed

text \<open>
  C27: once a sync has succeeded, a rollback that succeeds, whatever has happened to the host in between,
  leaves every git source at the revision it had before the sync, and without a repository of the remote
  where it had none.
\<close>

theorem rollback_undoes_sync:
  assumes "git_library A clones named" and "git_plans A gs (sn_sources s)"
    and "SourceManager_Sync opts s h = ((None, s1), h1)"
    and "SourceManager_Rollback s1 h2 = ((None, s2), h3)"
  shows "list_all (\<lambda>g. source_revision clones g h3 = source_revision clones g h) gs"
  using rollback_restores [OF assms] by simp

subsection \<open>An example\<close>

text \<open>A library whose remotes all have one commit, \<open>new\<close>, at the tip of \<open>master\<close>.\<close>

type_synonym demo_clones = "(string \<times> string list \<times> string) list"

definition clone_at :: "demo_clones \<Rightarrow> string \<Rightarrow> (string list \<times> string option) option" where
  "clone_at h l =
     (case map_of h l of None \<Rightarrow> None | Some (urls, v) \<Rightarrow> Some (urls, if v = [] then None else Some v))"

definition move_head :: "string \<Rightarrow> string \<Rightarrow> demo_clones operation" where
  "move_head l v h =
     (case map_of h l of
        None \<Rightarrow> (Some (ErrMsg ''repository does not exist''), h)
      | Some (urls, old) \<Rightarrow> (None, AList.update l (urls, v) h))"

definition demo_git :: "demo_clones git_api" where
  "demo_git =
     \<lparr>ga_PlainClone = (\<lambda>l url auth h.
        if map_of h l \<noteq> None then (Some (ErrSentinel ErrRepositoryAlreadyExists), h)
        else (None, AList.update l ([url], ''new'') h)),
      ga_PlainOpen = (\<lambda>l h. (None, h)),
      ga_Remote = (\<lambda>l h. (case map_of h l of None \<Rightarrow> Inl (ErrMsg ''remote not found'') | Some (urls, v) \<Rightarrow> Inr urls, h)),
      ga_List = (\<lambda>l h. ([], h)),
      ga_Head = (\<lambda>l h. (case clone_at h l of Some (urls, Some v) \<Rightarrow> Inr v | _ \<Rightarrow> Inl (ErrMsg ''reference not found''), h)),
      ga_Branches = (\<lambda>l h. (Inr [(''refs/heads/master'', ''new'')], h)),
      ga_Worktree = (\<lambda>l h. (None, h)),
      ga_Checkout = (\<lambda>l co. move_head l (if co_Hash co = [] then ''new'' else co_Hash co)),
      ga_Fetch = (\<lambda>l specs auth h. (None, h)),
      ga_Pull = (\<lambda>l auth force. move_head l ''new''),
      ga_HardReset = (\<lambda>l v h. (None, h)),
      ga_ResolveRevision = (\<lambda>l v h. (Inr v, h)),
      ga_RemoveAll = (\<lambda>l h. (None, AList.delete l h))\<rparr>"

lemma move_head_None: "move_head l v h = (None, h') \<longleftrightarrow>
  (\<exists>urls old. map_of h l = Some (urls, old) \<and> h' = AList.update l (urls, v) h)"
  by (auto simp: move_head_def split: option.splits)

lemma move_head_apart: "l \<noteq> l' \<Longrightarrow> map_of (snd (move_head l v h)) l' = map_of h l'"
  by (auto simp: move_head_def update_conv split: option.split)

lemma apart_paths_ne: "apart_paths l l' \<Longrightarrow> l \<noteq> l'"
  by (auto simp: apart_paths_def)

interpretation demo_library: git_library demo_git clone_at "\<lambda>v. v \<noteq> []"
  by unfold_locales
    (auto simp: demo_git_def clone_at_def update_conv delete_conv move_head_None move_head_apart dest!: apart_paths_ne
      split: option.splits if_splits prod.splits)

definition demo_main :: GitSource where
  "demo_main = \<lparr>gs_activeBranch = ''master'', gs_defaultBranch = [], gs_localRepository = ''/source'',
     gs_remoteRepository = ''main.git'', gs_auth = NoAuth, gs_resetIfNeeded = True\<rparr>"

definition demo_extra :: GitSource where
  "demo_extra = demo_main\<lparr>gs_localRepository := ''/remote/components/web'', gs_remoteRepository := ''web.git''\<rparr>"

definition demo_manager :: "demo_clones SourceManager" where
  "demo_manager = \<lparr>sn_repo = [''/source'', ''/remote''], sn_sourceDir = ''/source'', sn_remoteDir = ''/remote'',
     sn_sources = [\<lparr>sp_Source = git_source demo_git demo_main, sp_Primary = True, sp_Opts = None, sp_Report = None\<rparr>,
                   \<lparr>sp_Source = git_source demo_git demo_extra, sp_Primary = False, sp_Opts = None, sp_Report = None\<rparr>]\<rparr>"

definition demo_before :: demo_clones where
  "demo_before = [(''/source'', [''main.git''], ''old'')]"

definition demo_synced :: "(go_error option \<times> demo_clones SourceManager) \<times> demo_clones" where
  "demo_synced = SourceManager_Sync None demo_manager demo_before"

definition demo_rolled :: "(go_error option \<times> demo_clones SourceManager) \<times> demo_clones" where
  "demo_rolled = SourceManager_Rollback (snd (fst demo_synced)) (snd demo_synced)"

lemma demo_runs:
  "fst (fst demo_synced) = None" "fst (fst demo_rolled) = None"
  "snd demo_synced = [(''/source'', [''main.git''], ''new''), (''/remote/components/web'', [''web.git''], ''new'')]"
  "snd demo_rolled = [(''/source'', [''main.git''], ''old'')]"
  by code_simp+

theorem rollback_undoes_sync_witness:
  "source_revision clone_at demo_main (snd demo_rolled) = source_revision clone_at demo_main demo_before \<and>
   source_revision clone_at demo_extra (snd demo_rolled) = source_revision clone_at demo_extra demo_before"
proof -
  have "git_plans demo_git [demo_main, demo_extra] (sn_sources demo_manager)"
    by (simp add: git_plans_def demo_manager_def apart_paths_def) code_simp
  moreover have "SourceManager_Sync None demo_manager demo_before = ((None, snd (fst demo_synced)), snd demo_synced)"
    using demo_runs(1) by (simp add: demo_synced_def prod_eq_iff)
  moreover have "SourceManager_Rollback (snd (fst demo_synced)) (snd demo_synced) = ((None, snd (fst demo_rolled)), snd demo_rolled)"
    using demo_runs(2) by (simp add: demo_rolled_def prod_eq_iff)
  ultimately have "list_all (\<lambda>g. source_revision clone_at g (snd demo_rolled) = source_revision clone_at g demo_before)
    [demo_main, demo_extra]"
    by (rule rollback_undoes_sync [OF demo_library.git_library_axioms])
  then show ?thesis by simp
qed

end
