(* ===== verification/Server.thy ===== *)
theory Server
  imports Commands SourceFacts
begin

section \<open>The server (cmd/materia/server.go, server\_varlink.go, agent\_varlink.go)\<close>

text \<open>
  A server syncs, plans and executes on a timer, on a request to its webhook and on a call over its socket.
  One tick of a timer, one request and one call are operations on the host and on the source manager; how
  they interleave is the business of the lock inside \<open>Materia_Plan\<close> and \<open>Materia_Execute\<close>.
\<close>

record Server =
  srv_syncSecret :: string
  srv_Socket :: string
  srv_UpdateInterval :: int
  srv_PlanInterval :: int
  srv_QuitOnError :: bool

definition RunServer_server :: "ServerConfig \<Rightarrow> Server" where
  "RunServer_server conf =
     \<lparr>srv_syncSecret = sv_UpdateSecret conf, srv_Socket = sv_Socket conf, srv_UpdateInterval = sv_UpdateInterval conf,
      srv_PlanInterval = sv_PlanInterval conf, srv_QuitOnError = False\<rparr>"

text \<open>\<open>serverMateria\<close> replaces the notifier's configuration when the old webhook setting is used.\<close>

definition server_notify_config :: "ServerConfig \<Rightarrow> MateriaConfig \<Rightarrow> MateriaConfig" where
  "server_notify_config sc c =
     (if sv_NotifyWebhook sc \<noteq> [] then c\<lparr>cfg_NotifyConfig := Some \<lparr>nf_Triggers = [(NotifyUpdate, sv_NotifyWebhook sc)]\<rparr>\<rparr> else c)"

definition server_notify :: "'h console \<Rightarrow> string \<Rightarrow> string \<Rightarrow> 'h operation" where
  "server_notify C hostname msg = Notifier_Notify (cl_http C) (cl_notify C) NotifyDefault (hostname @ '': '' @ msg)"

text \<open>The directory of the socket is made; a user who is not called root has one below \<open>/run/user\<close>.\<close>

definition socketDir :: "string \<Rightarrow> string \<Rightarrow> string" where
  "socketDir name uid = (if name \<noteq> ''root'' then JoinPath [''/run/user'', uid, ''materia''] else ''/run/materia'')"

definition socketPath :: "(string \<times> string) result \<Rightarrow> (fs, string) query" where
  "socketPath user fs =
     (case user of
        Inl e \<Rightarrow> (Inl e, fs)
      | Inr (name, uid) \<Rightarrow>
          (case MkdirAll (elems (socketDir name uid)) fs of
             (Some e, fs') \<Rightarrow> (Inl e, fs')
           | (None, fs') \<Rightarrow> (Inr (JoinPath [socketDir name uid, ''materia.sock'']), fs')))"

subsection \<open>A round of the server\<close>

text \<open>Planning, executing and saving; a failure is the message that is sent and the error.\<close>

definition server_update :: "'h console \<Rightarrow> ('h, 'u) Materia \<Rightarrow> 'h \<Rightarrow> (string \<times> go_error) option \<times> 'h" where
  "server_update C m h =
     (case Materia_Plan m h of
        (Inl e, h1) \<Rightarrow> (Some (''Execution failed to generate plan'', e), h1)
      | (Inr p, h1) \<Rightarrow>
     (case Materia_Execute m p h1 of
        ((rep, Some e), h2) \<Rightarrow> (Some (''Execution failed'', e), h2)
      | ((rep, None), h2) \<Rightarrow>
          (case SavePlan C p ''lastrun.toml'' h2 of
             (Some e, h3) \<Rightarrow> (Some (''failed to save lastrun'', e), h3)
           | (None, h3) \<Rightarrow> (None, h3))))"

definition sync_and_update ::
    "'h console \<Rightarrow> ('h, 'u) Materia \<Rightarrow> SyncOpts option \<Rightarrow> 'h SourceManager \<Rightarrow> 'h \<Rightarrow>
       ((string \<times> go_error) option \<times> 'h SourceManager) \<times> 'h" where
  "sync_and_update C m opts s h =
     (case SourceManager_Sync opts s h of
        ((Some e, s'), h1) \<Rightarrow> ((Some (''Execution failed to sync sources'', e), s'), h1)
      | ((None, s'), h1) \<Rightarrow> (case server_update C m h1 of (r, h2) \<Rightarrow> ((r, s'), h2)))"

text \<open>The end of a tick: an error that stops the loop, when the notification fails or the server is to quit.\<close>

definition after_failure :: "'h console \<Rightarrow> Server \<Rightarrow> string \<Rightarrow> (string \<times> go_error) option \<Rightarrow> 'h operation" where
  "after_failure C srv hostname r h =
     (case r of
        None \<Rightarrow> (None, h)
      | Some (msg, e) \<Rightarrow>
          (case server_notify C hostname msg h of
             (Some ne, h') \<Rightarrow> (Some (ErrWrapped (msg @ ''; plus the notification failed'') e), h')
           | (None, h') \<Rightarrow> (if srv_QuitOnError srv then Some e else None, h')))"

definition backgroundSync_tick ::
    "'h console \<Rightarrow> Server \<Rightarrow> ('h, 'u) Materia \<Rightarrow> 'h SourceManager \<Rightarrow> 'h \<Rightarrow> (go_error option \<times> 'h SourceManager) \<times> 'h" where
  "backgroundSync_tick C srv m s h =
     (case sync_and_update C m None s h of
        ((r, s'), h1) \<Rightarrow> (case after_failure C srv (mt_Hostname m) r h1 of (e, h2) \<Rightarrow> ((e, s'), h2)))"

definition backgroundPlan_tick :: "'h console \<Rightarrow> Server \<Rightarrow> ('h, 'u) Materia \<Rightarrow> 'h operation" where
  "backgroundPlan_tick C srv m h =
     (case Materia_Plan m h of
        (Inl e, h1) \<Rightarrow> after_failure C srv (mt_Hostname m) (Some (''invalid plan'', e)) h1
      | (Inr p, h1) \<Rightarrow> (None, h1))"

text \<open>The loop over the ticks, until one stops it.\<close>

fun backgroundSync ::
    "'h console \<Rightarrow> Server \<Rightarrow> ('h, 'u) Materia \<Rightarrow> nat \<Rightarrow> 'h SourceManager \<Rightarrow> 'h \<Rightarrow> (go_error option \<times> 'h SourceManager) \<times> 'h" where
  "backgroundSync C srv m 0 s h = ((None, s), h)"
| "backgroundSync C srv m (Suc n) s h =
     (case backgroundSync_tick C srv m s h of
        ((Some e, s'), h') \<Rightarrow> ((Some e, s'), h')
      | ((None, s'), h') \<Rightarrow> backgroundSync C srv m n s' h')"

subsection \<open>The webhook\<close>

record UpdatePayload =
  up_Revision :: string
  up_Update :: bool
  up_Secret :: string

record hook_request =
  rq_Method :: string
  rq_Body :: "UpdatePayload result"

text \<open>The answer is the status code; afterwards the failure is notified, and quitting ends the process.\<close>

definition hook_failure :: "'h console \<Rightarrow> Server \<Rightarrow> string \<Rightarrow> (string \<times> go_error) option \<Rightarrow> 'h \<Rightarrow> bool \<times> 'h" where
  "hook_failure C srv hostname r h =
     (case r of
        None \<Rightarrow> (False, h)
      | Some (msg, e) \<Rightarrow> (srv_QuitOnError srv, snd (server_notify C hostname msg h)))"

definition updateHookHandler ::
    "'h console \<Rightarrow> Server \<Rightarrow> ('h, 'u) Materia \<Rightarrow> hook_request \<Rightarrow> 'h SourceManager \<Rightarrow> 'h \<Rightarrow>
       ((nat \<times> bool) \<times> 'h SourceManager) \<times> 'h" where
  "updateHookHandler C srv m rq s h =
     (if rq_Method rq \<noteq> ''POST'' then (((405, False), s), h)
      else case rq_Body rq of
        Inl e \<Rightarrow> (((400, False), s), h)
      | Inr payload \<Rightarrow>
          (if srv_syncSecret srv \<noteq> [] \<and> srv_syncSecret srv \<noteq> up_Secret payload then (((401, False), s), h)
           else case sync_and_update C m (Some \<lparr>so_Revision = up_Revision payload, so_Subpath = []\<rparr>) s h of
             ((r, s'), h1) \<Rightarrow> (case hook_failure C srv (mt_Hostname m) r h1 of (quit, h2) \<Rightarrow> (((200, quit), s'), h2))))"

subsection \<open>The socket\<close>

datatype varlink_reply =
    ReplyPlan string int
  | ReplyPlanFailed go_error
  | ReplySync
  | ReplySyncFailed go_error
  | ReplyUpdate int
  | ReplyExecutionFailed go_error int int

text \<open>A failure is answered with the text of its error.\<close>

definition varlink_Plan :: "'h console \<Rightarrow> ('h, 'u) Materia \<Rightarrow> 'h \<Rightarrow> varlink_reply \<times> 'h" where
  "varlink_Plan C m h =
     (case Materia_Plan m h of
        (Inl e, h') \<Rightarrow> (ReplyPlanFailed e, h')
      | (Inr p, h') \<Rightarrow>
          (if Plan_Empty p then
             (case cl_ToJson C p of
                Inl e \<Rightarrow> (ReplyPlanFailed e, h')
              | Inr j \<Rightarrow> (ReplyPlan j (int (pl_size p)), h'))
           else (ReplyPlan [] (int (pl_size p)), h')))"

definition varlink_Sync :: "string option \<Rightarrow> 'h SourceManager \<Rightarrow> 'h \<Rightarrow> (varlink_reply \<times> 'h SourceManager) \<times> 'h" where
  "varlink_Sync revision s h =
     (case SourceManager_Sync (Some \<lparr>so_Revision = (case revision of None \<Rightarrow> [] | Some r \<Rightarrow> r), so_Subpath = []\<rparr>) s h of
        ((Some e, s'), h') \<Rightarrow> ((ReplySyncFailed e, s'), h')
      | ((None, s'), h') \<Rightarrow> ((ReplySync, s'), h'))"

definition varlink_Update :: "('h, 'u) Materia \<Rightarrow> 'h \<Rightarrow> varlink_reply \<times> 'h" where
  "varlink_Update m h =
     (case Materia_Plan m h of
        (Inl e, h1) \<Rightarrow> (ReplyPlanFailed e, h1)
      | (Inr p, h1) \<Rightarrow>
          (case Materia_Execute m p h1 of
             ((rep, Some e), h2) \<Rightarrow> (ReplyExecutionFailed e (er_StepsCompleted rep) (int (pl_size p)), h2)
           | ((rep, None), h2) \<Rightarrow> (ReplyUpdate (er_StepsCompleted rep), h2)))"

text \<open>What the agent shows of a reply: \<open>actions\<close> decodes the text, \<open>None\<close> is \<open>No changes made\<close>.\<close>

definition agent_Plan :: "(string \<Rightarrow> 'a result) \<Rightarrow> varlink_reply \<Rightarrow> 'a option result" where
  "agent_Plan actions r =
     (case r of
        ReplyPlan plan_out len_out \<Rightarrow>
          (if len_out > 0 then map_sum (\<lambda>e. e) Some (actions plan_out) else Inr None)
      | _ \<Rightarrow> Inl (ErrMsg ''plan failed''))"

end
