(* ===== verification/ServerFacts.thy ===== *)
theory ServerFacts
  imports Server
begin

section \<open>What the commands and the server do\<close>

text \<open>
  The rollback of an update, who can make a server act, what a server tells whom, and what the agent sees.
\<close>

subsection \<open>The rollback of an update\<close>

lemma update_rollback:
  assumes "Materia_Plan m h = (Inr p, h1)" and "Materia_Execute m p h1 = ((rep, Some e), h2)" and "errors_is e ErrNeedRollback"
    and "update_command C m s h = ((None, s'), h')"
  obtains h3 h4 p' h5 rep' h6 where "SourceManager_Rollback s h3 = ((None, s'), h4)"
    and "Materia_Plan m h4 = (Inr p', h5)" and "Materia_Execute m p' h5 = ((rep', None), h6)"
    and "SavePlan C p ''lastrun.toml'' h6 = (None, h')"
  using assms by (auto simp: update_command_def rollback_update_def split: prod.splits option.splits sum.splits)


text \<open>A host on which services start as long as the source is not at \<open>new\<close>.\<close>

definition nop :: "demo_clones operation" where
  "nop h = (None, h)"

definition clones_host :: "demo_clones Host" where
  "clones_host =
     \<lparr>ho_ApplyService = (\<lambda>n a t h.
        if clone_at h ''/source'' = Some ([''main.git''], Some ''new'') then (Some (ErrSentinel ErrStateChangeFailed), h) else (None, h)),
      ho_GetService = (\<lambda>n h. (Inr (zero_Service\<lparr>svc_Name := n, svc_State := StateInactive_s\<rparr>), h)),
      ho_RunOneshotCommand = (\<lambda>t n c. nop), ho_WaitUntilState = (\<lambda>n s t. nop), ho_ListContainers = (\<lambda>f h. (Inr [], h)),
      ho_ExecContainer = (\<lambda>n c. nop), ho_DumpVolume = (\<lambda>v d. nop), ho_ImportVolume = (\<lambda>v d. nop), ho_RemoveVolume = (\<lambda>v. nop),
      ho_GetNetwork = (\<lambda>n h. (Inr \<lparr>net_Name = n, net_Containers = []\<rparr>, h)), ho_RemoveNetwork = (\<lambda>n. nop),
      ho_WriteSecret = (\<lambda>n v. nop), ho_RemoveSecret = (\<lambda>n. nop), ho_RemoveImage = (\<lambda>n. nop),
      ho_InstallComponent = (\<lambda>c. nop), ho_UpdateComponent = (\<lambda>c. nop), ho_RemoveComponent = (\<lambda>c. nop),
      ho_InstallResource = (\<lambda>r d. nop), ho_RemoveResource = (\<lambda>r. nop), ho_InstallScript = (\<lambda>p d. nop),
      ho_RemoveScript = (\<lambda>p. nop), ho_InstallUnit = (\<lambda>p d. nop), ho_RemoveUnit = (\<lambda>p. nop)\<rparr>"

definition clones_materia :: "(demo_clones, string) Materia" where
  "clones_materia =
     \<lparr>mt_Host = \<lparr>hs_reader = (\<lambda>h. demo_reader web_manifest web_files), hs_secrets = (\<lambda>h. demo_secrets), hs_state = (\<lambda>h. demo_host),
        hs_ListComponentNames = (\<lambda>h. Inr []), hs_PurgeComponentByName = (\<lambda>n. nop), hs_Clean = nop\<rparr>,
      mt_Source = (\<lambda>h. demo_reader web_manifest web_files), mt_Manifest = mt_Manifest (demo_materia ''alpha''),
      mt_Executor = \<lparr>ex_conf = ex_conf logging_executor, ex_host = clones_host, ex_defaultTimeout = 30, ex_text2 = demo_text\<rparr>,
      mt_Planner = DefaultPlannerConfig, mt_Vault = demo_engine [], mt_Hostname = ''alpha'', mt_Roles = [], mt_Lock = None,
      mt_Rollback = True, mt_appMode = False, mt_RemoveOutputDir = nop, mt_render = plain_render, mt_units = plain_parser,
      mt_diff = demo_diff, mt_order = (\<lambda>x. x), mt_order' = (\<lambda>x. x)\<rparr>"

definition quiet_console :: "demo_clones console" where
  "quiet_console = \<lparr>cl_http = (\<lambda>d m. nop), cl_notify = \<lparr>nf_Triggers = []\<rparr>, cl_OutputDir = ''/out'', cl_create = (\<lambda>p. nop),
     cl_encode = (\<lambda>p out. nop), cl_text1 = demo_text, cl_text2 = demo_text, cl_ToJson = (\<lambda>p. Inr ''[]'')\<rparr>"

definition clones_plan :: Plan where
  "clones_plan = projr (fst (Materia_Plan clones_materia (snd demo_synced)))"

definition clones_failed :: "(ExecutionReport \<times> go_error option) \<times> demo_clones" where
  "clones_failed = Materia_Execute clones_materia clones_plan (snd demo_synced)"

definition clones_updated :: "(go_error option \<times> demo_clones SourceManager) \<times> demo_clones" where
  "clones_updated = update_command quiet_console clones_materia (snd (fst demo_synced)) (snd demo_synced)"

lemma clones_runs:
  "fst (Materia_Plan clones_materia (snd demo_synced)) = Inr (projr (fst (Materia_Plan clones_materia (snd demo_synced))))"
  "snd (Materia_Plan clones_materia (snd demo_synced)) = snd demo_synced"
  "snd (fst clones_failed) = Some (ErrSentinel ErrNeedRollback)"
  "fst (fst clones_updated) = None"
  by code_simp+


subsection \<open>The webhook\<close>

text \<open>
  C31: a request to the webhook changes the host or the sources only when it is a POST whose body decodes
  and, if the server has a secret, carries it; without a configured secret every such request does.
\<close>

theorem webhook_needs_secret:
  "if rq_Method rq = ''POST'' \<and> (\<exists>payload. rq_Body rq = Inr payload \<and> (srv_syncSecret srv = [] \<or> up_Secret payload = srv_syncSecret srv))
   then fst (fst (fst (updateHookHandler C srv m rq s h))) = 200 \<and>
     snd (fst (updateHookHandler C srv m rq s h)) =
       snd (fst (sync_and_update C m (Some \<lparr>so_Revision = up_Revision (projr (rq_Body rq)), so_Subpath = []\<rparr>) s h))
   else fst (fst (fst (updateHookHandler C srv m rq s h))) \<in> {400, 401, 405} \<and>
     snd (fst (updateHookHandler C srv m rq s h)) = s \<and> snd (updateHookHandler C srv m rq s h) = h"
  by (auto simp: updateHookHandler_def split: sum.splits prod.splits)

text \<open>The field \<open>update\<close> of the payload is not read.\<close>

lemma webhook_ignores_update:
  "updateHookHandler C srv m (rq\<lparr>rq_Body := Inr (payload\<lparr>up_Update := b\<rparr>)\<rparr>) s h =
   updateHookHandler C srv m (rq\<lparr>rq_Body := Inr payload\<rparr>) s h"
  by (simp add: updateHookHandler_def)

text \<open>
  A sync to a revision that is asked for over the socket, and answered as done, has taken every git
  source there, the repositories of the remote components included, and not only the one it is a revision of.
\<close>

theorem requested_revision_for_all:
  assumes "git_library A clones named" and "git_plans A gs (sn_sources s)" and "named v"
    and "varlink_Sync (Some v) s h = ((ReplySync, s'), h')"
  shows "list_all (\<lambda>g. source_revision clones g h' = Some v) gs"
proof -
  from assms(4) have "update_sources (sync_source (Some \<lparr>so_Revision = v, so_Subpath = []\<rparr>)) (sn_sources s) h = ((None, sn_sources s'), h')"
    by (auto simp: varlink_Sync_def SourceManager_Sync_def split: prod.splits option.splits)
  from git_library.sync_all_to [OF assms(1,2) this] assms(3) show ?thesis by (simp add: list_all_iff)
qed

theorem requested_revision_for_all_witness:
  "source_revision clone_at demo_extra (snd (varlink_Sync (Some ''abc'') demo_manager demo_before)) = Some ''abc''"
proof -
  let ?run = "varlink_Sync (Some ''abc'') demo_manager demo_before"
  have plans: "git_plans demo_git [demo_main, demo_extra] (sn_sources demo_manager)"
    by (simp add: git_plans_def demo_manager_def apart_paths_def) code_simp
  have "fst (fst ?run) = ReplySync" by code_simp
  then have run: "?run = ((ReplySync, snd (fst ?run)), snd ?run)" by (simp add: prod_eq_iff)
  from requested_revision_for_all [OF demo_library.git_library_axioms plans _ run] show ?thesis by simp
qed

subsection \<open>Failures of the server\<close>

lemma Notify_default_unsent:
  assumes "map_of (nf_Triggers (cl_notify C)) NotifyDefault = None"
  shows "server_notify C hostname msg h = (None, h)"
  using assms
  by (simp add: server_notify_def Notifier_Notify_def NewNotifyType_def notifyTypeMap_def trigger_dest_def
      NotifyDefault_def NotifyUnknown_def Let_def)

text \<open>
  A server with the old webhook setting tells nobody about a failure: its notifier has a destination
  for the event \<open>update\<close> only, and the server reports every failure as \<open>default\<close>.  What a round of the timer
  leaves is what the sync and the update leave, and the loop goes on.
\<close>

theorem old_webhook_never_told:
  assumes "sv_NotifyWebhook conf \<noteq> []" and "cfg_NotifyConfig (server_notify_config conf c) = Some (cl_notify C)"
  shows "backgroundSync_tick C (RunServer_server conf) m s h =
    ((None, snd (fst (sync_and_update C m None s h))), snd (sync_and_update C m None s h))"
proof -
  have "cl_notify C = \<lparr>nf_Triggers = [(NotifyUpdate, sv_NotifyWebhook conf)]\<rparr>"
    using assms by (simp add: server_notify_config_def)
  then have "server_notify C hostname msg h' = (None, h')" for hostname msg h'
    by (simp add: Notify_default_unsent NotifyUpdate_def NotifyDefault_def)
  then show ?thesis
    by (auto simp: backgroundSync_tick_def after_failure_def RunServer_server_def split: prod.split option.split)
qed

definition webhook_conf :: ServerConfig where
  "webhook_conf = zero_ServerConfig\<lparr>sv_NotifyWebhook := ''https://example.com/hook''\<rparr>"

definition loud_console :: "demo_clones console" where
  "loud_console = quiet_console\<lparr>cl_http := (\<lambda>d m h. (None, AList.update ''sent'' ([m], d) h)),
     cl_notify := \<lparr>nf_Triggers = [(NotifyUpdate, ''https://example.com/hook'')]\<rparr>\<rparr>"

theorem old_webhook_never_told_witness:
  "backgroundSync_tick loud_console (RunServer_server webhook_conf) clones_materia demo_manager demo_before =
     ((None, snd (fst (sync_and_update loud_console clones_materia None demo_manager demo_before))),
      snd (sync_and_update loud_console clones_materia None demo_manager demo_before))"
proof -
  have "sv_NotifyWebhook webhook_conf \<noteq> []" by (simp add: webhook_conf_def)
  moreover have "cfg_NotifyConfig (server_notify_config webhook_conf c) = Some (cl_notify loud_console)" for c
    by (simp add: webhook_conf_def server_notify_config_def loud_console_def)
  ultimately show ?thesis by (rule old_webhook_never_told)
qed

lemma sendMessage_sent:
  assumes "\<And>d msg h. fst (http d msg h) = None"
  shows "fst (sendMessage http d msg h) = None"
  using assms [of d msg h] by (auto simp: sendMessage_def split: prod.split option.split)

lemma server_notify_sends:
  assumes "\<And>d msg h. fst (cl_http C d msg h) = None"
  shows "fst (server_notify C hostname msg h) = None"
  using sendMessage_sent [of "cl_http C"] assms
  by (auto simp: server_notify_def Notifier_Notify_def NewNotifyType_def notifyTypeMap_def
      NotifyDefault_def NotifyUnknown_def Let_def split: option.split)

text \<open>
  As long as its notifications are delivered the background loop of a server never stops, whatever
  fails in its rounds: the setting to quit on an error is never turned on.
\<close>

theorem server_survives_failures:
  assumes "\<And>d msg h. fst (cl_http C d msg h) = None"
  shows "fst (fst (backgroundSync C (RunServer_server conf) m n s h)) = None"
proof (induction n arbitrary: s h)
  case 0
  then show ?case by simp
next
  case (Suc n)
  have "fst (after_failure C (RunServer_server conf) hostname r h) = None" for hostname r h
    using server_notify_sends [OF assms, of hostname "fst (the r)" h]
    by (auto simp: after_failure_def RunServer_server_def split: option.splits prod.splits)
  then have "fst (fst (backgroundSync_tick C (RunServer_server conf) m s h)) = None"
    by (auto simp: backgroundSync_tick_def split: prod.split) (metis fst_conv)
  with Suc show ?case by (auto split: prod.split option.split)
qed

theorem server_survives_failures_witness:
  "fst (fst (backgroundSync loud_console (RunServer_server webhook_conf) clones_materia 5 demo_manager demo_before)) = None"
  by (rule server_survives_failures) (simp add: loud_console_def)

subsection \<open>The agent\<close>

text \<open>
  A plan with changes is answered over the socket without its text, so that the agent, which decodes
  the text, fails on every plan that is not empty.  The JSON library refuses the empty text.
\<close>

theorem agent_plan_fails_on_changes:
  assumes "Materia_Plan m h = (Inr p, h')" and "\<not> Plan_Empty p" and "json [] = Inl e"
  shows "agent_Plan json (fst (varlink_Plan C m h)) = Inl e"
  using assms by (simp add: varlink_Plan_def agent_Plan_def Plan_Empty_def)

theorem agent_plan_fails_on_changes_witness:
  "agent_Plan (\<lambda>j. if j = [] then Inl (ErrMsg ''unexpected end of JSON input'') else Inr j)
     (fst (varlink_Plan quiet_console clones_materia (snd demo_synced))) = Inl (ErrMsg ''unexpected end of JSON input'')"
proof -
  have "Materia_Plan clones_materia (snd demo_synced) = (Inr clones_plan, snd demo_synced)"
    using clones_runs(1,2) by (simp add: clones_plan_def prod_eq_iff)
  moreover have "\<not> Plan_Empty clones_plan" by code_simp
  ultimately show ?thesis by (rule agent_plan_fails_on_changes) simp
qed

end
