(* ===== verification/Podman.thy ===== *)
theory Podman
  imports Hostman Config
begin

section \<open>Containers (pkg/containers): the podman command line\<close>

text \<open>
  \<open>CommandManager\<close> runs the podman command and reads its output.  Running programs is the record
  \<open>shell\<close>: a program gets its arguments and its standard input and returns its output, its error
  output and the error of \<open>Run\<close>; programs joined by a pipe run one after the other.  The decoders of
  podman's JSON are parameters, too; the structs have the fields the code reads.  \<open>BindMounts\<close> and
  \<open>Volumes\<close> are maps.
\<close>

subsection \<open>Containers\<close>

record ContainerMount =
  mn_Type :: string
  mn_Name :: string
  mn_Source :: string
  mn_Destination :: string
  mn_Driver :: string

record Container =
  cn_Name :: string
  cn_Id :: string
  cn_Hostname :: string
  cn_Volumes :: "string \<rightharpoonup> Volume"
  cn_BindMounts :: "string \<rightharpoonup> ContainerMount"

text \<open>The loop over the mounts, the same in both managers but for the fields of a bind mount.\<close>

definition add_mount :: "(ContainerMount \<Rightarrow> ContainerMount) \<Rightarrow> Container \<Rightarrow> ContainerMount \<Rightarrow> Container" where
  "add_mount bind r m =
     (if mn_Type m = ''bind'' then r\<lparr>cn_BindMounts := (cn_BindMounts r)(mn_Destination m \<mapsto> bind m)\<rparr>
      else if mn_Type m = ''volume''
      then r\<lparr>cn_Volumes := (cn_Volumes r)
               (mn_Name m \<mapsto> \<lparr>vol_Name = mn_Name m, vol_Mountpoint = mn_Source m, vol_Driver = mn_Driver m\<rparr>)\<rparr>
      else r)"

record 'c ContainerManager =
  ctm_GetContainer :: "string \<Rightarrow> ('c, Container) query"
  ctm_ListContainers :: "ContainerListFilter \<Rightarrow> ('c, Container list) query"
  ctm_PauseContainer :: "string \<Rightarrow> 'c operation"
  ctm_UnpauseContainer :: "string \<Rightarrow> 'c operation"
  ctm_ExecContainer :: "string \<Rightarrow> string list \<Rightarrow> 'c operation"
  ctm_GetVolume :: "string \<Rightarrow> ('c, Volume) query"
  ctm_ListVolumes :: "('c, Volume list) query"
  ctm_DumpVolume :: "Volume \<Rightarrow> string \<Rightarrow> 'c operation"
  ctm_ImportVolume :: "Volume \<Rightarrow> string \<Rightarrow> 'c operation"
  ctm_RemoveVolume :: "Volume \<Rightarrow> 'c operation"
  ctm_ListNetworks :: "('c, Network list) query"
  ctm_GetNetwork :: "string \<Rightarrow> ('c, Network) query"
  ctm_RemoveNetwork :: "Network \<Rightarrow> 'c operation"
  ctm_ListSecrets :: "('c, string list) query"
  ctm_GetSecret :: "string \<Rightarrow> ('c, string \<times> string) query"
  ctm_WriteSecret :: "string \<Rightarrow> string \<Rightarrow> 'c operation"
  ctm_RemoveSecret :: "string \<Rightarrow> 'c operation"
  ctm_SecretName :: "string \<Rightarrow> string"
  ctm_ListImages :: "('c, Image list) query"
  ctm_RemoveImage :: "string \<Rightarrow> 'c operation"

text \<open>The operations of the executor's host that the container manager provides.\<close>

definition with_containers :: "'c ContainerManager \<Rightarrow> 'c Host \<Rightarrow> 'c Host" where
  "with_containers m b = b
     \<lparr>ho_ListContainers := (\<lambda>f. then_query (ctm_ListContainers m f) (\<lambda>cs. return_query (map cn_Name cs))),
      ho_ExecContainer := ctm_ExecContainer m, ho_DumpVolume := ctm_DumpVolume m, ho_ImportVolume := ctm_ImportVolume m,
      ho_RemoveVolume := ctm_RemoveVolume m, ho_GetNetwork := ctm_GetNetwork m, ho_RemoveNetwork := ctm_RemoveNetwork m,
      ho_WriteSecret := ctm_WriteSecret m, ho_RemoveSecret := ctm_RemoveSecret m, ho_RemoveImage := ctm_RemoveImage m\<rparr>"

text \<open>A loop over queries that keeps the answers.\<close>

fun collect_query :: "('a \<Rightarrow> ('h, 'b) query) \<Rightarrow> 'a list \<Rightarrow> ('h, 'b list) query" where
  "collect_query f [] = return_query []"
| "collect_query f (x # xs) = then_query (f x) (\<lambda>y. then_query (collect_query f xs) (\<lambda>ys. return_query (y # ys)))"

definition drop_result :: "('h, 'a) query \<Rightarrow> 'h operation" where
  "drop_result q = use_query q (\<lambda>_ h. (None, h))"

definition decoded :: "(string \<Rightarrow> 'a result) \<Rightarrow> string \<Rightarrow> ('h, 'a) query" where
  "decoded f out h = (f out, h)"

subsection \<open>Running podman\<close>

record run_output =
  ro_Stdout :: string
  ro_Stderr :: string
  ro_Err :: "go_error option"

record ContainerDetails =
  cd_Hostname :: string
  cd_Mounts :: "ContainerMount list"

record 'c shell =
  sh_Start :: "string \<Rightarrow> go_error option"
  sh_Run :: "string \<Rightarrow> string list \<Rightarrow> string \<Rightarrow> 'c \<Rightarrow> run_output \<times> 'c"
  sh_Create :: "string \<Rightarrow> 'c operation"
  sh_Write :: "string \<Rightarrow> string \<Rightarrow> 'c \<Rightarrow> 'c"
  js_List :: "string \<Rightarrow> Container list result"
  js_Inspect :: "string \<Rightarrow> ContainerDetails list result"
  js_Secrets :: "string \<Rightarrow> string list result"
  js_Volumes :: "string \<Rightarrow> Volume list result"
  js_NetworkDetails :: "string \<Rightarrow> (string \<times> string) list list result"
  js_Images :: "string \<Rightarrow> Image list result"

record CommandManager =
  cmm_secretsPrefix :: string
  cmm_compression :: string
  cmm_remote :: bool

definition NewCommandManager :: "ContainersConfig \<Rightarrow> CommandManager" where
  "NewCommandManager cfg =
     \<lparr>cmm_secretsPrefix = ctc_SecretsPrefix cfg, cmm_compression = ctc_Compression cfg, cmm_remote = ctc_Remote cfg\<rparr>"

definition genCmd :: "bool \<Rightarrow> string list \<Rightarrow> string list" where
  "genCmd remote args = (if remote then ''--remote'' # args else args)"

text \<open>An error whose output does not begin as podman's do is not returned.\<close>

definition runCmd :: "'c shell \<Rightarrow> string list \<Rightarrow> string \<Rightarrow> ('c, string) query" where
  "runCmd S args stdin c =
     (case sh_Run S ''podman'' args stdin c of
        (out, c') \<Rightarrow>
          (case ro_Err out of
             Some e \<Rightarrow> (if prefix ''Error: '' (ro_Stderr out) then Inl (ErrWrapped ''error from podman command'' e) else Inr (ro_Stdout out))
           | None \<Rightarrow> Inr (ro_Stdout out), c'))"

definition podman :: "'c shell \<Rightarrow> CommandManager \<Rightarrow> string list \<Rightarrow> string \<Rightarrow> ('c, string) query" where
  "podman S m args = runCmd S (genCmd (cmm_remote m) args)"

definition podman_error :: "string \<Rightarrow> run_output \<Rightarrow> go_error option" where
  "podman_error msg out =
     map_option (ErrWrapped (if prefix ''Error: '' (ro_Stderr out) then ''error from podman command'' else msg)) (ro_Err out)"

subsection \<open>Containers and images\<close>

definition loadContainer :: "'c shell \<Rightarrow> bool \<Rightarrow> string \<Rightarrow> ('c, Container) query" where
  "loadContainer S remote name =
     then_query (wrap_query ''can't inspect podman container'' (runCmd S (genCmd remote [''inspect'', ''--format'', ''json'', name]) []))
       (\<lambda>out. then_query (wrap_query ''can't decode podman container details'' (decoded (js_Inspect S) out))
       (\<lambda>ds. case ds of
          [d] \<Rightarrow> return_query (foldl (add_mount (\<lambda>m. m))
                   \<lparr>cn_Name = name, cn_Id = [], cn_Hostname = cd_Hostname d, cn_Volumes = Map.empty, cn_BindMounts = Map.empty\<rparr>
                   (cd_Mounts d))
        | _ \<Rightarrow> fail_query (ErrMsg ''unusual amount of container details'')))"

definition filterToArgs :: "ContainerListFilter \<Rightarrow> string list" where
  "filterToArgs f =
     [''ps'', ''--format'', ''json''] @ (if cf_All f then [''-a''] else []) @
     (if cf_Image f \<noteq> [] then [''--filter=ancestor='' @ cf_Image f] else []) @
     (if cf_Volume f \<noteq> [] then [''--filter=volume='' @ cf_Volume f] else []) @
     (if cf_Network f \<noteq> [] then [''--filter=network='' @ cf_Network f] else []) @
     (if cf_Pod f \<noteq> [] then (if cf_Network f \<noteq> [] then [''--filter=pod='' @ cf_Pod f] else []) else [])"

definition Command_ListContainers :: "'c shell \<Rightarrow> CommandManager \<Rightarrow> ContainerListFilter \<Rightarrow> ('c, Container list) query" where
  "Command_ListContainers S m f =
     then_query (wrap_query ''can't list containers'' (podman S m (filterToArgs f) []))
       (\<lambda>out. then_query (decoded (js_List S) out)
       (collect_query (\<lambda>c. loadContainer S (cmm_remote m) (cn_Id c))))"

definition Command_PauseContainer :: "'c shell \<Rightarrow> CommandManager \<Rightarrow> string \<Rightarrow> 'c operation" where
  "Command_PauseContainer S m name = wrap_op ''error pausing container'' (drop_result (podman S m [''pause'', name] []))"

definition Command_UnpauseContainer :: "'c shell \<Rightarrow> CommandManager \<Rightarrow> string \<Rightarrow> 'c operation" where
  "Command_UnpauseContainer S m name = wrap_op ''error unpausing container'' (drop_result (podman S m [''unpause'', name] []))"

definition Command_ExecContainer :: "'c shell \<Rightarrow> CommandManager \<Rightarrow> string \<Rightarrow> string list \<Rightarrow> 'c operation" where
  "Command_ExecContainer S m name command =
     wrap_op ''error running command in container'' (drop_result (podman S m ([''exec'', name] @ command) []))"

definition Command_ListImages :: "'c shell \<Rightarrow> CommandManager \<Rightarrow> ('c, Image list) query" where
  "Command_ListImages S m =
     then_query (wrap_query ''error listing podman images'' (podman S m [''image'', ''ls'', ''--format'', ''json''] []))
       (decoded (js_Images S))"

definition Command_RemoveImage :: "'c shell \<Rightarrow> CommandManager \<Rightarrow> string \<Rightarrow> 'c operation" where
  "Command_RemoveImage S m name = drop_result (podman S m [''image'', ''rm'', name] [])"

subsection \<open>Networks\<close>

definition loadNetwork :: "'c shell \<Rightarrow> bool \<Rightarrow> string \<Rightarrow> ('c, Network) query" where
  "loadNetwork S remote name =
     then_query (wrap_query ''can't inspect podman network'' (runCmd S (genCmd remote [''network'', ''inspect'', ''--format'', ''json'', name]) []))
       (\<lambda>out. then_query (wrap_query ''can't decode podman network details'' (decoded (js_NetworkDetails S) out))
       (\<lambda>ds. case ds of
          [d] \<Rightarrow> return_query \<lparr>net_Name = name, net_Containers = map snd d\<rparr>
        | _ \<Rightarrow> fail_query (ErrMsg ''unusual amount of network details'')))"

text \<open>\<open>bufio.ScanLines\<close>: the lines without their ends; nothing after the last one.\<close>

definition scan_lines :: "string \<Rightarrow> string list" where
  "scan_lines text =
     (let ls = Split text newline
      in map (\<lambda>l. TrimSuffix l [CHR 0x0D]) (if last ls = [] then butlast ls else ls))"

definition Command_ListNetworks :: "'c shell \<Rightarrow> CommandManager \<Rightarrow> ('c, Network list) query" where
  "Command_ListNetworks S m =
     then_query (wrap_query ''error listing networks'' (podman S m [''network'', ''ls'', ''--format'', ''{{ .Name }}''] []))
       (\<lambda>out. collect_query (\<lambda>n. wrap_query ''can't load network'' (loadNetwork S (cmm_remote m) n)) (scan_lines out))"

definition Command_RemoveNetwork :: "'c shell \<Rightarrow> CommandManager \<Rightarrow> Network \<Rightarrow> 'c operation" where
  "Command_RemoveNetwork S m n = drop_result (podman S m [''network'', ''rm'', net_Name n] [])"

subsection \<open>Secrets\<close>

definition Trim :: "string \<Rightarrow> char list \<Rightarrow> string" where
  "Trim s cutset = rev (dropWhile (\<lambda>c. c \<in> set cutset) (rev (dropWhile (\<lambda>c. c \<in> set cutset) s)))"

definition secret_format :: string where
  "secret_format = [CHR 0x22] @ ''{{ range . }}{{.Name}}'' @ [CHR 0x5C] @ ''n{{end -}}'' @ [CHR 0x22]"

definition listed_secrets :: "string \<Rightarrow> string \<Rightarrow> string list" where
  "listed_secrets pre out =
     map (\<lambda>v. TrimPrefix v pre)
       (filter (\<lambda>v. v \<noteq> [])
         (map (\<lambda>v. Trim v [CHR '' '', CHR 0x09, CHR 0x0A, CHR 0x0D, CHR 0x22, CHR 0x27]) (Split out newline)))"

definition Command_ListSecrets :: "'c shell \<Rightarrow> CommandManager \<Rightarrow> ('c, string list) query" where
  "Command_ListSecrets S m =
     then_query (wrap_query ''error listing secrets''
         (podman S m [''secret'', ''ls'', ''--noheading'', ''--format'', secret_format, ''--filter'',
            ''name='' @ cmm_secretsPrefix m @ ''*''] []))
       (\<lambda>out. return_query (listed_secrets (cmm_secretsPrefix m) out))"

definition Command_SecretName :: "CommandManager \<Rightarrow> string \<Rightarrow> string" where
  "Command_SecretName m name = cmm_secretsPrefix m @ name"

definition Command_GetSecret :: "'c shell \<Rightarrow> CommandManager \<Rightarrow> string \<Rightarrow> ('c, string \<times> string) query" where
  "Command_GetSecret S m name =
     then_query (wrap_query ''error getting podman secret''
         (podman S m [''secret'', ''inspect'', ''--showsecret'', cmm_secretsPrefix m @ name] []))
       (\<lambda>out. then_query (decoded (js_Secrets S) out)
       (\<lambda>infos. case infos of
          [] \<Rightarrow> fail_query (Panic ''index out of range'')
        | v # _ \<Rightarrow> return_query (name, v)))"

definition Command_WriteSecret :: "'c shell \<Rightarrow> CommandManager \<Rightarrow> string \<Rightarrow> string \<Rightarrow> 'c operation" where
  "Command_WriteSecret S m name v =
     wrap_op ''error writing podman secret''
       (drop_result (podman S m [''secret'', ''create'', ''--replace'', cmm_secretsPrefix m @ name, ''-''] v))"

definition Command_RemoveSecret :: "'c shell \<Rightarrow> CommandManager \<Rightarrow> string \<Rightarrow> 'c operation" where
  "Command_RemoveSecret S m name =
     wrap_op ''error removing podman secret'' (drop_result (podman S m [''secret'', ''rm'', cmm_secretsPrefix m @ name] []))"

subsection \<open>Volumes\<close>

definition Command_GetVolume :: "'c shell \<Rightarrow> CommandManager \<Rightarrow> string \<Rightarrow> ('c, Volume) query" where
  "Command_GetVolume S m name =
     then_query (wrap_query ''error inspecting volume'' (podman S m [''volume'', ''inspect'', ''--format'', ''json'', name] []))
       (\<lambda>out. then_query (decoded (js_Volumes S) out)
       (\<lambda>vs. case vs of [v] \<Rightarrow> return_query v | _ \<Rightarrow> fail_query (ErrSentinel ErrPodmanObjectNotFound)))"

definition plain_query :: "string \<Rightarrow> ('h, 'a) query \<Rightarrow> ('h, 'a) query" where
  "plain_query msg q h = (case q h of (Inl e, h') \<Rightarrow> (Inl (ErrMsg msg), h') | (Inr x, h') \<Rightarrow> (Inr x, h'))"

definition Command_ListVolumes :: "'c shell \<Rightarrow> CommandManager \<Rightarrow> ('c, Volume list) query" where
  "Command_ListVolumes S m =
     then_query (plain_query ''error listing volumes'' (podman S m [''volume'', ''ls'', ''--format'', ''json''] []))
       (decoded (js_Volumes S))"

definition command_dump_name :: "CommandManager \<Rightarrow> string \<Rightarrow> string \<Rightarrow> string" where
  "command_dump_name m dir name =
     (let f = JoinPath [dir, name] @ ''-volume.tar''
      in if cmm_compression m = [] then f else f @ ''.'' @ (if cmm_compression m = ''zstd'' then ''zst'' else ''gz''))"

definition dump_plain :: "'c shell \<Rightarrow> CommandManager \<Rightarrow> string \<Rightarrow> string \<Rightarrow> 'c operation" where
  "dump_plain S m name path c =
     (case sh_Run S ''podman'' (genCmd (cmm_remote m) [''volume'', ''export'', name]) [] c of
        (out, c') \<Rightarrow> (podman_error ''error starting export command'' out, sh_Write S path (ro_Stdout out) c'))"

definition dump_compressed :: "'c shell \<Rightarrow> CommandManager \<Rightarrow> string \<Rightarrow> string \<Rightarrow> string \<Rightarrow> 'c operation" where
  "dump_compressed S m cmd name path c =
     (case sh_Start S cmd of
        Some e \<Rightarrow> (Some (ErrWrapped ''error starting volume compression command'' e), c)
      | None \<Rightarrow>
     (case sh_Run S ''podman'' (genCmd (cmm_remote m) [''volume'', ''export'', name]) [] c of
        (out, c1) \<Rightarrow>
     (case sh_Run S cmd [] (ro_Stdout out) c1 of
        (z, c2) \<Rightarrow>
          (case ro_Err out of
             Some e \<Rightarrow> Some (ErrWrapped ''error running volume export'' e)
           | None \<Rightarrow> map_option (ErrWrapped ''error with volume compression'') (ro_Err z),
           sh_Write S path (ro_Stdout z) c2))))"

definition Command_DumpVolume :: "'c shell \<Rightarrow> CommandManager \<Rightarrow> Volume \<Rightarrow> string \<Rightarrow> 'c operation" where
  "Command_DumpVolume S m v dir =
     (let path = command_dump_name m dir (vol_Name v) in
      then_op (wrap_op ''error creating output file name'' (sh_Create S path))
        (if cmm_compression m \<noteq> []
         then dump_compressed S m (if cmm_compression m = ''zstd'' then ''zstd'' else ''gz'') (vol_Name v) path
         else dump_plain S m (vol_Name v) path))"

definition Command_MountVolume :: "'c shell \<Rightarrow> CommandManager \<Rightarrow> Volume \<Rightarrow> 'c operation" where
  "Command_MountVolume S m v = wrap_op ''error mounting volume'' (drop_result (podman S m [''volume'', ''mount'', vol_Name v] []))"

definition supportedVolumeDumpExts :: "string list" where
  "supportedVolumeDumpExts = [''.tar'', ''.tar.gz'', ''.zst'', ''.zstd'', ''.gz'']"

definition import_compressed :: "'c shell \<Rightarrow> CommandManager \<Rightarrow> string \<Rightarrow> string \<Rightarrow> string \<Rightarrow> 'c operation" where
  "import_compressed S m dcmd name path c =
     (case sh_Start S ''podman'' of
        Some e \<Rightarrow> (Some (ErrWrapped ''unable to start import'' e), c)
      | None \<Rightarrow>
     (case sh_Run S dcmd [''-c'', ''-d'', path] [] c of
        (z, c1) \<Rightarrow>
     (case sh_Run S ''podman'' (genCmd (cmm_remote m) [''volume'', ''import'', name, ''-'']) (ro_Stdout z) c1 of
        (out, c2) \<Rightarrow>
          (case ro_Err z of
             Some e \<Rightarrow> Some (ErrWrapped ''unable to start volume decompression'' e)
           | None \<Rightarrow> podman_error ''error starting import command'' out, c2))))"

definition Command_ImportVolume :: "'c shell \<Rightarrow> CommandManager \<Rightarrow> Volume \<Rightarrow> string \<Rightarrow> 'c operation" where
  "Command_ImportVolume S m v path =
     (let ext = Ext path in
      if ext \<notin> set supportedVolumeDumpExts then fail_op (ErrMsg ''unsupported volume dump type for import'')
      else if vol_Driver v \<noteq> ''local'' \<and> vol_Driver v \<noteq> [] then fail_op (ErrMsg ''can only import into local volume'')
      else if ext = ''.tar''
      then use_query (plain_query ''error importing volume'' (podman S m [''volume'', ''import'', vol_Name v, path] [])) (\<lambda>_ c. (None, c))
      else if ext \<in> {''.zstd'', ''.zst''} then import_compressed S m ''zstd'' (vol_Name v) path
      else if ext \<in> {''.gz'', ''tar.gz''} then import_compressed S m ''gzip'' (vol_Name v) path
      else fail_op (ErrMsg ''unsupported volume backup extension''))"

definition Command_RemoveVolume :: "'c shell \<Rightarrow> CommandManager \<Rightarrow> Volume \<Rightarrow> 'c operation" where
  "Command_RemoveVolume S m v = wrap_op ''error removing volume'' (drop_result (podman S m [''volume'', ''rm'', vol_Name v] []))"

definition CommandManager_ops :: "'c shell \<Rightarrow> CommandManager \<Rightarrow> 'c ContainerManager" where
  "CommandManager_ops S m =
     \<lparr>ctm_GetContainer = loadContainer S (cmm_remote m), ctm_ListContainers = Command_ListContainers S m,
      ctm_PauseContainer = Command_PauseContainer S m, ctm_UnpauseContainer = Command_UnpauseContainer S m,
      ctm_ExecContainer = Command_ExecContainer S m, ctm_GetVolume = Command_GetVolume S m,
      ctm_ListVolumes = Command_ListVolumes S m, ctm_DumpVolume = Command_DumpVolume S m,
      ctm_ImportVolume = Command_ImportVolume S m, ctm_RemoveVolume = Command_RemoveVolume S m,
      ctm_ListNetworks = Command_ListNetworks S m, ctm_GetNetwork = loadNetwork S (cmm_remote m),
      ctm_RemoveNetwork = Command_RemoveNetwork S m, ctm_ListSecrets = Command_ListSecrets S m,
      ctm_GetSecret = Command_GetSecret S m, ctm_WriteSecret = Command_WriteSecret S m,
      ctm_RemoveSecret = Command_RemoveSecret S m, ctm_SecretName = Command_SecretName m,
      ctm_ListImages = Command_ListImages S m, ctm_RemoveImage = Command_RemoveImage S m\<rparr>"

end
