(* ===== verification/PodmanNative.thy ===== *)
theory PodmanNative
  imports Podman
begin

section \<open>Containers (pkg/containers): the podman bindings\<close>

text \<open>
  \<open>NativeManager\<close> calls podman's bindings over its socket.  The bindings are the record \<open>bindings\<close>, with
  the fields of their answers the code reads.  A reader of a dump is what it yields and the error
  it ends with.  The compressors are parameters: what they make of a text, and the errors of their
  constructors and of closing them.
\<close>

record Inspected =
  ip_ID :: string
  ip_Hostname :: string
  ip_Mounts :: "ContainerMount list"

record 'c bindings =
  nb_Inspect :: "string \<Rightarrow> ('c, Inspected) query"
  nb_List :: "bool \<Rightarrow> (string \<times> string) list \<Rightarrow> ('c, string list list) query"
  nb_ExecCreate :: "string \<Rightarrow> string list \<Rightarrow> ('c, string) query"
  nb_ExecStart :: "string \<Rightarrow> 'c operation"
  nb_ExecInspect :: "string \<Rightarrow> ('c, int) query"
  nb_Pause :: "string \<Rightarrow> 'c operation"
  nb_Unpause :: "string \<Rightarrow> 'c operation"
  nb_GetImage :: "string \<Rightarrow> ('c, string list \<times> string) query"
  nb_ListImages :: "('c, (string list \<times> string) list) query"
  nb_RemoveImages :: "string list \<Rightarrow> 'c \<Rightarrow> go_error list \<times> 'c"
  nb_InspectNetwork :: "string \<Rightarrow> ('c, string list) query"
  nb_ListNetworks :: "('c, string list) query"
  nb_RemoveNetwork :: "string \<Rightarrow> 'c operation"
  nb_InspectSecret :: "string \<Rightarrow> ('c, string) query"
  nb_ListSecrets :: "string \<Rightarrow> ('c, string list) query"
  nb_RemoveSecret :: "string \<Rightarrow> 'c operation"
  nb_CreateSecret :: "string \<Rightarrow> string \<Rightarrow> 'c operation"
  nb_InspectVolume :: "string \<Rightarrow> ('c, string \<times> string) query"
  nb_ListVolumes :: "('c, Volume list) query"
  nb_RemoveVolume :: "string \<Rightarrow> 'c operation"
  nb_ImportVolume :: "string \<Rightarrow> string \<times> go_error option \<Rightarrow> 'c operation"
  nb_ExportVolume :: "string \<Rightarrow> 'c \<Rightarrow> (string \<times> go_error option) \<times> 'c"
  nb_Open :: "string \<Rightarrow> ('c, string) query"
  nb_Create :: "string \<Rightarrow> 'c operation"
  nb_Write :: "string \<Rightarrow> string \<Rightarrow> 'c \<Rightarrow> 'c"
  nb_NewReader :: "string \<Rightarrow> string \<Rightarrow> (string \<times> go_error option) result"
  nb_NewWriter :: "string \<Rightarrow> go_error option"
  nb_Compressed :: "string \<Rightarrow> string \<Rightarrow> string"
  nb_CloseWriter :: "string \<Rightarrow> go_error option"

record NativeManager =
  ntm_secretsPrefix :: string
  ntm_compression :: string

text \<open>The connection to the socket of the user is \<open>connect\<close>.\<close>

definition NewNativeManager :: "(string \<Rightarrow> go_error option) \<Rightarrow> string option \<Rightarrow> ContainersConfig \<Rightarrow> NativeManager result" where
  "NewNativeManager connect uid cfg =
     (case connect (case uid of None \<Rightarrow> ''unix:///run/podman/podman.sock''
                      | Some u \<Rightarrow> ''unix:///run/user/'' @ u @ ''/podman/podman.sock'') of
        Some e \<Rightarrow> Inl e
      | None \<Rightarrow> Inr \<lparr>ntm_secretsPrefix = ctc_SecretsPrefix cfg, ntm_compression = ctc_Compression cfg\<rparr>)"

subsection \<open>Containers and images\<close>

definition bind_mount :: "ContainerMount \<Rightarrow> ContainerMount" where
  "bind_mount m = \<lparr>mn_Type = ''bind'', mn_Name = mn_Destination m, mn_Source = mn_Source m,
     mn_Destination = mn_Destination m, mn_Driver = []\<rparr>"

definition Native_GetContainer :: "'c bindings \<Rightarrow> string \<Rightarrow> ('c, Container) query" where
  "Native_GetContainer B name =
     then_query (nb_Inspect B name)
       (\<lambda>full. return_query (foldl (add_mount bind_mount)
          \<lparr>cn_Name = name, cn_Id = ip_ID full, cn_Hostname = ip_Hostname full, cn_Volumes = Map.empty, cn_BindMounts = Map.empty\<rparr>
          (ip_Mounts full)))"

definition list_filters :: "ContainerListFilter \<Rightarrow> (string \<times> string) list" where
  "list_filters f =
     (if cf_Image f \<noteq> [] then [(''image'', cf_Image f)] else []) @
     (if cf_Network f \<noteq> [] then [(''network'', cf_Network f)] else []) @
     (if cf_Pod f \<noteq> [] then [(''pod'', cf_Pod f)] else []) @
     (if cf_Volume f \<noteq> [] then [(''volume'', cf_Volume f)] else [])"

definition Native_ListContainers :: "'c bindings \<Rightarrow> ContainerListFilter \<Rightarrow> ('c, Container list) query" where
  "Native_ListContainers B f =
     then_query (nb_List B (cf_All f) (list_filters f))
       (\<lambda>entries. collect_query (\<lambda>names. Native_GetContainer B (hd names)) (filter (\<lambda>names. names \<noteq> []) entries))"

definition Native_ExecContainer :: "'c bindings \<Rightarrow> string \<Rightarrow> string list \<Rightarrow> 'c operation" where
  "Native_ExecContainer B name args =
     use_query (wrap_query ''unable to create podman exec session'' (nb_ExecCreate B name args))
       (\<lambda>session. then_op (wrap_op ''unable to podman exec'' (nb_ExecStart B session))
       (use_query (wrap_query ''inspecting exec session'' (nb_ExecInspect B session))
         (\<lambda>code c. (if code \<noteq> 0 then Some (ErrWrapped ''command'' (ErrSentinel ErrPodmanExecFailure)) else None, c))))"

definition Native_GetImage :: "'c bindings \<Rightarrow> string \<Rightarrow> ('c, Image) query" where
  "Native_GetImage B name =
     then_query (nb_GetImage B name) (\<lambda>(tags, i). return_query \<lparr>img_Names = tags, img_ID = i\<rparr>)"

definition Native_ListImages :: "'c bindings \<Rightarrow> ('c, Image list) query" where
  "Native_ListImages B =
     then_query (nb_ListImages B) (\<lambda>is. return_query (map (\<lambda>(tags, i). \<lparr>img_Names = tags, img_ID = i\<rparr>) is))"

text \<open>\<open>errors.Join\<close>: nil without an error.\<close>

definition Native_RemoveImage :: "'c bindings \<Rightarrow> string \<Rightarrow> 'c operation" where
  "Native_RemoveImage B name c =
     (case nb_RemoveImages B [name] c of
        (errs, c') \<Rightarrow> (case errs of [] \<Rightarrow> None | e # _ \<Rightarrow> Some (ErrWrapped [] e), c'))"

subsection \<open>Networks and secrets\<close>

definition Native_GetNetwork :: "'c bindings \<Rightarrow> string \<Rightarrow> ('c, Network) query" where
  "Native_GetNetwork B name =
     then_query (nb_InspectNetwork B name) (\<lambda>cs. return_query \<lparr>net_Name = name, net_Containers = cs\<rparr>)"

definition Native_ListNetworks :: "'c bindings \<Rightarrow> ('c, Network list) query" where
  "Native_ListNetworks B = then_query (nb_ListNetworks B) (collect_query (Native_GetNetwork B))"

definition Native_RemoveNetwork :: "'c bindings \<Rightarrow> Network option \<Rightarrow> 'c operation" where
  "Native_RemoveNetwork B n =
     (case n of None \<Rightarrow> fail_op (ErrMsg ''tried to remove nil network'') | Some n \<Rightarrow> nb_RemoveNetwork B (net_Name n))"

definition Native_SecretName :: "NativeManager \<Rightarrow> string \<Rightarrow> string" where
  "Native_SecretName m name = ntm_secretsPrefix m @ name"

definition Native_GetSecret :: "'c bindings \<Rightarrow> NativeManager \<Rightarrow> string \<Rightarrow> ('c, string \<times> string) query" where
  "Native_GetSecret B m name =
     then_query (wrap_query ''unable to get secret'' (nb_InspectSecret B (Native_SecretName m name)))
       (\<lambda>v. return_query (name, v))"

definition Native_ListSecrets :: "'c bindings \<Rightarrow> NativeManager \<Rightarrow> ('c, string list) query" where
  "Native_ListSecrets B m =
     then_query (wrap_query ''unable to list secrets'' (nb_ListSecrets B (ntm_secretsPrefix m)))
       (\<lambda>ns. return_query (map (\<lambda>n. TrimPrefix n (ntm_secretsPrefix m)) ns))"

definition Native_RemoveSecret :: "'c bindings \<Rightarrow> NativeManager \<Rightarrow> string \<Rightarrow> 'c operation" where
  "Native_RemoveSecret B m name = nb_RemoveSecret B (Native_SecretName m name)"

definition Native_WriteSecret :: "'c bindings \<Rightarrow> NativeManager \<Rightarrow> string \<Rightarrow> string \<Rightarrow> 'c operation" where
  "Native_WriteSecret B m name v = wrap_op ''unable to write secret'' (nb_CreateSecret B (Native_SecretName m name) v)"

subsection \<open>Volumes\<close>

definition Native_GetVolume :: "'c bindings \<Rightarrow> string \<Rightarrow> ('c, Volume) query" where
  "Native_GetVolume B name =
     then_query (nb_InspectVolume B name)
       (\<lambda>(mountpoint, driver). return_query \<lparr>vol_Name = name, vol_Mountpoint = mountpoint, vol_Driver = driver\<rparr>)"

definition Native_ListVolumes :: "'c bindings \<Rightarrow> ('c, Volume list) query" where
  "Native_ListVolumes B =
     then_query (nb_ListVolumes B)
       (\<lambda>vs. return_query (map (\<lambda>v. \<lparr>vol_Name = vol_Name v, vol_Mountpoint = vol_Mountpoint v, vol_Driver = vol_Driver v\<rparr>) vs))"

definition Native_RemoveVolume :: "'c bindings \<Rightarrow> Volume \<Rightarrow> 'c operation" where
  "Native_RemoveVolume B v = nb_RemoveVolume B (vol_Name v)"

text \<open>The reader of a dump by its extension.\<close>

definition dump_reader :: "'c bindings \<Rightarrow> string \<Rightarrow> string \<Rightarrow> (string \<times> go_error option) result" where
  "dump_reader B ext text =
     (if ext = ''.tar'' then Inr (text, None)
      else if ext \<in> {''.gz'', ''.tar.gz''} then wrap_error ''unable to create gzip reader'' (nb_NewReader B ''gzip'' text)
      else if ext \<in> {''.zst'', ''.zstd''} then wrap_error ''unable to create zstd reader'' (nb_NewReader B ''zstd'' text)
      else Inl (ErrMsg ''unsupported volume backup extension''))"

definition Native_ImportVolume :: "'c bindings \<Rightarrow> Volume \<Rightarrow> string \<Rightarrow> 'c operation" where
  "Native_ImportVolume B v path =
     (let ext = Ext path in
      if ext \<notin> set supportedVolumeDumpExts then fail_op (ErrMsg ''unsupported volume dump type for import'')
      else if vol_Driver v \<noteq> ''local'' \<and> vol_Driver v \<noteq> [] then fail_op (ErrMsg ''cannot import into non-local driver type'')
      else use_query (wrap_query ''opening volume dump'' (nb_Open B path))
        (\<lambda>text. case dump_reader B ext text of
           Inl e \<Rightarrow> fail_op e
         | Inr reader \<Rightarrow> wrap_op ''unable to import volume'' (nb_ImportVolume B (vol_Name v) reader)))"

definition dumpFilename :: "string \<Rightarrow> string \<Rightarrow> string \<Rightarrow> string" where
  "dumpFilename dir name compression =
     JoinPath [dir, name @ ''-volume.tar'' @
       (if compression = ''gzip'' then ''.gz'' else if compression = ''zstd'' then ''.zst'' else [])]"

text \<open>What is exported is written as it comes; a compressor writes its rest when it is closed.\<close>

definition Native_DumpVolume :: "'c bindings \<Rightarrow> NativeManager \<Rightarrow> Volume \<Rightarrow> string \<Rightarrow> 'c operation" where
  "Native_DumpVolume B m v dir =
     (let kind = ntm_compression m; path = dumpFilename dir (vol_Name v) kind; compressed = kind \<in> {''gzip'', ''zstd''} in
      then_op (wrap_op ''error creating output file name'' (nb_Create B path))
        (\<lambda>c. if kind = ''zstd'' \<and> nb_NewWriter B kind \<noteq> None
             then (map_option (ErrWrapped ''unable to create zstd writer'') (nb_NewWriter B kind), c)
             else case nb_ExportVolume B (vol_Name v) c of
               ((text, err), c') \<Rightarrow>
                 (case err of
                    Some e \<Rightarrow> Some (ErrWrapped ''unable to dump volume'' e)
                  | None \<Rightarrow> (if compressed then map_option (ErrWrapped ''unable to finalize volume dump'') (nb_CloseWriter B kind) else None),
                  nb_Write B path (if compressed then nb_Compressed B kind text else text) c')))"

definition NativeManager_ops :: "'c bindings \<Rightarrow> NativeManager \<Rightarrow> 'c ContainerManager" where
  "NativeManager_ops B m =
     \<lparr>ctm_GetContainer = Native_GetContainer B, ctm_ListContainers = Native_ListContainers B,
      ctm_PauseContainer = nb_Pause B, ctm_UnpauseContainer = nb_Unpause B,
      ctm_ExecContainer = Native_ExecContainer B, ctm_GetVolume = Native_GetVolume B,
      ctm_ListVolumes = Native_ListVolumes B, ctm_DumpVolume = Native_DumpVolume B m,
      ctm_ImportVolume = Native_ImportVolume B, ctm_RemoveVolume = Native_RemoveVolume B,
      ctm_ListNetworks = Native_ListNetworks B, ctm_GetNetwork = Native_GetNetwork B,
      ctm_RemoveNetwork = (\<lambda>n. Native_RemoveNetwork B (Some n)), ctm_ListSecrets = Native_ListSecrets B m,
      ctm_GetSecret = Native_GetSecret B m, ctm_WriteSecret = Native_WriteSecret B m,
      ctm_RemoveSecret = Native_RemoveSecret B m, ctm_SecretName = Native_SecretName m,
      ctm_ListImages = Native_ListImages B, ctm_RemoveImage = Native_RemoveImage B\<rparr>"

text \<open>The choice of \<open>NewHostManager\<close>.\<close>

definition NewHostManager_containers ::
    "'c shell \<Rightarrow> 'c bindings \<Rightarrow> (string \<Rightarrow> go_error option) \<Rightarrow> string option \<Rightarrow> bool \<Rightarrow> ContainersConfig \<Rightarrow>
       'c ContainerManager result" where
  "NewHostManager_containers S B connect uid commandPodman cfg =
     (if commandPodman then Inr (CommandManager_ops S (NewCommandManager cfg))
      else map_sum (\<lambda>e. ErrWrapped ''failed to create native podman manager'' e) (NativeManager_ops B)
             (NewNativeManager connect uid cfg))"

end
