(* ===== verification/PodmanFacts.thy ===== *)
theory PodmanFacts
  imports PodmanNative HostUpdates
begin

section \<open>What the container managers keep\<close>

text \<open>
  Both managers provide what the update of a host asks of its containers (\<open>rest_laws\<close>): the locale
  \<open>secret_manager\<close> states the laws of a container manager, and is interpreted on the manager of the podman
  command, over a podman that keeps its secrets and reports its errors as it documents, and on
  the manager of the bindings.
\<close>

subsection \<open>The contract\<close>

locale secret_manager =
  fixes m :: "'c ContainerManager" and held :: "'c \<Rightarrow> string \<Rightarrow> string option"
  assumes wrote: "ctm_WriteSecret m n v c = (None, c') \<Longrightarrow> held c' = (held c)(n \<mapsto> v)"
    and removed: "ctm_RemoveSecret m n c = (None, c') \<Longrightarrow> held c' = (held c)(n := None)"
    and get_held: "held c n = Some v \<Longrightarrow> fst (ctm_GetSecret m n c) = Inr (n, v)"
    and get_absent: "held c n = None \<Longrightarrow> fst (ctm_GetSecret m n c) \<noteq> Inr s"
    and get: "keeps (\<lambda>c. held c = h) (ctm_GetSecret m n)"
    and containers: "keeps (\<lambda>c. held c = h) (ctm_ListContainers m f)" "keeps (\<lambda>c. held c = h) (ctm_ExecContainer m n cmd)"
    and volumes: "keeps (\<lambda>c. held c = h) (ctm_DumpVolume m vol d)" "keeps (\<lambda>c. held c = h) (ctm_ImportVolume m vol d)"
      "keeps (\<lambda>c. held c = h) (ctm_RemoveVolume m vol)"
    and networks: "keeps (\<lambda>c. held c = h) (ctm_GetNetwork m n)" "keeps (\<lambda>c. held c = h) (ctm_RemoveNetwork m net)"
    and images: "keeps (\<lambda>c. held c = h) (ctm_RemoveImage m n)"
begin

lemma same: "keeps (\<lambda>c. held c = held c0) q \<Longrightarrow> held (snd (q c0)) = held c0"
  by (drule keepsD) simp_all

lemma write_get: "ctm_WriteSecret m n v c = (None, c1) \<Longrightarrow> fst (ctm_GetSecret m n c1) = Inr (n, v)"
  by (rule get_held) (simp add: wrote)

lemma remove_get: "ctm_RemoveSecret m n c = (None, c1) \<Longrightarrow> fst (ctm_GetSecret m n c1) \<noteq> Inr s"
  by (rule get_absent) (simp add: removed)

lemma write_get_other:
  "ctm_WriteSecret m n v c = (None, c1) \<Longrightarrow> k \<noteq> n \<Longrightarrow> held c k = Some w \<Longrightarrow> fst (ctm_GetSecret m k c1) = Inr (k, w)"
  by (rule get_held) (simp add: wrote)

lemma provides_rest:
  assumes "\<And>n s t c. held (snd (ho_ApplyService b n s t c)) = held c" "\<And>n c. held (snd (ho_GetService b n c)) = held c"
    "\<And>t n cmd c. held (snd (ho_RunOneshotCommand b t n cmd c)) = held c"
    "\<And>n st t c. held (snd (ho_WaitUntilState b n st t c)) = held c"
  shows "rest_laws (with_containers m b) held"
proof -
  have "held (snd (then_query (ctm_ListContainers m f) (\<lambda>cs. return_query (map cn_Name cs)) c)) = held c" for f c
    by (rule same) (intro keeps_intros containers)
  with assms show ?thesis
    by (simp add: rest_laws_def with_containers_def wrote removed same containers volumes networks images)
qed

end

subsection \<open>The podman command\<close>

text \<open>
  Podman keeps its secrets: \<open>secret create\<close> stores its input, \<open>secret rm\<close> removes, \<open>secret inspect\<close>
  prints what the decoder reads as the value; each fails with a line that begins with \<open>Error:\<close>, and no
  other command touches a secret.
\<close>

definition podman_answer :: "run_output \<Rightarrow> bool" where
  "podman_answer out \<longleftrightarrow> (ro_Err out = None \<or> prefix ''Error: '' (ro_Stderr out))"

definition podman_laws :: "'c shell \<Rightarrow> bool \<Rightarrow> ('c \<Rightarrow> string \<Rightarrow> string option) \<Rightarrow> bool" where
  "podman_laws S remote secrets \<longleftrightarrow>
     (\<forall>n v c out c'. sh_Run S ''podman'' (genCmd remote [''secret'', ''create'', ''--replace'', n, ''-'']) v c = (out, c') \<longrightarrow>
        podman_answer out \<and> secrets c' = (if ro_Err out = None then (secrets c)(n \<mapsto> v) else secrets c)) \<and>
     (\<forall>n c out c'. sh_Run S ''podman'' (genCmd remote [''secret'', ''rm'', n]) [] c = (out, c') \<longrightarrow>
        podman_answer out \<and> secrets c' = (if ro_Err out = None then (secrets c)(n := None) else secrets c)) \<and>
     (\<forall>n c out c'. sh_Run S ''podman'' (genCmd remote [''secret'', ''inspect'', ''--showsecret'', n]) [] c = (out, c') \<longrightarrow>
        podman_answer out \<and> secrets c' = secrets c \<and> (ro_Err out = None \<longleftrightarrow> secrets c n \<noteq> None) \<and>
        (\<forall>v. secrets c n = Some v \<longrightarrow> js_Secrets S (ro_Stdout out) = Inr [v])) \<and>
     (\<forall>prog args stdin c. prog \<noteq> ''podman'' \<or> \<not> prefix (genCmd remote [''secret'']) args \<longrightarrow>
        secrets (snd (sh_Run S prog args stdin c)) = secrets c) \<and>
     (\<forall>path c. secrets (snd (sh_Create S path c)) = secrets c) \<and> (\<forall>path text c. secrets (sh_Write S path text c) = secrets c)"

lemma runCmd_snd: "snd (runCmd S args stdin c) = snd (sh_Run S ''podman'' args stdin c)"
  by (simp add: runCmd_def split: prod.split)

lemma prefix_genCmd: "prefix (genCmd r [x]) (genCmd r (y # ys)) \<longleftrightarrow> x = y"
  by (auto simp: genCmd_def)

lemma keeps_collect: "(\<And>x. keeps P (f x)) \<Longrightarrow> keeps P (collect_query f xs)"
  by (induction xs) (auto intro!: keeps_intros)

lemma keeps_drop [keeps_intros]: "keeps P q \<Longrightarrow> keeps P (drop_result q)"
  unfolding drop_result_def by (intro keeps_intros) (auto intro: keepsI)

lemma keeps_decoded [keeps_intros]: "keeps P (decoded f out)"
  by (simp add: keeps_def decoded_def)

lemma keeps_plain [keeps_intros]: "keeps P q \<Longrightarrow> keeps P (plain_query msg q)"
  by (auto simp: keeps_def plain_query_def split: prod.split sum.split)

lemma keeps_unit [keeps_intros]: "keeps P (\<lambda>c. (x, c))"
  by (simp add: keeps_def)

definition named_secret :: "string \<Rightarrow> ('c \<Rightarrow> string \<Rightarrow> string option) \<Rightarrow> 'c \<Rightarrow> string \<Rightarrow> string option" where
  "named_secret pre secrets c n = secrets c (pre @ n)"

locale podman_host =
  fixes S :: "'c shell" and m :: CommandManager and secrets :: "'c \<Rightarrow> string \<Rightarrow> string option"
    and held :: "'c \<Rightarrow> string \<Rightarrow> string option"
  assumes laws: "podman_laws S (cmm_remote m) secrets"
    and held: "held = named_secret (cmm_secretsPrefix m) secrets"
begin

lemma held_same: "secrets c' = secrets c \<Longrightarrow> held c' = held c"
  by (simp add: held named_secret_def fun_eq_iff)

lemma run_same: "prog \<noteq> ''podman'' \<or> \<not> prefix (genCmd (cmm_remote m) [''secret'']) args \<Longrightarrow>
    held (snd (sh_Run S prog args stdin c)) = held c"
  using laws by (intro held_same) (simp add: podman_laws_def)

lemma podman_same: "x \<noteq> ''secret'' \<Longrightarrow> held (snd (sh_Run S ''podman'' (genCmd (cmm_remote m) (x # xs)) stdin c)) = held c"
  by (rule run_same) (simp add: prefix_genCmd)

lemma file_same: "held (snd (sh_Create S path c)) = held c" "held (sh_Write S path text c) = held c"
  using laws by (auto intro!: held_same simp: podman_laws_def)

lemma keeps_runCmd: "x \<noteq> ''secret'' \<Longrightarrow> keeps (\<lambda>c. held c = h) (runCmd S (genCmd (cmm_remote m) (x # xs)) stdin)"
  by (rule keepsI) (simp add: runCmd_snd podman_same)

lemma keeps_podman: "x \<noteq> ''secret'' \<Longrightarrow> keeps (\<lambda>c. held c = h) (podman S m (x # xs) stdin)"
  by (simp add: podman_def keeps_runCmd)

lemma keeps_plain_dump: "keeps (\<lambda>c. held c = h) (dump_plain S m n path)"
proof (rule keepsI)
  fix c assume c: "held c = h"
  show "held (snd (dump_plain S m n path c)) = h"
    using podman_same [of "''volume''" "[''export'', n]" "[]" c] c
    by (simp add: dump_plain_def file_same case_prod_beta)
qed

lemma keeps_compressed_dump:
  assumes "cmd \<noteq> ''podman''"
  shows "keeps (\<lambda>c. held c = h) (dump_compressed S m cmd n path)"
proof (rule keepsI)
  fix c assume c: "held c = h"
  show "held (snd (dump_compressed S m cmd n path c)) = h"
  proof (cases "sh_Start S cmd")
    case None
    obtain out c1 where e: "sh_Run S ''podman'' (genCmd (cmm_remote m) [''volume'', ''export'', n]) [] c = (out, c1)" by fastforce
    obtain z c2 where z: "sh_Run S cmd [] (ro_Stdout out) c1 = (z, c2)" by fastforce
    have "held c1 = h" using podman_same [of "''volume''" "[''export'', n]" "[]" c] c by (simp add: e)
    moreover have "held c2 = held c1" using run_same [of cmd "[]" "ro_Stdout out" c1] assms by (simp add: z)
    ultimately show ?thesis using None by (simp add: dump_compressed_def e z file_same)
  qed (simp add: dump_compressed_def c)
qed

lemma keeps_compressed_import:
  assumes "cmd \<noteq> ''podman''"
  shows "keeps (\<lambda>c. held c = h) (import_compressed S m cmd n path)"
proof (rule keepsI)
  fix c assume c: "held c = h"
  show "held (snd (import_compressed S m cmd n path c)) = h"
  proof (cases "sh_Start S ''podman''")
    case None
    obtain z c1 where z: "sh_Run S cmd [''-c'', ''-d'', path] [] c = (z, c1)" by fastforce
    obtain out c2 where i: "sh_Run S ''podman'' (genCmd (cmm_remote m) [''volume'', ''import'', n, ''-'']) (ro_Stdout z) c1 = (out, c2)"
      by fastforce
    have "held c1 = h" using run_same [of cmd _ "[]" c] assms c by (metis z snd_conv)
    moreover have "held c2 = held c1"
      using podman_same [of "''volume''" "[''import'', n, ''-'']" "ro_Stdout z" c1] by (simp add: i)
    ultimately show ?thesis using None by (simp add: import_compressed_def z i)
  qed (simp add: import_compressed_def c)
qed

lemma keeps_files: "keeps (\<lambda>c. held c = h) (sh_Create S path)"
  by (rule keepsI) (simp add: file_same)

lemma keeps_dump: "keeps (\<lambda>c. held c = h) (Command_DumpVolume S m v d)"
  unfolding Command_DumpVolume_def Let_def
  by (intro keeps_intros keeps_plain_dump keeps_compressed_dump keeps_files) simp

lemma keeps_import: "keeps (\<lambda>c. held c = h) (Command_ImportVolume S m v path)"
  unfolding Command_ImportVolume_def Let_def
  by (intro keeps_intros keeps_podman keeps_compressed_import) simp_all

lemma keeps_load: "keeps (\<lambda>c. held c = h) (loadContainer S (cmm_remote m) n)" "keeps (\<lambda>c. held c = h) (loadNetwork S (cmm_remote m) n)"
  unfolding loadContainer_def loadNetwork_def
  by (intro keeps_intros keeps_runCmd; auto intro!: keeps_intros split: list.split)+

lemma keeps_list: "keeps (\<lambda>c. held c = h) (Command_ListContainers S m f)"
proof -
  obtain xs where xs: "filterToArgs f = ''ps'' # xs" by (simp add: filterToArgs_def)
  show ?thesis
    unfolding Command_ListContainers_def xs by (intro keeps_intros keeps_podman keeps_collect keeps_load) simp
qed

lemma keeps_commands:
  "keeps (\<lambda>c. held c = h) (Command_ExecContainer S m n cmd)" "keeps (\<lambda>c. held c = h) (Command_RemoveVolume S m v)"
  "keeps (\<lambda>c. held c = h) (Command_RemoveNetwork S m net)" "keeps (\<lambda>c. held c = h) (Command_RemoveImage S m n)"
  unfolding Command_ExecContainer_def Command_RemoveVolume_def Command_RemoveNetwork_def Command_RemoveImage_def
  by (simp_all, (intro keeps_intros keeps_podman; simp)+)

lemma create_law:
  "sh_Run S ''podman'' (genCmd (cmm_remote m) [''secret'', ''create'', ''--replace'', n, ''-'']) v c = (out, c') \<Longrightarrow>
   podman_answer out \<and> secrets c' = (if ro_Err out = None then (secrets c)(n \<mapsto> v) else secrets c)"
  using laws [unfolded podman_laws_def, THEN conjunct1] by metis

lemma rm_law:
  "sh_Run S ''podman'' (genCmd (cmm_remote m) [''secret'', ''rm'', n]) [] c = (out, c') \<Longrightarrow>
   podman_answer out \<and> secrets c' = (if ro_Err out = None then (secrets c)(n := None) else secrets c)"
  using laws [unfolded podman_laws_def, THEN conjunct2, THEN conjunct1] by metis

lemma inspect_law:
  "sh_Run S ''podman'' (genCmd (cmm_remote m) [''secret'', ''inspect'', ''--showsecret'', n]) [] c = (out, c') \<Longrightarrow>
   podman_answer out \<and> secrets c' = secrets c \<and> (ro_Err out = None \<longleftrightarrow> secrets c n \<noteq> None) \<and>
   (\<forall>v. secrets c n = Some v \<longrightarrow> js_Secrets S (ro_Stdout out) = Inr [v])"
  using laws [unfolded podman_laws_def, THEN conjunct2, THEN conjunct2, THEN conjunct1] by metis

lemma writes_secret: "Command_WriteSecret S m n v c = (None, c') \<Longrightarrow> held c' = (held c)(n \<mapsto> v)"
proof -
  let ?args = "genCmd (cmm_remote m) [''secret'', ''create'', ''--replace'', cmm_secretsPrefix m @ n, ''-'']"
  assume w: "Command_WriteSecret S m n v c = (None, c')"
  obtain out c1 where r: "sh_Run S ''podman'' ?args v c = (out, c1)" by fastforce
  have l: "podman_answer out" "secrets c1 = (if ro_Err out = None then (secrets c)(cmm_secretsPrefix m @ n \<mapsto> v) else secrets c)"
    using create_law [OF r] by simp_all
  from w r l(1) have "ro_Err out = None" "c' = c1"
    by (auto simp: Command_WriteSecret_def wrap_op_None drop_result_def query_Inr podman_def runCmd_def podman_answer_def
        split: option.splits if_splits)
  with l(2) show ?thesis by (simp add: held named_secret_def fun_eq_iff)
qed

lemma removes_secret: "Command_RemoveSecret S m n c = (None, c') \<Longrightarrow> held c' = (held c)(n := None)"
proof -
  let ?args = "genCmd (cmm_remote m) [''secret'', ''rm'', cmm_secretsPrefix m @ n]"
  assume w: "Command_RemoveSecret S m n c = (None, c')"
  obtain out c1 where r: "sh_Run S ''podman'' ?args [] c = (out, c1)" by fastforce
  have l: "podman_answer out" "secrets c1 = (if ro_Err out = None then (secrets c)(cmm_secretsPrefix m @ n := None) else secrets c)"
    using rm_law [OF r] by simp_all
  from w r l(1) have "ro_Err out = None" "c' = c1"
    by (auto simp: Command_RemoveSecret_def wrap_op_None drop_result_def query_Inr podman_def runCmd_def podman_answer_def
        split: option.splits if_splits)
  with l(2) show ?thesis by (simp add: held named_secret_def fun_eq_iff)
qed

lemma gets_secret:
  shows "held c n = Some v \<Longrightarrow> fst (Command_GetSecret S m n c) = Inr (n, v)"
    and "held c n = None \<Longrightarrow> fst (Command_GetSecret S m n c) \<noteq> Inr s"
    and "held (snd (Command_GetSecret S m n c)) = held c"
proof -
  let ?args = "genCmd (cmm_remote m) [''secret'', ''inspect'', ''--showsecret'', cmm_secretsPrefix m @ n]"
  obtain out c1 where r: "sh_Run S ''podman'' ?args [] c = (out, c1)" by fastforce
  have l: "podman_answer out" "secrets c1 = secrets c" "ro_Err out = None \<longleftrightarrow> held c n \<noteq> None"
    "held c n = Some v \<Longrightarrow> js_Secrets S (ro_Stdout out) = Inr [v]"
    using inspect_law [OF r] by (simp_all add: held named_secret_def)
  note defs = Command_GetSecret_def then_query_def wrap_query_def podman_def runCmd_def r decoded_def return_query_def fail_query_def
  show "held c n = Some v \<Longrightarrow> fst (Command_GetSecret S m n c) = Inr (n, v)" using l by (simp add: defs)
  show "held c n = None \<Longrightarrow> fst (Command_GetSecret S m n c) \<noteq> Inr s"
    using l by (auto simp: defs podman_answer_def)
  show "held (snd (Command_GetSecret S m n c)) = held c"
    using held_same [OF l(2)] by (auto simp: defs split: sum.split option.split list.split)
qed

lemma manager: "secret_manager (CommandManager_ops S m) held"
proof (rule secret_manager.intro)
  show "ctm_WriteSecret (CommandManager_ops S m) n v c = (None, c') \<Longrightarrow> held c' = (held c)(n \<mapsto> v)" for n v c c'
    by (rule writes_secret) (simp add: CommandManager_ops_def)
  show "ctm_RemoveSecret (CommandManager_ops S m) n c = (None, c') \<Longrightarrow> held c' = (held c)(n := None)" for n c c'
    by (rule removes_secret) (simp add: CommandManager_ops_def)
  show "held c n = Some v \<Longrightarrow> fst (ctm_GetSecret (CommandManager_ops S m) n c) = Inr (n, v)" for c n v
    by (simp add: CommandManager_ops_def gets_secret(1))
  show "held c n = None \<Longrightarrow> fst (ctm_GetSecret (CommandManager_ops S m) n c) \<noteq> Inr s" for c n s
    by (simp add: CommandManager_ops_def gets_secret(2))
  show "keeps (\<lambda>c. held c = h) (ctm_GetSecret (CommandManager_ops S m) n)" for h n
    by (rule keepsI) (simp add: CommandManager_ops_def gets_secret(3))
qed (simp_all add: CommandManager_ops_def keeps_list keeps_dump keeps_import keeps_load keeps_commands)

end

sublocale podman_host \<subseteq> command: secret_manager "CommandManager_ops S m" held
  by (rule manager)

subsection \<open>The bindings\<close>

text \<open>The same of the bindings: their calls store, remove and return what podman keeps.\<close>

definition bindings_laws :: "'c bindings \<Rightarrow> ('c \<Rightarrow> string \<Rightarrow> string option) \<Rightarrow> bool" where
  "bindings_laws B secrets \<longleftrightarrow>
     (\<forall>n v c c'. nb_CreateSecret B n v c = (None, c') \<longrightarrow> secrets c' = (secrets c)(n \<mapsto> v)) \<and>
     (\<forall>n c c'. nb_RemoveSecret B n c = (None, c') \<longrightarrow> secrets c' = (secrets c)(n := None)) \<and>
     (\<forall>n c. case nb_InspectSecret B n c of
        (Inl e, c') \<Rightarrow> secrets c n = None \<and> secrets c' = secrets c
      | (Inr v, c') \<Rightarrow> secrets c n = Some v \<and> secrets c' = secrets c) \<and>
     (\<forall>h n f args t i o'.
        keeps (\<lambda>c. secrets c = h) (nb_Inspect B n) \<and> keeps (\<lambda>c. secrets c = h) (nb_List B t f) \<and>
        keeps (\<lambda>c. secrets c = h) (nb_ExecCreate B n args) \<and> keeps (\<lambda>c. secrets c = h) (nb_ExecStart B n) \<and>
        keeps (\<lambda>c. secrets c = h) (nb_ExecInspect B n) \<and> keeps (\<lambda>c. secrets c = h) (nb_RemoveImages B args) \<and>
        keeps (\<lambda>c. secrets c = h) (nb_InspectNetwork B n) \<and> keeps (\<lambda>c. secrets c = h) (nb_RemoveNetwork B n) \<and>
        keeps (\<lambda>c. secrets c = h) (nb_RemoveVolume B n) \<and> keeps (\<lambda>c. secrets c = h) (nb_ImportVolume B n (i, o')) \<and>
        keeps (\<lambda>c. secrets c = h) (nb_ExportVolume B n) \<and> keeps (\<lambda>c. secrets c = h) (nb_Open B n) \<and>
        keeps (\<lambda>c. secrets c = h) (nb_Create B n)) \<and>
     (\<forall>path text c. secrets (nb_Write B path text c) = secrets c)"

locale bindings_host =
  fixes B :: "'c bindings" and m :: NativeManager and secrets :: "'c \<Rightarrow> string \<Rightarrow> string option"
    and held :: "'c \<Rightarrow> string \<Rightarrow> string option"
  assumes laws: "bindings_laws B secrets"
    and held: "held = named_secret (ntm_secretsPrefix m) secrets"
begin

lemma keeps_held: "(\<And>h. keeps (\<lambda>c. secrets c = h) q) \<Longrightarrow> keeps (\<lambda>c. held c = h') q"
  unfolding keeps_def by (metis held named_secret_def ext)

lemma keeps_calls [keeps_intros]:
  "keeps (\<lambda>c. held c = h) (nb_Inspect B n)" "keeps (\<lambda>c. held c = h) (nb_List B t f)"
  "keeps (\<lambda>c. held c = h) (nb_ExecCreate B n args)" "keeps (\<lambda>c. held c = h) (nb_ExecStart B n)"
  "keeps (\<lambda>c. held c = h) (nb_ExecInspect B n)" "keeps (\<lambda>c. held c = h) (nb_RemoveImages B args)"
  "keeps (\<lambda>c. held c = h) (nb_InspectNetwork B n)" "keeps (\<lambda>c. held c = h) (nb_RemoveNetwork B n)"
  "keeps (\<lambda>c. held c = h) (nb_RemoveVolume B n)" "keeps (\<lambda>c. held c = h) (nb_ImportVolume B n r)"
  "keeps (\<lambda>c. held c = h) (nb_ExportVolume B n)" "keeps (\<lambda>c. held c = h) (nb_Open B n)"
  "keeps (\<lambda>c. held c = h) (nb_Create B n)"
  using laws by (cases r; auto intro!: keeps_held simp: bindings_laws_def)+

lemma write_same: "held (nb_Write B path text c) = held c"
  using laws by (simp add: bindings_laws_def held named_secret_def fun_eq_iff)

lemma keeps_container: "keeps (\<lambda>c. held c = h) (Native_GetContainer B n)"
  unfolding Native_GetContainer_def by (intro keeps_intros)

lemma keeps_native:
  "keeps (\<lambda>c. held c = h) (Native_ListContainers B f)" "keeps (\<lambda>c. held c = h) (Native_ExecContainer B n args)"
  "keeps (\<lambda>c. held c = h) (Native_RemoveVolume B v)" "keeps (\<lambda>c. held c = h) (Native_GetNetwork B n)"
  "keeps (\<lambda>c. held c = h) (Native_RemoveNetwork B (Some net))"
  unfolding Native_ListContainers_def Native_ExecContainer_def Native_RemoveVolume_def Native_GetNetwork_def Native_RemoveNetwork_def
  by (simp_all, (intro keeps_intros keeps_collect keeps_container; simp)+)

lemma keeps_image: "keeps (\<lambda>c. held c = h) (Native_RemoveImage B n)"
proof (rule keepsI)
  fix c assume "held c = h"
  with keepsD [OF keeps_calls(6) [of h "[n]"]] show "held (snd (Native_RemoveImage B n c)) = h"
    by (simp add: Native_RemoveImage_def case_prod_beta)
qed

lemma keeps_native_import: "keeps (\<lambda>c. held c = h) (Native_ImportVolume B v path)"
  unfolding Native_ImportVolume_def Let_def by (intro keeps_intros)

lemma keeps_native_dump: "keeps (\<lambda>c. held c = h) (Native_DumpVolume B m v d)"
proof -
  let ?k = "ntm_compression m" and ?p = "dumpFilename d (vol_Name v) (ntm_compression m)"
  have "held (snd (nb_ExportVolume B (vol_Name v) c)) = h" if "held c = h" for c
    using keepsD [OF keeps_calls(11) that] .
  then show ?thesis
    unfolding Native_DumpVolume_def Let_def
    by (intro keeps_intros keepsI) (auto simp: write_same case_prod_beta)
qed

lemma manager: "secret_manager (NativeManager_ops B m) held"
proof (rule secret_manager.intro)
  have create: "nb_CreateSecret B n v c = (None, c') \<Longrightarrow> secrets c' = (secrets c)(n \<mapsto> v)"
    and rm: "nb_RemoveSecret B n c = (None, c') \<Longrightarrow> secrets c' = (secrets c)(n := None)" for n v c c'
    using laws by (simp_all add: bindings_laws_def)
  have inspect: "case nb_InspectSecret B n c of
        (Inl e, c') \<Rightarrow> secrets c n = None \<and> secrets c' = secrets c
      | (Inr v, c') \<Rightarrow> secrets c n = Some v \<and> secrets c' = secrets c" for n c
    using laws by (simp add: bindings_laws_def)
  note defs = NativeManager_ops_def Native_GetSecret_def then_query_def wrap_query_def return_query_def Native_SecretName_def
  show "ctm_WriteSecret (NativeManager_ops B m) n v c = (None, c') \<Longrightarrow> held c' = (held c)(n \<mapsto> v)" for n v c c'
    using create [of "ntm_secretsPrefix m @ n" v c c']
    by (simp add: NativeManager_ops_def Native_WriteSecret_def wrap_op_None held named_secret_def fun_eq_iff Native_SecretName_def)
  show "ctm_RemoveSecret (NativeManager_ops B m) n c = (None, c') \<Longrightarrow> held c' = (held c)(n := None)" for n c c'
    using rm [of "ntm_secretsPrefix m @ n" c c']
    by (simp add: NativeManager_ops_def Native_RemoveSecret_def held named_secret_def fun_eq_iff Native_SecretName_def)
  show "held c n = Some v \<Longrightarrow> fst (ctm_GetSecret (NativeManager_ops B m) n c) = Inr (n, v)" for c n v
    using inspect [where n = "ntm_secretsPrefix m @ n" and c = c] by (auto simp: defs held named_secret_def split: prod.splits sum.splits)
  show "held c n = None \<Longrightarrow> fst (ctm_GetSecret (NativeManager_ops B m) n c) \<noteq> Inr s" for c n s
    using inspect [where n = "ntm_secretsPrefix m @ n" and c = c] by (auto simp: defs held named_secret_def split: prod.splits sum.splits)
  show "keeps (\<lambda>c. held c = h) (ctm_GetSecret (NativeManager_ops B m) n)" for h n
  proof (rule keepsI)
    fix c assume "held c = h"
    then show "held (snd (ctm_GetSecret (NativeManager_ops B m) n c)) = h"
      using inspect [where n = "ntm_secretsPrefix m @ n" and c = c]
      by (auto simp: defs held named_secret_def fun_eq_iff split: prod.splits sum.splits)
  qed
qed (simp_all add: NativeManager_ops_def keeps_native keeps_image keeps_native_import keeps_native_dump)

end

sublocale bindings_host \<subseteq> native: secret_manager "NativeManager_ops B m" held
  by (rule manager)

end
