(* ===== verification/PodmanRuns.thy ===== *)
theory PodmanRuns
  imports PodmanFacts ExecutorFacts
begin

section \<open>The executor over the container managers\<close>

text \<open>
  What the executor gets from the two container managers: the laws of a host's secrets, success where podman
  could not even be started, and a dump of a volume that the import finds again or not.
\<close>

subsection \<open>What the executor gets\<close>

definition services_keep :: "'c Host \<Rightarrow> ('c \<Rightarrow> string \<Rightarrow> string option) \<Rightarrow> bool" where
  "services_keep b held \<longleftrightarrow>
     (\<forall>n s t c. held (snd (ho_ApplyService b n s t c)) = held c) \<and> (\<forall>n c. held (snd (ho_GetService b n c)) = held c) \<and>
     (\<forall>t n cmd c. held (snd (ho_RunOneshotCommand b t n cmd c)) = held c) \<and>
     (\<forall>n st t c. held (snd (ho_WaitUntilState b n st t c)) = held c)"

text \<open>
  C33: Whichever container manager the configuration chooses, the podman command or the bindings, it
  provides what an update asks of the host: a written secret is there under its name and nothing else changes the
  secrets of the prefix.
\<close>

theorem container_managers_provide_host:
  assumes "NewHostManager_containers S B connect uid commandPodman cfg = Inr cm"
    and "podman_laws S (ctc_Remote cfg) secrets" and "bindings_laws B secrets"
    and "services_keep b (named_secret (ctc_SecretsPrefix cfg) secrets)"
  shows "rest_laws (with_containers cm b) (named_secret (ctc_SecretsPrefix cfg) secrets)"
proof -
  let ?held = "named_secret (ctc_SecretsPrefix cfg) secrets"
  have "secret_manager cm ?held"
  proof (cases commandPodman)
    case True
    with assms(1) have cm: "cm = CommandManager_ops S (NewCommandManager cfg)"
      by (simp add: NewHostManager_containers_def)
    have "podman_host S (NewCommandManager cfg) secrets ?held"
      using assms(2) by unfold_locales (simp_all add: NewCommandManager_def)
    then show ?thesis unfolding cm by (rule podman_host.manager)
  next
    case False
    with assms(1) obtain m where cm: "cm = NativeManager_ops B m" and m: "ntm_secretsPrefix m = ctc_SecretsPrefix cfg"
      by (auto simp: NewHostManager_containers_def NewNativeManager_def split: option.splits sum.splits)
    have "bindings_host B m secrets ?held" using assms(3) by unfold_locales (simp_all add: m)
    then show ?thesis unfolding cm by (rule bindings_host.manager)
  qed
  then show ?thesis using assms(4) by (intro secret_manager.provides_rest) (auto simp: services_keep_def)
qed

text \<open>
  When podman fails without its own error line, as when it is not installed, no error is returned:
  installing, updating or removing a secret counts as done and changes nothing.
\<close>

theorem podman_failure_unnoticed:
  assumes "ex_host e = with_containers (CommandManager_ops S m) b"
    and "\<And>args stdin. \<exists>out. sh_Run S ''podman'' args stdin c = (out, c) \<and> ro_Err out \<noteq> None \<and> \<not> prefix ''Error: '' (ro_Stderr out)"
    and "res_Kind (act_Target v) = ResourceTypePodmanSecret" and "act_Todo v \<in> {ActionInstall, ActionUpdate, ActionRemove}"
  shows "executeAction e v c = (None, c)"
proof -
  have run: "runCmd S args stdin c = (Inr (ro_Stdout (fst (sh_Run S ''podman'' args stdin c))), c)" for args stdin
    using assms(2) [of args stdin] by (auto simp: runCmd_def split: option.split)
  then have "Command_WriteSecret S m n d c = (None, c)" "Command_RemoveSecret S m n c = (None, c)" for n d
    by (simp_all add: Command_WriteSecret_def Command_RemoveSecret_def wrap_op_def drop_result_def use_query_def podman_def)
  with assms(1,3,4) show ?thesis
    by (auto simp: executeAction_def find_handler_def handlerList_def run_handler_def installOrUpdateSecret_def removeSecret_def
        with_containers_def CommandManager_ops_def)
qed

subsection \<open>Dump and import\<close>

text \<open>The files of the output directory and the contents of the volumes, as the bindings keep them.\<close>

definition dump_laws :: "'c bindings \<Rightarrow> ('c \<Rightarrow> string \<Rightarrow> string option) \<Rightarrow> ('c \<Rightarrow> string \<Rightarrow> string option) \<Rightarrow> bool" where
  "dump_laws B files volumes \<longleftrightarrow>
     (\<forall>p c c'. nb_Create B p c = (None, c') \<longrightarrow> files c' = (files c)(p \<mapsto> []) \<and> volumes c' = volumes c) \<and>
     (\<forall>p t c. files (nb_Write B p t c) = (files c)(p \<mapsto> t) \<and> volumes (nb_Write B p t c) = volumes c) \<and>
     (\<forall>p c. (\<exists>e. files c p = None \<and> nb_Open B p c = (Inl e, c)) \<or> (\<exists>t. files c p = Some t \<and> nb_Open B p c = (Inr t, c))) \<and>
     (\<forall>n c t c'. nb_ExportVolume B n c = ((t, None), c') \<longrightarrow> volumes c n = Some t \<and> files c' = files c \<and> volumes c' = volumes c) \<and>
     (\<forall>n t c c'. nb_ImportVolume B n (t, None) c = (None, c') \<longrightarrow> volumes c' = (volumes c)(n \<mapsto> t))"

definition dump_path :: "'c Executor \<Rightarrow> string \<Rightarrow> string" where
  "dump_path e n = JoinPath [ec_OutputDir (ex_conf e), n @ ''-volume.tar'']"

lemma good_dump: "good_elem n \<Longrightarrow> CHR ''/'' \<notin> set s \<Longrightarrow> good_elem (n @ ''-volume.tar'' @ s)"
  by (auto simp: good_elem_def)

lemma Join_snoc: "Join (es @ [n]) sep = (if es = [] then n else Join es sep @ sep @ n)"
proof (induction es)
  case (Cons a es)
  then show ?case by (cases es) simp_all
qed simp

lemma JoinPath_good:
  assumes "prefix ''/'' d" and "good_elem n"
  shows "JoinPath [d, n] = path_string (elems d @ [n])"
proof -
  have "d \<noteq> []" "n \<noteq> []" using assms by (auto simp: good_elem_def)
  then have join: "JoinPath [d, n] = Clean (d @ ''/'' @ n)" by (simp add: JoinPath_def)
  have rooted: "prefix ''/'' (d @ ''/'' @ n)" using assms(1) by (auto simp: prefix_def)
  have "elems (JoinPath [d, n]) = elems d @ [n]"
    using elems_JoinPath2 [OF assms(1) good_elem_path [OF assms(2)]] by (simp add: Split_good assms(2))
  then have "elems (d @ ''/'' @ n) = elems d @ [n]" using rooted elems_Clean by (metis join)
  with rooted show ?thesis by (simp add: join Clean_rooted)
qed

lemma JoinPath_ext:
  assumes "prefix ''/'' d" and "good_elem (n @ CHR ''.'' # s)" and "CHR ''.'' \<notin> set s"
  shows "Ext (JoinPath [d, n @ CHR ''.'' # s]) = CHR ''.'' # s"
proof -
  have "\<exists>p. path_string (elems d @ [n @ CHR ''.'' # s]) = p @ CHR ''.'' # s"
    by (simp add: path_string_def Join_snoc)
  then obtain p where "path_string (elems d @ [n @ CHR ''.'' # s]) = p @ CHR ''.'' # s" ..
  with assms show ?thesis by (simp only: JoinPath_good) (rule Ext_append; auto simp: good_elem_def)
qed

lemma dump_names_apart:
  assumes "prefix ''/'' d" and "good_elem n" and "kind \<in> {''gzip'', ''zstd''}"
  shows "dumpFilename d n kind \<noteq> JoinPath [d, n @ ''-volume.tar'']"
proof
  let ?s = "if kind = ''gzip'' then ''.gz'' else ''.zst''"
  have good: "good_elem (n @ ''-volume.tar'' @ ?s)" "good_elem (n @ ''-volume.tar'')"
    using good_dump [OF assms(2), of ?s] good_dump [OF assms(2), of "[]"] by simp_all
  assume "dumpFilename d n kind = JoinPath [d, n @ ''-volume.tar'']"
  with assms(1,3) good have "path_string (elems d @ [n @ ''-volume.tar'' @ ?s]) = path_string (elems d @ [n @ ''-volume.tar''])"
    by (auto simp: dumpFilename_def JoinPath_good)
  from arg_cong [OF this, of elems] good elems_good [of d]
  have "elems d @ [n @ ''-volume.tar'' @ ?s] = elems d @ [n @ ''-volume.tar'']"
    by (simp only: elems_path_string list_all_append list.pred_inject simp_thms)
  then show False by (simp split: if_splits)
qed

lemma dump_lawsD:
  assumes "dump_laws B files volumes"
  shows "nb_Create B p c = (None, c') \<Longrightarrow> files c' = (files c)(p \<mapsto> []) \<and> volumes c' = volumes c"
    and "files (nb_Write B p t c) = (files c)(p \<mapsto> t)"
    and "files c p = None \<Longrightarrow> \<exists>e. nb_Open B p c = (Inl e, c)" and "files c p = Some t \<Longrightarrow> nb_Open B p c = (Inr t, c)"
    and "nb_ExportVolume B n c = ((t, None), c') \<Longrightarrow> volumes c n = Some t \<and> files c' = files c"
    and "nb_ImportVolume B n (t, None) c = (None, c') \<Longrightarrow> volumes c' = (volumes c)(n \<mapsto> t)"
proof -
  note l = assms [unfolded dump_laws_def]
  show "nb_Create B p c = (None, c') \<Longrightarrow> files c' = (files c)(p \<mapsto> []) \<and> volumes c' = volumes c"
    using l [THEN conjunct1] by metis
  show "files (nb_Write B p t c) = (files c)(p \<mapsto> t)" using l [THEN conjunct2, THEN conjunct1] by metis
  note o' = l [THEN conjunct2, THEN conjunct2, THEN conjunct1]
  show "files c p = None \<Longrightarrow> \<exists>e. nb_Open B p c = (Inl e, c)" using o' by (metis option.distinct(1))
  show "files c p = Some t \<Longrightarrow> nb_Open B p c = (Inr t, c)" using o' by (metis option.distinct(1) option.inject)
  show "nb_ExportVolume B n c = ((t, None), c') \<Longrightarrow> volumes c n = Some t \<and> files c' = files c"
    using l [THEN conjunct2, THEN conjunct2, THEN conjunct2, THEN conjunct1] by metis
  show "nb_ImportVolume B n (t, None) c = (None, c') \<Longrightarrow> volumes c' = (volumes c)(n \<mapsto> t)"
    using l [THEN conjunct2, THEN conjunct2, THEN conjunct2, THEN conjunct2] by metis
qed

lemma Native_DumpVolume_None:
  assumes "Native_DumpVolume B m v d c = (None, c1)"
  shows "\<exists>ca tarball cb. nb_Create B (dumpFilename d (vol_Name v) (ntm_compression m)) c = (None, ca) \<and>
    nb_ExportVolume B (vol_Name v) ca = ((tarball, None), cb) \<and>
    c1 = nb_Write B (dumpFilename d (vol_Name v) (ntm_compression m))
      (if ntm_compression m \<in> {''gzip'', ''zstd''} then nb_Compressed B (ntm_compression m) tarball else tarball) cb"
proof -
  from assms obtain ca where create: "nb_Create B (dumpFilename d (vol_Name v) (ntm_compression m)) c = (None, ca)"
    by (auto simp: Native_DumpVolume_def Let_def then_op_None wrap_op_None)
  obtain tarball err cb where "nb_ExportVolume B (vol_Name v) ca = ((tarball, err), cb)" by (metis surj_pair)
  with assms create show ?thesis
    by (cases err) (auto simp: Native_DumpVolume_def Let_def then_op_None wrap_op_None split: if_splits)
qed

lemma import_plain:
  assumes "Ext path = ''.tar''"
  shows "Native_ImportVolume B (volume_named n ''local'') path c =
    (case nb_Open B path c of
       (Inl e, c') \<Rightarrow> (Some (ErrWrapped ''opening volume dump'' e), c')
     | (Inr tarball, c') \<Rightarrow> wrap_op ''unable to import volume'' (nb_ImportVolume B n (tarball, None)) c')"
  by (simp add: Native_ImportVolume_def assms supportedVolumeDumpExts_def volume_named_def use_query_def wrap_query_def
      dump_reader_def split: prod.split sum.split)

lemma importVolume_plain:
  assumes "ex_host e = with_containers (NativeManager_ops B m) b" and "res_HostObject (act_Target w) = n" and "act_Metadata w = None"
  shows "importVolume e w = wrap_op ''error importing volume'' (Native_ImportVolume B (volume_named n ''local'') (dump_path e n))"
  by (simp add: importVolume_def assms with_containers_def NativeManager_ops_def dump_path_def)

lemma dump_path_ext:
  assumes "prefix ''/'' (ec_OutputDir (ex_conf e))" and "good_elem n"
  shows "Ext (dump_path e n) = ''.tar''"
  unfolding dump_path_def using JoinPath_ext [of _ "n @ ''-volume''" "''tar''"] good_dump [OF assms(2), of "[]"] assms(1) by simp

lemma dumpVolume_plain:
  assumes "ex_host e = with_containers (NativeManager_ops B m) b" and "res_HostObject (act_Target v) = n"
  shows "dumpVolume e v c = (None, c1) \<longleftrightarrow> Native_DumpVolume B m (volume_named n []) (ec_OutputDir (ex_conf e)) c = (None, c1)"
  by (simp add: dumpVolume_def assms with_containers_def NativeManager_ops_def wrap_op_None)

text \<open>
  C34: A volume that the executor dumps with the bindings is imported again, with the contents it had, as
  long as dumps are not compressed.  With compression gzip or zstd the dump has another name than the import
  looks for: the import after the volume was removed and made again always fails.
\<close>

theorem volume_migration_roundtrip:
  assumes "ex_host e = with_containers (NativeManager_ops B m) b" and "dump_laws B files volumes"
    and "prefix ''/'' (ec_OutputDir (ex_conf e))" and "good_elem n"
    and "res_HostObject (act_Target v) = n" and "res_HostObject (act_Target w) = n" and "act_Metadata w = None"
    and "dumpVolume e v c = (None, c1)" and "files c2 = files c1" and "files c (dump_path e n) = None"
  shows "if ntm_compression m \<in> {''gzip'', ''zstd''} then \<exists>err. importVolume e w c2 = (Some err, c2)
    else \<forall>c3. importVolume e w c2 = (None, c3) \<longrightarrow> volumes c3 n = volumes c n"
proof -
  let ?d = "ec_OutputDir (ex_conf e)" and ?k = "ntm_compression m"
  let ?p = "dumpFilename ?d n ?k"
  note l = dump_lawsD [OF assms(2)]
  from assms(8) have "Native_DumpVolume B m (volume_named n []) ?d c = (None, c1)" by (simp only: dumpVolume_plain [OF assms(1,5)])
  from Native_DumpVolume_None [OF this] obtain ca tarball cb where create: "nb_Create B ?p c = (None, ca)"
    and export: "nb_ExportVolume B n ca = ((tarball, None), cb)"
    and c1: "c1 = nb_Write B ?p (if ?k \<in> {''gzip'', ''zstd''} then nb_Compressed B ?k tarball else tarball) cb"
    unfolding volume_named_def Volume.select_convs by metis
  have vols: "volumes c n = Some tarball" using l(1) [OF create] l(5) [OF export] by simp
  have files: "files c2 = (files c)(?p \<mapsto> if ?k \<in> {''gzip'', ''zstd''} then nb_Compressed B ?k tarball else tarball)"
    unfolding assms(9) c1 l(2) using l(1) [OF create] l(5) [OF export] by simp
  note ext = dump_path_ext [OF assms(3,4)] and run = importVolume_plain [OF assms(1,6,7)]
  show ?thesis
  proof (cases "?k \<in> {''gzip'', ''zstd''}")
    case True
    from dump_names_apart [OF assms(3,4) True] have "files c2 (dump_path e n) = None"
      using assms(10) unfolding files dump_path_def by (metis fun_upd_apply)
    from l(3) [OF this] obtain err where "nb_Open B (dump_path e n) c2 = (Inl err, c2)" ..
    then have "\<exists>err. importVolume e w c2 = (Some err, c2)" by (simp add: run wrap_op_def import_plain [OF ext])
    with True show ?thesis by (simp only: if_True)
  next
    case False
    then have "?p = dump_path e n" by (simp add: dumpFilename_def dump_path_def)
    with files False have "files c2 (dump_path e n) = Some tarball" by (simp only: if_False fun_upd_same)
    then have "nb_Open B (dump_path e n) c2 = (Inr tarball, c2)" by (rule l(4))
    then have "\<forall>c3. importVolume e w c2 = (None, c3) \<longrightarrow> volumes c3 n = volumes c n"
      by (auto simp: run wrap_op_None import_plain [OF ext] vols dest!: l(6))
    with False show ?thesis by (simp only: if_False)
  qed
qed

subsection \<open>An example\<close>

record demo_pod =
  dp_files :: "string \<rightharpoonup> string"
  dp_volumes :: "string \<rightharpoonup> string"
  dp_secrets :: "string \<rightharpoonup> string"

definition ok_output :: "string \<Rightarrow> run_output" where
  "ok_output out = \<lparr>ro_Stdout = out, ro_Stderr = [], ro_Err = None\<rparr>"

definition no_such_secret :: run_output where
  "no_such_secret = \<lparr>ro_Stdout = [], ro_Stderr = ''Error: no such secret'', ro_Err = Some (ErrMsg ''exit status 1'')\<rparr>"

definition demo_podman :: "string list \<Rightarrow> string \<Rightarrow> demo_pod \<Rightarrow> run_output \<times> demo_pod" where
  "demo_podman args stdin c =
     (if \<not> prefix [''secret''] args then (ok_output [], c)
      else if length args = 5 \<and> args ! 1 = ''create'' then (ok_output [], c\<lparr>dp_secrets := (dp_secrets c)(args ! 3 \<mapsto> stdin)\<rparr>)
      else if length args = 3 \<and> args ! 1 = ''rm'' then (ok_output [], c\<lparr>dp_secrets := (dp_secrets c)(args ! 2 := None)\<rparr>)
      else if length args = 4 \<and> args ! 1 = ''inspect''
      then (case dp_secrets c (args ! 3) of None \<Rightarrow> no_such_secret | Some v \<Rightarrow> ok_output v, c)
      else (ok_output [], c))"

definition demo_shell :: "demo_pod shell" where
  "demo_shell =
     \<lparr>sh_Start = (\<lambda>prog. None),
      sh_Run = (\<lambda>prog args stdin c. if prog = ''podman'' then demo_podman args stdin c else (ok_output [], c)),
      sh_Create = (\<lambda>p c. (None, c)), sh_Write = (\<lambda>p t c. c), js_List = (\<lambda>out. Inr []), js_Inspect = (\<lambda>out. Inr []),
      js_Secrets = (\<lambda>out. Inr [out]), js_Volumes = (\<lambda>out. Inr []), js_NetworkDetails = (\<lambda>out. Inr []),
      js_Images = (\<lambda>out. Inr [])\<rparr>"

definition demo_bindings :: "demo_pod bindings" where
  "demo_bindings =
     \<lparr>nb_Inspect = (\<lambda>n c. (Inl (ErrSentinel ErrPodmanObjectNotFound), c)), nb_List = (\<lambda>t f c. (Inr [], c)),
      nb_ExecCreate = (\<lambda>n args c. (Inr [], c)), nb_ExecStart = (\<lambda>n c. (None, c)), nb_ExecInspect = (\<lambda>n c. (Inr 0, c)),
      nb_Pause = (\<lambda>n c. (None, c)), nb_Unpause = (\<lambda>n c. (None, c)),
      nb_GetImage = (\<lambda>n c. (Inl (ErrSentinel ErrPodmanObjectNotFound), c)), nb_ListImages = (\<lambda>c. (Inr [], c)),
      nb_RemoveImages = (\<lambda>ns c. ([], c)), nb_InspectNetwork = (\<lambda>n c. (Inr [], c)), nb_ListNetworks = (\<lambda>c. (Inr [], c)),
      nb_RemoveNetwork = (\<lambda>n c. (None, c)),
      nb_InspectSecret = (\<lambda>n c. (case dp_secrets c n of None \<Rightarrow> Inl (ErrMsg ''no such secret'') | Some v \<Rightarrow> Inr v, c)),
      nb_ListSecrets = (\<lambda>pre c. (Inr [], c)), nb_RemoveSecret = (\<lambda>n c. (None, c\<lparr>dp_secrets := (dp_secrets c)(n := None)\<rparr>)),
      nb_CreateSecret = (\<lambda>n v c. (None, c\<lparr>dp_secrets := (dp_secrets c)(n \<mapsto> v)\<rparr>)),
      nb_InspectVolume = (\<lambda>n c. (Inr ([], ''local''), c)), nb_ListVolumes = (\<lambda>c. (Inr [], c)),
      nb_RemoveVolume = (\<lambda>n c. (None, c\<lparr>dp_volumes := (dp_volumes c)(n := None)\<rparr>)),
      nb_ImportVolume = (\<lambda>n r c. (snd r, c\<lparr>dp_volumes := (dp_volumes c)(n \<mapsto> fst r)\<rparr>)),
      nb_ExportVolume = (\<lambda>n c. (case dp_volumes c n of None \<Rightarrow> ([], Some (ErrMsg ''no such volume'')) | Some t \<Rightarrow> (t, None), c)),
      nb_Open = (\<lambda>p c. (case dp_files c p of None \<Rightarrow> Inl (ErrSentinel ErrNotExist) | Some t \<Rightarrow> Inr t, c)),
      nb_Create = (\<lambda>p c. (None, c\<lparr>dp_files := (dp_files c)(p \<mapsto> [])\<rparr>)),
      nb_Write = (\<lambda>p t c. c\<lparr>dp_files := (dp_files c)(p \<mapsto> t)\<rparr>), nb_NewReader = (\<lambda>kind t. Inr (t, None)),
      nb_NewWriter = (\<lambda>kind. None), nb_Compressed = (\<lambda>kind t. kind @ t), nb_CloseWriter = (\<lambda>kind. None)\<rparr>"

definition idle_host :: "'c Host" where
  "idle_host =
     \<lparr>ho_ApplyService = (\<lambda>n a t c. (None, c)), ho_GetService = (\<lambda>n c. (Inr (zero_Service\<lparr>svc_Name := n\<rparr>), c)),
      ho_RunOneshotCommand = (\<lambda>t n cmd c. (None, c)), ho_WaitUntilState = (\<lambda>n s t c. (None, c)),
      ho_ListContainers = (\<lambda>fl c. (Inr [], c)), ho_ExecContainer = (\<lambda>n cmd c. (None, c)),
      ho_DumpVolume = (\<lambda>v d c. (None, c)), ho_ImportVolume = (\<lambda>v d c. (None, c)), ho_RemoveVolume = (\<lambda>v c. (None, c)),
      ho_GetNetwork = (\<lambda>n c. (Inl (ErrSentinel ErrPodmanObjectNotFound), c)), ho_RemoveNetwork = (\<lambda>n c. (None, c)),
      ho_WriteSecret = (\<lambda>n v c. (None, c)), ho_RemoveSecret = (\<lambda>n c. (None, c)),
      ho_RemoveImage = (\<lambda>n c. (None, c)), ho_InstallComponent = (\<lambda>cp c. (None, c)), ho_UpdateComponent = (\<lambda>cp c. (None, c)),
      ho_RemoveComponent = (\<lambda>cp c. (None, c)), ho_InstallResource = (\<lambda>r d c. (None, c)), ho_RemoveResource = (\<lambda>r c. (None, c)),
      ho_InstallScript = (\<lambda>q d c. (None, c)), ho_RemoveScript = (\<lambda>q c. (None, c)), ho_InstallUnit = (\<lambda>q d c. (None, c)),
      ho_RemoveUnit = (\<lambda>q c. (None, c))\<rparr>"

lemma demo_podman_laws: "podman_laws demo_shell False dp_secrets"
  by (auto simp: podman_laws_def demo_shell_def demo_podman_def genCmd_def podman_answer_def ok_output_def no_such_secret_def
      split: option.splits)

lemma demo_bindings_laws: "bindings_laws demo_bindings dp_secrets"
  by (auto simp: bindings_laws_def demo_bindings_def keeps_def split: option.splits)

lemma demo_dump_laws: "dump_laws demo_bindings dp_files dp_volumes"
  by (auto simp: dump_laws_def demo_bindings_def split: option.splits)

text \<open>The two locales on these.\<close>

definition demo_commands :: CommandManager where
  "demo_commands = \<lparr>cmm_secretsPrefix = ''materia-'', cmm_compression = [], cmm_remote = False\<rparr>"

definition demo_native :: NativeManager where
  "demo_native = \<lparr>ntm_secretsPrefix = ''materia-'', ntm_compression = ''zstd''\<rparr>"

interpretation demo_podman: podman_host demo_shell demo_commands dp_secrets "named_secret ''materia-'' dp_secrets"
  by unfold_locales (simp_all add: demo_commands_def demo_podman_laws)

interpretation demo_socket: bindings_host demo_bindings demo_native dp_secrets "named_secret ''materia-'' dp_secrets"
  by unfold_locales (simp_all add: demo_native_def demo_bindings_laws)

theorem container_managers_provide_host_witness:
  "rest_laws (with_containers (CommandManager_ops demo_shell demo_commands) idle_host) (named_secret ''materia-'' dp_secrets)"
proof -
  let ?cfg = "\<lparr>ctc_Remote = False, ctc_SecretsPrefix = ''materia-'', ctc_Compression = []\<rparr>"
  have "NewHostManager_containers demo_shell demo_bindings (\<lambda>s. None) None True ?cfg = Inr (CommandManager_ops demo_shell demo_commands)"
    by (simp add: NewHostManager_containers_def NewCommandManager_def demo_commands_def)
  moreover have "services_keep idle_host held" for held :: "demo_pod \<Rightarrow> string \<Rightarrow> string option"
    by (simp add: services_keep_def idle_host_def)
  ultimately show ?thesis
    using container_managers_provide_host [of demo_shell demo_bindings _ None True ?cfg] demo_podman_laws demo_bindings_laws by simp
qed

definition missing_podman :: "demo_pod shell" where
  "missing_podman = demo_shell\<lparr>sh_Run := (\<lambda>prog args stdin c.
     (\<lparr>ro_Stdout = [], ro_Stderr = [], ro_Err = Some (ErrMsg ''executable file not found in $PATH'')\<rparr>, c))\<rparr>"

definition empty_pod :: demo_pod where
  "empty_pod = \<lparr>dp_files = Map.empty, dp_volumes = [''web-data'' \<mapsto> ''archive''], dp_secrets = Map.empty\<rparr>"

definition pod_executor :: "demo_pod ContainerManager \<Rightarrow> demo_pod Executor" where
  "pod_executor cm =
     \<lparr>ex_conf = \<lparr>ec_CleanupComponents = False, ec_MateriaDir = ''/data'', ec_QuadletDir = ''/quadlets'', ec_ScriptsDir = ''/scripts'',
        ec_ServiceDir = ''/units'', ec_OutputDir = ''/out''\<rparr>,
      ex_host = with_containers cm idle_host, ex_defaultTimeout = 90, ex_text2 = (\<lambda>d. [])\<rparr>"

theorem podman_failure_unnoticed_witness:
  "executeAction (pod_executor (CommandManager_ops missing_podman demo_commands))
     (zero_Action\<lparr>act_Todo := ActionInstall,
        act_Target := zero_Resource\<lparr>res_Path := ''token'', res_Kind := ResourceTypePodmanSecret, res_Content := ''s3cret''\<rparr>\<rparr>) empty_pod =
     (None, empty_pod)"
  by (rule podman_failure_unnoticed [where S = missing_podman and m = demo_commands and b = idle_host])
     (simp_all add: pod_executor_def missing_podman_def)

definition volume_action :: "ActionType \<Rightarrow> Action" where
  "volume_action todo = zero_Action\<lparr>act_Todo := todo,
     act_Target := zero_Resource\<lparr>res_Path := ''data.volume'', res_Kind := ResourceTypeVolume, res_HostObject := ''web-data''\<rparr>\<rparr>"

definition zstd_executor :: "demo_pod Executor" where
  "zstd_executor = pod_executor (NativeManager_ops demo_bindings demo_native)"

theorem volume_migration_roundtrip_witness:
  "\<exists>err. importVolume zstd_executor (volume_action ActionImport)
     ((snd (dumpVolume zstd_executor (volume_action ActionDump) empty_pod))\<lparr>dp_volumes := Map.empty\<rparr>) =
     (Some err, (snd (dumpVolume zstd_executor (volume_action ActionDump) empty_pod))\<lparr>dp_volumes := Map.empty\<rparr>)"
proof -
  let ?dumped = "dumpVolume zstd_executor (volume_action ActionDump) empty_pod"
  have "fst ?dumped = None" by code_simp
  then have "?dumped = (None, snd ?dumped)" by (simp add: prod_eq_iff)
  note run = this
  have ex: "ex_host zstd_executor = with_containers (NativeManager_ops demo_bindings demo_native) idle_host"
    and dir: "prefix ''/'' (ec_OutputDir (ex_conf zstd_executor))" by (simp_all add: zstd_executor_def pod_executor_def)
  have n: "good_elem ''web-data''" by (simp add: good_elem_def)
  have v: "res_HostObject (act_Target (volume_action todo)) = ''web-data''" "act_Metadata (volume_action todo) = None" for todo
    by (simp_all add: volume_action_def zero_Action_def)
  have kind: "ntm_compression demo_native = ''zstd''" by (simp add: demo_native_def)
  have "files_of = dp_files \<Longrightarrow> files_of ((snd ?dumped)\<lparr>dp_volumes := Map.empty\<rparr>) = files_of (snd ?dumped)" for files_of
    by simp
  from volume_migration_roundtrip [OF ex demo_dump_laws dir n v(1) v(1) v(2) run this [OF refl]]
  show ?thesis by (simp add: kind empty_pod_def)
qed

end
