(* ===== verification/HostStart.thy ===== *)
theory HostStart
  imports PodmanRuns ServiceManager Commands Locks
begin

section \<open>Making a host (pkg/hostman, pkg/services, pkg/lock, internal/materia)\<close>

text \<open>
  How the host manager is put together when a command starts: the connections to systemd and to the
  message bus, the container manager, the repositories, and the locks.  \<open>log.Fatal\<close> ends the process with
  its message; since a command ends the process with every error it returns, it is an error here, too.
\<close>

definition fatal :: "go_error \<Rightarrow> go_error" where
  "fatal e = ErrWrapped ''fatal'' e"

text \<open>Reading a configuration through a pointer.\<close>

definition deref :: "'a option \<Rightarrow> 'a result" where
  "deref p = (case p of None \<Rightarrow> Inl (Panic ''nil pointer dereference'') | Some x \<Rightarrow> Inr x)"

subsection \<open>Connections\<close>

text \<open>
  What the bus libraries offer: dialling a socket, authenticating, saying hello, the buses of the system
  (\<open>True\<close>) and of the user, and the connections to systemd made of them.
\<close>

record ('g, 'k) dialer =
  di_Dial :: "string \<Rightarrow> 'g result"
  di_Auth :: "'g \<Rightarrow> go_error option"
  di_Hello :: "'g \<Rightarrow> go_error option"
  di_Bus :: "bool \<Rightarrow> 'g result"
  di_Systemd :: "bool \<Rightarrow> 'k result"
  di_NewConnection :: "'g result \<Rightarrow> 'k result"

definition dial_socket :: "('g, 'k) dialer \<Rightarrow> string \<Rightarrow> 'g result" where
  "dial_socket d path =
     (case di_Dial d (''unix:path='' @ path) of
        Inl e \<Rightarrow> Inl e
      | Inr conn \<Rightarrow>
     (case di_Auth d conn of
        Some e \<Rightarrow> Inl e
      | None \<Rightarrow> (case di_Hello d conn of Some e \<Rightarrow> Inl e | None \<Rightarrow> Inr conn)))"

definition NewSystemdConnection :: "('g, 'k) dialer \<Rightarrow> string \<Rightarrow> 'k result" where
  "NewSystemdConnection d path = di_NewConnection d (dial_socket d path)"

record 'k service_manager = ServiceManager +
  sv_Conn :: 'k
  sv_isRoot :: bool

definition NewServices :: "('g, 'k) dialer \<Rightarrow> string result \<Rightarrow> ServicesConfig option \<Rightarrow> 'k service_manager result" where
  "NewServices d user cfg =
     (case user of
        Inl e \<Rightarrow> Inl e
      | Inr name \<Rightarrow>
     (case deref cfg of
        Inl e \<Rightarrow> Inl e
      | Inr c \<Rightarrow>
     (case (if sf_DbusSocket c = [] then di_Systemd d (name = ''root'') else NewSystemdConnection d (sf_DbusSocket c)) of
        Inl e \<Rightarrow> Inl e
      | Inr conn \<Rightarrow> Inr \<lparr>sv_DryrunQuadlets = sf_DryrunQuadlets c, sv_Conn = conn, sv_isRoot = (name = ''root'')\<rparr>)))"

definition dryrunQuadlets :: "(string list \<Rightarrow> 'c operation) \<Rightarrow> bool \<Rightarrow> 'c operation" where
  "dryrunQuadlets run isRoot =
     run ([''/usr/lib/systemd/system-generators/podman-system-generator''] @ (if isRoot then [] else [''--user'']) @ [''--dryrun''])"

text \<open>
  The operations of the executor's host that the service manager provides.  Waiting ends once the timer has
  fired (\<open>WaitUntilState_total\<close>), so that the last case never arises.
\<close>

definition with_services ::
    "'k service_manager \<Rightarrow> 'c Systemd \<Rightarrow> ('c \<Rightarrow> SystemdConn) \<Rightarrow> (string list \<Rightarrow> 'c operation) \<Rightarrow> 'c Host \<Rightarrow> 'c Host" where
  "with_services sv sd units run b = b
     \<lparr>ho_ApplyService := ApplyService (ServiceManager.truncate sv) (sd\<lparr>sd_dryrunQuadlets := dryrunQuadlets run (sv_isRoot sv)\<rparr>),
      ho_GetService := (\<lambda>n c. (GetService (units c) n, c)),
      ho_RunOneshotCommand := RunOneshotCommand sd,
      ho_WaitUntilState := (\<lambda>n state timeout c.
        case WaitUntilState sd n state timeout c of Some r \<Rightarrow> r | None \<Rightarrow> (Some (ErrMsg ''never returns''), c))\<rparr>"

lemma WaitUntilState_total: "timer_fires sd \<Longrightarrow> \<exists>r. WaitUntilState sd n state timeout c = Some r"
  using wait_loop_returns [of sd n state timeout 0]
  by (auto simp: WaitUntilState_def split: prod.split sum.split) metis

subsection \<open>The locks\<close>

text \<open>With a socket the connection goes to a variable of the inner block: the lock is left without one.\<close>

record 'g DbusLock =
  db_conn :: "'g option"
  db_locked :: bool

definition NewDbusLocker :: "('g, 'k) dialer \<Rightarrow> string result \<Rightarrow> string \<Rightarrow> 'g DbusLock result" where
  "NewDbusLocker d user path =
     (case user of
        Inl e \<Rightarrow> Inl e
      | Inr name \<Rightarrow>
          (if path = [] then
             (case di_Bus d (name = ''root'') of Inl e \<Rightarrow> Inl e | Inr conn \<Rightarrow> Inr \<lparr>db_conn = Some conn, db_locked = False\<rparr>)
           else
             (case dial_socket d path of Inl e \<Rightarrow> Inl e | Inr conn \<Rightarrow> Inr \<lparr>db_conn = None, db_locked = False\<rparr>)))"

definition NewFileLock :: "(string \<Rightarrow> go_error option) \<Rightarrow> string \<Rightarrow> FileLock result" where
  "NewFileLock open_file path =
     (case open_file path of
        Some e \<Rightarrow> Inl (ErrWrapped ''opening lock file'' e)
      | None \<Rightarrow> Inr \<lparr>fl_open = True, fl_locked = False\<rparr>)"

lemma socket_lock_has_no_connection:
  "path \<noteq> [] \<Longrightarrow> NewDbusLocker d user path = Inr l \<Longrightarrow> db_conn l = None"
  by (auto simp: NewDbusLocker_def split: sum.splits)

subsection \<open>The host manager\<close>

record HostmanSettings = HostmanConfig +
  hmc_Hostname :: string
  hmc_ContainersConfig :: "ContainersConfig option"
  hmc_ServicesConfig :: "ServicesConfig option"
  hmc_CommandPodman :: bool

text \<open>
  The libraries and the system: who runs the program and where, systemd over a connection, podman over
  its command and its bindings, and the pure part of a host that nothing but the repositories fill.
\<close>

record ('c, 'g, 'k) host_libs =
  hl_hostname :: "string result"
  hl_cidr :: "string \<Rightarrow> (string \<times> bool) result"
  hl_interfaces :: "(string \<times> string list result) list result"
  hl_user :: "string result"
  hl_uid :: "string option"
  hl_dialer :: "('g, 'k) dialer"
  hl_systemd :: "'k \<Rightarrow> 'c Systemd"
  hl_unit_states :: "'k \<Rightarrow> 'c \<Rightarrow> SystemdConn"
  hl_run :: "string list \<Rightarrow> 'c operation"
  hl_shell :: "'c shell"
  hl_bindings :: "'c bindings"
  hl_connect :: "string \<Rightarrow> go_error option"
  hl_version_text :: "Component \<Rightarrow> string"

record ('c, 'k) made_host =
  md_parts :: "'c HostParts"
  md_facts :: HostFactsManager
  md_containers :: "'c ContainerManager"
  md_services :: "'k service_manager"

definition host_parts ::
    "('c, 'g, 'k) host_libs \<Rightarrow> HostmanSettings \<Rightarrow> HostComponentRepository \<Rightarrow> 'k service_manager \<Rightarrow> 'c ContainerManager \<Rightarrow>
       'c HostParts" where
  "host_parts L c r sv cm =
     \<lparr>hp_repo = r, hp_scripts = hmc_ScriptsDir c, hp_units = hmc_ServicesDir c, hp_version_text = hl_version_text L,
      hp_base = with_containers cm
        (with_services sv (hl_systemd L (sv_Conn sv)) (hl_unit_states L (sv_Conn sv)) (hl_run L) idle_host)\<rparr>"

definition NewHostManager ::
    "('c, 'g, 'k) host_libs \<Rightarrow> HostmanSettings \<Rightarrow> ('c HostState, ('c, 'k) made_host) query" where
  "NewHostManager L c h =
     (case NewHostComponentRepository (hmc_QuadletDir c) (JoinPath [hmc_DataDir c, ''components'']) (hst_files h) of
        (Inl e, fs) \<Rightarrow> (Inl (ErrWrapped ''failed to create host component repo'' e), h\<lparr>hst_files := fs\<rparr>)
      | (Inr hostRepo, fs) \<Rightarrow>
     (case wrap_error ''error generating facts'' (NewHostFacts (hl_hostname L) (hl_cidr L) (hl_interfaces L)) of
        Inl e \<Rightarrow> (Inl e, h\<lparr>hst_files := fs\<rparr>)
      | Inr factsm \<Rightarrow>
     (case NewServices (hl_dialer L) (hl_user L) (hmc_ServicesConfig c) of
        Inl e \<Rightarrow> (Inl (fatal e), h\<lparr>hst_files := fs\<rparr>)
      | Inr sv \<Rightarrow>
     (case (case deref (hmc_ContainersConfig c) of
              Inl e \<Rightarrow> Inl e
            | Inr cc \<Rightarrow>
                NewHostManager_containers (hl_shell L) (hl_bindings L) (hl_connect L) (hl_uid L) (hmc_CommandPodman c) cc) of
        Inl e \<Rightarrow> (Inl e, h\<lparr>hst_files := fs\<rparr>)
      | Inr cm \<Rightarrow>
     (case on_files (then_op (wrap_op ''failed to create script repo'' (NewFileRepository (hmc_ScriptsDir c)))
              (wrap_op ''failed to create service repo'' (NewFileRepository (hmc_ServicesDir c)))) (h\<lparr>hst_files := fs\<rparr>) of
        (Some e, h') \<Rightarrow> (Inl e, h')
      | (None, h') \<Rightarrow>
          (Inr \<lparr>md_parts = host_parts L c hostRepo sv cm, md_facts = factsm, md_containers = cm, md_services = sv\<rparr>, h'))))))"

text \<open>The files are those of the repositories alone (\<open>Hostman\<close>), and the managers do not touch them.\<close>

lemma NewHostManager_made:
  assumes "NewHostManager L c h = (Inr d, h')"
  shows "NewHostManager_files (HostmanConfig.truncate c) (hst_files h) = (Inr (hp_repo (md_parts d)), hst_files h')"
    and "hst_rest h' = hst_rest h" and "hp_scripts (md_parts d) = hmc_ScriptsDir c" and "hp_units (md_parts d) = hmc_ServicesDir c"
  using assms
  by (auto simp: NewHostManager_def NewHostManager_files_def HostmanConfig.defs on_files_def host_parts_def
      split: prod.splits sum.splits option.splits)

definition HostManager_Close :: "('c \<Rightarrow> 'c) \<Rightarrow> ('c \<Rightarrow> 'c) \<Rightarrow> 'c operation" where
  "HostManager_Close closeServices closeContainers c = (None, closeContainers (closeServices c))"

text \<open>The planner and the loader ask the host as it is when the plan is made.\<close>

definition host_secrets :: "'c ContainerManager \<Rightarrow> 'c \<Rightarrow> SecretsManager" where
  "host_secrets cm c =
     \<lparr>sm_ListSecrets = fst (ctm_ListSecrets cm c), sm_GetSecret = (\<lambda>n. map_sum (\<lambda>e. e) snd (fst (ctm_GetSecret cm n c)))\<rparr>"

definition host_state :: "'c ContainerManager \<Rightarrow> ('c \<Rightarrow> SystemdConn) \<Rightarrow> 'c \<Rightarrow> HostStateManager" where
  "host_state cm units c =
     \<lparr>hm_ListVolumes = fst (ctm_ListVolumes cm c), hm_GetNetwork = (\<lambda>n. fst (ctm_GetNetwork cm n c)),
      hm_ListImages = fst (ctm_ListImages cm c), hm_ListNetworks = fst (ctm_ListNetworks cm c),
      hm_GetVolume = (\<lambda>n. fst (ctm_GetVolume cm n c)), hm_GetService = GetService (units c)\<rparr>"

end
