(* ===== verification/Startup.thy ===== *)
theory Startup
  imports HostStart Server
begin

section \<open>Starting up (cmd/materia/setup.go, server.go, main.go)\<close>

text \<open>
  From the settings to a \<open>Materia\<close>: \<open>setup\<close> for the commands and \<open>serverMateria\<close> for the server.  The
  machine a command runs on is a record of the libraries, with the operations of the sources, the vaults
  and the locks that are made on it.
\<close>

subsection \<open>The machine\<close>

record 'i vault_libs =
  vl_cancelled :: "string \<Rightarrow> go_error option"
  vl_read :: "string \<Rightarrow> string result"
  vl_identities :: "string \<Rightarrow> 'i list result"
  vl_decrypt :: "'i list \<Rightarrow> string \<Rightarrow> string result"
  vl_toml :: "string \<Rightarrow> AttributeVault \<Rightarrow> AttributeVault result"
  vl_file :: "string \<Rightarrow> AttributeVault \<Rightarrow> AttributeVault result"
  vl_supported :: "string \<Rightarrow> bool"
  vl_format :: "string \<Rightarrow> sops_format option"
  vl_sops :: "string \<Rightarrow> string result"
  vl_unmarshal :: "sops_format \<Rightarrow> string \<Rightarrow> AttributeVault \<Rightarrow> AttributeVault result"

record ('v, 'c, 'g, 'k, 'i, 'u, 't) machine =
  mc_koanf :: "'v koanf"
  mc_read_toml :: "string \<Rightarrow> 'v conf result"
  mc_environ :: "(string \<times> string) list"
  mc_user :: "host_user result"
  mc_container :: string
  mc_kit :: "'c source_kit"
  mc_host :: "('c, 'g, 'k) host_libs"
  mc_vaults :: "'i vault_libs"
  mc_dbus_lock :: "'g DbusLock \<Rightarrow> 'c HostState Lock"
  mc_file_lock :: "FileLock \<Rightarrow> 'c HostState Lock"
  mc_open_lock :: "string \<Rightarrow> go_error option"
  mc_roles :: "string \<Rightarrow> string list result"
  mc_template :: "string \<Rightarrow> string \<Rightarrow> 't result"
  mc_units :: "'u unit_parser"
  mc_decode_version :: "string \<Rightarrow> int result"
  mc_decode :: "string \<Rightarrow> ComponentManifest result"
  mc_render :: renderer
  mc_diff :: differ
  mc_order :: "(string \<times> ActionType) list \<Rightarrow> (string \<times> ActionType) list"
  mc_order' :: "(string \<times> string) list \<Rightarrow> (string \<times> string) list"
  mc_text2 :: "Diff list option \<Rightarrow> string"

definition vault_engine :: "'i vault_libs \<Rightarrow> fs \<Rightarrow> MateriaConfig \<Rightarrow> engine result" where
  "vault_engine L fs c =
     setupVault
       (\<lambda>a. map_sum (\<lambda>e. e) (AgeStore_Lookup (vl_cancelled L) (vl_read L) (vl_decrypt L) (vl_toml L))
              (NewAgeStore (vl_identities L) a fs (cfg_SourceDir c)))
       (\<lambda>a. map_sum (\<lambda>e. e) (FileStore_Lookup (vl_cancelled L) (vl_file L)) (NewFileStore a fs (cfg_SourceDir c)))
       (\<lambda>a. map_sum (\<lambda>e. e) (SopsStore_Lookup (vl_cancelled L) (vl_format L) (vl_sops L) (vl_unmarshal L))
              (NewSopsStore (vl_supported L) a fs (cfg_SourceDir c)))
       c"

definition new_dbus_lock :: "('v, 'c, 'g, 'k, 'i, 'u, 't) machine \<Rightarrow> string \<Rightarrow> 'c HostState Lock result" where
  "new_dbus_lock M path =
     map_sum (\<lambda>e. e) (mc_dbus_lock M) (NewDbusLocker (hl_dialer (mc_host M)) (hl_user (mc_host M)) path)"

definition new_file_lock :: "('v, 'c, 'g, 'k, 'i, 'u, 't) machine \<Rightarrow> string \<Rightarrow> 'c HostState Lock result" where
  "new_file_lock M path = map_sum (\<lambda>e. e) (mc_file_lock M) (NewFileLock (mc_open_lock M) path)"

text \<open>The components of the sources are read from the files as they are.\<close>

definition source_reader :: "(string \<Rightarrow> ComponentManifest result) \<Rightarrow> 'h SourceManager \<Rightarrow> fs \<Rightarrow> ComponentReader" where
  "source_reader decode s fs =
     \<lparr>cr_GetComponent = Source_GetComponent fs (sn_repo s), cr_GetManifest = Source_GetManifest decode fs (sn_repo s),
      cr_ReadResource = Source_ReadResource fs (sn_repo s)\<rparr>"

text \<open>The parts of a \<open>Materia\<close> that do not depend on its configuration; \<open>NewMateria\<close> fills in the others.\<close>

definition no_manifest :: MateriaManifest where
  "no_manifest = \<lparr>mm_Hosts = [], mm_Snippets = [], mm_Roles = [], mm_RoleCommand = []\<rparr>"

definition materia_base ::
    "('v, 'c, 'g, 'k, 'i, 'u, 't) machine \<Rightarrow> MateriaConfig \<Rightarrow> ('c, 'k) made_host \<Rightarrow> 'c HostState SourceManager \<Rightarrow>
       ('c HostState, 'u) Materia" where
  "materia_base M c d s =
     (let units = hl_unit_states (mc_host M) (sv_Conn (md_services d)) in
      \<lparr>mt_Host = HostManager_queries (mc_units M) (mc_decode_version M) (mc_decode M) (host_secrets (md_containers d))
         (host_state (md_containers d) units) (md_parts d),
       mt_Source = (\<lambda>h. source_reader (mc_decode M) s (hst_files h)), mt_Manifest = no_manifest,
       mt_Executor = \<lparr>ex_conf = zero_ExecutorConfig, ex_host = HostManager_ops (md_parts d), ex_defaultTimeout = 0, ex_text2 = mc_text2 M\<rparr>,
       mt_Planner = DefaultPlannerConfig, mt_Vault = MemoryEngine_Lookup [], mt_Hostname = [], mt_Roles = [], mt_Lock = None,
       mt_Rollback = False, mt_appMode = False, mt_RemoveOutputDir = on_files (RemoveAll (cfg_OutputDir c)),
       mt_render = mc_render M, mt_units = mc_units M, mt_diff = mc_diff M, mt_order = mc_order M, mt_order' = mc_order' M\<rparr>)"

definition NewMateriaFromConfig ::
    "('v, 'c, 'g, 'k, 'i, 'u, 't) machine \<Rightarrow> MateriaConfig \<Rightarrow> ('c, 'k) made_host \<Rightarrow> 'c HostState SourceManager \<Rightarrow>
       fs \<Rightarrow> ('c HostState, 'u) Materia result" where
  "NewMateriaFromConfig M c d s fs =
     (case wrap_error ''failed to create attributes engine'' (vault_engine (mc_vaults M) fs c) of
        Inl e \<Rightarrow> Inl e
      | Inr vault \<Rightarrow>
          NewMateria (new_dbus_lock M) (new_file_lock M) (mc_roles M) (mc_template M) c (fm_Hostname (md_facts d))
            (LoadManifest (sk_decode (mc_kit M)) fs s) vault (materia_base M c d s))"

subsection \<open>The commands\<close>

definition hostman_config :: "MateriaConfig \<Rightarrow> HostmanSettings" where
  "hostman_config c =
     \<lparr>hmc_DataDir = cfg_MateriaDir c, hmc_QuadletDir = cfg_QuadletDir c, hmc_ScriptsDir = cfg_ScriptsDir c,
      hmc_ServicesDir = cfg_ServiceDir c, hmc_Hostname = cfg_Hostname c, hmc_ContainersConfig = cfg_ContainersConfig c,
      hmc_ServicesConfig = cfg_ServicesConfig c, hmc_CommandPodman = False\<rparr>"

text \<open>
  In a rootless container the directories of the executor are those the host has mounted into the last
  container whose host name is this one's.
\<close>

definition mounted :: "Container \<Rightarrow> string \<Rightarrow> string \<Rightarrow> string" where
  "mounted r dest old = (case cn_BindMounts r dest of None \<Rightarrow> old | Some m \<Rightarrow> mn_Source m)"

definition rootless_dirs :: "string \<Rightarrow> Container list \<Rightarrow> ExecutorConfig \<Rightarrow> ExecutorConfig" where
  "rootless_dirs cn potentials ec =
     (case filter (\<lambda>r. cn_Hostname r = cn) potentials of
        [] \<Rightarrow> ec
      | cs \<Rightarrow>
          (let r = last cs in
           ec\<lparr>ec_MateriaDir := mounted r (dd_data root_dirs) (ec_MateriaDir ec),
              ec_QuadletDir := mounted r (dd_quadlet root_dirs) (ec_QuadletDir ec),
              ec_ScriptsDir := mounted r (dd_scripts root_dirs) (ec_ScriptsDir ec),
              ec_ServiceDir := mounted r (dd_service root_dirs) (ec_ServiceDir ec)\<rparr>))"

text \<open>A configuration that \<open>NewConfig\<close> made always has one for the executor.\<close>

definition rootless_config ::
    "('c, 'k) made_host \<Rightarrow> MateriaConfig \<Rightarrow> ('c HostState, MateriaConfig) query" where
  "rootless_config d c =
     (if \<not> cfg_Rootless c then return_query c
      else then_query
        (wrap_query ''passed rootless but unable to list materia containers''
          (on_rest (ctm_ListContainers (md_containers d) zero_ContainerListFilter)))
        (\<lambda>potentials. return_query (c\<lparr>cfg_ExecutorConfig :=
           map_option (rootless_dirs (fm_Hostname (md_facts d)) potentials) (cfg_ExecutorConfig c)\<rparr>)))"

definition finish_setup ::
    "('v, 'c, 'g, 'k, 'i, 'u, 't) machine \<Rightarrow> MateriaConfig \<Rightarrow> ('c, 'k) made_host \<Rightarrow> 'c HostState SourceManager \<Rightarrow>
       ('c HostState, ('c HostState, 'u) Materia \<times> 'c HostState SourceManager) query" where
  "finish_setup M c d s h =
     (case NewMateriaFromConfig M c d s (hst_files h) of
        Inl e \<Rightarrow> (Inl (fatal e), h)
      | Inr m \<Rightarrow> (Inr (m, s), h))"

definition setup_config :: "('v, 'c, 'g, 'k, 'i, 'u, 't) machine \<Rightarrow> 'v conf \<Rightarrow> MateriaConfig result" where
  "setup_config M k = wrap_error ''error parsing config'' (NewConfig (mc_koanf M) (mc_user M) (mc_container M) k)"

definition setup_materia ::
    "('v, 'c, 'g, 'k, 'i, 'u, 't) machine \<Rightarrow> string \<Rightarrow> 'v conf \<Rightarrow>
       ('c HostState, ('c HostState, 'u) Materia \<times> 'c HostState SourceManager) query" where
  "setup_materia M configFile cliflags h =
     (case wrap_error ''error generating config blob'' (LoadConfigs (mc_koanf M) (mc_read_toml M) (mc_environ M) configFile cliflags) of
        Inl e \<Rightarrow> (Inl e, h)
      | Inr k \<Rightarrow>
     (case setup_config M k of
        Inl e \<Rightarrow> (Inl e, h)
      | Inr c \<Rightarrow>
          then_query (setup_sources (mc_koanf M) (mc_kit M) k (\<not> cfg_NoSync c) ''error with repo remotes load'' c) (\<lambda>s.
          then_query (NewHostManager (mc_host M) (hostman_config c)) (\<lambda>d.
          then_query (rootless_config d c) (\<lambda>c'. finish_setup M c' d s))) h))"

text \<open>The server always syncs, does not look at \<open>rootless\<close>, and replaces the notifier when the old webhook is set.\<close>

definition serverMateria ::
    "('v, 'c, 'g, 'k, 'i, 'u, 't) machine \<Rightarrow> 'v conf \<Rightarrow> ServerConfig \<Rightarrow>
       ('c HostState, ('c HostState, 'u) Materia \<times> 'c HostState SourceManager) query" where
  "serverMateria M k sc h =
     (case setup_config M k of
        Inl e \<Rightarrow> (Inl e, h)
      | Inr c \<Rightarrow>
          then_query (setup_sources (mc_koanf M) (mc_kit M) k True ''error with repo remotes sync'' c) (\<lambda>s.
          then_query (NewHostManager (mc_host M) (hostman_config c)) (\<lambda>d.
          finish_setup M (server_notify_config sc c) d s)) h)"

text \<open>The configuration file: the one in \<open>/etc\<close> comes before the one that is asked for.\<close>

definition config_file :: "fs \<Rightarrow> string \<Rightarrow> string" where
  "config_file fs flag =
     (case Stat fs ''/etc/materia/config.toml'' of Inl e \<Rightarrow> flag | Inr n \<Rightarrow> ''/etc/materia/config.toml'')"

text \<open>The check of the flag itself.\<close>

definition config_flag :: "fs \<Rightarrow> string \<Rightarrow> go_error option" where
  "config_flag fs v =
     (if v = [] then Some (ErrMsg ''config file passed wihout value'')
      else case Stat fs v of
        Inl e \<Rightarrow> Some (if errors_is e ErrNotExist then ErrMsg ''config file not found'' else e)
      | Inr n \<Rightarrow> None)"

definition config_command :: "('v, 'c, 'g, 'k, 'i, 'u, 't) machine \<Rightarrow> string \<Rightarrow> MateriaConfig result" where
  "config_command M configFile =
     (case LoadConfigs (mc_koanf M) (mc_read_toml M) (mc_environ M) configFile [] of
        Inl e \<Rightarrow> Inl e
      | Inr k \<Rightarrow>
          (case NewConfig (mc_koanf M) (mc_user M) (mc_container M) k of Inl e \<Rightarrow> Inl (fatal e) | Inr c \<Rightarrow> Inr c))"

end
