(* ===== verification/Printing.thy ===== *)
theory Printing
  imports Startup
begin

section \<open>What is shown (the String and Pretty methods, facts.go, JSON)\<close>

text \<open>
  The names \<open>stringer\<close> has generated, the texts of actions, plans and configurations, the facts, and a
  plan as JSON.  \<open>%v\<close> shows a string as it is, a number in decimal, a slice in brackets.
\<close>

definition decimal_digit :: "nat \<Rightarrow> char" where
  "decimal_digit n = char_of (48 + n)"

fun decimal :: "nat \<Rightarrow> string" where
  "decimal n = (if n < 10 then [decimal_digit n] else decimal (n div 10) @ [decimal_digit (n mod 10)])"

declare decimal.simps [simp del]

definition Itoa :: "int \<Rightarrow> string" where
  "Itoa n = (if n < 0 then CHR ''-'' # decimal (nat (- n)) else decimal (nat n))"

definition show_bool :: "bool \<Rightarrow> string" where
  "show_bool b = (if b then ''true'' else ''false'')"

definition show_strings :: "string list \<Rightarrow> string" where
  "show_strings xs = ''['' @ Join xs '' '' @ '']''"

definition line :: "string \<Rightarrow> string \<Rightarrow> string" where
  "line label v = label @ '': '' @ v @ newline"

subsection \<open>Generated names\<close>

text \<open>The name of the \<open>i\<close>-th value is the part of the table between two entries of the index.\<close>

definition table_name :: "string \<Rightarrow> nat list \<Rightarrow> nat \<Rightarrow> string" where
  "table_name names index i = take (index ! (i + 1) - index ! i) (drop (index ! i) names)"

fun iota :: "ActionType \<Rightarrow> nat" where
  "iota ActionUnknown = 0" | "iota ActionInstall = 1" | "iota ActionRemove = 2" | "iota ActionUpdate = 3"
| "iota ActionStart = 4" | "iota ActionStop = 5" | "iota ActionRestart = 6" | "iota ActionReload = 7"
| "iota ActionEnable = 8" | "iota ActionDisable = 9" | "iota ActionEnsure = 10" | "iota ActionSetup = 11"
| "iota ActionCleanup = 12" | "iota ActionMount = 13" | "iota ActionImport = 14" | "iota ActionDump = 15"
| "iota ActionExecute = 16"

definition ActionType_String :: "ActionType \<Rightarrow> string" where
  "ActionType_String t = table_name
     ''UnknownInstallRemoveUpdateStartStopRestartReloadEnableDisableEnsureSetupCleanupMountImportDumpExecute''
     [0, 7, 14, 20, 26, 31, 35, 42, 48, 54, 61, 67, 72, 79, 84, 90, 94, 101] (iota t)"

fun iota_kind :: "ResourceType \<Rightarrow> nat" where
  "iota_kind ResourceTypeUnknown = 0" | "iota_kind ResourceTypeComponent = 1" | "iota_kind ResourceTypeHost = 2"
| "iota_kind ResourceTypeContainer = 3" | "iota_kind ResourceTypeVolume = 4" | "iota_kind ResourceTypePod = 5"
| "iota_kind ResourceTypeNetwork = 6" | "iota_kind ResourceTypeKube = 7" | "iota_kind ResourceTypeBuild = 8"
| "iota_kind ResourceTypeImage = 9" | "iota_kind ResourceTypeAppFile = 10" | "iota_kind ResourceTypeCombined = 11"
| "iota_kind ResourceTypeDropinDir = 12" | "iota_kind ResourceTypeDropin = 13" | "iota_kind ResourceTypeFile = 14"
| "iota_kind ResourceTypeManifest = 15" | "iota_kind ResourceTypeScript = 16" | "iota_kind ResourceTypeDirectory = 17"
| "iota_kind ResourceTypeService = 18" | "iota_kind ResourceTypePodmanSecret = 19"

definition ResourceType_String :: "ResourceType \<Rightarrow> string" where
  "ResourceType_String t = table_name
     ''UnknownComponentHostContainerVolumePodNetworkKubeBuildImageAppFileCombinedDropinDirDropinFileManifestScriptDirectoryServicePodmanSecret''
     [0, 7, 16, 20, 29, 35, 38, 45, 49, 54, 59, 66, 74, 83, 89, 93, 101, 107, 116, 123, 135] (iota_kind t)"

fun iota_state :: "ComponentLifecycle \<Rightarrow> nat" where
  "iota_state StateUnknown = 0" | "iota_state StateStale = 1" | "iota_state StateFresh = 2" | "iota_state StateOK = 3"
| "iota_state StateMayNeedUpdate = 4" | "iota_state StateNeedUpdate = 5" | "iota_state StateNeedRemoval = 6"
| "iota_state StateRemoved = 7" | "iota_state StateRoot = 8"

definition ComponentLifecycle_String :: "ComponentLifecycle \<Rightarrow> string" where
  "ComponentLifecycle_String t = table_name ''UnknownStaleFreshOKMayNeedUpdateNeedUpdateNeedRemovalRemovedRoot''
     [0, 7, 12, 17, 19, 32, 42, 53, 60, 64] (iota_state t)"

fun iota_service :: "ServiceAction \<Rightarrow> nat" where
  "iota_service ServiceStart = 0" | "iota_service ServiceStop = 1" | "iota_service ServiceRestart = 2"
| "iota_service ServiceReloadUnits = 3" | "iota_service ServiceEnable = 4" | "iota_service ServiceDisable = 5"
| "iota_service ServiceReloadService = 6"

definition ServiceAction_String :: "ServiceAction \<Rightarrow> string" where
  "ServiceAction_String t = table_name ''StartStopRestartReloadUnitsEnableDisableReloadService'' [0, 5, 9, 16, 27, 33, 40, 53] (iota_service t)"

subsection \<open>Actions and plans\<close>

definition Component_String :: "(any_map \<Rightarrow> string) \<Rightarrow> Component \<Rightarrow> string" where
  "Component_String show_map c =
     (let numRes = (case comp_Resources c of None \<Rightarrow> - 1 | Some rs \<Rightarrow> int (ResourceSet_Size rs));
          numServes = (case comp_ServiceConfigs c of None \<Rightarrow> - 1 | Some ss \<Rightarrow> int (length ss));
          name = (if comp_Instance c \<noteq> [] then comp_Name c @ ''@'' @ comp_Instance c else comp_Name c)
      in ''{c '' @ name @ '' '' @ ComponentLifecycle_String (comp_State c) @ '' Rs: '' @ Itoa numRes @ '' Ss: '' @ Itoa numServes @
         '' D: ['' @ show_map (comp_Defaults c) @ '']}'')"

definition Resource_String :: "Resource \<Rightarrow> string" where
  "Resource_String r = ''{r '' @ res_Parent r @ ''/'' @ res_Path r @ '' '' @ ResourceType_String (res_Kind r) @ '' '' @ show_bool (res_Template r) @ '' }''"

definition action_parent :: "Action \<Rightarrow> string" where
  "action_parent a = (case act_Parent a of None \<Rightarrow> ''<parent>'' | Some c \<Rightarrow> InstanceName c)"

definition Action_String :: "Action \<Rightarrow> string" where
  "Action_String a =
     ''{a '' @ ActionType_String (act_Todo a) @ '' '' @ action_parent a @ '' '' @ res_Path (act_Target a) @ '' }''"

definition Action_Pretty :: "Action \<Rightarrow> string" where
  "Action_Pretty a =
     ''('' @ action_parent a @ '') '' @ ActionType_String (act_Todo a) @ '' '' @ ResourceType_String (res_Kind (act_Target a)) @ '' '' @
     res_Path (act_Target a)"

definition numbered :: "Action list \<Rightarrow> string list" where
  "numbered steps = map (\<lambda>(i, a). Itoa (int i) @ ''. '' @ Action_Pretty a) (enumerate 1 steps)"

definition Plan_Pretty :: "Plan \<Rightarrow> string" where
  "Plan_Pretty p =
     (if Plan_Empty p then ''Nothing to do''
      else ''Plan: '' @ newline @ concat (map (\<lambda>l. l @ newline) (numbered (Steps p))))"

definition Plan_PrettyLines :: "Plan \<Rightarrow> string list" where
  "Plan_PrettyLines p = (if Plan_Empty p then [''''] else numbered (Steps p))"

subsection \<open>JSON\<close>

datatype json = JNull | JBool bool | JInt int | JString string | JArray "json list" | JObject "(string \<times> json) list"

definition resource_json :: "Resource \<Rightarrow> json" where
  "resource_json r =
     JObject [(''path'', JString (res_Path r)), (''host_object'', JString (res_HostObject r)), (''parent'', JString (res_Parent r)),
       (''kind'', JInt (int (iota_kind (res_Kind r)))), (''template'', JBool (res_Template r)), (''Content'', JString (res_Content r))]"

definition Action_MarshalJSON :: "Action \<Rightarrow> json result" where
  "Action_MarshalJSON a =
     (case act_Parent a of
        None \<Rightarrow> Inl (Panic ''nil pointer dereference'')
      | Some c \<Rightarrow>
          Inr (JObject [(''Todo'', JInt (int (iota (act_Todo a)))), (''Parent'', JString (comp_Name c)),
            (''Target'', resource_json (act_Target a)), (''Priority'', JInt (act_Priority a))]))"

definition Plan_ToJson :: "Plan \<Rightarrow> json result" where
  "Plan_ToJson p =
     (case collect (\<lambda>a. map_sum (\<lambda>e. e) (\<lambda>j. [j]) (Action_MarshalJSON a)) (Steps p) of
        Inl e \<Rightarrow> Inl e
      | Inr js \<Rightarrow> Inr (JArray js))"

text \<open>
  The agent decodes the text into actions, whose parent is a pointer to a struct.  The JSON library takes
  a key for a field whatever its case, and for a pointer to a struct only an object or null.
\<close>

definition unmarshal_parent :: "json \<Rightarrow> go_error option" where
  "unmarshal_parent j =
     (case j of
        JNull \<Rightarrow> None
      | JObject kvs \<Rightarrow> None
      | _ \<Rightarrow> Some (ErrMsg ''json: cannot unmarshal into Go struct field''))"

definition unmarshal_action :: "json \<Rightarrow> go_error option" where
  "unmarshal_action j =
     (case j of
        JObject kvs \<Rightarrow> first_error (\<lambda>(k, v). if ToLower k = ''parent'' then unmarshal_parent v else None) kvs
      | JNull \<Rightarrow> None
      | _ \<Rightarrow> Some (ErrMsg ''json: cannot unmarshal into Go value''))"

definition unmarshal_actions :: "json \<Rightarrow> go_error option" where
  "unmarshal_actions j =
     (case j of
        JArray js \<Rightarrow> first_error unmarshal_action js
      | JNull \<Rightarrow> None
      | _ \<Rightarrow> Some (ErrMsg ''json: cannot unmarshal into Go value''))"

subsection \<open>Configurations and sources\<close>

definition ContainersConfig_String :: "ContainersConfig \<Rightarrow> string" where
  "ContainersConfig_String c =
     line ''Remote'' (show_bool (ctc_Remote c)) @ line '' Secrets Prefix'' (ctc_SecretsPrefix c) @ line '' Compression'' (ctc_Compression c)"

definition ServicesConfig_String :: "ServicesConfig \<Rightarrow> string" where
  "ServicesConfig_String c =
     line ''Default Timeout'' (Itoa (sf_Timeout c)) @ ''Dry Run Quadlets: '' @ show_bool (sf_DryrunQuadlets c)"

definition PlannerConfig_String :: "PlannerConfig \<Rightarrow> string" where
  "PlannerConfig_String p =
     line ''Cleanup Quadlets'' (show_bool (pc_CleanupQuadlets p)) @ line ''Cleanup Volumes'' (show_bool (pc_CleanupVolumes p)) @
     line ''Backup Volumes'' (show_bool (pc_BackupVolumes p)) @ line ''Migrate Volumes'' (show_bool (pc_MigrateVolumes p))"

definition ExecutorConfig_String :: "ExecutorConfig \<Rightarrow> string" where
  "ExecutorConfig_String e =
     line ''Cleanup Components'' (show_bool (ec_CleanupComponents e)) @ line ''Materia Data Dir'' (ec_MateriaDir e) @
     line ''Quadlets Dir'' (ec_QuadletDir e) @ line ''Scripts Dir'' (ec_ScriptsDir e) @ line ''Service Dir'' (ec_ServiceDir e)"

definition AgeConfig_String :: "AgeConfig \<Rightarrow> string" where
  "AgeConfig_String c =
     ''Keyfile Path:'' @ va_IdentPath c @ newline @ line ''Base Path'' (va_BaseDir c) @
     line ''Vaults'' (show_strings (va_GeneralVaults c)) @ line ''Load all vaults'' (show_bool (va_LoadAllVaults c))"

definition FileStoreConfig_String :: "FileStoreConfig \<Rightarrow> string" where
  "FileStoreConfig_String c = line ''Base Path'' (vf_BaseDir c) @ line ''Vaults'' (show_strings (vf_GeneralVaults c))"

definition SopsConfig_String :: "SopsConfig \<Rightarrow> string" where
  "SopsConfig_String c =
     line ''Base Path'' (vs_BaseDir c) @ line ''Suffix'' (vs_Suffix c) @ line ''Vaults'' (show_strings (vs_GeneralVaults c)) @
     line ''Load all vaults'' (show_bool (vs_LoadAllVaults c))"

definition show_part :: "string \<Rightarrow> ('a \<Rightarrow> string) \<Rightarrow> 'a option \<Rightarrow> string" where
  "show_part header f x = (case x of None \<Rightarrow> [] | Some y \<Rightarrow> newline @ header @ '': '' @ newline @ f y)"

definition MateriaConfig_String :: "MateriaConfig \<Rightarrow> string" where
  "MateriaConfig_String c =
     ''Materia Config'' @ newline @ newline @ ''File paths'' @ newline @
     line ''Materia Root'' (cfg_MateriaDir c) @ line ''Quadlet Dir'' (cfg_QuadletDir c) @ line ''Scripts Dir'' (cfg_ScriptsDir c) @
     line ''Systemd Units dir'' (cfg_ServiceDir c) @ line ''Source cache dir'' (cfg_SourceDir c) @
     line ''Remote cache dir'' (cfg_RemoteDir c) @ line ''Output Dir'' (cfg_OutputDir c) @
     newline @ ''Global Settings'' @ newline @
     line ''Configured Hostname'' (cfg_Hostname c) @ line ''Configured Roles'' (show_strings (cfg_Roles c)) @
     line ''User'' (cfg_Username c) @ line ''Debug mode'' (show_bool (cfg_Debug c)) @ line ''Use STDOUT'' (show_bool (cfg_UseStdout c)) @
     line ''Sync Source'' (show_bool (\<not> cfg_NoSync c)) @
     line ''Lock mode'' (if cfg_Lock c \<noteq> [] then cfg_Lock c else ''None'') @
     line ''Rollback mode'' (case cfg_RollbackConfig c of None \<Rightarrow> ''None'' | Some r \<Rightarrow> rb_Kind r) @
     line ''Rootless mode'' (show_bool (cfg_Rootless c)) @
     show_part ''Containers Config'' ContainersConfig_String (cfg_ContainersConfig c) @
     show_part ''Services Config'' ServicesConfig_String (cfg_ServicesConfig c) @
     show_part ''Planner Config'' PlannerConfig_String (cfg_PlannerConfig c) @
     show_part ''Executor Config'' ExecutorConfig_String (cfg_ExecutorConfig c) @
     newline @ ''Attributes Config'' @ newline @
     (if cfg_Attributes c \<noteq> [] then line ''Manually Specified Engine'' (cfg_Attributes c) else []) @
     show_part ''Age Config'' AgeConfig_String (cfg_AgeConfig c) @
     show_part ''File Config'' FileStoreConfig_String (cfg_FileConfig c) @
     show_part ''Sops Config'' SopsConfig_String (cfg_SopsConfig c)"

definition GitConfig_String :: "GitConfig \<Rightarrow> string" where
  "GitConfig_String c =
     line ''URL'' (gc_URL c) @ line ''Branch'' (gc_Branch c) @ line ''Known Hosts'' (gc_KnownHosts c) @
     line ''Allow Insecure'' (show_bool (gc_Insecure c)) @ line ''Carreful mode'' (show_bool (gc_Careful c)) @
     (if gc_PrivateKey c \<noteq> [] then line ''PrivateKey file'' (gc_PrivateKey c) else []) @
     (if gc_Username c \<noteq> [] then line ''Username'' (gc_Username c) else [])"

definition OciConfig_String :: "OciConfig \<Rightarrow> string" where
  "OciConfig_String c =
     line ''Registry'' (oc_Registry c) @ line ''Repository'' (oc_Repository c) @ line ''Tag'' (oc_Tag c) @
     line ''Allow Insecure'' (show_bool (oc_Insecure c)) @ (if oc_Username c \<noteq> [] then line ''Username'' (oc_Username c) else [])"

definition FileSource_String :: "FileSource \<Rightarrow> string" where
  "FileSource_String f = ''file:'' @ ff_RemoteRepository f"

definition OCISource_String :: "OCISource \<Rightarrow> string" where
  "OCISource_String s = ''oci:'' @ os_registry s @ ''/'' @ os_repository s @ '':'' @ os_tag s"

definition GitSource_String :: "GitSource \<Rightarrow> string" where
  "GitSource_String g = ''git:'' @ gs_remoteRepository g @ '':'' @ gs_localRepository g"

subsection \<open>Facts\<close>

text \<open>The parameter that asks for the facts of the host only is not looked at; an error leaves its part out.\<close>

definition GetFacts :: "('h, 'u) Materia \<Rightarrow> HostFactsManager \<Rightarrow> bool \<Rightarrow> 'h \<Rightarrow> string" where
  "GetFacts m f host h =
     ''Facts'' @ newline @ line ''Hostname'' (fm_Hostname f) @
     ''Roles: '' @ concat (map (\<lambda>r. r @ '' '') (mt_Roles m)) @
     newline @ ''Assigned Components: '' @ concat (map (\<lambda>n. n @ '' '') (GetAssignedComponents m)) @
     (case hs_ListComponentNames (mt_Host m) h of
        Inl e \<Rightarrow> []
      | Inr ns \<Rightarrow> newline @ ''Installed Components: '' @ concat (map (\<lambda>n. n @ '' '') ns)) @
     newline @ ''Networks: '' @
     concat (map (\<lambda>(i, n). newline @ ''Interface '' @ Itoa (int i) @ '': '' @ n) (enumerate 0 (GetInterfaces f)))"

definition facts_command ::
    "('h, 'u) Materia \<Rightarrow> HostFactsManager \<Rightarrow> (fact \<Rightarrow> string) \<Rightarrow> bool \<Rightarrow> string \<Rightarrow> 'h \<Rightarrow> string result" where
  "facts_command m f show_fact host arg h =
     (if arg \<noteq> [] then
        (case Facts_Lookup f arg of Inl e \<Rightarrow> Inl e | Inr v \<Rightarrow> Inr (''Fact '' @ arg @ '': '' @ show_fact v))
      else Inr (GetFacts m f host h @ newline))"

definition varlink_Facts :: "('h, 'u) Materia \<Rightarrow> HostFactsManager \<Rightarrow> bool \<Rightarrow> 'h \<Rightarrow> string" where
  "varlink_Facts m f hostOnly h = GetFacts m f hostOnly h"

subsection \<open>What the texts tell\<close>

lemma generated_names:
  "map ActionType_String [ActionUnknown, ActionInstall, ActionRemove, ActionUpdate, ActionStart, ActionStop, ActionRestart, ActionReload,
     ActionEnable, ActionDisable, ActionEnsure, ActionSetup, ActionCleanup, ActionMount, ActionImport, ActionDump, ActionExecute] =
     [''Unknown'', ''Install'', ''Remove'', ''Update'', ''Start'', ''Stop'', ''Restart'', ''Reload'', ''Enable'', ''Disable'', ''Ensure'',
      ''Setup'', ''Cleanup'', ''Mount'', ''Import'', ''Dump'', ''Execute'']"
  "map ResourceType_String [ResourceTypeUnknown, ResourceTypeComponent, ResourceTypeHost, ResourceTypeContainer, ResourceTypeVolume,
     ResourceTypePod, ResourceTypeNetwork, ResourceTypeKube, ResourceTypeBuild, ResourceTypeImage, ResourceTypeAppFile,
     ResourceTypeCombined, ResourceTypeDropinDir, ResourceTypeDropin, ResourceTypeFile, ResourceTypeManifest, ResourceTypeScript,
     ResourceTypeDirectory, ResourceTypeService, ResourceTypePodmanSecret] =
     [''Unknown'', ''Component'', ''Host'', ''Container'', ''Volume'', ''Pod'', ''Network'', ''Kube'', ''Build'', ''Image'', ''AppFile'',
      ''Combined'', ''DropinDir'', ''Dropin'', ''File'', ''Manifest'', ''Script'', ''Directory'', ''Service'', ''PodmanSecret'']"
  "map ComponentLifecycle_String [StateUnknown, StateStale, StateFresh, StateOK, StateMayNeedUpdate, StateNeedUpdate, StateNeedRemoval,
     StateRemoved, StateRoot] =
     [''Unknown'', ''Stale'', ''Fresh'', ''OK'', ''MayNeedUpdate'', ''NeedUpdate'', ''NeedRemoval'', ''Removed'', ''Root'']"
  "map ServiceAction_String [ServiceStart, ServiceStop, ServiceRestart, ServiceReloadUnits, ServiceEnable, ServiceDisable, ServiceReloadService] =
     [''Start'', ''Stop'', ''Restart'', ''ReloadUnits'', ''Enable'', ''Disable'', ''ReloadService'']"
  by code_simp+

text \<open>Neither a password nor, on the command line, a secret of the server is part of a configuration's text.\<close>

lemma passwords_not_shown:
  "GitConfig_String (c\<lparr>gc_Password := p\<rparr>) = GitConfig_String c" "OciConfig_String (d\<lparr>oc_Password := p\<rparr>) = OciConfig_String d"
  by (simp_all add: GitConfig_String_def OciConfig_String_def)

lemma facts_ignore_host_only: "GetFacts m f True h = GetFacts m f False h"
  by (simp add: GetFacts_def)

lemma parent_key: "ToLower ''Parent'' = ''parent''" by code_simp

lemma concat_singletons:
  "\<forall>a\<in>set xs. \<exists>j. f a = Inr j \<Longrightarrow> concat (map (\<lambda>a. projr (map_sum (\<lambda>e. e) (\<lambda>j. [j]) (f a))) xs) = map (\<lambda>a. projr (f a)) xs"
  by (induction xs) auto

lemma Action_JSON_undecodable: "Action_MarshalJSON a = Inr j \<Longrightarrow> unmarshal_action j \<noteq> None"
  by (auto simp: Action_MarshalJSON_def unmarshal_action_def unmarshal_parent_def parent_key split: option.splits)

lemma first_error_None: "first_error f xs = None \<longleftrightarrow> list_all (\<lambda>x. f x = None) xs"
  by (induction xs) (auto split: option.split)

text \<open>
  A plan is JSON unless one of its steps has no parent, as the empty action of \<open>coalesceServices\<close>: then
  the code panics.  The JSON of a plan with steps is never decoded by the agent: the parent is
  written as its name and read as a component.
\<close>

theorem plan_json_for_people_only:
  "case Plan_ToJson p of
     Inl e \<Rightarrow> e = Panic ''nil pointer dereference'' \<and> list_ex (\<lambda>a. act_Parent a = None) (Steps p)
   | Inr j \<Rightarrow> unmarshal_actions j = None \<longleftrightarrow> Steps p = []"
proof (cases "collect (\<lambda>a. map_sum (\<lambda>e. e) (\<lambda>j. [j]) (Action_MarshalJSON a)) (Steps p)")
  case (Inl e)
  then obtain a where "a \<in> set (Steps p)" "Action_MarshalJSON a = Inl e"
    by (auto dest!: collect_Inl split: sum.splits) (metis map_sum.simps old.sum.exhaust sum.distinct(1) sum.inject(1))
  with Inl show ?thesis by (auto simp: Plan_ToJson_def Action_MarshalJSON_def list_ex_iff split: option.splits)
next
  case (Inr js)
  then have "js = concat (map (\<lambda>a. projr (map_sum (\<lambda>e. e) (\<lambda>j. [j]) (Action_MarshalJSON a))) (Steps p))"
    and ok: "\<forall>a\<in>set (Steps p). \<exists>j. Action_MarshalJSON a = Inr j"
    by (auto simp: collect_Inr comp_def) (metis map_sum.simps(1) old.sum.exhaust sum.distinct(1))
  then have "js = map (\<lambda>a. projr (Action_MarshalJSON a)) (Steps p)" by (simp add: concat_singletons)
  with ok have "list_all (\<lambda>j. unmarshal_action j = None) js \<longleftrightarrow> Steps p = []"
    by (auto simp: list_all_iff dest!: Action_JSON_undecodable) (metis Action_JSON_undecodable list.set_intros(1) neq_Nil_conv sum.sel(2))
  with Inr show ?thesis by (simp add: Plan_ToJson_def unmarshal_actions_def first_error_None)
qed

end
