(* ===== verification/Varlink.thy ===== *)
theory Varlink
  imports Printing ServerFacts
begin

section \<open>The varlink interface (pkg/api)\<close>

text \<open>
  The bindings between the agent and the server: the client's calls, the messages, and the dispatcher of
  the server.  The varlink library is a connection that sends a call and receives its answer, and the decoder of a
  call's parameters; JSON values are those of \<open>Printing\<close>.
\<close>

subsection \<open>Messages\<close>

definition VarlinkGetName :: string where
  "VarlinkGetName = ''systems.primamateria.materia''"

text \<open>What the library sends back: parameters, or the name of an error with its parameters.\<close>

datatype wire = WireReply "json option" | WireError string "json option"

text \<open>A field of a struct: the library takes keys whatever their case, and the last of several.\<close>

definition json_field :: "string \<Rightarrow> (string \<times> json) list \<Rightarrow> json" where
  "json_field name kvs = (case map_of (rev (map (\<lambda>(k, v). (ToLower k, v)) kvs)) (ToLower name) of None \<Rightarrow> JNull | Some v \<Rightarrow> v)"

definition cannot_unmarshal :: go_error where
  "cannot_unmarshal = ErrMsg ''json: cannot unmarshal into Go value''"

text \<open>Decoding into a struct and its fields; null leaves the zero value.\<close>

fun json_struct :: "json \<Rightarrow> (string \<times> json) list result" where
  "json_struct (JObject kvs) = Inr kvs"
| "json_struct JNull = Inr []"
| "json_struct j = Inl cannot_unmarshal"

fun json_string :: "json \<Rightarrow> string result" where
  "json_string (JString s) = Inr s"
| "json_string JNull = Inr []"
| "json_string j = Inl cannot_unmarshal"

fun json_int :: "json \<Rightarrow> int result" where
  "json_int (JInt n) = Inr n"
| "json_int JNull = Inr 0"
| "json_int j = Inl cannot_unmarshal"

fun json_bool :: "json \<Rightarrow> bool result" where
  "json_bool (JBool b) = Inr b"
| "json_bool JNull = Inr False"
| "json_bool j = Inl cannot_unmarshal"

fun json_pointer :: "json \<Rightarrow> string option result" where
  "json_pointer (JString s) = Inr (Some s)"
| "json_pointer JNull = Inr None"
| "json_pointer j = Inl cannot_unmarshal"

definition decode_field :: "(json \<Rightarrow> 'a result) \<Rightarrow> string \<Rightarrow> json \<Rightarrow> 'a result" where
  "decode_field decode name j = (case json_struct j of Inl e \<Rightarrow> Inl e | Inr kvs \<Rightarrow> decode (json_field name kvs))"

definition use_result :: "('a \<Rightarrow> 'b result) \<Rightarrow> 'a result \<Rightarrow> 'b result" where
  "use_result f r = (case r of Inl e \<Rightarrow> Inl e | Inr a \<Rightarrow> f a)"

definition both :: "'a result \<Rightarrow> 'b result \<Rightarrow> ('a \<times> 'b) result" where
  "both x y = (case x of Inl e \<Rightarrow> Inl e | Inr a \<Rightarrow> (case y of Inl e \<Rightarrow> Inl e | Inr b \<Rightarrow> Inr (a, b)))"

subsection \<open>Errors\<close>

text \<open>The errors of the interface, those of the library (\<open>varlink.Error\<close>), and any other.\<close>

datatype varlink_error =
    SyncFailed string
  | PlanFailed string
  | ExecutionFailed string int int
  | LibraryError string "json option"
  | OtherError go_error

fun varlink_Error :: "(string \<Rightarrow> json option \<Rightarrow> string) \<Rightarrow> (go_error \<Rightarrow> string) \<Rightarrow> varlink_error \<Rightarrow> string" where
  "varlink_Error library other (SyncFailed m) = ''systems.primamateria.materia.SyncFailed(Message: '' @ m @ '')''"
| "varlink_Error library other (PlanFailed m) = ''systems.primamateria.materia.PlanFailed(Message: '' @ m @ '')''"
| "varlink_Error library other (ExecutionFailed m k n) =
     ''systems.primamateria.materia.ExecutionFailed(Message: '' @ m @ '', StepsCompleted: '' @ Itoa k @ '', TotalSteps: '' @ Itoa n @ '')''"
| "varlink_Error library other (LibraryError n p) = library n p"
| "varlink_Error library other (OtherError e) = other e"

text \<open>An error whose parameters are missing or of another shape stays as it was received.\<close>

definition dispatch_as :: "varlink_error \<Rightarrow> json option \<Rightarrow> (json \<Rightarrow> varlink_error result) \<Rightarrow> varlink_error" where
  "dispatch_as received p decode =
     (case p of None \<Rightarrow> received | Some j \<Rightarrow> (case decode j of Inl e \<Rightarrow> received | Inr e \<Rightarrow> e))"

fun Dispatch_Error :: "varlink_error \<Rightarrow> varlink_error" where
  "Dispatch_Error (LibraryError name p) =
     (if name = ''systems.primamateria.materia.SyncFailed'' then
        dispatch_as (LibraryError name p) p (\<lambda>j. map_sum (\<lambda>e. e) SyncFailed (decode_field json_string ''message'' j))
      else if name = ''systems.primamateria.materia.PlanFailed'' then
        dispatch_as (LibraryError name p) p (\<lambda>j. map_sum (\<lambda>e. e) PlanFailed (decode_field json_string ''message'' j))
      else if name = ''systems.primamateria.materia.ExecutionFailed'' then
        dispatch_as (LibraryError name p) p
          (\<lambda>j. map_sum (\<lambda>e. e) (\<lambda>(m, k, n). ExecutionFailed m k n)
             (both (decode_field json_string ''message'' j)
               (both (decode_field json_int ''stepsCompleted'' j) (decode_field json_int ''totalSteps'' j))))
      else LibraryError name p)"
| "Dispatch_Error e = e"

subsection \<open>Replies\<close>

definition ReplySyncFailed_wire :: "string \<Rightarrow> wire" where
  "ReplySyncFailed_wire message = WireError ''systems.primamateria.materia.SyncFailed'' (Some (JObject [(''message'', JString message)]))"

definition ReplyPlanFailed_wire :: "string \<Rightarrow> wire" where
  "ReplyPlanFailed_wire message = WireError ''systems.primamateria.materia.PlanFailed'' (Some (JObject [(''message'', JString message)]))"

definition ReplyExecutionFailed_wire :: "string \<Rightarrow> int \<Rightarrow> int \<Rightarrow> wire" where
  "ReplyExecutionFailed_wire message stepsCompleted totalSteps =
     WireError ''systems.primamateria.materia.ExecutionFailed''
       (Some (JObject [(''message'', JString message), (''stepsCompleted'', JInt stepsCompleted), (''totalSteps'', JInt totalSteps)]))"

definition ReplyFacts_wire :: "string \<Rightarrow> wire" where
  "ReplyFacts_wire facts = WireReply (Some (JObject [(''facts'', JString facts)]))"

definition ReplyPlan_wire :: "string \<Rightarrow> int \<Rightarrow> wire" where
  "ReplyPlan_wire plan len = WireReply (Some (JObject [(''plan'', JString plan), (''len'', JInt len)]))"

definition ReplySync_wire :: wire where
  "ReplySync_wire = WireReply None"

definition ReplyUpdate_wire :: "int \<Rightarrow> wire" where
  "ReplyUpdate_wire steps = WireReply (Some (JObject [(''steps'', JInt steps)]))"

text \<open>The replies of the server's methods, with \<open>Error()\<close> as the text of an error.\<close>

fun reply_wire :: "(go_error \<Rightarrow> string) \<Rightarrow> varlink_reply \<Rightarrow> wire" where
  "reply_wire text (ReplyPlan plan len) = ReplyPlan_wire plan len"
| "reply_wire text (ReplyPlanFailed e) = ReplyPlanFailed_wire (text e)"
| "reply_wire text ReplySync = ReplySync_wire"
| "reply_wire text (ReplySyncFailed e) = ReplySyncFailed_wire (text e)"
| "reply_wire text (ReplyUpdate steps) = ReplyUpdate_wire steps"
| "reply_wire text (ReplyExecutionFailed e k n) = ReplyExecutionFailed_wire (text e) k n"

subsection \<open>The server\<close>

record 'x varlink_methods =
  vm_Facts :: "bool \<Rightarrow> 'x \<Rightarrow> wire \<times> 'x"
  vm_Plan :: "'x \<Rightarrow> wire \<times> 'x"
  vm_Sync :: "string option \<Rightarrow> 'x \<Rightarrow> wire \<times> 'x"
  vm_Update :: "'x \<Rightarrow> wire \<times> 'x"

text \<open>The generated methods that a server which does not define one falls back to; the names are the library's.\<close>

definition not_implemented :: "string \<Rightarrow> 'x \<Rightarrow> wire \<times> 'x" where
  "not_implemented name x = (WireError ''org.varlink.service.MethodNotImplemented'' (Some (JObject [(''method'', JString name)])), x)"

definition VarlinkInterface_methods :: "'x varlink_methods" where
  "VarlinkInterface_methods =
     \<lparr>vm_Facts = (\<lambda>hostOnly. not_implemented ''systems.primamateria.materia.Facts''),
      vm_Plan = not_implemented ''systems.primamateria.materia.Plan'',
      vm_Sync = (\<lambda>revision. not_implemented ''systems.primamateria.materia.Sync''),
      vm_Update = not_implemented ''systems.primamateria.materia.Update''\<rparr>"

definition invalid_parameter :: "'x \<Rightarrow> wire \<times> 'x" where
  "invalid_parameter x = (WireError ''org.varlink.service.InvalidParameter'' (Some (JObject [(''parameter'', JString ''parameters'')])), x)"

definition VarlinkDispatch ::
    "(json option \<Rightarrow> json result) \<Rightarrow> 'x varlink_methods \<Rightarrow> string \<Rightarrow> json option \<Rightarrow> 'x \<Rightarrow> wire \<times> 'x" where
  "VarlinkDispatch parameters I methodname p =
     (if methodname = ''Facts'' then
        (case use_result (decode_field json_bool ''hostOnly'') (parameters p) of
           Inl e \<Rightarrow> invalid_parameter | Inr hostOnly \<Rightarrow> vm_Facts I hostOnly)
      else if methodname = ''Plan'' then vm_Plan I
      else if methodname = ''Sync'' then
        (case use_result (decode_field json_pointer ''revision'') (parameters p) of
           Inl e \<Rightarrow> invalid_parameter | Inr revision \<Rightarrow> vm_Sync I revision)
      else if methodname = ''Update'' then vm_Update I
      else (\<lambda>x. (WireError ''org.varlink.service.MethodNotFound'' (Some (JObject [(''method'', JString methodname)])), x)))"

text \<open>The methods of materia's server, which work on its sources and its host.\<close>

definition VarlinkServer_methods ::
    "(go_error \<Rightarrow> string) \<Rightarrow> 'h console \<Rightarrow> ('h, 'u) Materia \<Rightarrow> HostFactsManager \<Rightarrow> ('h SourceManager \<times> 'h) varlink_methods" where
  "VarlinkServer_methods text C m f =
     \<lparr>vm_Facts = (\<lambda>hostOnly (s, h). (ReplyFacts_wire (varlink_Facts m f hostOnly h), (s, h))),
      vm_Plan = (\<lambda>(s, h). case varlink_Plan C m h of (r, h') \<Rightarrow> (reply_wire text r, (s, h'))),
      vm_Sync = (\<lambda>revision (s, h). case varlink_Sync revision s h of ((r, s'), h') \<Rightarrow> (reply_wire text r, (s', h'))),
      vm_Update = (\<lambda>(s, h). case varlink_Update m h of (r, h') \<Rightarrow> (reply_wire text r, (s, h')))\<rparr>"

subsection \<open>The client\<close>

text \<open>
  A connection: \<open>Send\<close> sends a call with flags and gives the function that receives the answer with its own
  flags; \<open>Upgrade\<close> also gives the raw connection.
\<close>

type_synonym ('x, 'a) rpc = "'x \<Rightarrow> (varlink_error + 'a) \<times> 'x"

record ('x, 'w) connection =
  vn_Send :: "string \<Rightarrow> json option \<Rightarrow> nat \<Rightarrow> ('x, ('x, wire \<times> nat) query) query"
  vn_Upgrade :: "string \<Rightarrow> json option \<Rightarrow> ('x, ('x, wire \<times> nat \<times> 'w) query) query"

definition then_rpc :: "('x, 'a) rpc \<Rightarrow> ('a \<Rightarrow> ('x, 'b) rpc) \<Rightarrow> ('x, 'b) rpc" where
  "then_rpc f g x = (case f x of (Inl e, x') \<Rightarrow> (Inl e, x') | (Inr a, x') \<Rightarrow> g a x')"

definition as_rpc :: "('x, 'a) query \<Rightarrow> ('x, 'a) rpc" where
  "as_rpc q x = (case q x of (r, x') \<Rightarrow> (map_sum OtherError (\<lambda>a. a) r, x'))"

text \<open>
  The generated closures: receive the answer into the struct of the method, without parameters into the zero
  struct, and turn errors into those of the interface.
\<close>

definition read_answer :: "(json \<Rightarrow> 'a result) \<Rightarrow> wire \<Rightarrow> varlink_error + 'a" where
  "read_answer decode w =
     (case w of
        WireError name p \<Rightarrow> Inl (Dispatch_Error (LibraryError name p))
      | WireReply p \<Rightarrow> map_sum OtherError (\<lambda>a. a) (decode (case p of None \<Rightarrow> JNull | Some j \<Rightarrow> j)))"

definition received :: "(json \<Rightarrow> 'a result) \<Rightarrow> ('x, wire \<times> nat) query \<Rightarrow> ('x, 'a \<times> nat) rpc" where
  "received decode receive = then_rpc (as_rpc receive) (\<lambda>(w, flags) x. (map_sum (\<lambda>e. e) (\<lambda>a. (a, flags)) (read_answer decode w), x))"

definition upgraded :: "(json \<Rightarrow> 'a result) \<Rightarrow> ('x, wire \<times> nat \<times> 'w) query \<Rightarrow> ('x, 'a \<times> nat \<times> 'w) rpc" where
  "upgraded decode receive =
     then_rpc (as_rpc receive) (\<lambda>(w, flags, conn) x. (map_sum (\<lambda>e. e) (\<lambda>a. (a, flags, conn)) (read_answer decode w), x))"

definition facts_out :: "json \<Rightarrow> string result" where
  "facts_out = decode_field json_string ''facts''"

definition plan_out :: "json \<Rightarrow> (string \<times> int) result" where
  "plan_out j = both (decode_field json_string ''plan'' j) (decode_field json_int ''len'' j)"

definition sync_out :: "json \<Rightarrow> unit result" where
  "sync_out j = Inr ()"

definition update_out :: "json \<Rightarrow> int result" where
  "update_out = decode_field json_int ''steps''"

definition facts_in :: "bool \<Rightarrow> json" where
  "facts_in hostOnly = JObject [(''hostOnly'', JBool hostOnly)]"

text \<open>The revision is left out (\<open>omitempty\<close>) when there is none.\<close>

definition sync_in :: "string option \<Rightarrow> json" where
  "sync_in revision = JObject (case revision of None \<Rightarrow> [] | Some r \<Rightarrow> [(''revision'', JString r)])"

definition Facts_Send :: "('x, 'w) connection \<Rightarrow> nat \<Rightarrow> bool \<Rightarrow> ('x, ('x, string \<times> nat) rpc) rpc" where
  "Facts_Send c flags hostOnly =
     then_rpc (as_rpc (vn_Send c ''systems.primamateria.materia.Facts'' (Some (facts_in hostOnly)) flags)) (\<lambda>r x. (Inr (received facts_out r), x))"

definition Plan_Send :: "('x, 'w) connection \<Rightarrow> nat \<Rightarrow> ('x, ('x, (string \<times> int) \<times> nat) rpc) rpc" where
  "Plan_Send c flags =
     then_rpc (as_rpc (vn_Send c ''systems.primamateria.materia.Plan'' None flags)) (\<lambda>r x. (Inr (received plan_out r), x))"

definition Sync_Send :: "('x, 'w) connection \<Rightarrow> nat \<Rightarrow> string option \<Rightarrow> ('x, ('x, unit \<times> nat) rpc) rpc" where
  "Sync_Send c flags revision =
     then_rpc (as_rpc (vn_Send c ''systems.primamateria.materia.Sync'' (Some (sync_in revision)) flags)) (\<lambda>r x. (Inr (received sync_out r), x))"

definition Update_Send :: "('x, 'w) connection \<Rightarrow> nat \<Rightarrow> ('x, ('x, int \<times> nat) rpc) rpc" where
  "Update_Send c flags =
     then_rpc (as_rpc (vn_Send c ''systems.primamateria.materia.Update'' None flags)) (\<lambda>r x. (Inr (received update_out r), x))"

definition Facts_Upgrade :: "('x, 'w) connection \<Rightarrow> bool \<Rightarrow> ('x, ('x, string \<times> nat \<times> 'w) rpc) rpc" where
  "Facts_Upgrade c hostOnly =
     then_rpc (as_rpc (vn_Upgrade c ''systems.primamateria.materia.Facts'' (Some (facts_in hostOnly)))) (\<lambda>r x. (Inr (upgraded facts_out r), x))"

definition Plan_Upgrade :: "('x, 'w) connection \<Rightarrow> ('x, ('x, (string \<times> int) \<times> nat \<times> 'w) rpc) rpc" where
  "Plan_Upgrade c =
     then_rpc (as_rpc (vn_Upgrade c ''systems.primamateria.materia.Plan'' None)) (\<lambda>r x. (Inr (upgraded plan_out r), x))"

definition Sync_Upgrade :: "('x, 'w) connection \<Rightarrow> string option \<Rightarrow> ('x, ('x, unit \<times> nat \<times> 'w) rpc) rpc" where
  "Sync_Upgrade c revision =
     then_rpc (as_rpc (vn_Upgrade c ''systems.primamateria.materia.Sync'' (Some (sync_in revision)))) (\<lambda>r x. (Inr (upgraded sync_out r), x))"

definition Update_Upgrade :: "('x, 'w) connection \<Rightarrow> ('x, ('x, int \<times> nat \<times> 'w) rpc) rpc" where
  "Update_Upgrade c =
     then_rpc (as_rpc (vn_Upgrade c ''systems.primamateria.materia.Update'' None)) (\<lambda>r x. (Inr (upgraded update_out r), x))"

text \<open>A call sends without flags, receives, and drops the flags of the answer.\<close>

definition answered :: "('x, 'a \<times> nat) rpc \<Rightarrow> ('x, 'a) rpc" where
  "answered receive = then_rpc receive (\<lambda>(a, flags) x. (Inr a, x))"

definition Facts_Call :: "('x, 'w) connection \<Rightarrow> bool \<Rightarrow> ('x, string) rpc" where
  "Facts_Call c hostOnly = then_rpc (Facts_Send c 0 hostOnly) answered"

definition Plan_Call :: "('x, 'w) connection \<Rightarrow> ('x, string \<times> int) rpc" where
  "Plan_Call c = then_rpc (Plan_Send c 0) answered"

definition Sync_Call :: "('x, 'w) connection \<Rightarrow> string option \<Rightarrow> ('x, unit) rpc" where
  "Sync_Call c revision = then_rpc (Sync_Send c 0 revision) answered"

definition Update_Call :: "('x, 'w) connection \<Rightarrow> ('x, int) rpc" where
  "Update_Call c = then_rpc (Update_Send c 0) answered"

subsection \<open>Calls reach the methods\<close>

text \<open>
  What the library does between the two sides: a call to a method of the interface is dispatched by the method's name and
  its answer received.  A server that is alone on its connection, say.
\<close>

definition serves :: "('x, 'w) connection \<Rightarrow> (string \<Rightarrow> json option \<Rightarrow> 'x \<Rightarrow> wire \<times> 'x) \<Rightarrow> bool" where
  "serves c dispatch \<longleftrightarrow>
     (\<forall>methodname p x. \<exists>receive x1 w x2. vn_Send c (VarlinkGetName @ ''.'' @ methodname) p 0 x = (Inr receive, x1) \<and>
        dispatch methodname p x = (w, x2) \<and> receive x1 = (Inr (w, 0), x2))"

text \<open>What the caller gets of a reply.\<close>

fun reply_error :: "(go_error \<Rightarrow> string) \<Rightarrow> varlink_reply \<Rightarrow> varlink_error option" where
  "reply_error text (ReplyPlanFailed e) = Some (PlanFailed (text e))"
| "reply_error text (ReplySyncFailed e) = Some (SyncFailed (text e))"
| "reply_error text (ReplyExecutionFailed e k n) = Some (ExecutionFailed (text e) k n)"
| "reply_error text r = None"

fun reply_plan :: "varlink_reply \<Rightarrow> string \<times> int" where
  "reply_plan (ReplyPlan plan len) = (plan, len)"
| "reply_plan r = ([], 0)"

fun reply_steps :: "varlink_reply \<Rightarrow> int" where
  "reply_steps (ReplyUpdate steps) = steps"
| "reply_steps r = 0"

definition got :: "varlink_error option \<Rightarrow> 'a \<Rightarrow> varlink_error + 'a" where
  "got e a = (case e of None \<Rightarrow> Inr a | Some e \<Rightarrow> Inl e)"

lemma served_call:
  assumes "serves c dispatch"
  shows "then_rpc (then_rpc (as_rpc (vn_Send c (VarlinkGetName @ ''.'' @ methodname) p 0)) (\<lambda>r x. (Inr (received out r), x))) answered x =
    (case dispatch methodname p x of (w, x') \<Rightarrow> (read_answer out w, x'))"
proof -
  obtain receive x1 w x2 where "vn_Send c (VarlinkGetName @ ''.'' @ methodname) p 0 x = (Inr receive, x1)"
    "dispatch methodname p x = (w, x2)" "receive x1 = (Inr (w, 0), x2)"
    using assms unfolding serves_def by metis
  then show ?thesis
    by (cases "read_answer out w") (simp_all add: then_rpc_def as_rpc_def received_def answered_def)
qed

lemma method_names:
  "''systems.primamateria.materia.Facts'' = VarlinkGetName @ ''.'' @ ''Facts''"
  "''systems.primamateria.materia.Plan'' = VarlinkGetName @ ''.'' @ ''Plan''"
  "''systems.primamateria.materia.Sync'' = VarlinkGetName @ ''.'' @ ''Sync''"
  "''systems.primamateria.materia.Update'' = VarlinkGetName @ ''.'' @ ''Update''"
  by (simp_all add: VarlinkGetName_def)

lemma field_lookup [simp]:
  "json_field name [] = JNull" "json_field name [(name, v)] = v"
  "ToLower name' \<noteq> ToLower name \<Longrightarrow> json_field name ((name', v) # kvs) = json_field name kvs"
  "ToLower name \<notin> (ToLower \<circ> fst) ` set kvs \<Longrightarrow> json_field name ((name, v) # kvs) = v"
  by (auto simp: json_field_def map_add_def map_of_eq_None_iff split: option.split dest!: map_of_SomeD) force+

lemma lower_fields [simp]:
  "ToLower ''plan'' = ''plan''" "ToLower ''len'' = ''len''" "ToLower ''message'' = ''message''"
  "ToLower ''stepsCompleted'' = ''stepscompleted''" "ToLower ''totalSteps'' = ''totalsteps''"
  by code_simp+

text \<open>Every message is read as what was written.\<close>

lemma read_replies:
  "read_answer facts_out (ReplyFacts_wire t) = Inr t"
  "read_answer plan_out (ReplyPlan_wire t n) = Inr (t, n)"
  "read_answer sync_out ReplySync_wire = Inr ()"
  "read_answer update_out (ReplyUpdate_wire n) = Inr n"
  "read_answer out (ReplyPlanFailed_wire t) = Inl (PlanFailed t)"
  "read_answer out (ReplySyncFailed_wire t) = Inl (SyncFailed t)"
  "read_answer out (ReplyExecutionFailed_wire t k n) = Inl (ExecutionFailed t k n)"
  by (simp_all add: read_answer_def facts_out_def plan_out_def sync_out_def update_out_def ReplyFacts_wire_def ReplyPlan_wire_def
      ReplySync_wire_def ReplyUpdate_wire_def ReplyPlanFailed_wire_def ReplySyncFailed_wire_def ReplyExecutionFailed_wire_def
      dispatch_as_def decode_field_def both_def)

lemma dispatched:
  assumes "\<And>j. parameters (Some j) = Inr j"
  shows "VarlinkDispatch parameters I ''Facts'' (Some (facts_in b)) = vm_Facts I b"
    and "VarlinkDispatch parameters I ''Plan'' p = vm_Plan I"
    and "VarlinkDispatch parameters I ''Sync'' (Some (sync_in r)) = vm_Sync I r"
    and "VarlinkDispatch parameters I ''Update'' p = vm_Update I"
  by (simp_all add: VarlinkDispatch_def assms use_result_def facts_in_def sync_in_def decode_field_def split: option.split)

lemma varlink_replies:
  assumes "varlink_Plan C m h = (r, h')" shows "read_answer plan_out (reply_wire text r) = got (reply_error text r) (reply_plan r)"
  using assms by (auto simp: varlink_Plan_def got_def read_replies split: prod.splits sum.splits if_splits)

lemma varlink_replies':
  "varlink_Sync revision s h = ((r, s'), h') \<Longrightarrow> read_answer sync_out (reply_wire text r) = got (reply_error text r) ()"
  "varlink_Update m h = (r, h') \<Longrightarrow> read_answer update_out (reply_wire text r) = got (reply_error text r) (reply_steps r)"
  by (auto simp: varlink_Sync_def varlink_Update_def got_def read_replies split: prod.splits sum.splits option.splits)

text \<open>
  C40: Over a connection that carries messages to the dispatcher of materia's server and back, the client's calls do exactly
  what the server's methods do, and what the caller gets is what the method replied: its values, or its
  failure with the text of the error and the steps that were completed.
\<close>

theorem calls_reach_methods:
  assumes "serves c (VarlinkDispatch parameters (VarlinkServer_methods text C m f))" and "\<And>j. parameters (Some j) = Inr j"
  shows "Facts_Call c hostOnly (s, h) = (Inr (varlink_Facts m f hostOnly h), (s, h)) \<and>
    Plan_Call c (s, h) = (case varlink_Plan C m h of (r, h') \<Rightarrow> (got (reply_error text r) (reply_plan r), (s, h'))) \<and>
    Sync_Call c revision (s, h) = (case varlink_Sync revision s h of ((r, s'), h') \<Rightarrow> (got (reply_error text r) (), (s', h'))) \<and>
    Update_Call c (s, h) = (case varlink_Update m h of (r, h') \<Rightarrow> (got (reply_error text r) (reply_steps r), (s, h')))"
proof (intro conjI)
  note call = served_call [OF assms(1)] and reach = dispatched [of parameters, OF assms(2)]
  show "Facts_Call c hostOnly (s, h) = (Inr (varlink_Facts m f hostOnly h), (s, h))"
    unfolding Facts_Call_def Facts_Send_def method_names
    by (subst call) (simp add: reach VarlinkServer_methods_def read_replies)
  show "Plan_Call c (s, h) = (case varlink_Plan C m h of (r, h') \<Rightarrow> (got (reply_error text r) (reply_plan r), (s, h')))"
    unfolding Plan_Call_def Plan_Send_def method_names
    by (cases "varlink_Plan C m h") (subst call, simp add: reach VarlinkServer_methods_def varlink_replies)
  show "Sync_Call c revision (s, h) = (case varlink_Sync revision s h of ((r, s'), h') \<Rightarrow> (got (reply_error text r) (), (s', h')))"
    unfolding Sync_Call_def Sync_Send_def method_names
    by (cases "varlink_Sync revision s h"; cases "fst (varlink_Sync revision s h)")
      (subst call, simp add: reach VarlinkServer_methods_def varlink_replies')
  show "Update_Call c (s, h) = (case varlink_Update m h of (r, h') \<Rightarrow> (got (reply_error text r) (reply_steps r), (s, h')))"
    unfolding Update_Call_def Update_Send_def method_names
    by (cases "varlink_Update m h") (subst call, simp add: reach VarlinkServer_methods_def varlink_replies')
qed

subsection \<open>An example\<close>

definition direct :: "(string \<Rightarrow> json option \<Rightarrow> 'x \<Rightarrow> wire \<times> 'x) \<Rightarrow> ('x, unit) connection" where
  "direct dispatch =
     \<lparr>vn_Send = (\<lambda>name p flags x.
        (Inr (\<lambda>x. case dispatch (drop (length VarlinkGetName + 1) name) p x of (w, x') \<Rightarrow> (Inr (w, 0), x')), x)),
      vn_Upgrade = (\<lambda>name p x. (Inl (ErrMsg ''not supported''), x))\<rparr>"

lemma direct_serves: "serves (direct dispatch) dispatch"
  by (auto simp: serves_def direct_def split: prod.split)

definition given_parameters :: "json option \<Rightarrow> json result" where
  "given_parameters p = (case p of None \<Rightarrow> Inl (ErrMsg ''empty parameters'') | Some j \<Rightarrow> Inr j)"

theorem calls_reach_methods_witness:
  "Plan_Call (direct (VarlinkDispatch given_parameters (VarlinkServer_methods (\<lambda>e. ''failed'') quiet_console clones_materia
       \<lparr>fm_Hostname = ''alpha'', fm_Interfaces = []\<rparr>)))
     (demo_manager, snd demo_synced) = (Inr ([], int (pl_size clones_plan)), (demo_manager, snd demo_synced))"
proof -
  have "Materia_Plan clones_materia (snd demo_synced) = (Inr clones_plan, snd demo_synced)"
    using clones_runs(1,2) by (simp add: clones_plan_def prod_eq_iff)
  moreover have "\<not> Plan_Empty clones_plan" by code_simp
  ultimately have "varlink_Plan quiet_console clones_materia (snd demo_synced) =
      (ReplyPlan [] (int (pl_size clones_plan)), snd demo_synced)"
    by (simp add: varlink_Plan_def)
  with calls_reach_methods [OF direct_serves, of given_parameters "\<lambda>e. ''failed''" quiet_console clones_materia
    "\<lparr>fm_Hostname = ''alpha'', fm_Interfaces = []\<rparr>" True demo_manager "snd demo_synced" None]
  show ?thesis by (simp add: given_parameters_def got_def)
qed

end
