(* ===== verification/StartupFacts.thy ===== *)
theory StartupFacts
  imports Startup
begin

section \<open>What a start gives\<close>

text \<open>
  Which sources a successful start leaves with a report, and so whether an update can be rolled back later,
  and how far the server starts like the commands.
\<close>

subsection \<open>The sources\<close>

lemma then_query_Inr:
  "then_query q f h = (Inr y, h'') \<longleftrightarrow> (\<exists>x h'. q h = (Inr x, h') \<and> f x h' = (Inr y, h''))"
  by (auto simp: then_query_def split: prod.splits sum.splits)

lemma update_sources_None:
  "update_sources f ps h = ((None, qs), h') \<Longrightarrow> list_all2 (\<lambda>p q. \<exists>h h'. f p h = (Inr q, h')) ps qs"
proof (induction ps arbitrary: h qs)
  case (Cons p ps)
  then show ?case by (fastforce split: prod.splits sum.splits)
qed simp

lemma sync_source_report: "sync_source opts p h = (Inr q, h') \<Longrightarrow> sp_Report q \<noteq> None \<and> sp_Primary q = sp_Primary p"
  by (auto simp: sync_source_def then_query_Inr return_query_def)

lemma update_sources_length: "length (snd (fst (update_sources f ps h))) = length ps"
  by (induction ps arbitrary: h) (auto split: prod.split sum.split, metis fst_conv snd_conv)

definition reported :: "'h SourceManager \<Rightarrow> bool" where
  "reported s \<longleftrightarrow> list_all (\<lambda>src. sp_Report src \<noteq> None) (sn_sources s)"

lemma SourceManager_Sync_reported:
  assumes "SourceManager_Sync opts s h = ((None, s'), h')"
  shows "reported s'"
proof -
  from assms have "update_sources (sync_source opts) (sn_sources s) h = ((None, sn_sources s'), h')"
    by (auto simp: SourceManager_Sync_def split: prod.splits)
  from update_sources_None [OF this] show ?thesis
    by (auto simp: reported_def list_all_length list_all2_conv_all_nth dest!: sync_source_report)
qed

lemma load_remote_reported: "load_remote kit r s h = (Inr s', h') \<Longrightarrow> reported s \<Longrightarrow> reported s'"
  by (auto simp: load_remote_def Let_def AddSource_def reported_def split: prod.splits sum.splits if_splits)

lemma load_remotes_reported: "load_remotes kit rs s h = ((None, s'), h') \<Longrightarrow> reported s \<Longrightarrow> reported s'"
  by (induction rs arbitrary: s h) (auto split: prod.splits sum.splits dest: load_remote_reported)

lemma LoadRemotes_reported: "LoadRemotes kit s h = ((None, s'), h') \<Longrightarrow> reported s \<Longrightarrow> reported s'"
  by (auto simp: LoadRemotes_def split: prod.splits sum.splits option.splits dest: load_remotes_reported)

lemma setup_sources_reports:
  assumes "setup_sources K kit k sync msg c h = (Inr s, h')"
  shows "if sync then reported s else \<exists>src. sn_sources s = [src] \<and> sp_Primary src \<and> sp_Report src = None"
proof (cases sync)
  case True
  with assms show ?thesis
    by (auto simp: setup_sources_def Let_def split: option.splits prod.splits sum.splits
        dest!: SourceManager_Sync_reported LoadRemotes_reported)
next
  case False
  with assms show ?thesis
    by (auto simp: setup_sources_def Let_def NewSourceManager_def AddSource_def split: option.splits prod.splits sum.splits)
qed

lemma finish_setup_Inr:
  "finish_setup M c d s h = (Inr (m, s'), h') \<longleftrightarrow> NewMateriaFromConfig M c d s (hst_files h) = Inr m \<and> s' = s \<and> h' = h"
  by (auto simp: finish_setup_def split: sum.splits)

text \<open>A source without a report cannot be rolled back, and nothing is touched.\<close>

lemma Rollback_without_report:
  assumes "sn_sources s = [src]" and "sp_Report src = None"
  shows "\<exists>e. SourceManager_Rollback s h = ((Some e, s), h)"
  using assms by (auto simp: SourceManager_Rollback_def rollback_source_def fail_query_def)

text \<open>
  C39: With \<open>nosync\<close> a command starts with a source that has no report, so the rollback of a failed update
  always fails: it sends its notification, changes nothing and does not plan again.  Without it
  every source, the remote ones included, has the report that a rollback needs.
\<close>

theorem nosync_never_rolls_back:
  assumes "LoadConfigs (mc_koanf M) (mc_read_toml M) (mc_environ M) configFile cliflags = Inr k" and "setup_config M k = Inr c"
    and "setup_materia M configFile cliflags h = (Inr (m, s), h')"
  shows "if cfg_NoSync c
    then \<exists>e. rollback_update C m s h1 =
      ((Some e, s), snd (Notifier_Notify (cl_http C) (cl_notify C) NotifyRollback ''Rollback initiated'' h1))
    else list_all (\<lambda>src. sp_Report src \<noteq> None) (sn_sources s)"
proof -
  from assms obtain h2 where "setup_sources (mc_koanf M) (mc_kit M) k (\<not> cfg_NoSync c) ''error with repo remotes load'' c h = (Inr s, h2)"
    by (auto simp: setup_materia_def then_query_Inr finish_setup_Inr)
  then have reports: "if \<not> cfg_NoSync c then reported s else \<exists>src. sn_sources s = [src] \<and> sp_Primary src \<and> sp_Report src = None"
    using setup_sources_reports by blast
  show ?thesis
  proof (cases "cfg_NoSync c")
    case True
    with reports obtain src where "sn_sources s = [src]" "sp_Report src = None" by auto
    from Rollback_without_report [OF this] have "\<exists>e. SourceManager_Rollback s h = ((Some e, s), h)" for h .
    moreover obtain ne hn where
      "Notifier_Notify (cl_http C) (cl_notify C) NotifyRollback ''Rollback initiated'' h1 = (ne, hn)" by fastforce
    ultimately show ?thesis using True
      by (cases ne) (simp_all add: rollback_update_def, metis (no_types, lifting) fst_conv option.simps(5) prod.case)
  next
    case False
    with reports show ?thesis by (simp add: reported_def)
  qed
qed

subsection \<open>The server and the commands\<close>

text \<open>
  The server starts with the materia, the sources and the host a command would start with, as long as the
  settings \<open>nosync\<close> and \<open>rootless\<close> and the old webhook, which only one of the two looks at, are not used.
\<close>

theorem serverMateria_is_setup:
  assumes "LoadConfigs (mc_koanf M) (mc_read_toml M) (mc_environ M) configFile cliflags = Inr k" and "setup_config M k = Inr c"
    and "\<not> cfg_NoSync c" and "\<not> cfg_Rootless c" and "sv_NotifyWebhook sc = []"
  shows "serverMateria M k sc h = (Inr x, h') \<longleftrightarrow> setup_materia M configFile cliflags h = (Inr x, h')"
proof -
  have "setup_sources K kit k True ''error with repo remotes sync'' c h = (Inr s, h'') \<longleftrightarrow>
      setup_sources K kit k True ''error with repo remotes load'' c h = (Inr s, h'')" for K kit s h''
    by (simp add: setup_sources_def Let_def split: option.split prod.split sum.split)
  with assms show ?thesis
    by (simp add: serverMateria_def setup_materia_def then_query_Inr rootless_config_def return_query_def server_notify_config_def)
qed

text \<open>What \<open>rootless\<close> changes is lost on the server: only the executor's directories.\<close>

lemma rootless_dirs_output [simp]: "ec_OutputDir (rootless_dirs cn rs ec) = ec_OutputDir ec"
  by (simp add: rootless_dirs_def Let_def split: list.split)

lemma rootless_only_dirs:
  assumes "rootless_config d c h = (Inr c', h')"
  shows "c'\<lparr>cfg_ExecutorConfig := cfg_ExecutorConfig c\<rparr> = c" and "map_option (\<lambda>e. ec_OutputDir e) (cfg_ExecutorConfig c') =
    map_option (\<lambda>e. ec_OutputDir e) (cfg_ExecutorConfig c)"
  using assms
  by (auto simp: rootless_config_def then_query_Inr return_query_def option.map_comp comp_def split: if_splits)

subsection \<open>An example\<close>

text \<open>A user's machine with a file source and the directories the settings name.\<close>

definition no_git :: "'h git_api" where
  "no_git =
     \<lparr>ga_PlainClone = (\<lambda>l url auth h. (None, h)), ga_PlainOpen = (\<lambda>l h. (None, h)), ga_Remote = (\<lambda>l h. (Inr [], h)),
      ga_List = (\<lambda>l h. ([], h)), ga_Head = (\<lambda>l h. (Inr [], h)), ga_Branches = (\<lambda>l h. (Inr [], h)), ga_Worktree = (\<lambda>l h. (None, h)),
      ga_Checkout = (\<lambda>l co h. (None, h)), ga_Fetch = (\<lambda>l specs auth h. (None, h)), ga_Pull = (\<lambda>l auth force h. (None, h)),
      ga_HardReset = (\<lambda>l v h. (None, h)), ga_ResolveRevision = (\<lambda>l v h. (Inr v, h)), ga_RemoveAll = (\<lambda>l h. (None, h))\<rparr>"

definition demo_kit :: "'c source_kit" where
  "demo_kit =
     \<lparr>sk_env = \<lparr>ge_NewEndpoint = Inr, ge_UserHomeDir = Inr ''/home/me'', ge_Stat = (\<lambda>p. None), ge_NewPublicKeys = (\<lambda>p. None),
        ge_KnownHosts = (\<lambda>p. None)\<rparr>,
      sk_git = no_git, sk_registry = (\<lambda>ref auth ins. Inr ([], None)), sk_decode = (\<lambda>text. Inr (no_manifest, []))\<rparr>"

definition idle_systemd :: "'c Systemd" where
  "idle_systemd =
     \<lparr>sd_Reload = (\<lambda>c. (None, c)), sd_dryrunQuadlets = (\<lambda>c. (None, c)), sd_Job = (\<lambda>j n c. (None, c)),
      sd_EnableUnitFiles = (\<lambda>n c. (None, c)), sd_DisableUnitFiles = (\<lambda>n c. (None, c)), sd_StartTransientUnit = (\<lambda>n a c. (None, c)),
      sd_ListUnits = (\<lambda>n c. (Inr [], c)), sd_Properties = (\<lambda>n c. (Inr [], c)), sd_select = (\<lambda>t c. (JobResult ''done'', c)),
      sd_wait = (\<lambda>t n c. (WaitTimer, c))\<rparr>"

definition demo_dialer :: "(unit, unit) dialer" where
  "demo_dialer = \<lparr>di_Dial = (\<lambda>p. Inr ()), di_Auth = (\<lambda>c. None), di_Hello = (\<lambda>c. None), di_Bus = (\<lambda>b. Inr ()),
     di_Systemd = (\<lambda>b. Inr ()), di_NewConnection = (\<lambda>c. c)\<rparr>"

definition demo_libs :: "(demo_pod, unit, unit) host_libs" where
  "demo_libs =
     \<lparr>hl_hostname = Inr ''alpha'', hl_cidr = (\<lambda>a. Inr (a, True)), hl_interfaces = Inr [], hl_user = Inr ''me'', hl_uid = Some ''1000'',
      hl_dialer = demo_dialer, hl_systemd = (\<lambda>k. idle_systemd),
      hl_unit_states = (\<lambda>k c. \<lparr>dc_ListUnitsByNames = (\<lambda>n. Inr []), dc_GetAllProperties = (\<lambda>n. Inr [])\<rparr>),
      hl_run = (\<lambda>cmd c. (None, c)), hl_shell = demo_shell, hl_bindings = demo_bindings, hl_connect = (\<lambda>s. None),
      hl_version_text = (\<lambda>c. [])\<rparr>"

definition demo_vaults :: "unit vault_libs" where
  "demo_vaults =
     \<lparr>vl_cancelled = (\<lambda>f. None), vl_read = Inr, vl_identities = (\<lambda>t. Inr [()]), vl_decrypt = (\<lambda>is t. Inr t), vl_toml = (\<lambda>t a. Inr a),
      vl_file = (\<lambda>t a. Inr a), vl_supported = (\<lambda>p. True), vl_format = (\<lambda>p. None), vl_sops = Inr, vl_unmarshal = (\<lambda>f t a. Inr a)\<rparr>"

definition demo_machine :: "(string, demo_pod, unit, unit, unit, string, string) machine" where
  "demo_machine =
     \<lparr>mc_koanf = string_koanf, mc_read_toml = (\<lambda>p. Inr []), mc_environ = [], mc_user = Inr demo_user, mc_container = [],
      mc_kit = demo_kit, mc_host = demo_libs, mc_vaults = demo_vaults,
      mc_dbus_lock = (\<lambda>l. \<lparr>lo_LockOrWait = (\<lambda>h. (None, h)), lo_Unlock = (\<lambda>h. (None, h))\<rparr>),
      mc_file_lock = (\<lambda>l. \<lparr>lo_LockOrWait = (\<lambda>h. (None, h)), lo_Unlock = (\<lambda>h. (None, h))\<rparr>), mc_open_lock = (\<lambda>p. None),
      mc_roles = (\<lambda>cmd. Inr []), mc_template = (\<lambda>n b. Inr b), mc_units = plain_parser, mc_decode_version = (\<lambda>t. Inr 1),
      mc_decode = (\<lambda>t. Inr web_manifest), mc_render = plain_render, mc_diff = demo_diff, mc_order = (\<lambda>x. x), mc_order' = (\<lambda>x. x),
      mc_text2 = demo_text\<rparr>"

definition demo_settings :: "(string \<times> string) list" where
  "demo_settings = [(''source.kind'', ''file''), (''source.url'', ''file:///repo''), (''materia_dir'', ''/m''), (''quadlet_dir'', ''/q''),
     (''scripts_dir'', ''/s''), (''service_dir'', ''/u''), (''source_dir'', ''/source''), (''output_dir'', ''/out''), (''remote_dir'', ''/remote''),
     (''roles'', ''web'')]"

definition demo_disk :: fs where
  "demo_disk = [([''repo''], Directory), ([''repo'', ''MANIFEST.toml''], PlainFile []), ([''q''], Directory), ([''s''], Directory),
     ([''u''], Directory), ([''source''], Directory), ([''source'', ''MANIFEST.toml''], PlainFile [])]"

definition demo_boot :: "demo_pod HostState" where
  "demo_boot = \<lparr>hst_files = demo_disk, hst_rest = empty_pod\<rparr>"

definition started :: "(string \<times> string) list \<Rightarrow>
    ((demo_pod HostState, string) Materia \<times> demo_pod HostState SourceManager) result \<times> demo_pod HostState" where
  "started settings = setup_materia demo_machine [] settings demo_boot"

definition is_ok :: "'a result \<Rightarrow> bool" where
  "is_ok r = (case r of Inl e \<Rightarrow> False | Inr x \<Rightarrow> True)"

lemma is_ok: "is_ok r \<Longrightarrow> r = Inr (projr r)"
  by (cases r) (simp_all add: is_ok_def)

lemma started_ok: "is_ok (fst (started demo_settings))" by code_simp

lemma started_nosync: "is_ok (fst (started ((''nosync'', ''true'') # demo_settings)))" by code_simp

lemma demo_configs: "LoadConfigs (mc_koanf demo_machine) (mc_read_toml demo_machine) (mc_environ demo_machine) [] ks = Inr ks"
  by (simp add: LoadConfigs_def demo_machine_def env_conf_def)

lemma demo_parsed:
  "is_ok (setup_config demo_machine demo_settings)" "is_ok (setup_config demo_machine ((''nosync'', ''true'') # demo_settings))"
  "\<not> cfg_NoSync (projr (setup_config demo_machine demo_settings))" "\<not> cfg_Rootless (projr (setup_config demo_machine demo_settings))"
  "cfg_NoSync (projr (setup_config demo_machine ((''nosync'', ''true'') # demo_settings)))"
  by code_simp+

lemma started_run:
  assumes "is_ok (fst (started ks))"
  shows "setup_materia demo_machine [] ks demo_boot =
    (Inr (fst (projr (fst (started ks))), snd (projr (fst (started ks)))), snd (started ks))"
  using is_ok [OF assms] by (simp add: started_def prod_eq_iff)

definition pod_console :: "'h console" where
  "pod_console = \<lparr>cl_http = (\<lambda>d m h. (None, h)), cl_notify = \<lparr>nf_Triggers = []\<rparr>, cl_OutputDir = ''/out'', cl_create = (\<lambda>p h. (None, h)),
     cl_encode = (\<lambda>p out h. (None, h)), cl_text1 = demo_text, cl_text2 = demo_text, cl_ToJson = (\<lambda>p. Inr ''[]'')\<rparr>"

definition nosync_run :: "(demo_pod HostState, string) Materia \<times> demo_pod HostState SourceManager" where
  "nosync_run = projr (fst (started ((''nosync'', ''true'') # demo_settings)))"

theorem nosync_never_rolls_back_witness:
  "\<exists>e. fst (rollback_update pod_console (fst nosync_run) (snd nosync_run) demo_boot) = (Some e, snd nosync_run)"
  using nosync_never_rolls_back [OF demo_configs is_ok [OF demo_parsed(2)] started_run [OF started_nosync], of pod_console demo_boot]
  by (auto simp: demo_parsed(5) nosync_run_def)

theorem serverMateria_is_setup_witness:
  "serverMateria demo_machine demo_settings zero_ServerConfig demo_boot =
     (Inr (projr (fst (started demo_settings))), snd (started demo_settings))"
  using serverMateria_is_setup [OF demo_configs is_ok [OF demo_parsed(1)] demo_parsed(3,4), of zero_ServerConfig demo_boot]
    started_run [OF started_ok]
  by (simp add: zero_ServerConfig_def)

end
