(* ===== verification/ServerRuns.thy ===== *)
theory ServerRuns
  imports StartupFacts ServerFacts
begin

section \<open>The server as a state machine (cmd/materia/server.go)\<close>

text \<open>
  \<open>RunServer\<close> starts goroutines: a loop that updates, a loop that only plans, the socket and the
  webhook, each of whose calls and requests is a goroutine of its own.  They share one \<open>Materia\<close> and its
  sources.  A goroutine goes through its round in steps, one call of the code each: the sync, \<open>Plan\<close>,
  \<open>Execute\<close>, \<open>SavePlan\<close>, the notification.  A step of the server is a step of any goroutine, so that the
  rounds of different goroutines interleave.  \<open>Plan\<close> and \<open>Execute\<close> are one step each: both locks are for
  processes, and within one they let a second goroutine in (\<open>own_goroutines_not_excluded\<close>), which this
  machine does not split further.
\<close>

subsection \<open>The start\<close>

datatype server_loop = UpdateLoop | PlanLoop | SocketLoop | WebhookLoop

definition RunServer_loops :: "ServerConfig \<Rightarrow> server_loop list" where
  "RunServer_loops conf =
     (if sv_UpdateInterval conf > 0 then [UpdateLoop] else []) @
     (if sv_PlanInterval conf \<noteq> 0 then [PlanLoop] else []) @ [SocketLoop] @
     (if sv_UpdateWebhook conf then [WebhookLoop] else [])"

definition webhook_address :: "ServerConfig \<Rightarrow> string" where
  "webhook_address conf = (if sv_UpdateUrl conf = [] then '':6284'' else sv_UpdateUrl conf)"

definition server_address :: "ServerConfig \<Rightarrow> (string \<times> string) result \<Rightarrow> (fs, string) query" where
  "server_address conf user =
     (if sv_Socket conf = [] then then_query (socketPath user) (\<lambda>p. return_query (''unix:'' @ p))
      else return_query (sv_Socket conf))"

text \<open>The address the agent dials: the path it was given or the one of its user, always as a unix socket.\<close>

definition agent_address :: "string \<Rightarrow> (string \<times> string) result \<Rightarrow> (fs, string) query" where
  "agent_address flag user =
     then_query (socketPath user) (\<lambda>p. return_query (''unix:'' @ (if flag \<noteq> [] then flag else p)))"

text \<open>\<open>time.NewTicker\<close> panics for a period that is not positive, here for a negative \<open>plan_interval\<close>.\<close>

definition NewTicker :: "int \<Rightarrow> go_error option" where
  "NewTicker period = (if period \<le> 0 then Some (Panic ''non-positive interval for NewTicker'') else None)"

record ('h, 'u) serving =
  sg_console :: "'h console"
  sg_server :: Server
  sg_conf :: ServerConfig
  sg_materia :: "('h, 'u) Materia"

text \<open>
  \<open>RunServer\<close> up to the goroutines: the message that it started is sent after they run.  \<open>console\<close> has the
  notifier the materia was made with.
\<close>

definition RunServer ::
    "('v, 'c, 'g, 'k, 'i, 'u, 't) machine \<Rightarrow> (MateriaConfig \<Rightarrow> 'c HostState console) \<Rightarrow> go_error option \<Rightarrow>
       (string \<times> string) result \<Rightarrow> 'v conf \<Rightarrow>
       ('c HostState, ('c HostState, 'u) serving \<times> 'c HostState SourceManager \<times> string) query" where
  "RunServer M console varlink user k h =
     (case NewServerConfig (mc_koanf M) k of
        Inl e \<Rightarrow> (Inl e, h)
      | Inr conf \<Rightarrow>
     (case setup_config M k of
        Inl e \<Rightarrow> (Inl e, h)
      | Inr c \<Rightarrow>
          then_query (serverMateria M k conf) (\<lambda>(m, s).
          then_query (on_files_query (server_address conf user)) (\<lambda>spath h'.
          case varlink of
            Some e \<Rightarrow> (Inl (fatal e), h')
          | None \<Rightarrow>
              (let C = console (server_notify_config conf c) in
               case server_notify C (mt_Hostname m) ''server started'' h' of
                 (Some e, h'') \<Rightarrow> (Inl e, h'')
               | (None, h'') \<Rightarrow>
                   (Inr (\<lparr>sg_console = C, sg_server = RunServer_server conf, sg_conf = conf, sg_materia = m\<rparr>, s, spath), h'')))) h))"

subsection \<open>Goroutines and their steps\<close>

datatype job = UpdateJob | PlanJob | HookJob nat | PlanCall nat | SyncCall nat | UpdateCall nat

datatype stage =
    Waiting
  | Syncing "SyncOpts option"
  | PlanningStage
  | Executing Plan
  | Saving Plan
  | Notifying string go_error

text \<open>A call over the socket replies with its failure; the others tell the notifier.\<close>

fun failed_stage :: "job \<Rightarrow> string \<Rightarrow> go_error \<Rightarrow> stage" where
  "failed_stage (PlanCall n) msg e = Waiting"
| "failed_stage (SyncCall n) msg e = Waiting"
| "failed_stage (UpdateCall n) msg e = Waiting"
| "failed_stage j msg e = Notifying msg e"

fun synced_stage :: "job \<Rightarrow> stage" where
  "synced_stage (SyncCall n) = Waiting"
| "synced_stage j = PlanningStage"

fun planned_stage :: "job \<Rightarrow> Plan \<Rightarrow> stage" where
  "planned_stage PlanJob p = Waiting"
| "planned_stage (PlanCall n) p = Waiting"
| "planned_stage j p = Executing p"

fun executed_stage :: "job \<Rightarrow> Plan \<Rightarrow> stage" where
  "executed_stage (UpdateCall n) p = Waiting"
| "executed_stage j p = Saving p"

definition plan_failure :: "job \<Rightarrow> string" where
  "plan_failure j = (if j = PlanJob then ''invalid plan'' else ''Execution failed to generate plan'')"

text \<open>Whether the process ends after a notification: a request only logs that it could not be sent.\<close>

fun ends_process :: "Server \<Rightarrow> job \<Rightarrow> go_error option \<Rightarrow> bool" where
  "ends_process srv (HookJob n) ne = srv_QuitOnError srv"
| "ends_process srv j ne = (ne \<noteq> None \<or> srv_QuitOnError srv)"

definition advance ::
    "('h, 'u) serving \<Rightarrow> job \<Rightarrow> stage \<Rightarrow> 'h SourceManager \<Rightarrow> 'h \<Rightarrow> (stage \<times> bool) \<times> 'h SourceManager \<times> 'h" where
  "advance G j st s h =
     (case st of
        Waiting \<Rightarrow> ((Waiting, False), s, h)
      | Syncing opts \<Rightarrow>
          (case SourceManager_Sync opts s h of
             ((Some e, s'), h') \<Rightarrow> ((failed_stage j ''Execution failed to sync sources'' e, False), s', h')
           | ((None, s'), h') \<Rightarrow> ((synced_stage j, False), s', h'))
      | PlanningStage \<Rightarrow>
          (case Materia_Plan (sg_materia G) h of
             (Inl e, h') \<Rightarrow> ((failed_stage j (plan_failure j) e, False), s, h')
           | (Inr p, h') \<Rightarrow> ((planned_stage j p, False), s, h'))
      | Executing p \<Rightarrow>
          (case Materia_Execute (sg_materia G) p h of
             ((rep, Some e), h') \<Rightarrow> ((failed_stage j ''Execution failed'' e, False), s, h')
           | ((rep, None), h') \<Rightarrow> ((executed_stage j p, False), s, h'))
      | Saving p \<Rightarrow>
          (case SavePlan (sg_console G) p ''lastrun.toml'' h of
             (Some e, h') \<Rightarrow> ((failed_stage j ''failed to save lastrun'' e, False), s, h')
           | (None, h') \<Rightarrow> ((Waiting, False), s, h'))
      | Notifying msg e \<Rightarrow>
          (case server_notify (sg_console G) (mt_Hostname (sg_materia G)) msg h of
             (ne, h') \<Rightarrow> ((Waiting, ends_process (sg_server G) j ne), s, h')))"

subsection \<open>The machine\<close>

record 'h server_state =
  ss_host :: 'h
  ss_sources :: "'h SourceManager"
  ss_stage :: "job \<Rightarrow> stage"
  ss_loops :: "server_loop set"
  ss_cancelled :: bool
  ss_ended :: bool

datatype server_event =
    Timer job
  | Request nat hook_request
  | Call job "SyncOpts option"
  | Step job
  | Interrupt
  | LoopDone server_loop

text \<open>What the handler of the webhook does with a request before it syncs: refuse it, or take its options.\<close>

definition hook_accepts :: "Server \<Rightarrow> hook_request \<Rightarrow> SyncOpts option" where
  "hook_accepts srv rq =
     (if rq_Method rq \<noteq> ''POST'' then None
      else case rq_Body rq of
        Inl e \<Rightarrow> None
      | Inr payload \<Rightarrow>
          (if srv_syncSecret srv \<noteq> [] \<and> srv_syncSecret srv \<noteq> up_Secret payload then None
           else Some \<lparr>so_Revision = up_Revision payload, so_Subpath = []\<rparr>))"

fun timer_stage :: "job \<Rightarrow> stage" where
  "timer_stage UpdateJob = Syncing None"
| "timer_stage j = PlanningStage"

fun timer_loop :: "job \<Rightarrow> server_loop option" where
  "timer_loop UpdateJob = Some UpdateLoop"
| "timer_loop PlanJob = Some PlanLoop"
| "timer_loop j = None"

fun call_stage :: "job \<Rightarrow> SyncOpts option \<Rightarrow> stage option" where
  "call_stage (PlanCall n) opts = Some PlanningStage"
| "call_stage (SyncCall n) opts = map_option (\<lambda>opts. Syncing (Some opts)) opts"
| "call_stage (UpdateCall n) opts = Some PlanningStage"
| "call_stage j opts = None"

definition set_stage :: "job \<Rightarrow> stage \<Rightarrow> 'h server_state \<Rightarrow> 'h server_state" where
  "set_stage j st s = s\<lparr>ss_stage := (ss_stage s)(j := st)\<rparr>"

text \<open>
  A loop takes its timer or the end of the context when it waits, in any order if both are there.
  Requests and calls are taken while their listener runs; the socket stops with the interrupt, the HTTP
  server with the process.  Once the process has ended nothing happens.
\<close>

inductive server_step ::
    "('h, 'u) serving \<Rightarrow> 'h server_state \<Rightarrow> server_event \<Rightarrow> 'h server_state \<Rightarrow> bool" for G where
  tick: "\<lbrakk>\<not> ss_ended s; timer_loop j = Some l; l \<in> ss_loops s; ss_stage s j = Waiting\<rbrakk> \<Longrightarrow>
    server_step G s (Timer j) (set_stage j (timer_stage j) s)"
| accepted: "\<lbrakk>\<not> ss_ended s; WebhookLoop \<in> ss_loops s; ss_stage s (HookJob n) = Waiting; hook_accepts (sg_server G) rq = Some opts\<rbrakk> \<Longrightarrow>
    server_step G s (Request n rq) (set_stage (HookJob n) (Syncing (Some opts)) s)"
| refused: "\<lbrakk>\<not> ss_ended s; WebhookLoop \<in> ss_loops s; ss_stage s (HookJob n) = Waiting; hook_accepts (sg_server G) rq = None\<rbrakk> \<Longrightarrow>
    server_step G s (Request n rq) s"
| called: "\<lbrakk>\<not> ss_ended s; SocketLoop \<in> ss_loops s; ss_stage s j = Waiting; call_stage j opts = Some st\<rbrakk> \<Longrightarrow>
    server_step G s (Call j opts) (set_stage j st s)"
| advances: "\<lbrakk>\<not> ss_ended s; ss_stage s j \<noteq> Waiting; advance G j (ss_stage s j) (ss_sources s) (ss_host s) = ((st, ends), srcs, h)\<rbrakk> \<Longrightarrow>
    server_step G s (Step j) ((set_stage j st s)\<lparr>ss_sources := srcs, ss_host := h, ss_ended := ends\<rparr>)"
| interrupted: "\<not> ss_ended s \<Longrightarrow> server_step G s Interrupt (s\<lparr>ss_cancelled := True\<rparr>)"
| stopped: "\<lbrakk>\<not> ss_ended s; ss_cancelled s; l \<in> ss_loops s - {WebhookLoop}; \<And>j. timer_loop j = Some l \<Longrightarrow> ss_stage s j = Waiting\<rbrakk> \<Longrightarrow>
    server_step G s (LoopDone l) (s\<lparr>ss_loops := ss_loops s - {l}\<rparr>)"

inductive server_run :: "('h, 'u) serving \<Rightarrow> 'h server_state \<Rightarrow> server_event list \<Rightarrow> 'h server_state \<Rightarrow> bool" for G s where
  at_start: "server_run G s [] s"
| then_step: "server_run G s es s' \<Longrightarrow> server_step G s' e s'' \<Longrightarrow> server_run G s (es @ [e]) s''"

inductive_cases server_stepE: "server_step G s e s'"

text \<open>A negative \<open>plan_interval\<close> starts the loop, whose ticker then panics, which ends the process.\<close>

definition server_started :: "ServerConfig \<Rightarrow> 'h SourceManager \<Rightarrow> 'h \<Rightarrow> 'h server_state" where
  "server_started conf srcs h =
     \<lparr>ss_host = h, ss_sources = srcs, ss_stage = (\<lambda>j. Waiting), ss_loops = set (RunServer_loops conf), ss_cancelled = False,
      ss_ended = (sv_PlanInterval conf \<noteq> 0 \<and> NewTicker (sv_PlanInterval conf) \<noteq> None)\<rparr>"

subsection \<open>A goroutine alone\<close>

fun finish_round ::
    "('h, 'u) serving \<Rightarrow> job \<Rightarrow> nat \<Rightarrow> (stage \<times> bool) \<times> 'h SourceManager \<times> 'h \<Rightarrow> (stage \<times> bool) \<times> 'h SourceManager \<times> 'h" where
  "finish_round G j 0 x = x"
| "finish_round G j (Suc n) ((st, ends), s, h) =
     (if st = Waiting \<or> ends then ((st, ends), s, h) else finish_round G j n (advance G j st s h))"

lemma set_stage_simps [simp]:
  "ss_stage (set_stage j st s) = (ss_stage s)(j := st)" "ss_host (set_stage j st s) = ss_host s"
  "ss_sources (set_stage j st s) = ss_sources s" "ss_loops (set_stage j st s) = ss_loops s"
  "ss_cancelled (set_stage j st s) = ss_cancelled s" "ss_ended (set_stage j st s) = ss_ended s"
  by (simp_all add: set_stage_def)

lemma set_same:
  "st = ss_stage s j \<Longrightarrow> srcs = ss_sources s \<Longrightarrow> h = ss_host s \<Longrightarrow> ends = ss_ended s \<Longrightarrow>
     (set_stage j st s)\<lparr>ss_sources := srcs, ss_host := h, ss_ended := ends\<rparr> = s"
  by (simp add: set_stage_def)

lemma finish_round_runs:
  assumes "server_run G s0 es s"
    and "finish_round G j n ((ss_stage s j, ss_ended s), ss_sources s, ss_host s) = ((st, ends), srcs, h)"
  shows "\<exists>k\<le>n. server_run G s0 (es @ replicate k (Step j))
    ((set_stage j st s)\<lparr>ss_sources := srcs, ss_host := h, ss_ended := ends\<rparr>)"
  using assms
proof (induction n arbitrary: es s)
  case 0
  then show ?case by (intro exI [of _ 0]) (simp add: set_same)
next
  case (Suc n)
  show ?case
  proof (cases "ss_stage s j = Waiting \<or> ss_ended s")
    case True
    with Suc.prems show ?thesis by (intro exI [of _ 0]) (simp add: set_same)
  next
    case False
    obtain st1 ends1 srcs1 h1 where a: "advance G j (ss_stage s j) (ss_sources s) (ss_host s) = ((st1, ends1), srcs1, h1)"
      by (metis surj_pair)
    let ?s1 = "(set_stage j st1 s)\<lparr>ss_sources := srcs1, ss_host := h1, ss_ended := ends1\<rparr>"
    have "server_run G s0 (es @ [Step j]) ?s1"
      using Suc.prems(1) False a by (intro then_step [OF Suc.prems(1)] advances) simp_all
    moreover have "finish_round G j n ((ss_stage ?s1 j, ss_ended ?s1), ss_sources ?s1, ss_host ?s1) = ((st, ends), srcs, h)"
      using Suc.prems(2) False a by simp
    ultimately obtain k where "k \<le> n" and run: "server_run G s0 ((es @ [Step j]) @ replicate k (Step j))
        ((set_stage j st ?s1)\<lparr>ss_sources := srcs, ss_host := h, ss_ended := ends\<rparr>)"
      using Suc.IH by blast
    have "(set_stage j st ?s1)\<lparr>ss_sources := srcs, ss_host := h, ss_ended := ends\<rparr> =
        (set_stage j st s)\<lparr>ss_sources := srcs, ss_host := h, ss_ended := ends\<rparr>"
      by (simp add: set_stage_def)
    with run \<open>k \<le> n\<close> show ?thesis by (intro exI [of _ "Suc k"]) (simp add: replicate_append_same [symmetric])
  qed
qed

lemma update_round:
  "finish_round G UpdateJob 5 ((timer_stage UpdateJob, False), s, h) =
     (case backgroundSync_tick (sg_console G) (sg_server G) (sg_materia G) s h of
        ((e, s'), h') \<Rightarrow> ((Waiting, e \<noteq> None), s', h'))"
  by (auto simp: eval_nat_numeral advance_def backgroundSync_tick_def sync_and_update_def server_update_def after_failure_def
      plan_failure_def split: prod.split option.split sum.split)

lemma hook_round:
  assumes "hook_accepts (sg_server G) rq = Some opts"
  shows "finish_round G (HookJob i) 5 ((Syncing (Some opts), False), s, h) =
     (case updateHookHandler (sg_console G) (sg_server G) (sg_materia G) rq s h of
        (((code, quit), s'), h') \<Rightarrow> ((Waiting, quit), s', h'))"
proof -
  have "updateHookHandler (sg_console G) (sg_server G) (sg_materia G) rq s h =
      (case sync_and_update (sg_console G) (sg_materia G) (Some opts) s h of
         ((r, s'), h1) \<Rightarrow> (case hook_failure (sg_console G) (sg_server G) (mt_Hostname (sg_materia G)) r h1 of
           (quit, h2) \<Rightarrow> (((200, quit), s'), h2)))"
    using assms by (auto simp: hook_accepts_def updateHookHandler_def split: if_splits sum.splits)
  then show ?thesis
    by (auto simp: eval_nat_numeral advance_def sync_and_update_def server_update_def hook_failure_def plan_failure_def
        split: prod.split option.split sum.split)
qed


text \<open>
  \<open>RunServer\<close> returns when all loops are done.  The goroutine of the webhook never is, so a server with a webhook does
  not end when it is interrupted.
\<close>

lemma webhook_never_done:
  "server_run G s es s' \<Longrightarrow> WebhookLoop \<in> ss_loops s \<Longrightarrow> WebhookLoop \<in> ss_loops s'"
  by (induction rule: server_run.induct) (auto elim!: server_stepE)

subsection \<open>Invariants of every interleaving\<close>

lemma Materia_Plan_validated: "Materia_Plan m h = (Inr p, h') \<Longrightarrow> \<exists>names. sound_steps names (Steps p)"
  by (auto simp: Materia_Plan_Inr plan_locked_Inr Pipeline_Validate_def default_pipeline_iff)

text \<open>The options the server has been asked to sync to: by accepted requests and by calls of the socket.\<close>

definition asked_for :: "Server \<Rightarrow> server_event list \<Rightarrow> SyncOpts set" where
  "asked_for srv es =
     {opts. \<exists>n rq. Request n rq \<in> set es \<and> hook_accepts srv rq = Some opts} \<union> {opts. \<exists>n. Call (SyncCall n) (Some opts) \<in> set es}"

fun round_ok :: "SyncOpts set \<Rightarrow> stage \<Rightarrow> bool" where
  "round_ok A (Syncing (Some opts)) \<longleftrightarrow> opts \<in> A"
| "round_ok A (Executing p) \<longleftrightarrow> (\<exists>names. sound_steps names (Steps p))"
| "round_ok A (Saving p) \<longleftrightarrow> (\<exists>names. sound_steps names (Steps p))"
| "round_ok A st \<longleftrightarrow> True"

lemma round_ok_mono: "round_ok A st \<Longrightarrow> A \<subseteq> B \<Longrightarrow> round_ok B st"
  by (cases "(A, st)" rule: round_ok.cases) auto

lemma round_ok_next:
  "round_ok A (failed_stage j msg e)" "round_ok A (synced_stage j)" "round_ok A (timer_stage j)"
  "\<exists>names. sound_steps names (Steps p) \<Longrightarrow> round_ok A (planned_stage j p)"
  "round_ok A (Executing p) \<Longrightarrow> round_ok A (executed_stage j p)"
  by (cases j; simp)+

lemma advance_ok: "advance G j st s h = ((st', ends), s', h') \<Longrightarrow> round_ok A st \<Longrightarrow> round_ok A st'"
  by (cases st)
    (auto simp: advance_def round_ok_next(1-3) intro!: round_ok_next(4,5) dest!: Materia_Plan_validated split: prod.splits option.splits sum.splits)

lemma call_stage_ok: "call_stage j opts = Some st \<Longrightarrow> round_ok (asked_for srv (es @ [Call j opts])) st"
  by (cases j; cases opts) (auto simp: asked_for_def)

lemma step_ok:
  assumes "server_step G s e s'" and "\<And>j. round_ok (asked_for (sg_server G) es) (ss_stage s j)"
  shows "round_ok (asked_for (sg_server G) (es @ [e])) (ss_stage s' j)"
proof -
  have old: "round_ok (asked_for (sg_server G) (es @ [e])) (ss_stage s j)" for j
    by (rule round_ok_mono [OF assms(2)]) (auto simp: asked_for_def)
  from assms(1) show ?thesis
  proof cases
    case (accepted n rq opts)
    then have "opts \<in> asked_for (sg_server G) (es @ [e])" by (auto simp: asked_for_def)
    with accepted old show ?thesis by simp
  next
    case (called i opts st)
    with old call_stage_ok show ?thesis by auto
  next
    case (advances i st ends srcs h)
    with old advance_ok [OF advances(5)] show ?thesis by auto
  qed (use old round_ok_next in auto)
qed

lemma run_ok:
  "server_run G (server_started conf srcs h) es s \<Longrightarrow> round_ok (asked_for (sg_server G) es) (ss_stage s j)"
proof (induction arbitrary: j rule: server_run.induct)
  case at_start
  then show ?case by (simp add: server_started_def)
next
  case (then_step es s' e s'')
  then show ?case by (blast intro: step_ok)
qed

text \<open>
  C36: However the goroutines of a server interleave, what any of them executes or saves is a plan that the
  validators have accepted, and what it syncs to was asked for over the socket or by a request that the webhook
  has accepted, or is what the sources are configured for.
\<close>

theorem server_acts_on_sound_plans:
  assumes "server_run G (server_started conf srcs h) es s"
  shows "(case ss_stage s j of
      Executing p \<Rightarrow> \<exists>names. sound_steps names (Steps p)
    | Saving p \<Rightarrow> \<exists>names. sound_steps names (Steps p)
    | Syncing (Some opts) \<Rightarrow> opts \<in> asked_for (sg_server G) es
    | _ \<Rightarrow> True)"
  using run_ok [OF assms, of j] by (cases "(asked_for (sg_server G) es, ss_stage s j)" rule: round_ok.cases) auto

lemma ends_process_never:
  assumes "\<And>d msg h. fst (cl_http (sg_console G) d msg h) = None" and "sg_server G = RunServer_server conf"
    and "advance G j st s h = ((st', ends), s', h')"
  shows "\<not> ends"
proof -
  have "fst (server_notify (sg_console G) hostname msg h) = None" for hostname msg h
    by (rule server_notify_sends) (rule assms(1))
  then have "\<not> ends_process (sg_server G) j (fst (server_notify (sg_console G) hostname msg h))" for hostname msg h
    by (cases j) (simp_all add: assms(2) RunServer_server_def)
  with assms(3) show ?thesis
    by (auto simp: advance_def split: stage.splits prod.splits option.splits sum.splits) (metis fst_conv)+
qed


subsection \<open>An example\<close>

text \<open>The server of \<open>ServerFacts\<close> with a timer and the webhook, three steps into a background update.\<close>

definition busy_conf :: ServerConfig where
  "busy_conf = zero_ServerConfig\<lparr>sv_UpdateInterval := 60, sv_UpdateWebhook := True, sv_UpdateSecret := ''s3cret''\<rparr>"

definition clones_serving :: "(demo_clones, string) serving" where
  "clones_serving = \<lparr>sg_console = loud_console, sg_server = RunServer_server busy_conf, sg_conf = busy_conf, sg_materia = clones_materia\<rparr>"

definition clones_server :: "demo_clones server_state" where
  "clones_server = server_started busy_conf demo_manager demo_before"

definition clones_planned :: "demo_clones server_state" where
  "clones_planned = clones_server\<lparr>ss_stage := (ss_stage clones_server)(UpdateJob := Executing clones_plan),
     ss_sources := snd (fst demo_synced), ss_host := snd demo_synced\<rparr>"

lemma clones_server_simps:
  "\<not> ss_ended clones_server" "UpdateLoop \<in> ss_loops clones_server" "ss_stage clones_server j = Waiting"
  "ss_sources clones_server = demo_manager" "ss_host clones_server = demo_before"
  by (simp_all add: clones_server_def server_started_def busy_conf_def zero_ServerConfig_def RunServer_loops_def)

lemma clones_server_runs:
  "server_run clones_serving clones_server [Timer UpdateJob, Step UpdateJob, Step UpdateJob] clones_planned"
proof -
  let ?round = "finish_round clones_serving UpdateJob 2 ((Syncing None, False), demo_manager, demo_before)"
  have "SourceManager_Sync None demo_manager demo_before = ((None, snd (fst demo_synced)), snd demo_synced)"
    using demo_runs(1) by (simp add: demo_synced_def prod_eq_iff)
  moreover have "Materia_Plan clones_materia (snd demo_synced) = (Inr clones_plan, snd demo_synced)"
    using clones_runs(1,2) by (simp add: clones_plan_def prod_eq_iff)
  ultimately have sync: "advance clones_serving UpdateJob (Syncing None) demo_manager demo_before =
      ((PlanningStage, False), snd (fst demo_synced), snd demo_synced)"
    and plan: "advance clones_serving UpdateJob PlanningStage (snd (fst demo_synced)) (snd demo_synced) =
      ((Executing clones_plan, False), snd (fst demo_synced), snd demo_synced)"
    by (simp_all add: advance_def clones_serving_def)
  let ?s1 = "set_stage UpdateJob (Syncing None) clones_server"
  let ?s2 = "(set_stage UpdateJob PlanningStage ?s1)\<lparr>ss_sources := snd (fst demo_synced), ss_host := snd demo_synced, ss_ended := False\<rparr>"
  have "server_run clones_serving clones_server ([] @ [Timer UpdateJob]) (set_stage UpdateJob (timer_stage UpdateJob) clones_server)"
    by (intro then_step [OF at_start] tick [where l = UpdateLoop]) (simp_all add: clones_server_simps)
  then have "server_run clones_serving clones_server ([Timer UpdateJob] @ [Step UpdateJob]) ?s2"
    using sync by (intro then_step [where s' = ?s1] advances) (simp_all add: clones_server_simps)
  then have "server_run clones_serving clones_server ([Timer UpdateJob, Step UpdateJob] @ [Step UpdateJob])
      ((set_stage UpdateJob (Executing clones_plan) ?s2)\<lparr>ss_sources := snd (fst demo_synced), ss_host := snd demo_synced, ss_ended := False\<rparr>)"
    using plan by (intro then_step [where s' = ?s2] advances) simp_all
  moreover have "(set_stage UpdateJob (Executing clones_plan) ?s2)
      \<lparr>ss_sources := snd (fst demo_synced), ss_host := snd demo_synced, ss_ended := False\<rparr> = clones_planned"
    by (simp add: clones_planned_def set_stage_def clones_server_def server_started_def busy_conf_def zero_ServerConfig_def)
  ultimately show ?thesis by simp
qed

lemma loud_console_sends: "fst (cl_http (sg_console clones_serving) d msg h) = None"
  by (simp add: clones_serving_def loud_console_def)


theorem server_acts_on_sound_plans_witness: "\<exists>names. sound_steps names (Steps clones_plan)"
  using server_acts_on_sound_plans [OF clones_server_runs [unfolded clones_server_def], of UpdateJob]
  by (simp add: clones_planned_def)


subsection \<open>The socket and the locks\<close>

text \<open>An agent without a socket of its own dials the address a server without one listens on.\<close>

lemma agent_address_default: "agent_address [] user = server_address zero_ServerConfig user"
  by (simp add: agent_address_def server_address_def zero_ServerConfig_def)

text \<open>A configured socket is used as it is, while the agent puts \<open>unix:\<close> in front of the same path.\<close>

lemma agent_address_configured:
  assumes "path \<noteq> []" and "fst (agent_address path user fs) = Inr a" and "fst (server_address (conf\<lparr>sv_Socket := path\<rparr>) user fs) = Inr b"
  shows "a = ''unix:'' @ b"
  using assms by (auto simp: agent_address_def server_address_def then_query_def return_query_def split: prod.splits sum.splits)

text \<open>
  Within one process the locks exclude nobody: a goroutine that comes while another holds the lock gets it at once,
  and the first to unlock gives it up for both.
\<close>

lemma own_goroutines_not_excluded:
  "fl_locked (fl_of s p) \<Longrightarrow> FileLock_LockOrWait K p s = (Returned None, s)"
  "dl_locked b p \<Longrightarrow> DbusLock_LockOrWait B p b = (Returned None, b)"
  "FileLock_Unlock K p s = (None, s') \<Longrightarrow> \<not> fl_locked (fl_of s' p)"
  "DbusLock_Unlock B p b = (None, b') \<Longrightarrow> \<not> dl_locked b' p"
  by (auto simp: FileLock_LockOrWait_def DbusLock_LockOrWait_def FileLock_Unlock_def DbusLock_Unlock_def set_locked_def
      bus_locked_def split: if_splits prod.splits option.splits)

end
