(* ===== verification/Program.thy ===== *)
theory Program
  imports Varlink ServerRuns
begin

section \<open>The program (cmd/materia/main.go, agent\_varlink.go)\<close>

text \<open>
  The commands with their flags, from the command line to the error that ends the program and the text it
  prints.  The library that parses the command line is its result: the flags that are set, each with a value of the
  kind it is declared with.  Reading a flag as another kind gives the zero value, as the library does.
\<close>

datatype flag_value = StringFlag string | BoolFlag bool | StringsFlag "string list"

type_synonym flags = "(string \<times> flag_value) list"

definition cli_String :: "flags \<Rightarrow> string \<Rightarrow> string" where
  "cli_String fl n = (case map_of fl n of Some (StringFlag s) \<Rightarrow> s | _ \<Rightarrow> [])"

definition cli_Bool :: "flags \<Rightarrow> string \<Rightarrow> bool" where
  "cli_Bool fl n = (case map_of fl n of Some (BoolFlag b) \<Rightarrow> b | _ \<Rightarrow> False)"

definition cli_StringSlice :: "flags \<Rightarrow> string \<Rightarrow> string list option" where
  "cli_StringSlice fl n = (case map_of fl n of Some (StringsFlag ss) \<Rightarrow> Some ss | _ \<Rightarrow> None)"

definition cli_IsSet :: "flags \<Rightarrow> string \<Rightarrow> bool" where
  "cli_IsSet fl n \<longleftrightarrow> map_of fl n \<noteq> None"

subsection \<open>Global flags\<close>

text \<open>The action of the flag \<open>nosync\<close> runs when the flag is set, whatever it is set to.\<close>

definition nosync_flag :: "(bool \<Rightarrow> 'v) \<Rightarrow> flags \<Rightarrow> 'v conf" where
  "nosync_flag vb fl = (if cli_IsSet fl ''nosync'' then [(''nosync'', vb True)] else [])"

definition chosen_config :: "fs \<Rightarrow> flags \<Rightarrow> string result" where
  "chosen_config fs fl =
     (case (if cli_IsSet fl ''config'' then config_flag fs (cli_String fl ''config'') else None) of
        Some e \<Rightarrow> Inl e
      | None \<Rightarrow> Inr (config_file fs (cli_String fl ''config'')))"

subsection \<open>The commands\<close>

text \<open>A command returns its error and what it has printed.\<close>

type_synonym 'c outcome_of = "(go_error option \<times> string) \<times> 'c HostState"

definition Materia_Close :: "'h operation option \<Rightarrow> 'h operation \<Rightarrow> 'h operation" where
  "Materia_Close lock_close host_close h =
     (None, snd (host_close (case lock_close of None \<Rightarrow> h | Some c \<Rightarrow> snd (c h))))"

text \<open>What all commands that need a materia do: set it up, run, and close it, whose errors are logged.\<close>

definition with_materia ::
    "('v, 'c, 'g, 'k, 'i, 'u, 't) machine \<Rightarrow> (('c HostState, 'u) Materia \<Rightarrow> 'c HostState operation) \<Rightarrow> string \<Rightarrow> 'v conf \<Rightarrow>
       (('c HostState, 'u) Materia \<Rightarrow> 'c HostState SourceManager \<Rightarrow> 'c HostState \<Rightarrow> 'c outcome_of) \<Rightarrow> 'c HostState \<Rightarrow> 'c outcome_of" where
  "with_materia M close configFile cliflags run h =
     (case setup_materia M configFile cliflags h of
        (Inl e, h') \<Rightarrow> ((Some e, []), h')
      | (Inr (m, s), h') \<Rightarrow> (case run m s h' of (r, h'') \<Rightarrow> (r, snd (close m h''))))"

definition with_output :: "go_error option \<times> 'c HostState \<Rightarrow> string \<Rightarrow> 'c outcome_of" where
  "with_output r text = (case r of (e, h) \<Rightarrow> ((e, if e = None then text else []), h))"

definition machine_facts :: "('v, 'c, 'g, 'k, 'i, 'u, 't) machine \<Rightarrow> HostFactsManager result" where
  "machine_facts M = NewHostFacts (hl_hostname (mc_host M)) (hl_cidr (mc_host M)) (hl_interfaces (mc_host M))"

definition run_facts ::
    "('v, 'c, 'g, 'k, 'i, 'u, 't) machine \<Rightarrow> (fact \<Rightarrow> string) \<Rightarrow> flags \<Rightarrow> ('c HostState, 'u) Materia \<Rightarrow> 'c HostState SourceManager \<Rightarrow>
       'c HostState \<Rightarrow> 'c outcome_of" where
  "run_facts M show_fact fl m s h =
     (case machine_facts M of
        Inl e \<Rightarrow> ((Some e, []), h)
      | Inr f \<Rightarrow>
          (case facts_command m f show_fact (cli_Bool fl ''host'') (cli_String fl ''fact'') h of
             Inl e \<Rightarrow> ((Some e, []), h) | Inr text \<Rightarrow> ((None, text), h)))"

text \<open>The settings of plan and update: \<open>quiet\<close> is declared as a string and read as a bool.\<close>

definition plan_settings :: "(bool \<Rightarrow> 'v) \<Rightarrow> flags \<Rightarrow> 'v conf" where
  "plan_settings vb fl =
     (if cli_IsSet fl ''resource-only'' then [(''onlyresource'', vb (cli_Bool fl ''resource-only''))] else []) @
     (if cli_IsSet fl ''quiet'' then [(''quiet'', vb (cli_Bool fl ''quiet''))] else [])"

definition plan_quiet :: "flags \<Rightarrow> bool" where
  "plan_quiet fl \<longleftrightarrow> cli_IsSet fl ''quiet'' \<and> cli_Bool fl ''quiet''"

definition plan_format :: "flags \<Rightarrow> string" where
  "plan_format fl = (if cli_IsSet fl ''format'' then cli_String fl ''format'' else ''text'')"

fun show_printed :: "printed \<Rightarrow> string" where
  "show_printed NothingPrinted = []"
| "show_printed NoChangesMade = ''No changes made'' @ newline"
| "show_printed (PrettyPlan p) = Plan_Pretty p @ newline"
| "show_printed (JsonPlan j) = j"

definition run_plan ::
    "'c HostState console \<Rightarrow> flags \<Rightarrow> ('c HostState, 'u) Materia \<Rightarrow> 'c HostState SourceManager \<Rightarrow> 'c HostState \<Rightarrow> 'c outcome_of" where
  "run_plan C fl m s h =
     (case plan_command C m (plan_quiet fl) (plan_format fl) h of ((e, out), h') \<Rightarrow> ((e, show_printed out), h'))"

text \<open>What update prints: the plan it starts with and, after a rollback, the one it makes then.\<close>

definition rollback_printed ::
    "'c HostState console \<Rightarrow> ('c HostState, 'u) Materia \<Rightarrow> 'c HostState SourceManager \<Rightarrow> 'c HostState \<Rightarrow> string" where
  "rollback_printed C m s h =
     (case Notifier_Notify (cl_http C) (cl_notify C) NotifyRollback ''Rollback initiated'' h of
        (Some e, h1) \<Rightarrow> []
      | (None, h1) \<Rightarrow>
     (case SourceManager_Rollback s h1 of
        ((Some e, s'), h2) \<Rightarrow> []
      | ((None, s'), h2) \<Rightarrow> (case fst (Materia_Plan m h2) of Inl e \<Rightarrow> [] | Inr p \<Rightarrow> Plan_Pretty p @ newline)))"

definition update_printed ::
    "'c HostState console \<Rightarrow> ('c HostState, 'u) Materia \<Rightarrow> 'c HostState SourceManager \<Rightarrow> 'c HostState \<Rightarrow> string" where
  "update_printed C m s h =
     (case Materia_Plan m h of
        (Inl e, h1) \<Rightarrow> []
      | (Inr p, h1) \<Rightarrow> Plan_Pretty p @ newline @
          (case Materia_Execute m p h1 of
             ((rep, None), h2) \<Rightarrow> []
           | ((rep, Some e), h2) \<Rightarrow> if errors_is e ErrNeedRollback then rollback_printed C m s h2 else []))"

definition run_update ::
    "'c HostState console \<Rightarrow> flags \<Rightarrow> ('c HostState, 'u) Materia \<Rightarrow> 'c HostState SourceManager \<Rightarrow> 'c HostState \<Rightarrow> 'c outcome_of" where
  "run_update C fl m s h =
     (case update_command C m s h of
        ((e, s'), h') \<Rightarrow> ((e, if plan_quiet fl then [] else update_printed C m s h), h'))"

definition run_remove ::
    "string list \<Rightarrow> ('c HostState, 'u) Materia \<Rightarrow> 'c HostState SourceManager \<Rightarrow> 'c HostState \<Rightarrow> 'c outcome_of" where
  "run_remove args m s h =
     with_output (remove_command m (case args of [] \<Rightarrow> [] | a # as \<Rightarrow> a) h)
       (''component '' @ (case args of [] \<Rightarrow> [] | a # as \<Rightarrow> a) @ '' removed succesfully'' @ newline)"

definition run_validate ::
    "flags \<Rightarrow> ('c HostState, 'u) Materia \<Rightarrow> 'c HostState SourceManager \<Rightarrow> 'c HostState \<Rightarrow> 'c outcome_of" where
  "run_validate fl m s h =
     (case validate_command m h (cli_String fl ''component'') (cli_String fl ''hostname'') (cli_StringSlice fl ''roles'') of
        Some e \<Rightarrow> ((Some e, []), h)
      | None \<Rightarrow>
          ((None, (if cli_Bool fl ''verbose''
             then (case PlanComponent m h (cli_String fl ''component'')
                     (case cli_StringSlice fl ''roles'' of None \<Rightarrow> [] | Some rs \<Rightarrow> rs) of
                     Inl e \<Rightarrow> [] | Inr p \<Rightarrow> Plan_Pretty p @ newline)
             else []) @ ''OK'' @ newline), h))"

text \<open>The doctor makes a host manager of its own, the only one that uses \<open>podman_command\<close>.\<close>

definition doctor_config :: "MateriaConfig \<Rightarrow> HostmanSettings" where
  "doctor_config c = (hostman_config c)\<lparr>hmc_CommandPodman := cfg_CommandPodman c\<rparr>"

definition run_doctor ::
    "('v, 'c, 'g, 'k, 'i, 'u, 't) machine \<Rightarrow> string \<Rightarrow> flags \<Rightarrow> 'c HostState \<Rightarrow> 'c outcome_of" where
  "run_doctor M configFile fl h =
     (case LoadConfigs (mc_koanf M) (mc_read_toml M) (mc_environ M) configFile [] of
        Inl e \<Rightarrow> ((Some e, []), h)
      | Inr k \<Rightarrow>
     (case NewConfig (mc_koanf M) (mc_user M) (mc_container M) k of
        Inl e \<Rightarrow> ((Some e, []), h)
      | Inr c \<Rightarrow>
     (case NewHostManager (mc_host M) (doctor_config c) h of
        (Inl e, h') \<Rightarrow> ((Some e, []), h')
      | (Inr d, h') \<Rightarrow>
          (case doctor_command (HostManager_queries (mc_units M) (mc_decode_version M) (mc_decode M) (host_secrets (md_containers d))
                  (host_state (md_containers d) (hl_unit_states (mc_host M) (sv_Conn (md_services d)))) (md_parts d))
                  (cli_Bool fl ''remove'') h' of
             ((e, corrupted), h'') \<Rightarrow>
               ((e, concat (map (\<lambda>v. ''Corrupted component: '' @ v @ newline) corrupted)), h'')))))"

definition run_config :: "('v, 'c, 'g, 'k, 'i, 'u, 't) machine \<Rightarrow> string \<Rightarrow> 'c HostState \<Rightarrow> 'c outcome_of" where
  "run_config M configFile h =
     (case config_command M configFile of Inl e \<Rightarrow> ((Some e, []), h) | Inr c \<Rightarrow> ((None, MateriaConfig_String c @ newline), h))"

subsection \<open>The agent\<close>

text \<open>
  The agent dials the socket and calls a method through the generated client; the libraries are the connection, the text of
  the library's own errors, and the decoder of a plan's JSON, whose errors are those of \<open>unmarshal_actions\<close>.
\<close>

record 'x agent_libs =
  vr_connect :: "string \<Rightarrow> ('x, unit) connection result"
  vr_show :: "string \<Rightarrow> json option \<Rightarrow> string"
  vr_decode :: "string \<Rightarrow> Action list result"

definition agent_error :: "(string \<Rightarrow> json option \<Rightarrow> string) \<Rightarrow> varlink_error \<Rightarrow> go_error" where
  "agent_error show_library e = (case e of OtherError e' \<Rightarrow> e' | _ \<Rightarrow> ErrMsg (varlink_Error show_library (\<lambda>e. []) e))"

definition agent_call :: "'x agent_libs \<Rightarrow> string \<Rightarrow> (('x, unit) connection \<Rightarrow> ('x, 'a) rpc) \<Rightarrow> ('x, 'a) query" where
  "agent_call V socket call x =
     (case vr_connect V (''unix:'' @ socket) of
        Inl e \<Rightarrow> (Inl e, x)
      | Inr c \<Rightarrow> (case call c x of (r, x') \<Rightarrow> (map_sum (agent_error (vr_show V)) (\<lambda>a. a) r, x')))"

definition agent_Facts :: "'x agent_libs \<Rightarrow> string \<Rightarrow> ('x, string) query" where
  "agent_Facts V socket = then_query (agent_call V socket (\<lambda>c. Facts_Call c False)) (\<lambda>facts. return_query (facts @ newline))"

text \<open>What the agent shows of a plan.\<close>

definition agent_PlanText :: "'x agent_libs \<Rightarrow> string \<Rightarrow> ('x, string) query" where
  "agent_PlanText V socket =
     then_query (agent_call V socket Plan_Call)
       (\<lambda>(plan, len). case agent_Plan (vr_decode V) (ReplyPlan plan len) of
          Inl e \<Rightarrow> fail_query e
        | Inr None \<Rightarrow> return_query (''No changes made'' @ newline)
        | Inr (Some as) \<Rightarrow> return_query (''Generated Plan:'' @ newline @ concat (map (\<lambda>a. Action_Pretty a @ newline) as)))"

definition agent_Sync :: "'x agent_libs \<Rightarrow> string option \<Rightarrow> string \<Rightarrow> ('x, string) query" where
  "agent_Sync V revision socket = then_query (agent_call V socket (\<lambda>c. Sync_Call c revision)) (\<lambda>u. return_query [])"

definition agent_Update :: "'x agent_libs \<Rightarrow> string \<Rightarrow> ('x, string) query" where
  "agent_Update V socket =
     then_query (agent_call V socket Update_Call) (\<lambda>steps. return_query (''Update ran: '' @ Itoa steps @ '' actions taken''))"

text \<open>The commands of the agent find the socket of the user and prefer the one of the flag.\<close>

definition agent_socket :: "flags \<Rightarrow> (string \<times> string) result \<Rightarrow> (fs, string) query" where
  "agent_socket fl user =
     then_query (socketPath user) (\<lambda>p. return_query (if cli_String fl ''socket'' \<noteq> [] then cli_String fl ''socket'' else p))"

definition sync_revision :: "flags \<Rightarrow> string option" where
  "sync_revision fl = (if cli_String fl ''revision'' \<noteq> [] then Some (cli_String fl ''revision'') else None)"

definition agent_command :: "'x agent_libs \<Rightarrow> string \<Rightarrow> flags \<Rightarrow> string \<Rightarrow> ('x, string) query" where
  "agent_command V sub fl socket =
     (if sub = ''facts'' then agent_Facts V socket
      else if sub = ''sync'' then agent_Sync V (sync_revision fl) socket
      else if sub = ''plan'' then agent_PlanText V socket
      else if sub = ''update'' then agent_Update V socket
      else fail_query (ErrMsg ''no such command''))"

definition show_answer :: "'a result \<Rightarrow> ('a \<Rightarrow> string) \<Rightarrow> go_error option \<times> string" where
  "show_answer r f = (case r of Inl e \<Rightarrow> (Some e, []) | Inr x \<Rightarrow> (None, f x))"

definition run_agent ::
    "(string \<times> string) result \<Rightarrow> 'c HostState agent_libs \<Rightarrow> string \<Rightarrow> flags \<Rightarrow> 'c HostState \<Rightarrow> 'c outcome_of" where
  "run_agent user V sub fl h =
     (case then_query (on_files_query (agent_socket fl user)) (agent_command V sub fl) h of (r, h') \<Rightarrow> (show_answer r (\<lambda>text. text), h'))"

subsection \<open>The command line\<close>

record ('v, 'c, 'g, 'k, 'i, 'u, 't) environment =
  en_machine :: "('v, 'c, 'g, 'k, 'i, 'u, 't) machine"
  en_string :: "string \<Rightarrow> 'v"
  en_bool :: "bool \<Rightarrow> 'v"
  en_close :: "('c HostState, 'u) Materia \<Rightarrow> 'c HostState operation"
  en_console :: "('c HostState, 'u) Materia \<Rightarrow> 'c HostState console"
  en_server_console :: "MateriaConfig \<Rightarrow> 'c HostState console"
  en_show_fact :: "fact \<Rightarrow> string"
  en_user :: "(string \<times> string) result"
  en_varlink :: "go_error option"
  en_agent :: "'c HostState agent_libs"
  en_version :: string

definition server_command ::
    "('v, 'c, 'g, 'k, 'i, 'u, 't) environment \<Rightarrow> string \<Rightarrow> 'v conf \<Rightarrow>
       ('c HostState, ('c HostState, 'u) serving \<times> 'c HostState SourceManager \<times> string) query" where
  "server_command E configFile cliflags h =
     (let M = en_machine E in
      case LoadConfigs (mc_koanf M) (mc_read_toml M) (mc_environ M) configFile cliflags of
        Inl e \<Rightarrow> (Inl e, h)
      | Inr k \<Rightarrow> RunServer M (en_server_console E) (en_varlink E) (en_user E) k h)"

definition run_command ::
    "('v, 'c, 'g, 'k, 'i, 'u, 't) environment \<Rightarrow> string \<Rightarrow> 'v conf \<Rightarrow> string list \<Rightarrow> flags \<Rightarrow> string list \<Rightarrow>
       'c HostState \<Rightarrow> 'c outcome_of" where
  "run_command E cf nosync cmd fl args h =
     (let M = en_machine E; run = with_materia M (en_close E) cf in
      if cmd = [''config''] then run_config M cf h
      else if cmd = [''facts''] then run nosync (run_facts M (en_show_fact E) fl) h
      else if cmd = [''plan''] then run (plan_settings (en_bool E) fl @ nosync) (\<lambda>m. run_plan (en_console E m) fl m) h
      else if cmd = [''update''] then run (plan_settings (en_bool E) fl @ nosync) (\<lambda>m. run_update (en_console E m) fl m) h
      else if cmd = [''remove''] then
        (if args = [] \<or> hd args = [] then ((Some (ErrMsg ''specify a component to remove''), []), h) else run nosync (run_remove args) h)
      else if cmd = [''validate''] then
        (if cli_String fl ''hostname'' = [] \<and> cli_StringSlice fl ''roles'' = None
         then ((Some (ErrMsg ''validate needs at least one of hostname or roles specified''), []), h)
         else run (validate_flags (en_string E) (cli_String fl ''hostname'') (cli_String fl ''source'') @ nosync) (run_validate fl) h)
      else if cmd = [''doctor''] then run_doctor M cf fl h
      else if cmd = [''server''] then
        (case server_command E cf nosync h of (r, h') \<Rightarrow> (show_answer r (\<lambda>x. []), h'))
      else if length cmd = 2 \<and> hd cmd = ''agent'' then run_agent (en_user E) (en_agent E) (last cmd) fl h
      else if cmd = [''clean''] then
        run nosync (\<lambda>m s h. with_output (clean_command m (cli_Bool fl ''force'') h) []) h
      else if cmd = [''version''] then ((None, ''materia version '' @ en_version E @ newline), h)
      else ((Some (ErrMsg ''no such command''), []), h))"

lemma run_command_materia:
  "run_command E cf nosync [''plan''] fl args h =
     with_materia (en_machine E) (en_close E) cf (plan_settings (en_bool E) fl @ nosync) (\<lambda>m. run_plan (en_console E m) fl m) h"
  "run_command E cf nosync [''update''] fl args h =
     with_materia (en_machine E) (en_close E) cf (plan_settings (en_bool E) fl @ nosync) (\<lambda>m. run_update (en_console E m) fl m) h"
  by (simp_all add: run_command_def Let_def)

text \<open>\<open>main\<close>: an error is logged and ends the program with the code 1.\<close>

definition main_program ::
    "('v, 'c, 'g, 'k, 'i, 'u, 't) environment \<Rightarrow> flags \<Rightarrow> string list \<Rightarrow> flags \<Rightarrow> string list \<Rightarrow> 'c HostState \<Rightarrow> 'c outcome_of" where
  "main_program E globals cmd fl args h =
     (case chosen_config (hst_files h) globals of
        Inl e \<Rightarrow> ((Some e, []), h)
      | Inr cf \<Rightarrow> run_command E cf (nosync_flag (en_bool E) globals) cmd fl args h)"

subsection \<open>Flags without effect\<close>

lemma quiet_string: "map_of fl ''quiet'' = Some (StringFlag s) \<Longrightarrow> \<not> plan_quiet fl"
  by (simp add: plan_quiet_def cli_Bool_def)

text \<open>A flag \<open>--nosync=false\<close> turns syncing off like \<open>--nosync\<close> does.\<close>

lemma nosync_false: "nosync_flag vb ((''nosync'', BoolFlag b) # fl) = [(''nosync'', vb True)]"
  by (simp add: nosync_flag_def cli_IsSet_def)

lemma etc_config_wins:
  assumes "Stat fs ''/etc/materia/config.toml'' = Inr n" and "chosen_config fs fl = Inr cf"
  shows "cf = ''/etc/materia/config.toml''"
  using assms by (auto simp: chosen_config_def config_file_def split: option.splits)

lemma unread_setup:
  assumes "key \<in> unread_keys"
  shows "setup_materia M cf ((key, v) # fl) = setup_materia M cf fl"
proof
  fix h
  have repo: "getLocalRepo K kit ((key, v) # k) fs dir = getLocalRepo K kit k fs dir" for K kit k fs dir
    by (simp add: getLocalRepo_def Let_def unread_sections [OF assms] unread_configs [OF assms] split: option.split)
  have sources: "setup_sources K kit ((key, v) # k) sync msg c = setup_sources K kit k sync msg c" for K kit k sync msg c
    unfolding fun_eq_iff setup_sources_def repo by (intro allI refl)
  have config: "setup_config M ((key, v) # k) = setup_config M k" for k
    by (simp add: setup_config_def unread_setting [OF assms])
  have load: "LoadConfigs K r env cf ((key, v) # fl) = map_sum (\<lambda>e. e) (\<lambda>k. (key, v) # k) (LoadConfigs K r env cf fl)" for K r env
    by (simp add: LoadConfigs_def split: sum.split)
  show "setup_materia M cf ((key, v) # fl) h = setup_materia M cf fl h"
    by (cases "LoadConfigs (mc_koanf M) (mc_read_toml M) (mc_environ M) cf fl") (simp_all add: setup_materia_def load sources config split: sum.split)
qed

lemma unread_materia: "key \<in> unread_keys \<Longrightarrow> with_materia M close cf ((key, v) # fl) = with_materia M close cf fl"
  by (intro ext) (simp add: with_materia_def unread_setup)

text \<open>
  Neither \<open>--resource-only\<close> nor \<open>--quiet\<close>, which is declared as a string, changes anything in what the plan and the
  update commands do and print.
\<close>

theorem plan_flags_without_effect:
  assumes "cmd \<in> {[''plan''], [''update'']}" and "map_of fl ''quiet'' = None"
  shows "main_program E globals cmd ((''quiet'', StringFlag s) # (''resource-only'', BoolFlag b) # fl) args h =
    main_program E globals cmd (filter (\<lambda>(n, v). n \<noteq> ''resource-only'') fl) args h"
proof -
  let ?fl = "(''quiet'', StringFlag s) # (''resource-only'', BoolFlag b) # fl" and ?rest = "filter (\<lambda>(n, v). n \<noteq> ''resource-only'') fl"
  have others: "map_of ?rest n = map_of fl n" if "n \<noteq> ''resource-only''" for n
    using that by (induction fl) auto
  have "map_of ?rest ''resource-only'' = None" by (auto simp: map_of_eq_None_iff)
  with others [of "''quiet''"] assms(2) have rest: "plan_settings (en_bool E) ?rest = []"
    by (simp add: plan_settings_def cli_IsSet_def)
  have set: "plan_settings (en_bool E) ?fl = [(''onlyresource'', en_bool E b), (''quiet'', en_bool E False)]"
    by (simp add: plan_settings_def cli_IsSet_def cli_Bool_def)
  have quiet: "\<not> plan_quiet ?fl" "\<not> plan_quiet ?rest"
    using others [of "''quiet''"] assms(2) by (simp_all add: plan_quiet_def cli_IsSet_def cli_Bool_def)
  have format: "plan_format ?fl = plan_format ?rest"
    using others [of "''format''"] by (simp add: plan_format_def cli_IsSet_def cli_String_def)
  have same: "run_plan C ?fl m = run_plan C ?rest m" "run_update C ?fl m = run_update C ?rest m" for C m
    by (intro ext; simp only: run_plan_def run_update_def quiet format if_False)+
  have keys: "''onlyresource'' \<in> unread_keys" "''quiet'' \<in> unread_keys" by (simp_all add: unread_keys_def)
  have "run_command E cf nosync cmd ?fl args h = run_command E cf nosync cmd ?rest args h" for cf nosync
    using assms(1) unfolding insert_iff empty_iff
    by (elim disjE FalseE; simp only: run_command_materia same rest set append_Cons append_Nil unread_materia [OF keys(1)]
        unread_materia [OF keys(2)])
  then show ?thesis by (simp add: main_program_def split: sum.split)
qed

definition demo_environment :: "(string, demo_pod, unit, unit, unit, string, string) environment" where
  "demo_environment =
     \<lparr>en_machine = demo_machine, en_string = (\<lambda>s. s), en_bool = (\<lambda>b. if b then ''true'' else ''false''), en_close = (\<lambda>m h. (None, h)),
      en_console = (\<lambda>m. pod_console), en_server_console = (\<lambda>c. pod_console), en_show_fact = (\<lambda>f. []),
      en_user = Inr (''1000'', ''alice''), en_varlink = None, 
      en_agent = \<lparr>vr_connect = (\<lambda>p. Inl (ErrMsg ''no server'')), vr_show = (\<lambda>n p. n), vr_decode = (\<lambda>t. Inr [])\<rparr>,
      en_version = ''dev''\<rparr>"

theorem plan_flags_without_effect_witness:
  "main_program demo_environment [] [''plan''] [(''quiet'', StringFlag ''yes''), (''resource-only'', BoolFlag True)] [] demo_boot =
   main_program demo_environment [] [''plan''] [] [] demo_boot"
  using plan_flags_without_effect [of "[''plan'']" "[]" demo_environment "[]" "''yes''" True "[]" demo_boot] by simp

end
