(* ===== verification/ProgramRuns.thy ===== *)
theory ProgramRuns
  imports Program
begin

section \<open>Runs of the program\<close>

text \<open>
  What \<open>materia plan\<close> prints, from the command line to the validators: the configuration is found, a materia is
  set up on the machine, and its plan is made under the lock.
\<close>

text \<open>What is printed for a plan.\<close>

definition shows_plan :: "(Plan \<Rightarrow> string result) \<Rightarrow> flags \<Rightarrow> Plan \<Rightarrow> string \<Rightarrow> bool" where
  "shows_plan json fl p out \<longleftrightarrow>
     (if plan_quiet fl then out = []
      else if plan_format fl = ''text'' then out = (if Plan_Empty p then ''No changes made'' else Plan_Pretty p) @ newline
      else plan_format fl = ''json'' \<and> json p = Inr out)"

lemma run_plan_prints:
  assumes "run_plan C fl m s h = ((None, out), h')"
  obtains p h1 where "Materia_Plan m h = (Inr p, h1)" and "shows_plan (cl_ToJson C) fl p out"
  using assms
  by (auto simp: run_plan_def plan_command_def Let_def shows_plan_def
      split: prod.splits sum.splits if_splits)

lemma run_command_plan:
  assumes "run_command E cf nosync [''plan''] fl args h = ((None, out), h')"
  obtains m s h0 h1 where "setup_materia (en_machine E) cf (plan_settings (en_bool E) fl @ nosync) h = (Inr (m, s), h0)"
    and "run_plan (en_console E m) fl m s h0 = ((None, out), h1)"
  using assms by (auto simp: run_command_materia with_materia_def split: prod.splits sum.splits)

text \<open>
  C35: When \<open>materia plan\<close> ends without an error, a materia was set up with the chosen configuration and the
  flags, and what was printed is a plan made under its lock that satisfies the validators' conditions for the components
  installed at that time.
\<close>

theorem plan_prints_sound_plan:
  assumes "main_program E globals [''plan''] fl args h = ((None, out), h')"
  shows "\<exists>cf m s h0 h1 names p. chosen_config (hst_files h) globals = Inr cf \<and>
    setup_materia (en_machine E) cf (plan_settings (en_bool E) fl @ nosync_flag (en_bool E) globals) h = (Inr (m, s), h0) \<and>
    lock m h0 = (None, h1) \<and> ListInstalledComponents (mt_Host m) h1 = Inr names \<and>
    sound_steps names (Steps p) \<and> shows_plan (cl_ToJson (en_console E m)) fl p out"
proof -
  from assms obtain cf where cf: "chosen_config (hst_files h) globals = Inr cf"
    and run: "run_command E cf (nosync_flag (en_bool E) globals) [''plan''] fl args h = ((None, out), h')"
    by (auto simp: main_program_def split: sum.splits)
  from run obtain m s h0 h2
    where set: "setup_materia (en_machine E) cf (plan_settings (en_bool E) fl @ nosync_flag (en_bool E) globals) h = (Inr (m, s), h0)"
      and "run_plan (en_console E m) fl m s h0 = ((None, out), h2)" by (rule run_command_plan)
  then obtain p h3 where p: "Materia_Plan m h0 = (Inr p, h3)" "shows_plan (cl_ToJson (en_console E m)) fl p out"
    by (blast elim: run_plan_prints)
  then obtain h1 where l: "lock m h0 = (None, h1)" "plan_locked m h1 = Inr p" by (auto simp: Materia_Plan_Inr)
  then obtain names where "ListInstalledComponents (mt_Host m) h1 = Inr names" "sound_steps names (Steps p)"
    by (auto simp: plan_locked_Inr Pipeline_Validate_def default_pipeline_iff)
  with cf set p(2) l(1) show ?thesis by blast
qed

subsection \<open>An example\<close>

text \<open>A machine whose configuration is in \<open>/etc\<close> and whose source assigns the component web to the role web.\<close>

definition shop_disk :: fs where
  "shop_disk = [([''etc''], Directory), ([''etc'', ''materia''], Directory), ([''etc'', ''materia'', ''config.toml''], PlainFile [])] @ demo_disk @
     [([''repo'', ''components''], Directory), ([''repo'', ''components'', ''web''], Directory),
      ([''repo'', ''components'', ''web'', ''MANIFEST.toml''], PlainFile []),
      ([''repo'', ''components'', ''web'', ''web.container''], PlainFile ''[Container]'')]"

definition shop_manifest :: MateriaManifest where
  "shop_manifest = \<lparr>mm_Hosts = [(''alpha'', \<lparr>mh_Components = [''web''], mh_Roles = [], mh_Overrides = [], mh_Extensions = []\<rparr>)],
     mm_Snippets = [], mm_Roles = [], mm_RoleCommand = []\<rparr>"

definition shop_environment :: "(string, demo_pod, unit, unit, unit, string, string) environment" where
  "shop_environment = demo_environment
     \<lparr>en_machine := demo_machine\<lparr>mc_read_toml := (\<lambda>p. Inr demo_settings), mc_decode := (\<lambda>t. Inr zero_ComponentManifest),
        mc_kit := demo_kit\<lparr>sk_decode := (\<lambda>text. Inr (shop_manifest, []))\<rparr>\<rparr>\<rparr>"

definition shop_boot :: "demo_pod HostState" where
  "shop_boot = \<lparr>hst_files = shop_disk, hst_rest = empty_pod\<rparr>"

text \<open>The text of the plan: the component, its quadlet and manifest, and the reload.\<close>

definition shop_text :: string where
  "shop_text =
     ''Plan: '' @ newline @ ''1. (web) Install Component web'' @ newline @ ''2. (web) Install Container web.container'' @ newline @
     ''3. (web) Install Manifest MANIFEST.toml'' @ newline @ ''4. (root) Reload Host '' @ newline @ newline"

lemma shop_plans: "fst (main_program shop_environment [] [''plan''] [] [] shop_boot) = (None, shop_text)"
  by code_simp

theorem plan_prints_sound_plan_witness:
  "\<exists>names p. sound_steps names (Steps p) \<and> shop_text = Plan_Pretty p @ newline"
proof -
  have "main_program shop_environment [] [''plan''] [] [] shop_boot =
      ((None, shop_text), snd (main_program shop_environment [] [''plan''] [] [] shop_boot))"
    using shop_plans by (simp add: prod_eq_iff)
  from plan_prints_sound_plan [OF this] obtain names p m
    where "sound_steps names (Steps p)" "shows_plan (cl_ToJson (en_console shop_environment m)) [] p shop_text" by blast
  moreover from this(2) have "shop_text = Plan_Pretty p @ newline"
    by (auto simp: shows_plan_def plan_quiet_def plan_format_def cli_IsSet_def shop_text_def newline_def split: if_splits)
  ultimately show ?thesis by blast
qed

end
